(* ===== verification/Dispute_Prelude.thy ===== *)
theory Dispute_Prelude
  imports Complex_Main "HOL-Library.Char_ord" "HOL-Library.List_Lexorder"
begin

text \<open>
  Shared vocabulary of the dispute-engine development.

  \<^item> results of fallible Go functions, \<open>'e + 'a\<close>, with the early return \<open>if err != nil\<close> as
    \<open>bindR\<close>;
  \<^item> stateful operations that may fail, \<open>('s, 'e, 'a) tx\<close>, with \<open>tx_bind\<close> for the same early
    return under a mutable store and \<open>tx_foreach\<close> for a Go loop over a slice;
  \<^item> the string operations of Go's standard library the sources use (bytes, as Go counts them);
  \<^item> the named collections that carry the component proofs: \<open>run_simps\<close> unfolds the operations
    of a component, \<open>inv_intros\<close> holds the preservation rules of an invariant.
\<close>

named_theorems run_simps \<open>equations that run the operations of a component\<close>
named_theorems inv_intros \<open>preservation rules of component invariants\<close>
named_theorems frame_intros \<open>what a stateful operation leaves alone\<close>
named_theorems enum_simps \<open>equations of the string enumerations\<close>

type_synonym ('e, 'a) res = "'e + 'a"
type_synonym ('s, 'e, 'a) tx = "'s \<Rightarrow> ('e + 'a) \<times> 's"

section \<open>Results\<close>

definition bindR :: "'e + 'a \<Rightarrow> ('a \<Rightarrow> 'e + 'b) \<Rightarrow> 'e + 'b" where
  "bindR r f = (case r of Inl e \<Rightarrow> Inl e | Inr x \<Rightarrow> f x)"

definition isOk :: "'e + 'a \<Rightarrow> bool" where
  "isOk r = (case r of Inl _ \<Rightarrow> False | Inr _ \<Rightarrow> True)"

section \<open>Stateful operations that may fail\<close>

definition tx_return :: "'a \<Rightarrow> ('s, 'e, 'a) tx" where
  "tx_return x = (\<lambda>s. (Inr x, s))"

definition tx_fail :: "'e \<Rightarrow> ('s, 'e, 'a) tx" where
  "tx_fail e = (\<lambda>s. (Inl e, s))"

definition tx_lift :: "'e + 'a \<Rightarrow> ('s, 'e, 'a) tx" where
  "tx_lift r = (\<lambda>s. (r, s))"

definition tx_gets :: "('s \<Rightarrow> 'a) \<Rightarrow> ('s, 'e, 'a) tx" where
  "tx_gets f = (\<lambda>s. (Inr (f s), s))"

definition tx_read :: "('s \<Rightarrow> 'e + 'a) \<Rightarrow> ('s, 'e, 'a) tx" where
  "tx_read f = (\<lambda>s. (f s, s))"

definition tx_modify :: "('s \<Rightarrow> 's) \<Rightarrow> ('s, 'e, unit) tx" where
  "tx_modify f = (\<lambda>s. (Inr (), f s))"

definition tx_bind :: "('s, 'e, 'a) tx \<Rightarrow> ('a \<Rightarrow> ('s, 'e, 'b) tx) \<Rightarrow> ('s, 'e, 'b) tx" where
  "tx_bind m f = (\<lambda>s. case m s of (Inl e, s') \<Rightarrow> (Inl e, s') | (Inr x, s') \<Rightarrow> f x s')"

definition tx_then :: "('s, 'e, unit) tx \<Rightarrow> ('s, 'e, 'b) tx \<Rightarrow> ('s, 'e, 'b) tx" where
  "tx_then m k = tx_bind m (\<lambda>_. k)"

text \<open>\<open>tx_try m ok bad\<close> inspects the error of \<open>m\<close>, as \<open>switch v, err := f(); \<dots>\<close> does.\<close>

definition tx_try :: "('s, 'e, 'a) tx \<Rightarrow> ('a \<Rightarrow> ('s, 'e, 'b) tx) \<Rightarrow> ('e \<Rightarrow> ('s, 'e, 'b) tx) \<Rightarrow> ('s, 'e, 'b) tx" where
  "tx_try m ok bad = (\<lambda>s. case m s of (Inl e, s') \<Rightarrow> bad e s' | (Inr x, s') \<Rightarrow> ok x s')"

fun tx_foreach :: "('x \<Rightarrow> ('s, 'e, unit) tx) \<Rightarrow> 'x list \<Rightarrow> ('s, 'e, unit) tx" where
  "tx_foreach f [] = tx_return ()"
| "tx_foreach f (x # xs) = tx_then (f x) (tx_foreach f xs)"

text \<open>\<open>stays R m\<close>: whatever its outcome, \<open>m\<close> leaves a state that \<open>R\<close> relates to the one before.\<close>

definition stays :: "('s \<Rightarrow> 's \<Rightarrow> bool) \<Rightarrow> ('s, 'e, 'a) tx \<Rightarrow> bool" where
  "stays R m \<longleftrightarrow> (\<forall>s. R s (snd (m s)))"

section \<open>Strings\<close>

text \<open>Decimal rendering of integers, the \<open>%d\<close> verb and \<open>strconv.Itoa\<close>.\<close>

definition digit_char :: "nat \<Rightarrow> char" where
  "digit_char d = char_of (48 + d)"

fun show_nat :: "nat \<Rightarrow> string" where
  "show_nat n = (if n < 10 then [digit_char n] else show_nat (n div 10) @ [digit_char (n mod 10)])"

declare show_nat.simps [simp del]

definition show_int :: "int \<Rightarrow> string" where
  "show_int i = (if i < 0 then ''-'' @ show_nat (nat (- i)) else show_nat (nat i))"

definition zeros :: "nat \<Rightarrow> string" where
  "zeros n = replicate n (CHR ''0'')"

text \<open>\<open>%0<w>d\<close> on a value that is not negative.\<close>

definition pad_nat :: "nat \<Rightarrow> nat \<Rightarrow> string" where
  "pad_nat w n = zeros (w - length (show_nat n)) @ show_nat n"

definition is_digit :: "char \<Rightarrow> bool" where
  "is_digit c \<longleftrightarrow> 48 \<le> (of_char c :: nat) \<and> (of_char c :: nat) \<le> 57"

definition digit_val :: "char \<Rightarrow> nat" where
  "digit_val c = of_char c - 48"

text \<open>The value of a string of digits, most significant first.\<close>

definition digits_val :: "string \<Rightarrow> nat" where
  "digits_val s = foldl (\<lambda>n c. 10 * n + digit_val c) 0 s"

definition is_upper :: "char \<Rightarrow> bool" where
  "is_upper c \<longleftrightarrow> 65 \<le> (of_char c :: nat) \<and> (of_char c :: nat) \<le> 90"

definition is_alpha :: "char \<Rightarrow> bool" where
  "is_alpha c \<longleftrightarrow> is_upper c \<or> (97 \<le> (of_char c :: nat) \<and> (of_char c :: nat) \<le> 122)"

definition is_alnum :: "char \<Rightarrow> bool" where
  "is_alnum c \<longleftrightarrow> is_alpha c \<or> is_digit c"

text \<open>\<open>strings.ToLower\<close> on ASCII text; the sources apply it to their own constants only.\<close>

definition to_lower :: "string \<Rightarrow> string" where
  "to_lower s = map (\<lambda>c. if is_upper c then char_of ((of_char c :: nat) + 32) else c) s"

definition starts_with :: "string \<Rightarrow> string \<Rightarrow> bool" where
  "starts_with p s \<longleftrightarrow> take (length p) s = p"

text \<open>
  \<open>strings.TrimSpace\<close>: the white space of \<open>unicode.IsSpace\<close> as its UTF-8 encodings.
\<close>

definition space_seqs :: "string list" where
  "space_seqs = map (map char_of)
     ([[9], [10], [11], [12], [13], [32], [194, 133], [194, 160], [225, 154, 128],
       [226, 128, 168], [226, 128, 169], [226, 128, 175], [226, 129, 159], [227, 128, 128 :: nat]]
      @ map (\<lambda>k. [226, 128, 128 + k]) [0..<11])"

fun strip_prefixes :: "nat \<Rightarrow> string list \<Rightarrow> string \<Rightarrow> string" where
  "strip_prefixes 0 ps s = s"
| "strip_prefixes (Suc n) ps s =
     (case find (\<lambda>p. p \<noteq> [] \<and> starts_with p s) ps of
        None \<Rightarrow> s
      | Some p \<Rightarrow> strip_prefixes n ps (drop (length p) s))"

definition trim_space :: "string \<Rightarrow> string" where
  "trim_space s =
     (let l = strip_prefixes (length s) space_seqs s
      in rev (strip_prefixes (length l) (map rev space_seqs) (rev l)))"

text \<open>
  \<open>strconv.Quote\<close>, the \<open>%q\<close> verb: quotes and backslashes escaped, control bytes as escapes. Bytes
  of multi-byte characters are kept, as Quote keeps a printable character.
\<close>

definition hex_digit :: "nat \<Rightarrow> char" where
  "hex_digit d = (if d < 10 then char_of (48 + d) else char_of (87 + d))"

definition quote_char :: "char \<Rightarrow> string" where
  "quote_char c =
     (let n = (of_char c :: nat) in
      if n = 34 then [char_of (92 :: nat), c]
      else if n = 92 then [c, c]
      else if n = 10 then [char_of (92 :: nat), CHR ''n'']
      else if n = 9 then [char_of (92 :: nat), CHR ''t'']
      else if n = 13 then [char_of (92 :: nat), CHR ''r'']
      else if n < 32 \<or> n = 127 then [char_of (92 :: nat), CHR ''x'', hex_digit (n div 16), hex_digit (n mod 16)]
      else [c])"

definition go_quote :: "string \<Rightarrow> string" where
  "go_quote s = char_of (34 :: nat) # concat (map quote_char s) @ [char_of (34 :: nat)]"

text \<open>\<open>strings.Split\<close> by a one-byte separator and \<open>strings.Join\<close>.\<close>

fun split_on :: "char \<Rightarrow> string \<Rightarrow> string list" where
  "split_on c [] = [[]]"
| "split_on c (x # xs) =
     (if x = c then [] # split_on c xs
      else (case split_on c xs of [] \<Rightarrow> [[x]] | y # ys \<Rightarrow> (x # y) # ys))"

fun join_with :: "string \<Rightarrow> string list \<Rightarrow> string" where
  "join_with sep [] = []"
| "join_with sep [x] = x"
| "join_with sep (x # y # ys) = x @ sep @ join_with sep (y # ys)"

text \<open>
  The value of a string type with listed constants: the constant of that string, or the constructor
  for other strings.
\<close>

definition enum_of :: "('a \<Rightarrow> string) \<Rightarrow> 'a list \<Rightarrow> (string \<Rightarrow> 'a) \<Rightarrow> string \<Rightarrow> 'a" where
  "enum_of str vals other s = (case find (\<lambda>v. str v = s) vals of Some v \<Rightarrow> v | None \<Rightarrow> other s)"

abbreviation newline :: string where
  "newline \<equiv> [CHR 10]"

section \<open>Lemmas on results and stateful operations\<close>

lemma bindR_simps [simp]:
  "bindR (Inl e) f = Inl e"
  "bindR (Inr x) f = f x"
  by (simp_all add: bindR_def)

lemma bindR_eq_Inr: "bindR r f = Inr y \<longleftrightarrow> (\<exists>x. r = Inr x \<and> f x = Inr y)"
  by (cases r) simp_all

lemma bindR_eq_Inl: "bindR r f = Inl e \<longleftrightarrow> r = Inl e \<or> (\<exists>x. r = Inr x \<and> f x = Inl e)"
  by (cases r) simp_all

lemma isOk_simps [simp]:
  "isOk (Inl e) = False"
  "isOk (Inr x) = True"
  by (simp_all add: isOk_def)

lemma isOk_iff: "isOk r \<longleftrightarrow> (\<exists>x. r = Inr x)"
  by (cases r) simp_all

lemma tx_return_app [simp]: "tx_return x s = (Inr x, s)"
  by (simp add: tx_return_def)

lemma tx_fail_app [simp]: "tx_fail e s = (Inl e, s)"
  by (simp add: tx_fail_def)

lemma tx_lift_app [simp]: "tx_lift r s = (r, s)"
  by (simp add: tx_lift_def)

lemma tx_gets_app [simp]: "tx_gets f s = (Inr (f s), s)"
  by (simp add: tx_gets_def)

lemma tx_read_app [simp]: "tx_read f s = (f s, s)"
  by (simp add: tx_read_def)

lemma tx_modify_app [simp]: "tx_modify f s = (Inr (), f s)"
  by (simp add: tx_modify_def)

lemma tx_bind_ok [simp]: "m s = (Inr x, s') \<Longrightarrow> tx_bind m f s = f x s'"
  by (simp add: tx_bind_def)

lemma tx_bind_bad [simp]: "m s = (Inl e, s') \<Longrightarrow> tx_bind m f s = (Inl e, s')"
  by (simp add: tx_bind_def)

lemma tx_bind_Inr_iff:
  "tx_bind m f s = (Inr y, s') \<longleftrightarrow> (\<exists>x t. m s = (Inr x, t) \<and> f x t = (Inr y, s'))"
  by (auto simp: tx_bind_def split: prod.splits sum.splits)

lemma tx_bind_InrE:
  assumes "tx_bind m f s = (Inr y, s')"
  obtains x t where "m s = (Inr x, t)" and "f x t = (Inr y, s')"
  using assms by (auto simp: tx_bind_Inr_iff)

lemma tx_then_Inr_iff:
  "tx_then m k s = (Inr y, s') \<longleftrightarrow> (\<exists>t. m s = (Inr (), t) \<and> k t = (Inr y, s'))"
  by (simp add: tx_then_def tx_bind_Inr_iff)

lemma tx_then_InrE:
  assumes "tx_then m k s = (Inr y, s')"
  obtains t where "m s = (Inr (), t)" and "k t = (Inr y, s')"
  using assms by (auto simp: tx_then_Inr_iff)

lemma tx_try_Inr_iff:
  "tx_try m ok bad s = (Inr y, s') \<longleftrightarrow>
     (\<exists>x t. m s = (Inr x, t) \<and> ok x t = (Inr y, s')) \<or> (\<exists>e t. m s = (Inl e, t) \<and> bad e t = (Inr y, s'))"
  by (auto simp: tx_try_def split: prod.splits sum.splits)

text \<open>A state property kept by the parts is kept by the whole, whatever the outcome.\<close>

lemma tx_bind_keeps:
  assumes "\<And>s. P s \<Longrightarrow> P (snd (m s))" and "\<And>x s. P s \<Longrightarrow> P (snd (f x s))" and "P s"
  shows "P (snd (tx_bind m f s))"
  using assms by (auto simp: tx_bind_def split: prod.splits sum.splits dest: assms(1))

lemma tx_foreach_keeps:
  assumes "\<And>x s. x \<in> set xs \<Longrightarrow> P s \<Longrightarrow> P (snd (f x s))" and "P s"
  shows "P (snd (tx_foreach f xs s))"
  using assms
proof (induction xs arbitrary: s)
  case (Cons x xs)
  have "P (snd (f x s))" using Cons.prems by simp
  moreover have "P (snd (tx_foreach f xs t))" if "P t" for t
    using Cons.IH [of t] Cons.prems(1) that by simp
  ultimately show ?case
    by (auto simp: tx_then_def tx_bind_def split: prod.splits sum.splits)
qed simp

lemma tx_foreach_append:
  "tx_foreach f (xs @ ys) = tx_then (tx_foreach f xs) (tx_foreach f ys)"
  by (induction xs) (auto simp: tx_then_def tx_bind_def tx_return_def fun_eq_iff split: prod.splits sum.splits)

text \<open>
  Frames. What a composed operation leaves alone follows from what its parts leave alone, for every reflexive and
  transitive relation between the state before and after; a component interprets this once for each relation it
  reasons about, and its frame proofs are then by introduction.
\<close>

lemma staysD: "stays R m \<Longrightarrow> m s = (x, s') \<Longrightarrow> R s s'"
  by (auto simp: stays_def dest: spec [of _ s])

lemma stays_if [frame_intros]: "(c \<Longrightarrow> stays R a) \<Longrightarrow> (\<not> c \<Longrightarrow> stays R b) \<Longrightarrow> stays R (if c then a else b)"
  by simp

lemma stays_option [frame_intros]:
  "(x = None \<Longrightarrow> stays R a) \<Longrightarrow> (\<And>y. x = Some y \<Longrightarrow> stays R (f y)) \<Longrightarrow> stays R (case x of None \<Rightarrow> a | Some y \<Rightarrow> f y)"
  by (cases x) simp_all

lemma stays_sum [frame_intros]:
  "(\<And>y. x = Inl y \<Longrightarrow> stays R (f y)) \<Longrightarrow> (\<And>y. x = Inr y \<Longrightarrow> stays R (g y)) \<Longrightarrow>
     stays R (case x of Inl y \<Rightarrow> f y | Inr y \<Rightarrow> g y)"
  by (cases x) simp_all

lemma stays_prod [frame_intros]: "(\<And>a b. x = (a, b) \<Longrightarrow> stays R (f a b)) \<Longrightarrow> stays R (case x of (a, b) \<Rightarrow> f a b)"
  by (cases x) simp

lemma stays_Let [frame_intros]: "stays R (f x) \<Longrightarrow> stays R (let y = x in f y)"
  by simp

lemma stays_modify: "(\<And>s. R s (f s)) \<Longrightarrow> stays R (tx_modify f)"
  by (simp add: stays_def)

locale tx_frame =
  fixes R :: "'s \<Rightarrow> 's \<Rightarrow> bool"
  assumes frame_refl: "R s s" and frame_trans: "R s t \<Longrightarrow> R t u \<Longrightarrow> R s u"
begin

lemma stays_read:
  "stays R (tx_return x)" "stays R (tx_fail e)" "stays R (tx_lift r)" "stays R (tx_gets f)" "stays R (tx_read g)"
  by (simp_all add: stays_def frame_refl)

lemma stays_bind: "stays R m \<Longrightarrow> (\<And>x. stays R (f x)) \<Longrightarrow> stays R (tx_bind m f)"
proof (unfold stays_def, intro allI)
  fix s
  assume "\<forall>s. R s (snd (m s))" "\<And>x. \<forall>s. R s (snd (f x s))"
  then have "R s (snd (m s))" "\<And>x. R (snd (m s)) (snd (f x (snd (m s))))" by simp_all
  then show "R s (snd (tx_bind m f s))"
    by (cases "m s"; cases "fst (m s)") (auto simp: tx_bind_def intro: frame_trans)
qed

lemma stays_then: "stays R m \<Longrightarrow> stays R k \<Longrightarrow> stays R (tx_then m k)"
  by (simp add: tx_then_def stays_bind)

lemma stays_try: "stays R m \<Longrightarrow> (\<And>x. stays R (f x)) \<Longrightarrow> (\<And>e. stays R (g e)) \<Longrightarrow> stays R (tx_try m f g)"
proof (unfold stays_def, intro allI)
  fix s
  assume "\<forall>s. R s (snd (m s))" "\<And>x. \<forall>s. R s (snd (f x s))" "\<And>e. \<forall>s. R s (snd (g e s))"
  then have "R s (snd (m s))" "\<And>x. R (snd (m s)) (snd (f x (snd (m s))))" "\<And>e. R (snd (m s)) (snd (g e (snd (m s))))"
    by simp_all
  then show "R s (snd (tx_try m f g s))"
    by (cases "m s"; cases "fst (m s)") (auto simp: tx_try_def intro: frame_trans)
qed

lemma stays_foreach: "(\<And>x. x \<in> set xs \<Longrightarrow> stays R (f x)) \<Longrightarrow> stays R (tx_foreach f xs)"
  by (induction xs) (simp_all add: stays_read stays_then)

lemmas stays_ops = stays_read stays_bind stays_then stays_try stays_foreach

end

section \<open>Lemmas on strings\<close>

lemma digit_val_digit_char [simp]: "d < 10 \<Longrightarrow> digit_val (digit_char d) = d"
  by (simp add: digit_val_def digit_char_def)

lemma is_digit_digit_char [simp]: "d < 10 \<Longrightarrow> is_digit (digit_char d)"
  by (simp add: is_digit_def digit_char_def)

lemma digits_val_snoc [simp]: "digits_val (s @ [c]) = 10 * digits_val s + digit_val c"
  by (simp add: digits_val_def)

lemma digits_val_Nil [simp]: "digits_val [] = 0"
  by (simp add: digits_val_def)

lemma digits_val_zeros [simp]: "digits_val (zeros k @ s) = digits_val s"
proof -
  have "foldl (\<lambda>n c. 10 * n + digit_val c) 0 (zeros k) = 0"
    by (induction k) (simp_all add: zeros_def digit_val_def)
  then show ?thesis by (simp add: digits_val_def)
qed

lemma digits_val_show_nat [simp]: "digits_val (show_nat n) = n"
proof (induction n rule: show_nat.induct)
  case (1 n)
  show ?case
  proof (cases "n < 10")
    case True
    then show ?thesis by (simp add: show_nat.simps [of n] digits_val_def)
  next
    case False
    with "1.IH" show ?thesis by (simp add: show_nat.simps [of n])
  qed
qed

lemma digits_val_pad_nat [simp]: "digits_val (pad_nat w n) = n"
  by (simp add: pad_nat_def)

lemma show_nat_inject [simp]: "show_nat m = show_nat n \<longleftrightarrow> m = n"
  by (metis digits_val_show_nat)

lemma pad_nat_inject [simp]: "pad_nat w m = pad_nat w n \<longleftrightarrow> m = n"
  by (metis digits_val_pad_nat)

lemma show_nat_digits: "c \<in> set (show_nat n) \<Longrightarrow> is_digit c"
proof (induction n rule: show_nat.induct)
  case (1 n)
  show ?case
  proof (cases "n < 10")
    case True
    with "1.prems" show ?thesis by (simp add: show_nat.simps [of n])
  next
    case False
    with 1 show ?thesis by (auto simp: show_nat.simps [of n])
  qed
qed

lemma pad_nat_digits: "c \<in> set (pad_nat w n) \<Longrightarrow> is_digit c"
  by (auto simp: pad_nat_def zeros_def is_digit_def dest: show_nat_digits)

lemma show_nat_nonempty [simp]: "show_nat n \<noteq> []"
  by (subst show_nat.simps) simp

lemma length_pad_nat_le: "n < 10 ^ w \<Longrightarrow> 0 < w \<Longrightarrow> length (pad_nat w n) = w"
proof -
  have short: "0 < w \<Longrightarrow> n < 10 ^ w \<Longrightarrow> length (show_nat n) \<le> w" for w
  proof (induction n arbitrary: w rule: show_nat.induct)
    case (1 n)
    show ?case
    proof (cases "n < 10")
      case True
      with "1.prems" show ?thesis by (simp add: show_nat.simps [of n])
    next
      case False
      with "1.prems" obtain v where v: "w = Suc v" "0 < v"
        by (cases w; cases "w - 1") auto
      with False "1.prems" have "length (show_nat (n div 10)) \<le> v"
        by (intro "1.IH") (auto simp: div_less_iff_less_mult)
      with False v show ?thesis by (simp add: show_nat.simps [of n])
    qed
  qed
  then show "n < 10 ^ w \<Longrightarrow> 0 < w \<Longrightarrow> length (pad_nat w n) = w"
    by (simp add: pad_nat_def zeros_def)
qed

text \<open>Text that begins and ends with a visible ASCII character is not trimmed.\<close>

definition visible :: "char \<Rightarrow> bool" where
  "visible c \<longleftrightarrow> 33 \<le> (of_char c :: nat) \<and> (of_char c :: nat) \<le> 126"

lemma strip_prefixes_visible:
  assumes "\<forall>p \<in> set ps. p \<noteq> [] \<longrightarrow> \<not> visible (hd p)" "s = [] \<or> visible (hd s)"
  shows "strip_prefixes n ps s = s"
proof -
  have "\<not> starts_with p s" if "p \<in> set ps" "p \<noteq> []" for p
  proof
    assume "starts_with p s"
    then have "s \<noteq> []" "hd s = hd p"
      using that(2) by (auto simp: starts_with_def) (metis hd_take length_greater_0_conv)
    with assms that show False by auto
  qed
  then have "find (\<lambda>p. p \<noteq> [] \<and> starts_with p s) ps = None" by (auto simp: find_None_iff)
  then show ?thesis by (cases n) simp_all
qed

lemma trim_space_visible:
  assumes "s = [] \<or> (visible (hd s) \<and> visible (last s))"
  shows "trim_space s = s"
proof -
  have "\<forall>p \<in> set space_seqs. p \<noteq> [] \<longrightarrow> \<not> visible (hd p)"
    "\<forall>p \<in> set (map rev space_seqs). p \<noteq> [] \<longrightarrow> \<not> visible (hd p)"
    by (auto simp: space_seqs_def visible_def of_char_mod_256)
  with assms show ?thesis
    by (auto simp: trim_space_def Let_def strip_prefixes_visible hd_rev)
qed

lemma enum_of_str: "(\<And>s. str (other s) = s) \<Longrightarrow> str (enum_of str vals other s) = s"
  by (auto simp: enum_of_def find_Some_iff split: option.split)

lemma enum_of_val:
  assumes "distinct (map str vals)" and "v \<in> set vals"
  shows "enum_of str vals other (str v) = v"
proof -
  have "find (\<lambda>w. str w = str v) vals = Some v"
    using assms by (induction vals) auto
  then show ?thesis by (simp add: enum_of_def)
qed

section \<open>Lemmas on lists\<close>

lemma filter_upto_card:
  "length (filter P [0..<n]) = card {i. i < n \<and> P i}"
  by (simp add: length_filter_conv_card cong: conj_cong)

lemma sum_list_map_filter_0:
  "sum_list (map f (filter P xs)) + sum_list (map f (filter (\<lambda>x. \<not> P x) xs)) = (sum_list (map f xs) :: 'a :: comm_monoid_add)"
  by (induction xs) (auto simp: algebra_simps)

lemma map_update_same: "g v = g (xs ! n) \<Longrightarrow> map g (xs[n := v]) = map g xs"
  by (rule nth_equalityI, simp) (cases "n < length xs", auto simp: nth_list_update list_update_beyond)

lemma find_Some_iff_first:
  "find P xs = Some x \<longleftrightarrow> (\<exists>i < length xs. P (xs ! i) \<and> x = xs ! i \<and> (\<forall>j < i. \<not> P (xs ! j)))"
  by (rule find_Some_iff)

end
