(* ===== verification/Errs.thy ===== *)
theory Errs
  imports Dispute_Prelude
begin

text \<open>
  \<^verbatim>\<open>backend/internal/platform/errs/errs.go\<close>: errors classified by kind and stable code.

  A Go error value is \<open>error\<close>: a classified \<open>*Error\<close>, an error wrapped with context for the logs
  (\<open>errs.Wrap\<close>, \<open>fmt.Errorf\<close> with \<open>%w\<close>), or an unclassified one. The context text of a wrap
  reaches the logs only and is not kept. \<open>errors.As\<close> and \<open>errors.Is\<close> walk the chain from the
  outside in.
\<close>

section \<open>Definitions\<close>

datatype kind = Internal | Invalid | NotFound | Conflict | Unprocessable | Unauthorized | Forbidden
  | Unavailable | RateLimited

type_synonym code = string

record FieldError =
  fe_Field :: string
  fe_Message :: string

record Error =
  err_Kind :: kind
  err_Code :: code
  err_Msg :: string
  err_Fields :: "FieldError list"

datatype error = Classified Error | Wrapped error | Opaque string

type_synonym 'a result = "error + 'a"

definition New :: "kind \<Rightarrow> code \<Rightarrow> string \<Rightarrow> Error" where
  "New k c m = \<lparr>err_Kind = k, err_Code = c, err_Msg = m, err_Fields = []\<rparr>"

definition internalCode :: code where
  "internalCode = ''internal''"

text \<open>The registry every \<open>New\<close> passes its code through, and what \<open>Codes\<close> reads of it.\<close>

type_synonym registry = "code \<Rightarrow> kind list"

definition registry0 :: registry where
  "registry0 = (\<lambda>_. [])(internalCode := [Internal])"

definition register :: "kind \<Rightarrow> code \<Rightarrow> registry \<Rightarrow> registry" where
  "register k c r = r(c := r c @ [k])"

definition WithDetail :: "Error \<Rightarrow> string \<Rightarrow> Error" where
  "WithDetail e d =
     \<lparr>err_Kind = err_Kind e, err_Code = err_Code e, err_Msg = err_Msg e @ '': '' @ d, err_Fields = err_Fields e\<rparr>"

definition WithFields :: "Error \<Rightarrow> FieldError list \<Rightarrow> Error" where
  "WithFields e fs = \<lparr>err_Kind = err_Kind e, err_Code = err_Code e, err_Msg = err_Msg e, err_Fields = fs\<rparr>"

definition Wrap :: "error \<Rightarrow> error" where
  "Wrap e = Wrapped e"

text \<open>\<open>(*Error).Is\<close>: the same code and kind.\<close>

definition Error_Is :: "Error \<Rightarrow> Error \<Rightarrow> bool" where
  "Error_Is e t \<longleftrightarrow> err_Code t = err_Code e \<and> err_Kind t = err_Kind e"

fun errors_As :: "error \<Rightarrow> Error option" where
  "errors_As (Classified e) = Some e"
| "errors_As (Wrapped e) = errors_As e"
| "errors_As (Opaque m) = None"

definition errors_Is :: "error \<Rightarrow> Error \<Rightarrow> bool" where
  "errors_Is e t = (case errors_As e of None \<Rightarrow> False | Some x \<Rightarrow> Error_Is x t)"

definition KindOf :: "error \<Rightarrow> kind" where
  "KindOf e = (case errors_As e of Some x \<Rightarrow> err_Kind x | None \<Rightarrow> Internal)"

definition CodeOf :: "error \<Rightarrow> code" where
  "CodeOf e = (case errors_As e of Some x \<Rightarrow> err_Code x | None \<Rightarrow> internalCode)"

definition FieldsOf :: "error \<Rightarrow> FieldError list" where
  "FieldsOf e = (case errors_As e of Some x \<Rightarrow> err_Fields x | None \<Rightarrow> [])"

definition UserMessage :: "error \<Rightarrow> string" where
  "UserMessage e = (case errors_As e of Some x \<Rightarrow> err_Msg x | None \<Rightarrow> [])"

definition Retryable :: "error \<Rightarrow> bool" where
  "Retryable e =
     (case KindOf e of
        Unavailable \<Rightarrow> True
      | RateLimited \<Rightarrow> True
      | Conflict \<Rightarrow> CodeOf e = ''concurrent-update''
      | _ \<Rightarrow> False)"

section \<open>Lemmas\<close>

lemma New_sel [simp]:
  "err_Kind (New k c m) = k" "err_Code (New k c m) = c" "err_Msg (New k c m) = m" "err_Fields (New k c m) = []"
  by (simp_all add: New_def)

lemma WithFields_sel [simp]:
  "err_Kind (WithFields e fs) = err_Kind e" "err_Code (WithFields e fs) = err_Code e"
  "err_Msg (WithFields e fs) = err_Msg e" "err_Fields (WithFields e fs) = fs"
  by (simp_all add: WithFields_def)

lemma WithDetail_sel [simp]:
  "err_Kind (WithDetail e d) = err_Kind e" "err_Code (WithDetail e d) = err_Code e"
  "err_Fields (WithDetail e d) = err_Fields e"
  by (simp_all add: WithDetail_def)

lemma errors_Is_simps [simp]:
  "errors_Is (Classified e) t = Error_Is e t"
  "errors_Is (Wrapped x) t = errors_Is x t"
  "errors_Is (Opaque m) t = False"
  by (simp_all add: errors_Is_def)

lemma errors_Is_Wrap [simp]: "errors_Is (Wrap e) t = errors_Is e t"
  by (simp add: Wrap_def)

lemma Error_Is_refl [simp]: "Error_Is e e"
  by (simp add: Error_Is_def)

lemma Error_Is_decorated [simp]:
  "Error_Is (WithFields e fs) t = Error_Is e t"
  "Error_Is (WithDetail e d) t = Error_Is e t"
  by (simp_all add: Error_Is_def)

lemma Error_Is_New [simp]: "Error_Is (New k c m) (New k' c' m') \<longleftrightarrow> k = k' \<and> c = c'"
  by (auto simp: Error_Is_def)

text \<open>Classification survives every wrap, and \<open>errors.Is\<close> is agreement of kind and code.\<close>

lemma KindOf_Wrap [simp]: "KindOf (Wrap e) = KindOf e"
  by (simp add: KindOf_def Wrap_def)

lemma CodeOf_Wrap [simp]: "CodeOf (Wrap e) = CodeOf e"
  by (simp add: CodeOf_def Wrap_def)

lemma KindOf_Classified [simp]: "KindOf (Classified e) = err_Kind e"
  by (simp add: KindOf_def)

lemma CodeOf_Classified [simp]: "CodeOf (Classified e) = err_Code e"
  by (simp add: CodeOf_def)

lemma errors_Is_kind_code: "errors_Is e t \<Longrightarrow> KindOf e = err_Kind t \<and> CodeOf e = err_Code t"
  by (auto simp: errors_Is_def KindOf_def CodeOf_def Error_Is_def split: option.splits)

end
