(* ===== verification/Money.thy ===== *)
theory Money
  imports Dispute_Prelude
begin

text \<open>
  Amounts and \<^verbatim>\<open>backend/internal/platform/money/money.go\<close>.

  An amount of the \<open>shopspring/decimal\<close> package is an exact decimal fraction. The sources add,
  subtract, negate, shift and compare amounts, which the package documents as exact, so an amount
  is the rational number it denotes. What depends on the package's text format, its parser
  (\<open>NewFromString\<close>) and its rounded printer (\<open>StringFixed\<close>), is an argument of the definitions that
  use it.
\<close>

type_synonym decimal = rat

text \<open>\<open>decimal.Decimal.StringFixed\<close> and \<open>decimal.NewFromString\<close>.\<close>

type_synonym string_fixed = "decimal \<Rightarrow> nat \<Rightarrow> string"
type_synonym new_from_string = "string \<Rightarrow> decimal option"

definition minorUnits :: "(string \<times> nat) list" where
  "minorUnits = [(''HUF'', 0), (''JPY'', 0), (''KRW'', 0), (''ISK'', 0), (''CLP'', 0),
     (''BHD'', 3), (''KWD'', 3), (''JOD'', 3), (''OMR'', 3), (''TND'', 3)]"

definition Minor :: "string \<Rightarrow> nat" where
  "Minor currency = (case map_of minorUnits currency of Some n \<Rightarrow> n | None \<Rightarrow> 2)"

definition Format :: "string_fixed \<Rightarrow> decimal \<Rightarrow> string \<Rightarrow> string" where
  "Format StringFixed d currency = StringFixed d (Minor currency)"

text \<open>\<open>decimal.NewFromInt(n).Shift(-2)\<close>, minor units of a two-decimal currency as an amount.\<close>

definition cents :: "int \<Rightarrow> decimal" where
  "cents n = of_int n / 100"

lemma cents_nonneg [simp]: "0 \<le> cents n \<longleftrightarrow> 0 \<le> n"
  by (simp add: cents_def)

lemma cents_zero [simp]: "cents 0 = 0"
  by (simp add: cents_def)

end
