(* ===== verification/Regime.thy ===== *)
theory Regime
  imports Errs Money
begin

text \<open>
  \<^verbatim>\<open>backend/internal/dispute/domain/regime.go\<close> and \<^verbatim>\<open>rail.go\<close>, with the domain's string types.

  A Go string type with named constants is a datatype with the source's constants as constructors and
  one more constructor for every other string, so that a value read from a request or a row is in the
  model too; the zero value is that constructor at the empty string. \<open>X_str\<close> is the string of a value
  and \<open>X_of\<close> the value of a string, as the conversion \<open>X(s)\<close> reads it.
\<close>

section \<open>String types\<close>

datatype regime = RegimeEUSEPADirectDebit | RegimeEUPSD2Card | RegimeUSRegE | RegimeUSRegZ
  | RegimeOther string

datatype refund_path = RefundNone | RefundProvisionalCredit | RefundFast | RefundNoQuestionsAsked

datatype state = StateInitiated | StateInvestigating | StateQuestionnaireSent | StateQuestionnaireReceived
  | StateProvisionalCreditIssued | StateFastRefundIssued | StateSEPANQARefundIssued | StateChargebackFiled
  | StateChargebackAcknowledged | StateEvidenceSubmitted | StateChargebackWon | StateChargebackLost
  | StateFinalCreditIssued | StateProvisionalCreditReversed | StateClosed | StateOther string

datatype rail = RailCard | RailCreditCard | RailSEPADD | RailOther string

datatype deadline_kind = DeadlineRefund | DeadlineAcknowledge | DeadlineResolution

datatype day_unit = BusinessDays | CalendarDays

text \<open>\<open>SettleNone\<close> is the empty string: a settlement the analyst did not give.\<close>

datatype suspense_settlement = SettleRecovered | SettleWrittenOff | SettleNone

fun regime_str :: "regime \<Rightarrow> string" where
  "regime_str RegimeEUSEPADirectDebit = ''EU_SEPA_DIRECT_DEBIT''"
| "regime_str RegimeEUPSD2Card = ''EU_PSD2_CARD''"
| "regime_str RegimeUSRegE = ''US_REG_E''"
| "regime_str RegimeUSRegZ = ''US_REG_Z''"
| "regime_str (RegimeOther s) = s"

definition AllRegimes :: "regime list" where
  "AllRegimes = [RegimeEUSEPADirectDebit, RegimeEUPSD2Card, RegimeUSRegE, RegimeUSRegZ]"

definition regime_of :: "string \<Rightarrow> regime" where
  "regime_of = enum_of regime_str AllRegimes RegimeOther"

fun state_str :: "state \<Rightarrow> string" where
  "state_str StateInitiated = ''INITIATED''"
| "state_str StateInvestigating = ''INVESTIGATING''"
| "state_str StateQuestionnaireSent = ''QUESTIONNAIRE_SENT''"
| "state_str StateQuestionnaireReceived = ''QUESTIONNAIRE_RECEIVED''"
| "state_str StateProvisionalCreditIssued = ''PROVISIONAL_CREDIT_ISSUED''"
| "state_str StateFastRefundIssued = ''FAST_REFUND_ISSUED''"
| "state_str StateSEPANQARefundIssued = ''SEPA_NQA_REFUND_ISSUED''"
| "state_str StateChargebackFiled = ''CHARGEBACK_FILED''"
| "state_str StateChargebackAcknowledged = ''CHARGEBACK_ACKNOWLEDGED''"
| "state_str StateEvidenceSubmitted = ''EVIDENCE_SUBMITTED''"
| "state_str StateChargebackWon = ''CHARGEBACK_WON''"
| "state_str StateChargebackLost = ''CHARGEBACK_LOST''"
| "state_str StateFinalCreditIssued = ''FINAL_CREDIT_ISSUED''"
| "state_str StateProvisionalCreditReversed = ''PROVISIONAL_CREDIT_REVERSED''"
| "state_str StateClosed = ''CLOSED''"
| "state_str (StateOther s) = s"

fun rail_str :: "rail \<Rightarrow> string" where
  "rail_str RailCard = ''CARD''"
| "rail_str RailCreditCard = ''CREDIT_CARD''"
| "rail_str RailSEPADD = ''SEPA_DD''"
| "rail_str (RailOther s) = s"

fun deadline_kind_str :: "deadline_kind \<Rightarrow> string" where
  "deadline_kind_str DeadlineRefund = ''REFUND''"
| "deadline_kind_str DeadlineAcknowledge = ''ACKNOWLEDGE''"
| "deadline_kind_str DeadlineResolution = ''RESOLUTION''"

section \<open>Rules\<close>

record Clock =
  clk_Kind :: deadline_kind
  clk_Count :: int
  clk_Unit :: day_unit
  clk_Basis :: string

record Rules =
  r_Regime :: regime
  r_Refund :: refund_path
  r_Clocks :: "Clock list"
  r_HasAdjudication :: bool
  r_MerchantMayContest :: bool
  r_LiabilityCapMinor :: int
  r_Currency :: string
  r_MaxAppeals :: int
  r_CloseSettlement :: suspense_settlement
  r_WrittenNotices :: bool

definition HasProvisionalCredit :: "Rules \<Rightarrow> bool" where
  "HasProvisionalCredit r \<longleftrightarrow> r_Refund r = RefundProvisionalCredit"

definition HasRefundStep :: "Rules \<Rightarrow> bool" where
  "HasRefundStep r \<longleftrightarrow> r_Refund r \<noteq> RefundNone"

definition defaultAppeals :: int where
  "defaultAppeals = 1"

definition mkClock :: "deadline_kind \<Rightarrow> int \<Rightarrow> day_unit \<Rightarrow> string \<Rightarrow> Clock" where
  "mkClock k n u b = \<lparr>clk_Kind = k, clk_Count = n, clk_Unit = u, clk_Basis = b\<rparr>"

fun rules :: "regime \<Rightarrow> Rules option" where
  "rules RegimeEUSEPADirectDebit = Some
    \<lparr>r_Regime = RegimeEUSEPADirectDebit, r_Refund = RefundNoQuestionsAsked,
     r_Clocks =
       [mkClock DeadlineRefund 10 BusinessDays
          ''PSD2 art. 77(2): refund or justification within 10 business days of the request'',
        mkClock DeadlineResolution 15 BusinessDays
          ''PSD2 art. 101(2): final reply to a complaint within 15 business days''],
     r_HasAdjudication = False, r_MerchantMayContest = False, r_LiabilityCapMinor = 0,
     r_Currency = ''EUR'', r_MaxAppeals = defaultAppeals, r_CloseSettlement = SettleRecovered,
     r_WrittenNotices = False\<rparr>"
| "rules RegimeEUPSD2Card = Some
    \<lparr>r_Regime = RegimeEUPSD2Card, r_Refund = RefundFast,
     r_Clocks =
       [mkClock DeadlineRefund 1 BusinessDays
          ''PSD2 art. 73(1): refund by the end of the following business day'',
        mkClock DeadlineResolution 15 BusinessDays
          ''PSD2 art. 101(2): final reply to a complaint within 15 business days''],
     r_HasAdjudication = True, r_MerchantMayContest = True, r_LiabilityCapMinor = 5000,
     r_Currency = ''EUR'', r_MaxAppeals = defaultAppeals, r_CloseSettlement = SettleWrittenOff,
     r_WrittenNotices = False\<rparr>"
| "rules RegimeUSRegE = Some
    \<lparr>r_Regime = RegimeUSRegE, r_Refund = RefundProvisionalCredit,
     r_Clocks =
       [mkClock DeadlineRefund 10 BusinessDays
          ''12 CFR 1005.11(c)(2)(i): provisional credit within 10 business days'',
        mkClock DeadlineResolution 45 CalendarDays
          ''12 CFR 1005.11(c)(2): investigation complete within 45 days''],
     r_HasAdjudication = True, r_MerchantMayContest = True, r_LiabilityCapMinor = 5000,
     r_Currency = ''USD'', r_MaxAppeals = defaultAppeals, r_CloseSettlement = SettleWrittenOff,
     r_WrittenNotices = True\<rparr>"
| "rules RegimeUSRegZ = Some
    \<lparr>r_Regime = RegimeUSRegZ, r_Refund = RefundNone,
     r_Clocks =
       [mkClock DeadlineAcknowledge 30 CalendarDays
          ''12 CFR 1026.13(c)(1): written acknowledgement within 30 days'',
        mkClock DeadlineResolution 90 CalendarDays
          ''12 CFR 1026.13(c)(2): resolution within two billing cycles, at most 90 days''],
     r_HasAdjudication = True, r_MerchantMayContest = True, r_LiabilityCapMinor = 0,
     r_Currency = ''USD'', r_MaxAppeals = defaultAppeals, r_CloseSettlement = SettleWrittenOff,
     r_WrittenNotices = True\<rparr>"
| "rules (RegimeOther s) = None"

definition ErrUnknownRegime :: Error where
  "ErrUnknownRegime = New Invalid ''unknown-regime'' ''unknown regulatory regime''"

definition RulesFor :: "regime \<Rightarrow> Rules result" where
  "RulesFor r = (case rules r of None \<Rightarrow> Inl (Wrap (Classified ErrUnknownRegime)) | Some cfg \<Rightarrow> Inr cfg)"

definition refundState :: "Rules \<Rightarrow> state" where
  "refundState r =
     (case r_Refund r of
        RefundProvisionalCredit \<Rightarrow> StateProvisionalCreditIssued
      | RefundFast \<Rightarrow> StateFastRefundIssued
      | RefundNoQuestionsAsked \<Rightarrow> StateSEPANQARefundIssued
      | _ \<Rightarrow> StateOther [])"

definition ErrNoRegime :: Error where
  "ErrNoRegime = New Unprocessable ''no-regime''
     ''no regulatory regime covers this transaction's rail and currency''"

definition RegimeFor :: "rail \<Rightarrow> string \<Rightarrow> regime result" where
  "RegimeFor rail currency =
     (if rail = RailSEPADD \<and> currency = ''EUR'' then Inr RegimeEUSEPADirectDebit
      else if rail = RailCard \<and> currency = ''EUR'' then Inr RegimeEUPSD2Card
      else if rail = RailCard \<and> currency = ''USD'' then Inr RegimeUSRegE
      else if rail = RailCreditCard \<and> currency = ''USD'' then Inr RegimeUSRegZ
      else Inl (Wrap (Classified ErrNoRegime)))"

section \<open>Lemmas\<close>

lemma regime_of_str [enum_simps]: "regime_str (regime_of s) = s"
  by (simp add: regime_of_def enum_of_str)

lemma regime_of_regime_str: "r \<in> set AllRegimes \<Longrightarrow> regime_of (regime_str r) = r"
  unfolding regime_of_def by (rule enum_of_val) (simp_all add: AllRegimes_def)

lemma RulesFor_known: "RulesFor r = Inr cfg \<Longrightarrow> r \<in> set AllRegimes \<and> r_Regime cfg = r"
  by (cases r) (auto simp: RulesFor_def AllRegimes_def)

lemma RulesFor_total: "r \<in> set AllRegimes \<Longrightarrow> \<exists>cfg. RulesFor r = Inr cfg"
  by (auto simp: RulesFor_def AllRegimes_def)

lemma RulesFor_cases:
  assumes "RulesFor r = Inr cfg"
  obtains "r = RegimeEUSEPADirectDebit" | "r = RegimeEUPSD2Card" | "r = RegimeUSRegE" | "r = RegimeUSRegZ"
  using RulesFor_known [OF assms] by (auto simp: AllRegimes_def)

text \<open>The regime a transaction is handled under is one the build has rules for, in the same currency.\<close>

lemma RegimeFor_known: "RegimeFor rail cur = Inr r \<Longrightarrow> \<exists>cfg. RulesFor r = Inr cfg \<and> r_Currency cfg = cur"
  by (auto simp: RegimeFor_def RulesFor_def split: if_splits)

lemma refundState_props:
  assumes "HasRefundStep r"
  shows "refundState r \<in> {StateProvisionalCreditIssued, StateFastRefundIssued, StateSEPANQARefundIssued}"
    and "refundState r = StateProvisionalCreditIssued \<longleftrightarrow> HasProvisionalCredit r"
  using assms by (cases "r_Refund r"; simp add: HasRefundStep_def HasProvisionalCredit_def refundState_def)+

end
