(* ===== verification/Lifecycle.thy ===== *)
theory Lifecycle
  imports Regime
begin

text \<open>
  \<^verbatim>\<open>backend/internal/dispute/domain/state.go\<close>: the lifecycle of a dispute.

  \<open>Apply\<close> is the transition function, \<open>next_state\<close> its table (\<open>next\<close> in the source), \<open>Allowed\<close> the
  events it accepts. \<open>lifecycle\<close> relates a regime and a sequence of accepted events to the dispute
  they lead to; the invariants are proved by rule induction over it.
\<close>

section \<open>Definitions\<close>

definition AllStates :: "state list" where
  "AllStates = [StateInitiated, StateInvestigating, StateQuestionnaireSent, StateQuestionnaireReceived,
     StateProvisionalCreditIssued, StateFastRefundIssued, StateSEPANQARefundIssued, StateChargebackFiled,
     StateChargebackAcknowledged, StateEvidenceSubmitted, StateChargebackWon, StateChargebackLost,
     StateFinalCreditIssued, StateProvisionalCreditReversed, StateClosed]"

definition ParseState :: "string \<Rightarrow> state result" where
  "ParseState raw =
     (case find (\<lambda>s. state_str s = raw) AllStates of
        Some s \<Rightarrow> Inr s
      | None \<Rightarrow> Inl (Opaque (''unknown state '' @ go_quote raw)))"

datatype event = EventOpenInvestigation | EventSendQuestionnaire | EventReceiveQuestionnaire
  | EventIssueRefund | EventFileChargeback | EventAcknowledgeChargeback | EventSubmitEvidence
  | EventWinChargeback | EventLoseChargeback | EventIssueFinalCredit | EventReverseProvisionalCredit
  | EventClose | EventAppeal | EventOther string

fun event_str :: "event \<Rightarrow> string" where
  "event_str EventOpenInvestigation = ''OPEN_INVESTIGATION''"
| "event_str EventSendQuestionnaire = ''SEND_QUESTIONNAIRE''"
| "event_str EventReceiveQuestionnaire = ''RECEIVE_QUESTIONNAIRE''"
| "event_str EventIssueRefund = ''ISSUE_REFUND''"
| "event_str EventFileChargeback = ''FILE_CHARGEBACK''"
| "event_str EventAcknowledgeChargeback = ''ACKNOWLEDGE_CHARGEBACK''"
| "event_str EventSubmitEvidence = ''SUBMIT_EVIDENCE''"
| "event_str EventWinChargeback = ''WIN_CHARGEBACK''"
| "event_str EventLoseChargeback = ''LOSE_CHARGEBACK''"
| "event_str EventIssueFinalCredit = ''ISSUE_FINAL_CREDIT''"
| "event_str EventReverseProvisionalCredit = ''REVERSE_PROVISIONAL_CREDIT''"
| "event_str EventClose = ''CLOSE''"
| "event_str EventAppeal = ''APPEAL''"
| "event_str (EventOther s) = s"

definition AllEvents :: "event list" where
  "AllEvents = [EventOpenInvestigation, EventSendQuestionnaire, EventReceiveQuestionnaire,
     EventIssueRefund, EventFileChargeback, EventAcknowledgeChargeback, EventSubmitEvidence,
     EventWinChargeback, EventLoseChargeback, EventIssueFinalCredit, EventReverseProvisionalCredit,
     EventClose, EventAppeal]"

definition event_of :: "string \<Rightarrow> event" where
  "event_of = enum_of event_str AllEvents EventOther"

definition ErrInvalidTransition :: Error where
  "ErrInvalidTransition = New Conflict ''invalid-transition''
     ''this action is not allowed in the dispute's current state''"

definition ErrAppealsExhausted :: Error where
  "ErrAppealsExhausted = New Conflict ''appeals-exhausted'' ''this dispute has used all of its appeals''"

record Dispute =
  d_Regime :: regime
  d_State :: state
  d_Appeals :: int

definition New_Dispute :: "regime \<Rightarrow> Dispute result" where
  "New_Dispute regime = bindR (RulesFor regime) (\<lambda>_.
     Inr \<lparr>d_Regime = regime, d_State = StateInitiated, d_Appeals = 0\<rparr>)"

text \<open>The error of \<open>invalid\<close>; the event, state and regime it names reach the logs only.\<close>

definition invalid_transition :: error where
  "invalid_transition = Wrap (Classified ErrInvalidTransition)"

fun next_state :: "Rules \<Rightarrow> state \<Rightarrow> event \<Rightarrow> state option" where
  "next_state r StateInitiated e =
     (case e of
        EventOpenInvestigation \<Rightarrow> Some StateInvestigating
      | EventIssueRefund \<Rightarrow>
          (if r_Refund r = RefundNoQuestionsAsked then Some StateSEPANQARefundIssued else None)
      | _ \<Rightarrow> None)"
| "next_state r StateInvestigating e =
     (case e of
        EventSendQuestionnaire \<Rightarrow> Some StateQuestionnaireSent
      | EventIssueRefund \<Rightarrow> (if HasRefundStep r then Some (refundState r) else None)
      | EventFileChargeback \<Rightarrow>
          (if r_HasAdjudication r \<and> \<not> HasRefundStep r then Some StateChargebackFiled else None)
      | EventClose \<Rightarrow> Some StateClosed
      | _ \<Rightarrow> None)"
| "next_state r StateQuestionnaireSent e =
     (case e of
        EventReceiveQuestionnaire \<Rightarrow> Some StateQuestionnaireReceived
      | EventClose \<Rightarrow> Some StateClosed
      | _ \<Rightarrow> None)"
| "next_state r StateQuestionnaireReceived e =
     (case e of
        EventIssueRefund \<Rightarrow> (if HasRefundStep r then Some (refundState r) else None)
      | EventFileChargeback \<Rightarrow>
          (if r_HasAdjudication r \<and> \<not> HasRefundStep r then Some StateChargebackFiled else None)
      | EventClose \<Rightarrow> Some StateClosed
      | _ \<Rightarrow> None)"
| "next_state r StateProvisionalCreditIssued e =
     (case e of
        EventFileChargeback \<Rightarrow> (if r_HasAdjudication r then Some StateChargebackFiled else None)
      | EventClose \<Rightarrow> Some StateClosed
      | _ \<Rightarrow> None)"
| "next_state r StateFastRefundIssued e =
     (case e of
        EventFileChargeback \<Rightarrow> (if r_HasAdjudication r then Some StateChargebackFiled else None)
      | EventClose \<Rightarrow> Some StateClosed
      | _ \<Rightarrow> None)"
| "next_state r StateSEPANQARefundIssued e =
     (case e of
        EventFileChargeback \<Rightarrow> (if r_HasAdjudication r then Some StateChargebackFiled else None)
      | EventClose \<Rightarrow> Some StateClosed
      | _ \<Rightarrow> None)"
| "next_state r StateChargebackFiled e =
     (if e = EventAcknowledgeChargeback then Some StateChargebackAcknowledged else None)"
| "next_state r StateChargebackAcknowledged e =
     (case e of
        EventSubmitEvidence \<Rightarrow> (if r_MerchantMayContest r then Some StateEvidenceSubmitted else None)
      | EventWinChargeback \<Rightarrow> Some StateChargebackWon
      | EventLoseChargeback \<Rightarrow> Some StateChargebackLost
      | _ \<Rightarrow> None)"
| "next_state r StateEvidenceSubmitted e =
     (case e of
        EventWinChargeback \<Rightarrow> Some StateChargebackWon
      | EventLoseChargeback \<Rightarrow> Some StateChargebackLost
      | _ \<Rightarrow> None)"
| "next_state r StateChargebackWon e =
     (case e of
        EventIssueFinalCredit \<Rightarrow> (if HasProvisionalCredit r then Some StateFinalCreditIssued else None)
      | EventClose \<Rightarrow> (if \<not> HasProvisionalCredit r then Some StateClosed else None)
      | _ \<Rightarrow> None)"
| "next_state r StateChargebackLost e =
     (case e of
        EventReverseProvisionalCredit \<Rightarrow>
          (if HasProvisionalCredit r then Some StateProvisionalCreditReversed else None)
      | EventClose \<Rightarrow> (if \<not> HasProvisionalCredit r then Some StateClosed else None)
      | _ \<Rightarrow> None)"
| "next_state r StateFinalCreditIssued e = (if e = EventClose then Some StateClosed else None)"
| "next_state r StateProvisionalCreditReversed e = (if e = EventClose then Some StateClosed else None)"
| "next_state r StateClosed e = None"
| "next_state r (StateOther s) e = None"

definition Apply :: "Dispute \<Rightarrow> event \<Rightarrow> Dispute result" where
  "Apply d event = bindR (RulesFor (d_Regime d)) (\<lambda>r.
     if event = EventAppeal then
       if d_State d \<noteq> StateClosed then Inl invalid_transition
       else if r_MaxAppeals r \<le> d_Appeals d then Inl (Wrap (Classified ErrAppealsExhausted))
       else Inr \<lparr>d_Regime = d_Regime d, d_State = StateInvestigating, d_Appeals = d_Appeals d + 1\<rparr>
     else
       case next_state r (d_State d) event of
         None \<Rightarrow> Inl invalid_transition
       | Some to \<Rightarrow> Inr \<lparr>d_Regime = d_Regime d, d_State = to, d_Appeals = d_Appeals d\<rparr>)"

definition Allowed :: "Dispute \<Rightarrow> event list" where
  "Allowed d = filter (\<lambda>e. isOk (Apply d e)) AllEvents"

definition IsTerminal :: "Dispute \<Rightarrow> bool" where
  "IsTerminal d \<longleftrightarrow> d_State d = StateClosed"

section \<open>Runs\<close>

text \<open>\<open>Apply_all\<close> feeds a sequence of events to a dispute, refused as soon as one is.\<close>

fun Apply_all :: "Dispute \<Rightarrow> event list \<Rightarrow> Dispute result" where
  "Apply_all d [] = Inr d"
| "Apply_all d (e # es) = bindR (Apply d e) (\<lambda>d'. Apply_all d' es)"

inductive lifecycle :: "regime \<Rightarrow> event list \<Rightarrow> Dispute \<Rightarrow> bool" where
  opened: "New_Dispute regime = Inr d \<Longrightarrow> lifecycle regime [] d"
| applied: "lifecycle regime es d \<Longrightarrow> Apply d e = Inr d' \<Longrightarrow> lifecycle regime (es @ [e]) d'"

inductive_cases lifecycle_NilE: "lifecycle regime [] d"

text \<open>The states of the lifecycle under a regime's rules.\<close>

fun state_in :: "Rules \<Rightarrow> state \<Rightarrow> bool" where
  "state_in r StateProvisionalCreditIssued \<longleftrightarrow> r_Refund r = RefundProvisionalCredit"
| "state_in r StateFastRefundIssued \<longleftrightarrow> r_Refund r = RefundFast"
| "state_in r StateSEPANQARefundIssued \<longleftrightarrow> r_Refund r = RefundNoQuestionsAsked"
| "state_in r StateChargebackFiled \<longleftrightarrow> r_HasAdjudication r"
| "state_in r StateChargebackAcknowledged \<longleftrightarrow> r_HasAdjudication r"
| "state_in r StateEvidenceSubmitted \<longleftrightarrow> r_HasAdjudication r \<and> r_MerchantMayContest r"
| "state_in r StateChargebackWon \<longleftrightarrow> r_HasAdjudication r"
| "state_in r StateChargebackLost \<longleftrightarrow> r_HasAdjudication r"
| "state_in r StateFinalCreditIssued \<longleftrightarrow> r_HasAdjudication r \<and> r_Refund r = RefundProvisionalCredit"
| "state_in r StateProvisionalCreditReversed \<longleftrightarrow> r_HasAdjudication r \<and> r_Refund r = RefundProvisionalCredit"
| "state_in r (StateOther s) \<longleftrightarrow> False"
| "state_in r _ \<longleftrightarrow> True"

text \<open>A well-formed dispute: known rules, a state of that regime, appeals within the regime's limit.\<close>

definition wf_dispute :: "Dispute \<Rightarrow> bool" where
  "wf_dispute d =
     (case RulesFor (d_Regime d) of
        Inl _ \<Rightarrow> False
      | Inr r \<Rightarrow> state_in r (d_State d) \<and> 0 \<le> d_Appeals d \<and> d_Appeals d \<le> r_MaxAppeals r)"

text \<open>Progress through the lifecycle: every event but an appeal increases it.\<close>

fun rank :: "state \<Rightarrow> nat" where
  "rank StateInitiated = 0"
| "rank StateInvestigating = 1"
| "rank StateQuestionnaireSent = 2"
| "rank StateQuestionnaireReceived = 3"
| "rank StateProvisionalCreditIssued = 4"
| "rank StateFastRefundIssued = 4"
| "rank StateSEPANQARefundIssued = 4"
| "rank StateChargebackFiled = 5"
| "rank StateChargebackAcknowledged = 6"
| "rank StateEvidenceSubmitted = 7"
| "rank StateChargebackWon = 8"
| "rank StateChargebackLost = 8"
| "rank StateFinalCreditIssued = 9"
| "rank StateProvisionalCreditReversed = 9"
| "rank StateClosed = 10"
| "rank (StateOther s) = 0"

text \<open>A way to close from each state, without an appeal.\<close>

fun closing :: "Rules \<Rightarrow> state \<Rightarrow> event list" where
  "closing r StateInitiated = [EventOpenInvestigation, EventClose]"
| "closing r StateChargebackFiled =
     [EventAcknowledgeChargeback, EventWinChargeback] @
     (if HasProvisionalCredit r then [EventIssueFinalCredit] else []) @ [EventClose]"
| "closing r StateChargebackAcknowledged =
     EventWinChargeback # (if HasProvisionalCredit r then [EventIssueFinalCredit] else []) @ [EventClose]"
| "closing r StateEvidenceSubmitted =
     EventWinChargeback # (if HasProvisionalCredit r then [EventIssueFinalCredit] else []) @ [EventClose]"
| "closing r StateChargebackWon = (if HasProvisionalCredit r then [EventIssueFinalCredit] else []) @ [EventClose]"
| "closing r StateChargebackLost =
     (if HasProvisionalCredit r then [EventReverseProvisionalCredit] else []) @ [EventClose]"
| "closing r StateClosed = []"
| "closing r _ = [EventClose]"

section \<open>Lemmas\<close>

lemma Apply_InrE:
  assumes "Apply d e = Inr d'"
  obtains (appeal) r where "RulesFor (d_Regime d) = Inr r" "e = EventAppeal" "d_State d = StateClosed"
      "d_Appeals d < r_MaxAppeals r"
      "d' = \<lparr>d_Regime = d_Regime d, d_State = StateInvestigating, d_Appeals = d_Appeals d + 1\<rparr>"
  | (step) r to where "RulesFor (d_Regime d) = Inr r" "e \<noteq> EventAppeal" "next_state r (d_State d) e = Some to"
      "d' = \<lparr>d_Regime = d_Regime d, d_State = to, d_Appeals = d_Appeals d\<rparr>"
  using assms unfolding Apply_def
  by (cases "e = EventAppeal") (auto simp: bindR_eq_Inr not_le split: if_splits option.splits)

lemma Apply_regime: "Apply d e = Inr d' \<Longrightarrow> d_Regime d' = d_Regime d"
  by (erule Apply_InrE) simp_all

lemma next_state_event: "next_state r s e = Some to \<Longrightarrow> e \<in> set AllEvents"
  by (cases s; cases e) (simp_all add: AllEvents_def)

lemma AllEvents_appeal [simp]: "EventAppeal \<in> set AllEvents"
  by (simp add: AllEvents_def)

lemma Apply_event: "Apply d e = Inr d' \<Longrightarrow> e \<in> set AllEvents"
  by (erule Apply_InrE) (auto dest: next_state_event)

lemma distinct_AllEvents: "distinct AllEvents"
  by (simp add: AllEvents_def)

lemma event_of_str [enum_simps]: "event_str (event_of s) = s"
  by (simp add: event_of_def enum_of_str)

lemma event_of_event_str: "e \<in> set AllEvents \<Longrightarrow> event_of (event_str e) = e"
  unfolding event_of_def by (rule enum_of_val) (simp_all add: AllEvents_def)

lemma next_state_rank: "next_state r s e = Some to \<Longrightarrow> rank s < rank to"
  by (cases s; cases e)
     (auto simp: HasRefundStep_def refundState_def split: if_splits refund_path.splits)

lemma next_state_in:
  "next_state r s e = Some to \<Longrightarrow> state_in r s \<Longrightarrow> state_in r to"
  by (cases s; cases e)
     (auto simp: HasRefundStep_def HasProvisionalCredit_def refundState_def split: if_splits refund_path.splits)

lemma rank_le: "rank s \<le> 10"
  by (cases s) simp_all

lemma RulesFor_MaxAppeals: "RulesFor r = Inr cfg \<Longrightarrow> r_MaxAppeals cfg = 1"
  by (cases r) (auto simp: RulesFor_def defaultAppeals_def)

lemma wf_New [inv_intros]: "New_Dispute regime = Inr d \<Longrightarrow> wf_dispute d"
  by (auto simp: New_Dispute_def wf_dispute_def bindR_eq_Inr RulesFor_MaxAppeals)

lemma wf_Apply [inv_intros]: "Apply d e = Inr d' \<Longrightarrow> wf_dispute d \<Longrightarrow> wf_dispute d'"
  by (erule Apply_InrE) (auto simp: wf_dispute_def dest: next_state_in)

lemma lifecycle_wf: "lifecycle regime es d \<Longrightarrow> wf_dispute d"
  by (induction rule: lifecycle.induct) (auto intro: inv_intros)

lemma lifecycle_regime: "lifecycle regime es d \<Longrightarrow> d_Regime d = regime"
  by (induction rule: lifecycle.induct) (auto simp: New_Dispute_def bindR_eq_Inr dest: Apply_regime)

lemma lifecycle_appeals:
  "lifecycle regime es d \<Longrightarrow> d_Appeals d = int (length (filter (\<lambda>e. e = EventAppeal) es))"
  by (induction rule: lifecycle.induct) (auto simp: New_Dispute_def bindR_eq_Inr elim: Apply_InrE)

lemma Apply_all_append: "Apply_all d (es @ fs) = bindR (Apply_all d es) (\<lambda>d'. Apply_all d' fs)"
  by (induction es arbitrary: d) (auto simp: bindR_def split: sum.splits)

lemma lifecycle_Apply_all:
  "lifecycle regime es d \<longleftrightarrow> bindR (New_Dispute regime) (\<lambda>d0. Apply_all d0 es) = Inr d"
proof
  show "lifecycle regime es d \<Longrightarrow> bindR (New_Dispute regime) (\<lambda>d0. Apply_all d0 es) = Inr d"
    by (induction rule: lifecycle.induct) (auto simp: bindR_eq_Inr Apply_all_append)
next
  have run: "lifecycle regime (fs @ es) d" if "lifecycle regime fs d0" "Apply_all d0 es = Inr d" for fs d0
    using that
  proof (induction es arbitrary: fs d0)
    case (Cons e es)
    then obtain x where "Apply d0 e = Inr x" "Apply_all x es = Inr d" by (auto simp: bindR_eq_Inr)
    with Cons show ?case using Cons.IH [of "fs @ [e]" x] by (simp add: applied)
  qed simp
  show "bindR (New_Dispute regime) (\<lambda>d0. Apply_all d0 es) = Inr d \<Longrightarrow> lifecycle regime es d"
    using run [of "[]"] by (auto simp: bindR_eq_Inr intro: opened)
qed

lemma lifecycle_continue:
  "lifecycle regime es d \<Longrightarrow> Apply_all d fs = Inr d' \<Longrightarrow> lifecycle regime (es @ fs) d'"
  by (auto simp: lifecycle_Apply_all bindR_eq_Inr Apply_all_append)

text \<open>Every accepted event moves the dispute on, so a run is as long as its progress.\<close>

lemma lifecycle_length:
  "lifecycle regime es d \<Longrightarrow> length es \<le> rank (d_State d) + 10 * nat (d_Appeals d)"
proof (induction rule: lifecycle.induct)
  case (applied regime es d e d')
  have nonneg: "0 \<le> d_Appeals d" using lifecycle_appeals [OF applied.hyps(1)] by simp
  show ?case using applied.hyps(2)
  proof (cases rule: Apply_InrE)
    case (appeal r)
    with applied.IH nonneg show ?thesis by (simp add: nat_add_distrib)
  next
    case (step r to)
    with applied.IH next_state_rank [OF step(3)] show ?thesis by simp
  qed
qed simp

lemma closing_runs:
  assumes "RulesFor (d_Regime d) = Inr r" and "state_in r (d_State d)"
  shows "Apply_all d (closing r (d_State d)) =
     Inr \<lparr>d_Regime = d_Regime d, d_State = StateClosed, d_Appeals = d_Appeals d\<rparr>"
  using assms by (cases "d_State d") (auto simp: Apply_def HasProvisionalCredit_def)

section \<open>Properties\<close>

text \<open>
  \<open>Allowed\<close> is what \<open>Apply\<close> accepts, whatever string the event is, and lists no event twice. So the
  client that offers the allowed events never offers one that is refused and never hides one that is not.
\<close>

theorem allowed_exact: "set (Allowed d) = {e. isOk (Apply d e)} \<and> distinct (Allowed d)"
proof
  show "set (Allowed d) = {e. isOk (Apply d e)}"
    by (auto simp: Allowed_def isOk_iff dest: Apply_event)
  show "distinct (Allowed d)"
    by (simp add: Allowed_def distinct_AllEvents)
qed

text \<open>
  C14: a dispute that any accepted sequence of events leads to is in a state of its own regime (a
  provisional credit only where the regime has one, an adjudication state only where it adjudicates), never
  in an unknown state, keeps the regime it was opened under, and has counted each appeal of the sequence,
  never more than the regime's limit.
\<close>

theorem lifecycle_invariant:
  assumes "lifecycle regime es d"
  shows "\<exists>r. RulesFor regime = Inr r \<and> d_Regime d = regime \<and> state_in r (d_State d) \<and>
     d_Appeals d = int (length (filter (\<lambda>e. e = EventAppeal) es)) \<and> d_Appeals d \<le> r_MaxAppeals r"
  using lifecycle_wf [OF assms] lifecycle_regime [OF assms] lifecycle_appeals [OF assms]
  by (auto simp: wf_dispute_def split: sum.splits)

theorem lifecycle_invariant_witness:
  "\<exists>r. RulesFor RegimeUSRegZ = Inr r \<and> state_in r StateInvestigating \<and> 1 \<le> r_MaxAppeals r"
  using lifecycle_invariant
    [of RegimeUSRegZ "[EventOpenInvestigation, EventClose, EventAppeal]"
      "\<lparr>d_Regime = RegimeUSRegZ, d_State = StateInvestigating, d_Appeals = 1\<rparr>"]
  by (simp add: lifecycle_Apply_all New_Dispute_def RulesFor_def Apply_def defaultAppeals_def)

text \<open>
  C30: no dispute is stuck: from wherever it has come to, at most four more events, none of them an appeal,
  close it.
\<close>

theorem lifecycle_can_close:
  assumes "lifecycle regime es d"
  shows "\<exists>fs d'. length fs \<le> 4 \<and> EventAppeal \<notin> set fs \<and> lifecycle regime (es @ fs) d' \<and>
     IsTerminal d' \<and> d_Appeals d' = d_Appeals d"
proof -
  obtain r where r: "RulesFor (d_Regime d) = Inr r" "state_in r (d_State d)"
    using lifecycle_wf [OF assms] by (auto simp: wf_dispute_def split: sum.splits)
  have "length (closing r (d_State d)) \<le> 4" "EventAppeal \<notin> set (closing r (d_State d))"
    by (cases "d_State d"; simp)+
  with lifecycle_continue [OF assms closing_runs [OF r]] show ?thesis
    by (intro exI [of _ "closing r (d_State d)"] 
        exI [of _ "\<lparr>d_Regime = d_Regime d, d_State = StateClosed, d_Appeals = d_Appeals d\<rparr>"])
       (simp add: IsTerminal_def)
qed

theorem lifecycle_can_close_witness:
  "\<exists>fs d'. length fs \<le> 4 \<and> EventAppeal \<notin> set fs \<and> lifecycle RegimeUSRegE ([] @ fs) d' \<and>
     IsTerminal d' \<and> d_Appeals d' = 0"
  using lifecycle_can_close
    [of RegimeUSRegE "[]" "\<lparr>d_Regime = RegimeUSRegE, d_State = StateInitiated, d_Appeals = 0\<rparr>"]
  by (simp add: lifecycle_Apply_all New_Dispute_def RulesFor_def)

text \<open>
  C31: the lifecycle ends: no dispute of any regime accepts more than twenty events, appeal included.
\<close>

theorem lifecycle_bounded: "lifecycle regime es d \<Longrightarrow> length es \<le> 20"
proof -
  assume run: "lifecycle regime es d"
  obtain r where "RulesFor (d_Regime d) = Inr r" "d_Appeals d \<le> r_MaxAppeals r"
    using lifecycle_wf [OF run] by (auto simp: wf_dispute_def split: sum.splits)
  then have "nat (d_Appeals d) \<le> 1" by (simp add: RulesFor_MaxAppeals)
  with lifecycle_length [OF run] rank_le [of "d_State d"] show ?thesis by simp
qed

theorem lifecycle_bounded_witness:
  "length [EventOpenInvestigation, EventSendQuestionnaire, EventReceiveQuestionnaire, EventIssueRefund,
     EventFileChargeback, EventAcknowledgeChargeback, EventSubmitEvidence, EventWinChargeback,
     EventIssueFinalCredit, EventClose, EventAppeal, EventSendQuestionnaire, EventReceiveQuestionnaire,
     EventIssueRefund, EventFileChargeback, EventAcknowledgeChargeback, EventSubmitEvidence,
     EventLoseChargeback, EventReverseProvisionalCredit, EventClose] \<le> 20"
  by (rule lifecycle_bounded
        [of RegimeUSRegE _ "\<lparr>d_Regime = RegimeUSRegE, d_State = StateClosed, d_Appeals = 1\<rparr>"])
     (simp add: lifecycle_Apply_all New_Dispute_def RulesFor_def Apply_def defaultAppeals_def
        HasRefundStep_def HasProvisionalCredit_def refundState_def)

text \<open>
  Why \<open>Apply\<close> refuses: an unknown regime is reported as such; an appeal beyond the limit of a closed
  dispute as exhausted appeals; everything else as an invalid transition. The three are distinguishable
  by \<open>errors.Is\<close> and only the last two are conflicts.
\<close>

theorem apply_refusal:
  assumes "Apply d e = Inl err"
  shows "(case RulesFor (d_Regime d) of
            Inl _ \<Rightarrow> errors_Is err ErrUnknownRegime \<and> KindOf err = Invalid
          | Inr r \<Rightarrow> KindOf err = Conflict \<and>
              (if e = EventAppeal \<and> d_State d = StateClosed
               then errors_Is err ErrAppealsExhausted \<and> r_MaxAppeals r \<le> d_Appeals d
               else errors_Is err ErrInvalidTransition))"
proof (cases "RulesFor (d_Regime d)")
  case (Inl x)
  then have "x = Wrap (Classified ErrUnknownRegime)" by (auto simp: RulesFor_def split: option.splits)
  with assms Inl have "err = Wrap (Classified ErrUnknownRegime)" by (simp add: Apply_def)
  with Inl show ?thesis by (simp add: ErrUnknownRegime_def)
next
  case (Inr r)
  with assms show ?thesis
    by (auto simp: Apply_def invalid_transition_def ErrInvalidTransition_def ErrAppealsExhausted_def
        split: if_splits option.splits)
qed

theorem apply_refusal_witness:
  "errors_Is (Wrap (Classified ErrAppealsExhausted)) ErrAppealsExhausted \<and> (1 :: int) \<le> 1"
  using apply_refusal
    [of "\<lparr>d_Regime = RegimeUSRegE, d_State = StateClosed, d_Appeals = 1\<rparr>" EventAppeal
      "Wrap (Classified ErrAppealsExhausted)"]
  by (simp add: Apply_def RulesFor_def defaultAppeals_def)

end
