(* ===== verification/Go_Time.thy ===== *)
theory Go_Time
  imports Dispute_Prelude
begin

text \<open>
  What the sources use of Go's \<open>time\<close> package.

  A \<open>time\<close> is an instant, in nanoseconds since the Unix epoch; the location that a \<open>time.Time\<close> carries is an
  argument of the operations that read it. A \<open>location\<close> is the package's lookup: for an instant in
  seconds, the offset in force there and the bounds of the span it is in force (\<open>None\<close> for the ends of
  time). \<open>Date\<close> resolves a local time by the package's two lookups, so in a zone that skips the
  local time asked for it gives what the package gives. Dates are the proleptic Gregorian calendar, by
  the package's division into cycles of 400, 100, 4 and 1 years.
\<close>

section \<open>Calendar dates\<close>

type_synonym time = int

definition is_leap :: "int \<Rightarrow> bool" where
  "is_leap y \<longleftrightarrow> y mod 4 = 0 \<and> (y mod 100 \<noteq> 0 \<or> y mod 400 = 0)"

definition daysBefore :: "int \<Rightarrow> int" where
  "daysBefore m = [0, 31, 59, 90, 120, 151, 181, 212, 243, 273, 304, 334, 365] ! nat m"

text \<open>Days from 1 January of year 1 to 1 January of year \<open>y\<close>.\<close>

definition year_days :: "int \<Rightarrow> int" where
  "year_days y =
     (let n = y - 1; c400 = n div 400; r400 = n - 400 * c400; c100 = r400 div 100; r100 = r400 - 100 * c100;
          c4 = r100 div 4; r4 = r100 - 4 * c4
      in 146097 * c400 + 36524 * c100 + 1461 * c4 + 365 * r4)"

text \<open>The epoch is day 719162 of that count; a day number counts from the epoch.\<close>

definition day_of_civil :: "int \<Rightarrow> int \<Rightarrow> int \<Rightarrow> int" where
  "day_of_civil y m d =
     (let m0 = m - 1; y' = y + m0 div 12; m' = m0 mod 12
      in year_days y' + daysBefore m' + (if is_leap y' \<and> 2 \<le> m' then 1 else 0) + d - 1 - 719162)"

definition year_of_day :: "int \<Rightarrow> int \<times> int" where
  "year_of_day D =
     (let a = D + 719162; c400 = a div 146097; d1 = a - 146097 * c400;
          c100 = d1 div 36524 - d1 div 36524 div 4; d2 = d1 - 36524 * c100;
          c4 = d2 div 1461; d3 = d2 - 1461 * c4;
          c1 = d3 div 365 - d3 div 365 div 4; d4 = d3 - 365 * c1
      in (400 * c400 + 100 * c100 + 4 * c4 + c1 + 1, d4))"

definition month_of_yday :: "bool \<Rightarrow> int \<Rightarrow> int \<times> int" where
  "month_of_yday leap yday =
     (if leap \<and> yday = 59 then (2, 29)
      else let day = (if leap \<and> 59 < yday then yday - 1 else yday); m = day div 31
           in if daysBefore (m + 1) \<le> day then (m + 2, day - daysBefore (m + 1) + 1)
              else (m + 1, day - daysBefore m + 1))"

definition civil_of_day :: "int \<Rightarrow> int \<times> int \<times> int" where
  "civil_of_day D = (let (y, yday) = year_of_day D; (m, d) = month_of_yday (is_leap y) yday in (y, m, d))"

text \<open>\<open>Weekday\<close>: Sunday is 0; the epoch was a Thursday.\<close>

definition weekday :: "int \<Rightarrow> int" where
  "weekday D = (D + 4) mod 7"

section \<open>Locations and times\<close>

type_synonym location = "int \<Rightarrow> int \<times> int option \<times> int option"

definition UTC :: location where
  "UTC s = (0, None, None)"

definition fixed_zone :: "int \<Rightarrow> location" where
  "fixed_zone off s = (off, None, None)"

definition offset_at :: "location \<Rightarrow> int \<Rightarrow> int" where
  "offset_at loc s = fst (loc s)"

definition in_span :: "int option \<Rightarrow> int option \<Rightarrow> int \<Rightarrow> bool" where
  "in_span lo hi s \<longleftrightarrow> (case lo of None \<Rightarrow> True | Some a \<Rightarrow> a \<le> s) \<and> (case hi of None \<Rightarrow> True | Some b \<Rightarrow> s < b)"

text \<open>\<open>time.Date\<close>: from local seconds to the instant in seconds.\<close>

definition resolve_local :: "location \<Rightarrow> int \<Rightarrow> int" where
  "resolve_local loc unix =
     (let (off, lo, hi) = loc unix in
      if off = 0 then unix
      else let utc = unix - off
           in if in_span lo hi utc then utc else unix - offset_at loc utc)"

abbreviation second :: int where "second \<equiv> 1000000000"
abbreviation day_seconds :: int where "day_seconds \<equiv> 86400"

definition local_seconds :: "location \<Rightarrow> time \<Rightarrow> int" where
  "local_seconds loc t = t div second + offset_at loc (t div second)"

definition local_day :: "location \<Rightarrow> time \<Rightarrow> int" where
  "local_day loc t = local_seconds loc t div day_seconds"

definition Date :: "int \<Rightarrow> int \<Rightarrow> int \<Rightarrow> int \<Rightarrow> int \<Rightarrow> location \<Rightarrow> time" where
  "Date y m d sec nsec loc = resolve_local loc (day_of_civil y m d * day_seconds + sec) * second + nsec"

text \<open>\<open>Time.AddDate(0, 0, days)\<close>: the same clock reading on the civil date that many days on.\<close>

definition AddDays :: "location \<Rightarrow> int \<Rightarrow> time \<Rightarrow> time" where
  "AddDays loc days t =
     (let (y, m, d) = civil_of_day (local_day loc t)
      in Date y m (d + days) (local_seconds loc t mod day_seconds) (t mod second) loc)"

definition Weekday :: "location \<Rightarrow> time \<Rightarrow> int" where
  "Weekday loc t = weekday (local_day loc t)"

text \<open>The layouts \<open>2006-01-02\<close> and \<open>2 January 2006\<close>.\<close>

definition year_str :: "int \<Rightarrow> string" where
  "year_str y = (if y < 0 then ''-'' @ pad_nat 4 (nat (- y)) else pad_nat 4 (nat y))"

definition civil_iso :: "int \<times> int \<times> int \<Rightarrow> string" where
  "civil_iso c = (case c of (y, m, d) \<Rightarrow> year_str y @ ''-'' @ pad_nat 2 (nat m) @ ''-'' @ pad_nat 2 (nat d))"

definition Format_iso :: "location \<Rightarrow> time \<Rightarrow> string" where
  "Format_iso loc t = civil_iso (civil_of_day (local_day loc t))"

definition month_names :: "string list" where
  "month_names = [''January'', ''February'', ''March'', ''April'', ''May'', ''June'', ''July'', ''August'',
     ''September'', ''October'', ''November'', ''December'']"

definition Format_long :: "location \<Rightarrow> time \<Rightarrow> string" where
  "Format_long loc t = (case civil_of_day (local_day loc t) of
     (y, m, d) \<Rightarrow> show_nat (nat d) @ '' '' @ month_names ! nat (m - 1) @ '' '' @ year_str y)"

definition days_in :: "int \<Rightarrow> int \<Rightarrow> int" where
  "days_in y m = (if m = 2 \<and> is_leap y then 29 else daysBefore m - daysBefore (m - 1))"

text \<open>\<open>time.ParseInLocation\<close> with the layout \<open>2006-01-02\<close>: the civil date, or an error.\<close>

definition parse_iso :: "string \<Rightarrow> (int \<times> int \<times> int) option" where
  "parse_iso s =
     (if length s = 10 \<and> s ! 4 = CHR ''-'' \<and> s ! 7 = CHR ''-'' \<and>
         (\<forall>i \<in> set [0, 1, 2, 3, 5, 6, 8, 9]. is_digit (s ! i)) then
        let y = int (digits_val (take 4 s)); m = int (digits_val (take 2 (drop 5 s)));
            d = int (digits_val (drop 8 s))
        in if 1 \<le> m \<and> m \<le> 12 \<and> 1 \<le> d \<and> d \<le> days_in y m then Some (y, m, d) else None
      else None)"

section \<open>Lemmas on dates\<close>

lemma daysBefore_simps [simp]:
  "daysBefore 0 = 0" "daysBefore 1 = 31" "daysBefore 2 = 59" "daysBefore 3 = 90" "daysBefore 4 = 120"
  "daysBefore 5 = 151" "daysBefore 6 = 181" "daysBefore 7 = 212" "daysBefore 8 = 243" "daysBefore 9 = 273"
  "daysBefore 10 = 304" "daysBefore 11 = 334" "daysBefore 12 = 365"
  by (simp_all add: daysBefore_def)

text \<open>The quotient by a cycle with a last day of its own: four cycles of \<open>k\<close> days and one day more.\<close>

lemma cut_quotient:
  fixes d k :: int
  assumes "0 < k" and "0 \<le> d" and "d \<le> 4 * k" and q: "q = d div k - d div k div 4"
  shows "0 \<le> q \<and> q \<le> 3 \<and> 0 \<le> d - k * q \<and> (d - k * q \<le> k - 1 \<or> (q = 3 \<and> d = 4 * k))"
proof -
  define n where "n = d div k"
  obtain m where split: "d = k * n + m" "0 \<le> m" "m < k"
    using that [of "d mod k"] assms(1) by (simp add: n_def)
  have "0 \<le> n" using assms by (simp add: n_def pos_imp_zdiv_nonneg_iff)
  moreover have "n \<le> 4"
    using zdiv_mono1 [OF assms(3), of k] assms(1) by (simp add: n_def)
  ultimately consider "n = 0" | "n = 1" | "n = 2" | "n = 3" | "n = 4" by linarith
  then show ?thesis
    using split assms(1,3) q [folded n_def] by cases auto
qed

lemma year_of_day_parts:
  assumes "year_of_day D = (y, yday)"
  obtains c400 c100 c4 c1 where
    "y = 400 * c400 + 100 * c100 + 4 * c4 + c1 + 1"
    "D + 719162 = 146097 * c400 + 36524 * c100 + 1461 * c4 + 365 * c1 + yday"
    "0 \<le> c100" "c100 \<le> 3" "0 \<le> c4" "c4 \<le> 24" "0 \<le> c1" "c1 \<le> 3" "0 \<le> yday"
    "yday \<le> 364 \<or> (yday = 365 \<and> c1 = 3 \<and> (c4 < 24 \<or> c100 = 3))"
proof -
  define a where "a = D + 719162"
  define c400 where "c400 = a div 146097"
  define d1 where "d1 = a - 146097 * c400"
  define c100 where "c100 = d1 div 36524 - d1 div 36524 div 4"
  define d2 where "d2 = d1 - 36524 * c100"
  define c4 where "c4 = d2 div 1461"
  define d3 where "d3 = d2 - 1461 * c4"
  define c1 where "c1 = d3 div 365 - d3 div 365 div 4"
  have d1: "0 \<le> d1" "d1 \<le> 146096" unfolding d1_def c400_def by linarith+
  have c100: "0 \<le> c100" "c100 \<le> 3" "0 \<le> d2" "d2 \<le> 36524" "d2 \<le> 36523 \<or> c100 = 3"
    using cut_quotient [OF _ d1(1) _ c100_def] d1 unfolding d2_def by auto
  have c4: "0 \<le> c4" "c4 \<le> 24" "0 \<le> d3" "d3 \<le> 1460" "d3 \<le> 1459 \<or> c4 < 24 \<or> c100 = 3"
    using c100 unfolding d3_def c4_def by linarith+
  have c1: "0 \<le> c1" "c1 \<le> 3" "0 \<le> d3 - 365 * c1" "d3 - 365 * c1 \<le> 364 \<or> (d3 - 365 * c1 = 365 \<and> c1 = 3 \<and> d3 = 1460)"
    using cut_quotient [OF _ c4(3) _ c1_def] c4 by auto
  have eq: "y = 400 * c400 + 100 * c100 + 4 * c4 + c1 + 1" "yday = d3 - 365 * c1"
    using assms unfolding year_of_day_def Let_def
      a_def [symmetric] c400_def [symmetric] d1_def [symmetric] c100_def [symmetric] d2_def [symmetric]
      c4_def [symmetric] d3_def [symmetric] c1_def [symmetric] by auto
  show thesis
    by (rule that [of c400 c100 c4 c1]) (use eq c100 c4 c1 in \<open>auto simp: a_def d1_def d2_def d3_def\<close>)
qed

lemma year_days_parts:
  assumes "0 \<le> c100" "c100 \<le> 3" "0 \<le> c4" "c4 \<le> 24" "0 \<le> c1" "c1 \<le> (3 :: int)"
  shows "year_days (400 * c400 + 100 * c100 + 4 * c4 + c1 + 1) = 146097 * c400 + 36524 * c100 + 1461 * c4 + 365 * c1"
proof -
  have "(400 * c400 + 100 * c100 + 4 * c4 + c1) div 400 = c400" using assms by linarith
  moreover have "(100 * c100 + 4 * c4 + c1) div 100 = c100" using assms by linarith
  moreover have "(4 * c4 + c1) div 4 = c4" using assms by linarith
  ultimately show ?thesis by (simp add: year_days_def Let_def)
qed

lemma is_leap_parts:
  assumes "c1 = 3" "c4 < 24 \<or> c100 = 3" "0 \<le> c4" "c4 \<le> 24" "0 \<le> c100" "c100 \<le> (3 :: int)"
  shows "is_leap (400 * c400 + 100 * c100 + 4 * c4 + c1 + 1)"
proof -
  show ?thesis
  proof (cases "c4 < 24")
    case True
    define k where "k = 4 * c400 + c100"
    have y: "400 * c400 + 100 * c100 + 4 * c4 + c1 + 1 = (4 * c4 + 4) + 100 * k" using assms(1) by (simp add: k_def)
    have "((4 * c4 + 4) + 100 * k) mod 100 = 4 * c4 + 4"
      using True assms(3) by (subst mod_mult_self2) simp
    moreover have "((4 * c4 + 4) + 100 * k) mod 4 = 0"
      using mod_mult_self1_is_0 [of 4 "c4 + 1 + 25 * k"] by (simp add: algebra_simps)
    ultimately show ?thesis using assms(3) unfolding y is_leap_def by simp
  next
    case False
    with assms have "400 * c400 + 100 * c100 + 4 * c4 + c1 + 1 = 400 * (c400 + 1)" by simp
    moreover have "400 * k mod 4 = 0" "400 * k mod 400 = 0" for k :: int
      using mod_mult_self1_is_0 [of 4 "100 * k"] mod_mult_self1_is_0 [of 400 k] by simp_all
    ultimately show ?thesis by (simp only: is_leap_def) simp
  qed
qed

lemma month_of_yday_props:
  assumes "0 \<le> yday" "yday \<le> (if leap then 365 else 364)" "month_of_yday leap yday = (m, d)"
  shows "1 \<le> m \<and> m \<le> 12 \<and> 1 \<le> d \<and> d \<le> 31 \<and>
     daysBefore (m - 1) + (if leap \<and> 3 \<le> m then 1 else 0) + d - 1 = yday"
proof (cases "leap \<and> yday = 59")
  case True
  with assms show ?thesis by (simp add: month_of_yday_def)
next
  case False
  define day where "day = (if leap \<and> 59 < yday then yday - 1 else yday)"
  define q where "q = day div 31"
  have day: "0 \<le> day" "day \<le> 364" using assms False by (auto simp: day_def split: if_splits)
  have md: "(if daysBefore (q + 1) \<le> day then (q + 2, day - daysBefore (q + 1) + 1)
      else (q + 1, day - daysBefore q + 1)) = (m, d)"
    using assms(3) False
    by (simp only: month_of_yday_def Let_def day_def [symmetric] q_def [symmetric] if_False)
  have q: "31 * q \<le> day" "day < 31 * q + 31" unfolding q_def by linarith+
  then consider "q = 0" | "q = 1" | "q = 2" | "q = 3" | "q = 4" | "q = 5" | "q = 6" | "q = 7" | "q = 8"
    | "q = 9" | "q = 10" | "q = 11" using day by atomize_elim presburger
  then have "1 \<le> m \<and> m \<le> 12 \<and> 1 \<le> d \<and> d \<le> 31 \<and> daysBefore (m - 1) + d - 1 = day \<and> (3 \<le> m \<longleftrightarrow> 59 \<le> day)"
    using md q day by cases (auto split: if_splits)
  then show ?thesis using False by (auto simp: day_def split: if_splits)
qed

lemma day_of_civil_of_day: "civil_of_day D = (y, m, d) \<Longrightarrow> day_of_civil y m d = D"
proof -
  assume civil: "civil_of_day D = (y, m, d)"
  obtain yday where yd: "year_of_day D = (y, yday)" and md: "month_of_yday (is_leap y) yday = (m, d)"
    using civil by (auto simp: civil_of_day_def split: prod.splits)
  from yd obtain c400 c100 c4 c1 where p:
    "y = 400 * c400 + 100 * c100 + 4 * c4 + c1 + 1"
    "D + 719162 = 146097 * c400 + 36524 * c100 + 1461 * c4 + 365 * c1 + yday"
    "0 \<le> c100" "c100 \<le> 3" "0 \<le> c4" "c4 \<le> 24" "0 \<le> c1" "c1 \<le> 3" "0 \<le> yday"
    "yday \<le> 364 \<or> (yday = 365 \<and> c1 = 3 \<and> (c4 < 24 \<or> c100 = 3))"
    by (rule year_of_day_parts)
  have "yday \<le> (if is_leap y then 365 else 364)"
    using p is_leap_parts [of c1 c4 c100 c400] by auto
  from month_of_yday_props [OF p(9) this md] have m: "1 \<le> m" "m \<le> 12"
    and day: "daysBefore (m - 1) + (if is_leap y \<and> 3 \<le> m then 1 else 0) + d - 1 = yday" by auto
  have "year_days y = D + 719162 - yday"
    using year_days_parts [OF p(3-8), of c400] p(1,2) by simp
  moreover have "(m - 1) div 12 = 0" "(m - 1) mod 12 = m - 1" using m by simp_all
  ultimately show "day_of_civil y m d = D"
    using m day by (auto simp: day_of_civil_def Let_def split: if_splits)
qed

lemma civil_of_day_range:
  assumes "civil_of_day D = (y, m, d)"
  shows "1 \<le> m" "m \<le> 12" "1 \<le> d" "d \<le> 31"
proof -
  obtain yday where yd: "year_of_day D = (y, yday)" and md: "month_of_yday (is_leap y) yday = (m, d)"
    using assms by (auto simp: civil_of_day_def split: prod.splits)
  from yd obtain c400 c100 c4 c1 where p:
    "y = 400 * c400 + 100 * c100 + 4 * c4 + c1 + 1" "0 \<le> c4" "c4 \<le> 24" "0 \<le> c100" "c100 \<le> 3" "0 \<le> yday"
    "yday \<le> 364 \<or> (yday = 365 \<and> c1 = 3 \<and> (c4 < 24 \<or> c100 = 3))"
    by (rule year_of_day_parts)
  have "yday \<le> (if is_leap y then 365 else 364)"
    using p is_leap_parts [of c1 c4 c100 c400] by auto
  from month_of_yday_props [OF p(6) this md] show "1 \<le> m" "m \<le> 12" "1 \<le> d" "d \<le> 31" by auto
qed

lemma day_of_civil_add: "day_of_civil y m (d + n) = day_of_civil y m d + n"
  by (simp add: day_of_civil_def Let_def)

lemma civil_of_day_inj: "civil_of_day D = civil_of_day E \<Longrightarrow> D = E"
  by (metis day_of_civil_of_day prod_cases3)

lemma year_nonneg: "0 \<le> D \<Longrightarrow> civil_of_day D = (y, m, d) \<Longrightarrow> 0 \<le> y"
proof -
  assume D: "0 \<le> D" and "civil_of_day D = (y, m, d)"
  then obtain yday where yd: "year_of_day D = (y, yday)"
    by (auto simp: civil_of_day_def split: prod.splits)
  then obtain c400 c100 c4 c1 where
    "y = 400 * c400 + 100 * c100 + 4 * c4 + c1 + 1"
    "D + 719162 = 146097 * c400 + 36524 * c100 + 1461 * c4 + 365 * c1 + yday"
    "0 \<le> c100" "c100 \<le> 3" "0 \<le> c4" "c4 \<le> 24" "0 \<le> c1" "c1 \<le> 3" "0 \<le> yday"
    "yday \<le> 364 \<or> (yday = 365 \<and> c1 = 3 \<and> (c4 < 24 \<or> c100 = 3))"
    by (rule year_of_day_parts)
  with D show "0 \<le> y" by linarith
qed

lemma length_pad2: "0 \<le> n \<Longrightarrow> n \<le> 31 \<Longrightarrow> length (pad_nat 2 (nat n)) = 2"
  by (rule length_pad_nat_le) auto

text \<open>Two days from the epoch on have the same \<open>2006-01-02\<close> text only if they are the same day.\<close>

lemma civil_iso_inj:
  assumes "0 \<le> D" "0 \<le> E" "civil_iso (civil_of_day D) = civil_iso (civil_of_day E)"
  shows "D = E"
proof -
  obtain y m d y' m' d' where c: "civil_of_day D = (y, m, d)" "civil_of_day E = (y', m', d')"
    by (metis prod_cases3)
  note r = civil_of_day_range [OF c(1)] civil_of_day_range [OF c(2)]
  have "length (pad_nat 2 (nat m)) = 2" "length (pad_nat 2 (nat m')) = 2"
    "length (pad_nat 2 (nat d)) = 2" "length (pad_nat 2 (nat d')) = 2"
    using r by (simp_all add: length_pad2)
  moreover have "0 \<le> y" "0 \<le> y'" using assms c year_nonneg by blast+
  ultimately have "pad_nat 4 (nat y) = pad_nat 4 (nat y')" "pad_nat 2 (nat m) = pad_nat 2 (nat m')"
    "pad_nat 2 (nat d) = pad_nat 2 (nat d')"
    using assms(3) c by (auto simp: civil_iso_def year_str_def)
  with \<open>0 \<le> y\<close> \<open>0 \<le> y'\<close> r have "(y, m, d) = (y', m', d')" by (auto simp: nat_eq_iff)
  with c civil_of_day_inj show ?thesis by metis
qed

section \<open>Lemmas on locations\<close>

text \<open>
  \<open>midnight loc D\<close> is what \<open>time.Date\<close> gives for the start of day \<open>D\<close>. A zone keeps its midnights when
  that is always the first instant reading 00:00:00 on that day; a zone whose clocks jump over midnight
  does not.
\<close>

definition midnight :: "location \<Rightarrow> int \<Rightarrow> time" where
  "midnight loc D = resolve_local loc (D * day_seconds) * second"

definition keeps_midnights :: "location \<Rightarrow> bool" where
  "keeps_midnights loc \<longleftrightarrow> (\<forall>D. local_seconds loc (midnight loc D) = D * day_seconds)"

lemma Date_civil: "civil_of_day D = (y, m, d) \<Longrightarrow>
    Date y m (d + n) sec nsec loc = resolve_local loc ((D + n) * day_seconds + sec) * second + nsec"
  by (simp add: Date_def day_of_civil_add day_of_civil_of_day)

lemma AddDays_midnight:
  assumes "keeps_midnights loc"
  shows "AddDays loc n (midnight loc D) = midnight loc (D + n)"
proof -
  have sec: "local_seconds loc (midnight loc D) = D * day_seconds"
    using assms by (simp add: keeps_midnights_def)
  moreover have "midnight loc D mod second = 0" by (simp add: midnight_def)
  moreover obtain y m d where "civil_of_day D = (y, m, d)" by (metis prod_cases3)
  ultimately show ?thesis
    by (simp add: AddDays_def local_day_def Date_civil midnight_def)
qed

lemma local_day_midnight: "keeps_midnights loc \<Longrightarrow> local_day loc (midnight loc D) = D"
  by (simp add: keeps_midnights_def local_day_def)

lemma fixed_zone_keeps_midnights: "keeps_midnights (fixed_zone off)"
  by (simp add: keeps_midnights_def midnight_def local_seconds_def resolve_local_def fixed_zone_def
      offset_at_def in_span_def)

lemma UTC_fixed: "UTC = fixed_zone 0"
  by (simp add: UTC_def fixed_zone_def fun_eq_iff)

lemma UTC_keeps_midnights: "keeps_midnights UTC"
  by (simp add: UTC_fixed fixed_zone_keeps_midnights)

end
