(* ===== verification/Questionnaire.thy ===== *)
theory Questionnaire
  imports Go_Time Errs Money "HOL-Library.Multiset"
begin

text \<open>
  \<^verbatim>\<open>backend/internal/dispute/domain/questionnaire.go\<close>, with the question sets of
  \<^verbatim>\<open>questionnaires/*.json\<close>.

  A Go map that is iterated is an association list with distinct keys, in the order the iteration happens to
  take; the theorems hold for every order. \<open>sort.Slice\<close> by field name is \<open>sort_key\<close>, under the byte order
  of strings.
\<close>

section \<open>Definitions\<close>

datatype reason = ReasonUnauthorised | ReasonNotReceived | ReasonDuplicate | ReasonAmountDiffers
  | ReasonOther string

fun reason_str :: "reason \<Rightarrow> string" where
  "reason_str ReasonUnauthorised = ''UNAUTHORISED''"
| "reason_str ReasonNotReceived = ''NOT_RECEIVED''"
| "reason_str ReasonDuplicate = ''DUPLICATE''"
| "reason_str ReasonAmountDiffers = ''AMOUNT_DIFFERS''"
| "reason_str (ReasonOther s) = s"

definition AllReasons :: "reason list" where
  "AllReasons = [ReasonUnauthorised, ReasonNotReceived, ReasonDuplicate, ReasonAmountDiffers]"

definition reason_of :: "string \<Rightarrow> reason" where
  "reason_of = enum_of reason_str AllReasons ReasonOther"

datatype answer_type = AnswerYesNo | AnswerDate | AnswerText | AnswerAmount | AnswerOther string

record Question =
  q_ID :: string
  q_Text :: string
  q_Type :: answer_type
  q_Required :: bool

type_synonym answers = "(string \<times> string) list"

definition ErrUnknownReason :: Error where
  "ErrUnknownReason = New Invalid ''unknown-reason'' ''unknown dispute reason''"

definition ErrInvalidAnswers :: Error where
  "ErrInvalidAnswers = New Unprocessable ''invalid-answers''
     ''the questionnaire answers are incomplete or malformed''"

record questionnaireFile =
  qf_Reason :: reason
  qf_Questions :: "Question list"

text \<open>The error texts of a load reach the log of a build that does not start.\<close>

fun checkQuestions :: "string list \<Rightarrow> bool \<Rightarrow> Question list \<Rightarrow> unit result" where
  "checkQuestions seen required [] =
     (if \<not> required then Inl (Opaque ''no required question'') else Inr ())"
| "checkQuestions seen required (q # qs) =
     (if q_ID q = [] \<or> q_Text q = [] then Inl (Opaque ''question needs an id and text'')
      else if q_ID q \<in> set seen then Inl (Opaque ''question id repeated'')
      else if \<not> q_Type q \<in> set [AnswerYesNo, AnswerDate, AnswerText, AnswerAmount] then Inl (Opaque ''unknown type'')
      else checkQuestions (q_ID q # seen) (required \<or> q_Required q) qs)"

definition checkQuestionSet :: "questionnaireFile \<Rightarrow> unit result" where
  "checkQuestionSet f =
     (if \<not> qf_Reason f \<in> set AllReasons then Inl (Opaque ''unknown reason'')
      else checkQuestions [] False (qf_Questions f))"

type_synonym question_sets = "(reason \<times> Question list) list"

text \<open>The files in the order of \<open>fs.Glob\<close>, each as \<open>json.Unmarshal\<close> gives it.\<close>

fun load_files :: "question_sets \<Rightarrow> questionnaireFile result list \<Rightarrow> question_sets result" where
  "load_files sets [] = Inr sets"
| "load_files sets (file # files) =
     bindR file (\<lambda>f. bindR (checkQuestionSet f) (\<lambda>_.
       if map_of sets (qf_Reason f) \<noteq> None then Inl (Opaque ''reason defined twice'')
       else load_files ((qf_Reason f, qf_Questions f) # sets) files))"

definition LoadQuestionSets :: "questionnaireFile result list \<Rightarrow> question_sets result" where
  "LoadQuestionSets files = bindR (load_files [] files) (\<lambda>sets.
     case find (\<lambda>r. map_of sets r = None) AllReasons of
       Some r \<Rightarrow> Inl (Opaque ''questionnaire missing'')
     | None \<Rightarrow> Inr sets)"

definition question :: "string \<Rightarrow> string \<Rightarrow> answer_type \<Rightarrow> bool \<Rightarrow> Question" where
  "question i t ty req = \<lparr>q_ID = i, q_Text = t, q_Type = ty, q_Required = req\<rparr>"

text \<open>The embedded files.\<close>

definition file_AMOUNT_DIFFERS :: questionnaireFile where
  "file_AMOUNT_DIFFERS = \<lparr>qf_Reason = ReasonAmountDiffers, qf_Questions =
     [question ''amount_agreed'' ''What amount did you agree to?'' AnswerAmount True,
      question ''receipt_available'' ''Do you have a receipt showing that amount?'' AnswerYesNo True,
      question ''details'' ''Describe the difference.'' AnswerText True]\<rparr>"

definition file_DUPLICATE :: questionnaireFile where
  "file_DUPLICATE = \<lparr>qf_Reason = ReasonDuplicate, qf_Questions =
     [question ''original_on'' ''When was the transaction you did authorise?'' AnswerDate True,
      question ''same_merchant'' ''Was it with the same merchant?'' AnswerYesNo True,
      question ''details'' ''Anything else we should know?'' AnswerText False]\<rparr>"

definition file_NOT_RECEIVED :: questionnaireFile where
  "file_NOT_RECEIVED = \<lparr>qf_Reason = ReasonNotReceived, qf_Questions =
     [question ''expected_on'' ''When were the goods or services due?'' AnswerDate True,
      question ''contacted_merchant'' ''Have you contacted the merchant?'' AnswerYesNo True,
      question ''merchant_response'' ''What did the merchant say?'' AnswerText False,
      question ''partial_delivery'' ''Did you receive part of the order?'' AnswerYesNo True]\<rparr>"

definition file_UNAUTHORISED :: questionnaireFile where
  "file_UNAUTHORISED = \<lparr>qf_Reason = ReasonUnauthorised, qf_Questions =
     [question ''recognise_merchant'' ''Do you recognise the merchant?'' AnswerYesNo True,
      question ''card_in_possession''
        ''Do you still have the card, rather than having lost it or had it stolen?'' AnswerYesNo True,
      question ''shared_credentials'' ''Has anyone else had access to your card or its details?'' AnswerYesNo True,
      question ''prior_disputes_merchant'' ''Have you disputed a transaction with this merchant before?''
        AnswerYesNo True,
      question ''noticed_on'' ''When did you notice the transaction?'' AnswerDate True,
      question ''police_report'' ''Have you reported the card lost or stolen, or filed a police report?''
        AnswerYesNo True,
      question ''details'' ''Anything else we should know?'' AnswerText False]\<rparr>"

definition questionnaireFiles :: "questionnaireFile result list" where
  "questionnaireFiles = map Inr [file_AMOUNT_DIFFERS, file_DUPLICATE, file_NOT_RECEIVED, file_UNAUTHORISED]"

text \<open>\<open>mustLoadQuestionSets\<close>: the program does not start when the load fails.\<close>

definition questionSets :: question_sets where
  "questionSets = (case LoadQuestionSets questionnaireFiles of Inr sets \<Rightarrow> sets | Inl _ \<Rightarrow> [])"

fun ReasonMeaning :: "reason \<Rightarrow> string" where
  "ReasonMeaning ReasonUnauthorised = ''the customer says they did not make or authorise the payment at all''"
| "ReasonMeaning ReasonNotReceived =
     ''the customer paid but the goods or services never arrived, or arrived only in part''"
| "ReasonMeaning ReasonDuplicate = ''the same purchase was charged more than once''"
| "ReasonMeaning ReasonAmountDiffers =
     ''the customer made the purchase but was charged a different amount than agreed''"
| "ReasonMeaning (ReasonOther s) = []"

definition ParseReason :: "string \<Rightarrow> reason result" where
  "ParseReason raw =
     (if raw = [] then Inr ReasonUnauthorised
      else if map_of questionSets (reason_of raw) = None then Inl (Wrap (Classified ErrUnknownReason))
      else Inr (reason_of raw))"

definition QuestionSet :: "reason \<Rightarrow> Question list" where
  "QuestionSet r = (case map_of questionSets r of None \<Rightarrow> [] | Some qs \<Rightarrow> qs)"

fun missingAnswer :: "answer_type \<Rightarrow> string" where
  "missingAnswer AnswerYesNo = ''Please choose yes or no''"
| "missingAnswer AnswerDate = ''Please select a date''"
| "missingAnswer AnswerAmount = ''Please enter an amount''"
| "missingAnswer _ = ''Please enter an answer''"

fun checkAnswer :: "new_from_string \<Rightarrow> answer_type \<Rightarrow> string \<Rightarrow> string" where
  "checkAnswer NewFromString AnswerYesNo v =
     (if v \<noteq> ''yes'' \<and> v \<noteq> ''no'' then ''Please choose yes or no'' else [])"
| "checkAnswer NewFromString AnswerDate v =
     (if parse_iso v = None then ''Please enter a date as YYYY-MM-DD'' else [])"
| "checkAnswer NewFromString AnswerAmount v =
     (case NewFromString v of
        None \<Rightarrow> ''Please enter an amount of zero or more, such as 12.50''
      | Some d \<Rightarrow> if d < 0 then ''Please enter an amount of zero or more, such as 12.50'' else [])"
| "checkAnswer NewFromString AnswerText v =
     (if 2000 < length v
      then ''Please keep the answer under 2000 characters ('' @ show_nat (length v) @ '' given)'' else [])"
| "checkAnswer NewFromString (AnswerOther t) v = []"

definition answer_field :: "string \<Rightarrow> string" where
  "answer_field i = ''body.payload.answers.'' @ i"

definition question_problem :: "new_from_string \<Rightarrow> answers \<Rightarrow> Question \<Rightarrow> FieldError list" where
  "question_problem nfs ans q =
     (let v = (case map_of ans (q_ID q) of None \<Rightarrow> [] | Some v \<Rightarrow> v) in
      if v = [] then
        (if q_Required q then [\<lparr>fe_Field = answer_field (q_ID q), fe_Message = missingAnswer (q_Type q)\<rparr>] else [])
      else let msg = checkAnswer nfs (q_Type q) v in
        if msg \<noteq> [] then [\<lparr>fe_Field = answer_field (q_ID q), fe_Message = msg\<rparr>] else [])"

definition unasked_problem :: "Question list \<Rightarrow> string \<times> string \<Rightarrow> FieldError list" where
  "unasked_problem qs a =
     (if fst a \<in> q_ID ` set qs then []
      else [\<lparr>fe_Field = answer_field (fst a), fe_Message = ''this question was not asked''\<rparr>])"

definition answer_problems :: "new_from_string \<Rightarrow> Question list \<Rightarrow> answers \<Rightarrow> FieldError list" where
  "answer_problems nfs qs ans =
     concat (map (question_problem nfs ans) qs) @ concat (map (unasked_problem qs) ans)"

definition ValidateAnswers :: "new_from_string \<Rightarrow> Question list \<Rightarrow> answers \<Rightarrow> unit result" where
  "ValidateAnswers nfs qs ans =
     (let fields = answer_problems nfs qs ans in
      if fields = [] then Inr ()
      else Inl (Classified (WithFields ErrInvalidAnswers (sort_key fe_Field fields))))"

definition answer :: "answers \<Rightarrow> string \<Rightarrow> string" where
  "answer ans k = (case map_of ans k of None \<Rightarrow> [] | Some v \<Rightarrow> v)"

definition Inconsistencies :: "reason \<Rightarrow> answers \<Rightarrow> string list" where
  "Inconsistencies r ans =
     (case r of
        ReasonUnauthorised \<Rightarrow>
          (if answer ans ''recognise_merchant'' = ''yes'' \<and> answer ans ''card_in_possession'' = ''yes'' \<and>
              answer ans ''shared_credentials'' = ''no''
           then [''the customer recognises the merchant, held the card and shared it with nobody, yet claims the payment was unauthorised'']
           else []) @
          (if answer ans ''police_report'' = ''yes'' \<and> answer ans ''card_in_possession'' = ''yes''
           then [''a card reported lost or stolen was said to be in the customer's possession''] else [])
      | ReasonNotReceived \<Rightarrow>
          (if answer ans ''contacted_merchant'' = ''no'' \<and> answer ans ''merchant_response'' \<noteq> []
           then [''a merchant response was given although the merchant was not contacted''] else [])
      | ReasonDuplicate \<Rightarrow>
          (if answer ans ''same_merchant'' = ''no'' then [''a duplicate is claimed against a different merchant'']
           else [])
      | _ \<Rightarrow> [])"

section \<open>What valid answers are\<close>

definition answers_ok :: "new_from_string \<Rightarrow> Question list \<Rightarrow> answers \<Rightarrow> bool" where
  "answers_ok nfs qs ans \<longleftrightarrow>
     (\<forall>q \<in> set qs. (q_Required q \<longrightarrow> answer ans (q_ID q) \<noteq> []) \<and>
        (answer ans (q_ID q) \<noteq> [] \<longrightarrow> checkAnswer nfs (q_Type q) (answer ans (q_ID q)) = [])) \<and>
     fst ` set ans \<subseteq> q_ID ` set qs"

section \<open>Lemmas\<close>

lemma reason_of_str [enum_simps]: "reason_str (reason_of s) = s"
  by (simp add: reason_of_def enum_of_str)

lemma reason_of_reason_str: "r \<in> set AllReasons \<Longrightarrow> reason_of (reason_str r) = r"
  unfolding reason_of_def by (rule enum_of_val) (simp_all add: AllReasons_def)

lemma checkQuestions_ok:
  "checkQuestions seen req qs = Inr () \<longleftrightarrow>
     (req \<or> (\<exists>q \<in> set qs. q_Required q)) \<and> distinct (map q_ID qs) \<and> set seen \<inter> q_ID ` set qs = {} \<and>
     (\<forall>q \<in> set qs. q_ID q \<noteq> [] \<and> q_Text q \<noteq> [] \<and> q_Type q \<in> {AnswerYesNo, AnswerDate, AnswerText, AnswerAmount})"
  by (induction qs arbitrary: seen req) auto

lemma load_files_ok:
  "load_files sets files = Inr out \<Longrightarrow>
     (\<forall>(r, qs) \<in> set sets. checkQuestionSet \<lparr>qf_Reason = r, qf_Questions = qs\<rparr> = Inr ()) \<Longrightarrow>
     (\<forall>(r, qs) \<in> set out. checkQuestionSet \<lparr>qf_Reason = r, qf_Questions = qs\<rparr> = Inr ())"
proof (induction files arbitrary: sets)
  case (Cons g files)
  from Cons.prems(1) obtain f where f: "g = Inr f" "checkQuestionSet f = Inr ()"
    "load_files ((qf_Reason f, qf_Questions f) # sets) files = Inr out"
    by (auto simp: bindR_eq_Inr split: if_splits)
  have "checkQuestionSet \<lparr>qf_Reason = qf_Reason f, qf_Questions = qf_Questions f\<rparr> = Inr ()"
    using f(2) by (cases f) simp
  with Cons.prems(2) Cons.IH [OF f(3)] show ?case by simp
qed simp

lemma LoadQuestionSets_ok:
  "LoadQuestionSets files = Inr sets \<Longrightarrow>
     (\<forall>r \<in> set AllReasons. map_of sets r \<noteq> None) \<and>
     (\<forall>(r, qs) \<in> set sets. checkQuestionSet \<lparr>qf_Reason = r, qf_Questions = qs\<rparr> = Inr ())"
  using load_files_ok [of "[]" files]
  by (auto simp: LoadQuestionSets_def bindR_eq_Inr find_None_iff split: option.splits)

lemma embedded_files_load: "LoadQuestionSets questionnaireFiles = Inr questionSets"
proof -
  have "isOk (LoadQuestionSets questionnaireFiles)"
    by (simp add: LoadQuestionSets_def questionnaireFiles_def file_AMOUNT_DIFFERS_def file_DUPLICATE_def
        file_NOT_RECEIVED_def file_UNAUTHORISED_def question_def checkQuestionSet_def AllReasons_def)
  then show ?thesis by (auto simp: isOk_iff questionSets_def)
qed

lemma answer_eq: "(case map_of ans k of None \<Rightarrow> [] | Some v \<Rightarrow> v) = answer ans k"
  by (simp add: answer_def)

lemma question_problem_cases:
  "question_problem nfs ans q =
     (if answer ans (q_ID q) = [] \<and> q_Required q
      then [\<lparr>fe_Field = answer_field (q_ID q), fe_Message = missingAnswer (q_Type q)\<rparr>]
      else if answer ans (q_ID q) \<noteq> [] \<and> checkAnswer nfs (q_Type q) (answer ans (q_ID q)) \<noteq> []
      then [\<lparr>fe_Field = answer_field (q_ID q), fe_Message = checkAnswer nfs (q_Type q) (answer ans (q_ID q))\<rparr>]
      else [])"
  unfolding question_problem_def answer_eq Let_def by (simp del: checkAnswer.simps)

lemma answer_problems_ok: "answer_problems nfs qs ans = [] \<longleftrightarrow> answers_ok nfs qs ans"
proof -
  have "concat (map (question_problem nfs ans) qs) = [] \<longleftrightarrow>
      (\<forall>q \<in> set qs. (q_Required q \<longrightarrow> answer ans (q_ID q) \<noteq> []) \<and>
        (answer ans (q_ID q) \<noteq> [] \<longrightarrow> checkAnswer nfs (q_Type q) (answer ans (q_ID q)) = []))"
    by (simp add: question_problem_cases del: checkAnswer.simps) blast
  moreover have "concat (map (unasked_problem qs) ans) = [] \<longleftrightarrow> fst ` set ans \<subseteq> q_ID ` set qs"
    by (auto simp: unasked_problem_def)
  ultimately show ?thesis by (simp add: answer_problems_def answers_ok_def)
qed

lemma answer_field_inj [simp]: "answer_field i = answer_field j \<longleftrightarrow> i = j"
  by (simp add: answer_field_def)

text \<open>Each field is reported once, so the order of the report does not depend on the sort's stability.\<close>

lemma question_problem_fields:
  "map fe_Field (concat (map (question_problem nfs ans) qs)) =
     map (answer_field \<circ> q_ID) (filter (\<lambda>q. question_problem nfs ans q \<noteq> []) qs)"
proof (induction qs)
  case (Cons q qs)
  have "map fe_Field (question_problem nfs ans q) =
      (if question_problem nfs ans q \<noteq> [] then [answer_field (q_ID q)] else [])"
    by (simp add: question_problem_cases del: checkAnswer.simps)
  with Cons show ?case by simp
qed simp

lemma unasked_problem_fields:
  "map fe_Field (concat (map (unasked_problem qs) as)) =
     map (answer_field \<circ> fst) (filter (\<lambda>a. fst a \<notin> q_ID ` set qs) as)"
  by (induction as) (simp_all add: unasked_problem_def)

lemma distinct_problem_fields:
  assumes "distinct (map q_ID qs)" "distinct (map fst ans)"
  shows "distinct (map fe_Field (answer_problems nfs qs ans))"
proof -
  have "distinct (map (answer_field \<circ> q_ID) (filter P qs))" for P
    using assms(1) by (induction qs) auto
  moreover have "distinct (map (answer_field \<circ> fst) (filter P ans))" for P
    using assms(2) by (induction ans) (auto simp: rev_image_eqI)
  ultimately show ?thesis by (auto simp: answer_problems_def question_problem_fields unasked_problem_fields)
qed

lemma answer_perm:
  assumes "mset ans = mset ans'" "distinct (map fst ans)"
  shows "answer ans k = answer ans' k"
proof -
  have "distinct (map fst ans')"
    using assms by (metis mset_eq_imp_distinct_iff mset_map)
  moreover have "set ans = set ans'" using assms(1) by (rule mset_eq_setD)
  ultimately have "map_of ans = map_of ans'" using assms(2) by (simp add: map_of_inject_set)
  then show ?thesis by (simp add: answer_def)
qed

lemma mset_concat_map: "mset (concat (map f xs)) = \<Sum>\<^sub># (image_mset (mset \<circ> f) (mset xs))"
  by (induction xs) simp_all

lemma answer_problems_perm:
  assumes "mset ans = mset ans'" "distinct (map fst ans)"
  shows "mset (answer_problems nfs qs ans) = mset (answer_problems nfs qs ans')"
proof -
  have "question_problem nfs ans = question_problem nfs ans'"
    by (simp add: fun_eq_iff question_problem_cases answer_perm [OF assms] del: checkAnswer.simps)
  then show ?thesis using assms(1) by (simp add: answer_problems_def mset_concat_map del: mset_concat)
qed

lemma sort_key_perm:
  fixes f :: "'a \<Rightarrow> 'b :: linorder"
  assumes "mset xs = mset ys" "distinct (map f xs)"
  shows "sort_key f xs = sort_key f ys"
  by (rule sort_key_inj_key_eq) (use assms in \<open>simp_all add: distinct_map\<close>)

section \<open>Properties\<close>

text \<open>
  C34: \<open>ValidateAnswers\<close> accepts exactly the valid answers (every required question answered, every answer of its
  type, nothing answered that was not asked); otherwise it reports every problem at once, each offending field
  once and in order, and the report does not depend on the order Go iterates the map in.
\<close>

theorem validate_answers_exact:
  assumes "distinct (map q_ID qs)" "distinct (map fst ans)"
  shows "(ValidateAnswers nfs qs ans = Inr () \<longleftrightarrow> answers_ok nfs qs ans) \<and>
    (\<forall>e. ValidateAnswers nfs qs ans = Inl e \<longrightarrow> errors_Is e ErrInvalidAnswers \<and>
       set (FieldsOf e) = set (answer_problems nfs qs ans) \<and> sorted_wrt (<) (map fe_Field (FieldsOf e))) \<and>
    (\<forall>ans'. mset ans = mset ans' \<longrightarrow> ValidateAnswers nfs qs ans = ValidateAnswers nfs qs ans')"
proof (intro conjI allI impI)
  show "ValidateAnswers nfs qs ans = Inr () \<longleftrightarrow> answers_ok nfs qs ans"
    by (simp add: ValidateAnswers_def answer_problems_ok Let_def)
next
  fix e assume "ValidateAnswers nfs qs ans = Inl e"
  then have e: "e = Classified (WithFields ErrInvalidAnswers (sort_key fe_Field (answer_problems nfs qs ans)))"
    by (auto simp: ValidateAnswers_def Let_def split: if_splits)
  have "distinct (map fe_Field (sort_key fe_Field (answer_problems nfs qs ans)))"
    using distinct_problem_fields [OF assms]
    by (metis mset_eq_imp_distinct_iff mset_map mset_sort)
  with e show "errors_Is e ErrInvalidAnswers" "set (FieldsOf e) = set (answer_problems nfs qs ans)"
    "sorted_wrt (<) (map fe_Field (FieldsOf e))"
    by (simp_all add: FieldsOf_def strict_sorted_iff)
next
  fix ans' assume "mset ans = mset ans'"
  from answer_problems_perm [OF this assms(2), of nfs qs]
  have perm: "mset (answer_problems nfs qs ans) = mset (answer_problems nfs qs ans')" .
  from sort_key_perm [OF perm distinct_problem_fields [OF assms]]
  show "ValidateAnswers nfs qs ans = ValidateAnswers nfs qs ans'"
    using perm mset_zero_iff unfolding ValidateAnswers_def Let_def by metis
qed

theorem validate_answers_exact_witness:
  "ValidateAnswers (\<lambda>_. None) [question ''a'' ''?'' AnswerYesNo True] [(''a'', ''no'')] = Inr ()"
  using validate_answers_exact [of "[question ''a'' ''?'' AnswerYesNo True]" "[(''a'', ''no'')]" "\<lambda>_. None"]
  by (simp add: answers_ok_def question_def answer_def)

lemma questionSets_keys: "map_of questionSets r \<noteq> None \<longleftrightarrow> r \<in> set AllReasons"
proof
  note sets = LoadQuestionSets_ok [OF embedded_files_load]
  assume "map_of questionSets r \<noteq> None"
  then obtain qs where "(r, qs) \<in> set questionSets" by (auto dest: map_of_SomeD)
  with sets show "r \<in> set AllReasons" by (auto simp: checkQuestionSet_def split: if_splits)
qed (use LoadQuestionSets_ok [OF embedded_files_load] in blast)



end
