(* ===== verification/Risk.thy ===== *)
theory Risk
  imports Go_Time Errs Money
begin

text \<open>
  \<^verbatim>\<open>backend/internal/dispute/domain/risk.go\<close>: the fraud score and the hold it puts on credits.
\<close>

section \<open>Definitions\<close>

datatype risk_tier = RiskLow | RiskMedium | RiskHigh

fun risk_tier_str :: "risk_tier \<Rightarrow> string" where
  "risk_tier_str RiskLow = ''LOW''"
| "risk_tier_str RiskMedium = ''MEDIUM''"
| "risk_tier_str RiskHigh = ''HIGH''"

text \<open>Tiers are ordered by severity.\<close>

fun severity :: "risk_tier \<Rightarrow> nat" where
  "severity RiskLow = 0"
| "severity RiskMedium = 1"
| "severity RiskHigh = 2"

instantiation risk_tier :: linorder
begin

definition less_eq_risk_tier :: "risk_tier \<Rightarrow> risk_tier \<Rightarrow> bool" where
  "less_eq_risk_tier a b \<longleftrightarrow> severity a \<le> severity b"

definition less_risk_tier :: "risk_tier \<Rightarrow> risk_tier \<Rightarrow> bool" where
  "less_risk_tier a b \<longleftrightarrow> severity a < severity b"

instance
proof
  fix x y :: risk_tier
  show "x \<le> y \<Longrightarrow> y \<le> x \<Longrightarrow> x = y"
    by (cases x; cases y) (simp_all add: less_eq_risk_tier_def)
qed (auto simp: less_eq_risk_tier_def less_risk_tier_def)

end

definition mediumFrom :: int where "mediumFrom = 20"

definition highFrom :: int where "highFrom = 45"

record Signal =
  sig_Name :: string
  sig_Weight :: int
  sig_Points :: int
  sig_Detail :: string

record RiskInput =
  ri_DisputesLast12Months :: int
  ri_LostChargebacks :: int
  ri_TransactionAgeDays :: int
  ri_HighRiskMerchant :: bool
  ri_Amount :: decimal
  ri_AccountAgeDays :: int
  ri_Inconsistencies :: int
  ri_QuestionnaireKnown :: bool

record Assessment =
  as_Score :: int
  as_Tier :: risk_tier
  as_Signals :: "Signal list"

definition highRiskMCCs :: "(string \<times> string) list" where
  "highRiskMCCs = [(''5815'', ''digital goods: media''), (''5816'', ''digital goods: games''),
     (''5817'', ''digital goods: software''), (''5818'', ''digital goods: large merchant''),
     (''7995'', ''gambling''), (''6051'', ''quasi cash''), (''4829'', ''money transfer'')]"

definition HighRiskMCC :: "string \<Rightarrow> string option" where
  "HighRiskMCC mcc = map_of highRiskMCCs mcc"

definition signal :: "string \<Rightarrow> int \<Rightarrow> int \<Rightarrow> string \<Rightarrow> Signal" where
  "signal n w p d = \<lparr>sig_Name = n, sig_Weight = w, sig_Points = p, sig_Detail = d\<rparr>"

definition frequency_signal :: "int \<Rightarrow> Signal" where
  "frequency_signal n =
     (if 3 \<le> n then signal ''dispute frequency'' 25 25
        (show_int n @ '' other disputes on this account in the last twelve months'')
      else if n = 2 then signal ''dispute frequency'' 25 18
        ''two other disputes on this account in the last twelve months''
      else if n = 1 then signal ''dispute frequency'' 25 10
        ''one other dispute on this account in the last twelve months''
      else signal ''dispute frequency'' 25 0 ''no other dispute on this account in the last twelve months'')"

definition consistency_signal :: "bool \<Rightarrow> int \<Rightarrow> Signal" where
  "consistency_signal known n =
     (if \<not> known then signal ''questionnaire consistency'' 25 0 ''questionnaire not yet received''
      else if 2 \<le> n then signal ''questionnaire consistency'' 25 25 (show_int n @ '' contradictions between the answers'')
      else if n = 1 then signal ''questionnaire consistency'' 25 15 ''one contradiction between the answers''
      else signal ''questionnaire consistency'' 25 0 ''answers are consistent'')"

definition chargeback_signal :: "int \<Rightarrow> Signal" where
  "chargeback_signal n =
     (if 2 \<le> n then signal ''chargeback history'' 25 25
        (show_int n @ '' earlier disputes on this account were lost at the network'')
      else if n = 1 then signal ''chargeback history'' 25 15
        ''one earlier dispute on this account was lost at the network''
      else signal ''chargeback history'' 25 0 ''no earlier dispute on this account was lost at the network'')"

definition transaction_age_signal :: "int \<Rightarrow> Signal" where
  "transaction_age_signal d =
     (let detail = ''disputed '' @ show_int d @ '' days after the transaction'' in
      if 60 < d then signal ''transaction age'' 10 10 detail
      else if 30 < d then signal ''transaction age'' 10 5 detail
      else signal ''transaction age'' 10 0 detail)"

definition merchant_signal :: "bool \<Rightarrow> Signal" where
  "merchant_signal high =
     (if high then signal ''merchant category'' 10 10 ''merchant category is one where disputes concentrate''
      else signal ''merchant category'' 10 0 ''merchant category is not on the watch list'')"

definition amount_signal :: "decimal \<Rightarrow> Signal" where
  "amount_signal a =
     (if 1000 \<le> a then signal ''amount'' 10 10 ''amount is 1000 or more''
      else if 500 \<le> a then signal ''amount'' 10 5 ''amount is 500 or more''
      else signal ''amount'' 10 0 ''amount is under 500'')"

definition account_age_signal :: "int \<Rightarrow> Signal" where
  "account_age_signal d =
     (if d < 90 then signal ''account age'' 5 5 (''account is '' @ show_int d @ '' days old'')
      else if d < 365 then signal ''account age'' 5 2 (''account is '' @ show_int d @ '' days old'')
      else signal ''account age'' 5 0 ''account is more than a year old'')"

definition assess_signals :: "RiskInput \<Rightarrow> Signal list" where
  "assess_signals inp =
     [frequency_signal (ri_DisputesLast12Months inp),
      consistency_signal (ri_QuestionnaireKnown inp) (ri_Inconsistencies inp),
      chargeback_signal (ri_LostChargebacks inp),
      transaction_age_signal (ri_TransactionAgeDays inp),
      merchant_signal (ri_HighRiskMerchant inp),
      amount_signal (ri_Amount inp),
      account_age_signal (ri_AccountAgeDays inp)]"

definition tier_of :: "int \<Rightarrow> risk_tier" where
  "tier_of score = (if highFrom \<le> score then RiskHigh else if mediumFrom \<le> score then RiskMedium else RiskLow)"

definition Assess :: "RiskInput \<Rightarrow> Assessment" where
  "Assess inp =
     (let signals = assess_signals inp; score = foldl (\<lambda>acc s. acc + sig_Points s) 0 signals
      in \<lparr>as_Score = score, as_Tier = tier_of score, as_Signals = signals\<rparr>)"

definition ErrRiskHold :: Error where
  "ErrRiskHold = New Unprocessable ''risk-hold''
     ''this dispute is on hold for fraud review; a credit needs a recorded justification''"

definition CreditAllowed :: "Assessment option \<Rightarrow> string \<Rightarrow> unit result" where
  "CreditAllowed a override =
     (case a of
        None \<Rightarrow> Inr ()
      | Some s \<Rightarrow>
          if as_Tier s \<noteq> RiskHigh \<or> override \<noteq> [] then Inr ()
          else Inl (Classified (WithFields ErrRiskHold
            [\<lparr>fe_Field = ''body.payload.riskOverride'',
              fe_Message = ''risk score '' @ show_int (as_Score s) @
                '' (HIGH): explain why the credit should go out anyway''\<rparr>])))"

text \<open>
  \<open>b.Sub(a)\<close> is a duration of 64 bits, saturating; \<open>Hours()/24\<close> is taken exactly here, where the source's
  floating point differs only within a microsecond of a whole number of days.
\<close>

definition saturate64 :: "int \<Rightarrow> int" where
  "saturate64 n = max (- (2 ^ 63)) (min (2 ^ 63 - 1) n)"

definition DaysBetween :: "time \<Rightarrow> time \<Rightarrow> int" where
  "DaysBetween a b = (let d = saturate64 (b - a) div (day_seconds * second) in if 0 < d then d else 0)"

section \<open>Lemmas\<close>

lemmas signal_defs = frequency_signal_def consistency_signal_def chargeback_signal_def
  transaction_age_signal_def merchant_signal_def amount_signal_def account_age_signal_def signal_def

lemma signal_bounds:
  "s \<in> set (assess_signals inp) \<Longrightarrow> 0 \<le> sig_Points s \<and> sig_Points s \<le> sig_Weight s"
  by (auto simp: assess_signals_def signal_defs Let_def)

lemma assess_weights: "map sig_Weight (assess_signals inp) = [25, 25, 25, 10, 10, 10, 5]"
  by (simp add: assess_signals_def signal_defs Let_def)

lemma Assess_score: "as_Score (Assess inp) = (\<Sum>s\<leftarrow>assess_signals inp. sig_Points s)"
  by (simp add: Assess_def Let_def foldl_map [symmetric] assess_signals_def)

lemma tier_of_mono: "a \<le> b \<Longrightarrow> tier_of a \<le> tier_of b"
  by (auto simp: tier_of_def highFrom_def mediumFrom_def less_eq_risk_tier_def)

text \<open>An input at least as bad in every respect.\<close>

definition worse :: "RiskInput \<Rightarrow> RiskInput \<Rightarrow> bool" where
  "worse a b \<longleftrightarrow>
     ri_DisputesLast12Months a \<le> ri_DisputesLast12Months b \<and> ri_LostChargebacks a \<le> ri_LostChargebacks b \<and>
     ri_TransactionAgeDays a \<le> ri_TransactionAgeDays b \<and> (ri_HighRiskMerchant a \<longrightarrow> ri_HighRiskMerchant b) \<and>
     ri_Amount a \<le> ri_Amount b \<and> ri_AccountAgeDays b \<le> ri_AccountAgeDays a \<and>
     ri_Inconsistencies a \<le> ri_Inconsistencies b \<and> (ri_QuestionnaireKnown a \<longrightarrow> ri_QuestionnaireKnown b)"

lemma points_mono:
  "m \<le> n \<Longrightarrow> sig_Points (frequency_signal m) \<le> sig_Points (frequency_signal n)"
  "m \<le> n \<Longrightarrow> (k \<longrightarrow> l) \<Longrightarrow> sig_Points (consistency_signal k m) \<le> sig_Points (consistency_signal l n)"
  "m \<le> n \<Longrightarrow> sig_Points (chargeback_signal m) \<le> sig_Points (chargeback_signal n)"
  "m \<le> n \<Longrightarrow> sig_Points (transaction_age_signal m) \<le> sig_Points (transaction_age_signal n)"
  "(k \<longrightarrow> l) \<Longrightarrow> sig_Points (merchant_signal k) \<le> sig_Points (merchant_signal l)"
  "x \<le> y \<Longrightarrow> sig_Points (amount_signal x) \<le> sig_Points (amount_signal y)"
  "n \<le> m \<Longrightarrow> sig_Points (account_age_signal m) \<le> sig_Points (account_age_signal n)"
  by (auto simp: signal_defs Let_def)

lemma score_mono: "worse a b \<Longrightarrow> as_Score (Assess a) \<le> as_Score (Assess b)"
  unfolding Assess_score worse_def assess_signals_def
  by (auto intro!: add_mono points_mono)

section \<open>Properties\<close>

text \<open>
  A score is explained by its signals: the same seven are always reported, each between zero and its
  weight, the score is their sum, between 0 and 110, and the tier is the threshold the score reached.
\<close>

theorem assess_explained:
  "(let a = Assess inp in
      map sig_Weight (as_Signals a) = [25, 25, 25, 10, 10, 10, 5] \<and>
      (\<forall>s \<in> set (as_Signals a). 0 \<le> sig_Points s \<and> sig_Points s \<le> sig_Weight s) \<and>
      as_Score a = (\<Sum>s\<leftarrow>as_Signals a. sig_Points s) \<and> 0 \<le> as_Score a \<and> as_Score a \<le> 110 \<and>
      (as_Tier a = RiskHigh \<longleftrightarrow> 45 \<le> as_Score a) \<and> (as_Tier a = RiskLow \<longleftrightarrow> as_Score a < 20))"
proof -
  have sig: "as_Signals (Assess inp) = assess_signals inp" "as_Tier (Assess inp) = tier_of (as_Score (Assess inp))"
    by (simp_all add: Assess_def Let_def)
  have "0 \<le> (\<Sum>s\<leftarrow>assess_signals inp. sig_Points s)"
    by (rule sum_list_nonneg) (use signal_bounds in auto)
  moreover have "(\<Sum>s\<leftarrow>assess_signals inp. sig_Points s) \<le> (\<Sum>s\<leftarrow>assess_signals inp. sig_Weight s)"
    by (rule sum_list_mono) (use signal_bounds in auto)
  ultimately show ?thesis
    using signal_bounds assess_weights [of inp]
    by (simp add: sig Let_def Assess_score tier_of_def highFrom_def mediumFrom_def)
qed

theorem assess_explained_witness:
  "as_Score (Assess \<lparr>ri_DisputesLast12Months = 4, ri_LostChargebacks = 1, ri_TransactionAgeDays = 61,
      ri_HighRiskMerchant = True, ri_Amount = 1000, ri_AccountAgeDays = 3, ri_Inconsistencies = 2,
      ri_QuestionnaireKnown = True\<rparr>) =
   (\<Sum>s\<leftarrow>as_Signals (Assess \<lparr>ri_DisputesLast12Months = 4, ri_LostChargebacks = 1, ri_TransactionAgeDays = 61,
      ri_HighRiskMerchant = True, ri_Amount = 1000, ri_AccountAgeDays = 3, ri_Inconsistencies = 2,
      ri_QuestionnaireKnown = True\<rparr>). sig_Points s)"
  using assess_explained [of "\<lparr>ri_DisputesLast12Months = 4, ri_LostChargebacks = 1, ri_TransactionAgeDays = 61,
      ri_HighRiskMerchant = True, ri_Amount = 1000, ri_AccountAgeDays = 3, ri_Inconsistencies = 2,
      ri_QuestionnaireKnown = True\<rparr>"]
  by (simp only: Let_def)

text \<open>
  The score is monotone: facts that are worse in every respect never lower the score or the tier, so the
  reassessment when the questionnaire arrives only raises it, other facts being the same.
\<close>

theorem assess_monotone:
  assumes "worse a b"
  shows "as_Score (Assess a) \<le> as_Score (Assess b) \<and> as_Tier (Assess a) \<le> as_Tier (Assess b)"
  using score_mono [OF assms] tier_of_mono by (simp add: Assess_def Let_def)

theorem assess_monotone_witness:
  "as_Tier (Assess \<lparr>ri_DisputesLast12Months = 1, ri_LostChargebacks = 0, ri_TransactionAgeDays = 3,
      ri_HighRiskMerchant = False, ri_Amount = 20, ri_AccountAgeDays = 800, ri_Inconsistencies = 0,
      ri_QuestionnaireKnown = False\<rparr>) \<le>
   as_Tier (Assess \<lparr>ri_DisputesLast12Months = 2, ri_LostChargebacks = 2, ri_TransactionAgeDays = 40,
      ri_HighRiskMerchant = True, ri_Amount = 700, ri_AccountAgeDays = 60, ri_Inconsistencies = 1,
      ri_QuestionnaireKnown = True\<rparr>)"
  by (rule assess_monotone [THEN conjunct2]) (simp add: worse_def)

end
