(* ===== verification/Access.thy ===== *)
theory Access
  imports Lifecycle Questionnaire Risk
begin

text \<open>
  \<^verbatim>\<open>backend/internal/dispute/application/access.go\<close>, \<open>Route\<close> of \<^verbatim>\<open>routing.go\<close> and
  \<^verbatim>\<open>backend/internal/platform/principal/principal.go\<close>: who may act, and which team a new dispute goes to.
\<close>

type_synonym uuid = string

definition uuid_Nil :: uuid where
  "uuid_Nil = ''00000000-0000-0000-0000-000000000000''"

datatype principal_kind = Analyst | Key

record Principal =
  pr_Kind :: principal_kind
  pr_ID :: string
  pr_Display :: string
  pr_TenantAdmin :: bool

datatype role = RoleJunior | RoleSenior | RoleLead | RoleOther string

fun role_str :: "role \<Rightarrow> string" where
  "role_str RoleJunior = ''junior''"
| "role_str RoleSenior = ''senior''"
| "role_str RoleLead = ''lead''"
| "role_str (RoleOther s) = s"

definition Roles :: "role list" where
  "Roles = [RoleJunior, RoleSenior, RoleLead]"

text \<open>An action is its string; an event is an action under its own name.\<close>

type_synonym action = string

definition ActionCreate :: action where "ActionCreate = ''create''"
definition ActionComposeEmail :: action where "ActionComposeEmail = ''compose-email''"
definition ActionUploadAttachment :: action where "ActionUploadAttachment = ''upload-attachment''"
definition ActionResendNotice :: action where "ActionResendNotice = ''resend-notice''"
definition ActionReassign :: action where "ActionReassign = ''reassign''"
definition ActionManageKeys :: action where "ActionManageKeys = ''manage-keys''"
definition ActionManageTemplates :: action where "ActionManageTemplates = ''manage-templates''"
definition ActionManageBranding :: action where "ActionManageBranding = ''manage-branding''"

lemmas action_defs = ActionCreate_def ActionComposeEmail_def ActionUploadAttachment_def ActionResendNotice_def
  ActionReassign_def ActionManageKeys_def ActionManageTemplates_def ActionManageBranding_def

definition EventAction :: "event \<Rightarrow> action" where
  "EventAction e = event_str e"

record Grant =
  g_Team :: string
  g_Role :: role
  g_Action :: action
  g_AmountLimit :: "decimal option"

record Membership =
  mb_Team :: string
  mb_Role :: role

record RoutingRule =
  rr_Rail :: "rail option"
  rr_Reason :: "reason option"
  rr_RiskTier :: "string option"
  rr_MinAmount :: "decimal option"
  rr_Team :: string

record Access =
  ac_Version :: int
  ac_DefaultTeam :: string
  ac_Teams :: "string list"
  ac_Grants :: "Grant list"
  ac_Routing :: "RoutingRule list"
  ac_Members :: "Membership list"

record DisputeFacts =
  df_ID :: uuid
  df_Team :: string
  df_Amount :: decimal
  df_Currency :: string
  df_Rail :: rail
  df_State :: state
  df_InvestigationOpenedBy :: string

record Decision =
  dec_Allowed :: bool
  dec_Policies :: "string list"

definition ErrForbidden :: Error where
  "ErrForbidden = New Forbidden ''forbidden'' ''your role does not allow this operation''"

definition rule_matches :: "rail \<Rightarrow> reason \<Rightarrow> string \<Rightarrow> decimal \<Rightarrow> RoutingRule \<Rightarrow> bool" where
  "rule_matches rail reason tier amount r \<longleftrightarrow>
     \<not> (case rr_Rail r of Some x \<Rightarrow> x \<noteq> rail | None \<Rightarrow> False) \<and>
     \<not> (case rr_Reason r of Some x \<Rightarrow> x \<noteq> reason | None \<Rightarrow> False) \<and>
     \<not> (case rr_RiskTier r of Some x \<Rightarrow> x \<noteq> tier | None \<Rightarrow> False) \<and>
     \<not> (case rr_MinAmount r of Some x \<Rightarrow> amount < x | None \<Rightarrow> False)"

fun route_rules :: "string \<Rightarrow> RoutingRule list \<Rightarrow> rail \<Rightarrow> reason \<Rightarrow> string \<Rightarrow> decimal \<Rightarrow> string" where
  "route_rules dflt [] rail reason tier amount = dflt"
| "route_rules dflt (r # rs) rail reason tier amount =
     (if rule_matches rail reason tier amount r then rr_Team r else route_rules dflt rs rail reason tier amount)"

definition Route :: "Access \<Rightarrow> rail \<Rightarrow> reason \<Rightarrow> string \<Rightarrow> decimal \<Rightarrow> string" where
  "Route a rail reason tier amount = route_rules (ac_DefaultTeam a) (ac_Routing a) rail reason tier amount"

section \<open>Lemmas\<close>

lemma route_rules_find:
  "route_rules d rs rail reason tier amount =
     (case find (rule_matches rail reason tier amount) rs of Some r \<Rightarrow> rr_Team r | None \<Rightarrow> d)"
  by (induction rs) simp_all

text \<open>A routed dispute goes to a team the tenant's rules name, or to the default team.\<close>

lemma Route_team: "Route a rail reason tier amount \<in> insert (ac_DefaultTeam a) (rr_Team ` set (ac_Routing a))"
  by (auto simp: Route_def route_rules_find find_Some_iff split: option.split)

end
