(* ===== verification/Ledger.thy ===== *)
theory Ledger
  imports Lifecycle
begin

text \<open>
  \<^verbatim>\<open>backend/internal/dispute/domain/ledger.go\<close>: the postings a transition causes.

  \<open>Postings\<close> is the rule, \<open>SuspenseBalance\<close> what a dispute has in suspense. A \<open>case_run\<close> is a lifecycle
  together with its ledger: each accepted event enters a state and appends the postings of that state, with
  the inputs the service gives them (the balance so far, the liability and the settlement of the payload).
\<close>

section \<open>Definitions\<close>

datatype account = AccountCustomer | AccountSuspense | AccountRecovery | AccountLoss

datatype posting_kind = PostingProvisionalCredit | PostingFastRefund | PostingNQARefund
  | PostingProvisionalCreditReversal | PostingRecovery | PostingWriteOff

fun account_str :: "account \<Rightarrow> string" where
  "account_str AccountCustomer = ''CUSTOMER''"
| "account_str AccountSuspense = ''SUSPENSE''"
| "account_str AccountRecovery = ''RECOVERY''"
| "account_str AccountLoss = ''LOSS''"

fun posting_kind_str :: "posting_kind \<Rightarrow> string" where
  "posting_kind_str PostingProvisionalCredit = ''PROVISIONAL_CREDIT''"
| "posting_kind_str PostingFastRefund = ''FAST_REFUND''"
| "posting_kind_str PostingNQARefund = ''NQA_REFUND''"
| "posting_kind_str PostingProvisionalCreditReversal = ''PROVISIONAL_CREDIT_REVERSAL''"
| "posting_kind_str PostingRecovery = ''RECOVERY''"
| "posting_kind_str PostingWriteOff = ''WRITE_OFF''"

record Posting =
  pst_Kind :: posting_kind
  pst_Debit :: account
  pst_Credit :: account
  pst_Amount :: decimal
  pst_Currency :: string

definition ErrInvalidLiability :: Error where
  "ErrInvalidLiability = New Unprocessable ''invalid-liability''
     ''the customer liability is not allowed under this regime''"

definition ErrInvalidSettlement :: Error where
  "ErrInvalidSettlement = New Unprocessable ''invalid-settlement''
     ''the settlement is not one of RECOVERED or WRITTEN_OFF''"

definition refuse_liability :: "string \<Rightarrow> error" where
  "refuse_liability msg =
     Classified (WithFields ErrInvalidLiability [\<lparr>fe_Field = ''body.payload.liability'', fe_Message = msg\<rparr>])"

definition CreditAmount :: "string_fixed \<Rightarrow> Rules \<Rightarrow> decimal \<Rightarrow> decimal \<Rightarrow> decimal result" where
  "CreditAmount StringFixed r disputed liability =
     (let cap = cents (r_LiabilityCapMinor r) in
      if liability < 0 then Inl (refuse_liability ''must not be negative'')
      else if cap < liability then
        Inl (refuse_liability (''exceeds the '' @ StringFixed cap 2 @ '' '' @ r_Currency r @ '' cap under '' @
          regime_str (r_Regime r)))
      else if disputed \<le> liability \<and> 0 < disputed then
        Inl (refuse_liability (''consumes the whole disputed amount of '' @ StringFixed disputed 2 @ '' '' @
          r_Currency r))
      else Inr (disputed - liability))"

definition ParseSettlement :: "Rules \<Rightarrow> string \<Rightarrow> suspense_settlement result" where
  "ParseSettlement r raw =
     (if raw = [] then Inr (r_CloseSettlement r)
      else if raw = ''RECOVERED'' then Inr SettleRecovered
      else if raw = ''WRITTEN_OFF'' then Inr SettleWrittenOff
      else Inl (Classified (WithFields ErrInvalidSettlement
        [\<lparr>fe_Field = ''body.payload.settlement'', fe_Message = go_quote raw @ '' is not RECOVERED or WRITTEN_OFF''\<rparr>])))"

record PostingInput =
  pin_Entered :: state
  pin_Disputed :: decimal
  pin_Currency :: string
  pin_Liability :: decimal
  pin_Outstanding :: decimal
  pin_Settlement :: suspense_settlement

definition post_one :: "PostingInput \<Rightarrow> posting_kind \<Rightarrow> account \<Rightarrow> account \<Rightarrow> decimal \<Rightarrow> Posting list" where
  "post_one inp kind debit credit amount =
     (if \<not> 0 < amount then []
      else [\<lparr>pst_Kind = kind, pst_Debit = debit, pst_Credit = credit, pst_Amount = amount,
             pst_Currency = pin_Currency inp\<rparr>])"

definition settle_suspense :: "PostingInput \<Rightarrow> suspense_settlement \<Rightarrow> Posting list" where
  "settle_suspense inp s =
     (if s = SettleRecovered then post_one inp PostingRecovery AccountRecovery AccountSuspense (pin_Outstanding inp)
      else post_one inp PostingWriteOff AccountLoss AccountSuspense (pin_Outstanding inp))"

definition Postings :: "Rules \<Rightarrow> PostingInput \<Rightarrow> Posting list" where
  "Postings r inp =
     (case pin_Entered inp of
        StateProvisionalCreditIssued \<Rightarrow>
          post_one inp PostingProvisionalCredit AccountSuspense AccountCustomer (pin_Disputed inp - pin_Liability inp)
      | StateFastRefundIssued \<Rightarrow>
          post_one inp PostingFastRefund AccountSuspense AccountCustomer (pin_Disputed inp - pin_Liability inp)
      | StateSEPANQARefundIssued \<Rightarrow>
          post_one inp PostingNQARefund AccountSuspense AccountCustomer (pin_Disputed inp - pin_Liability inp)
      | StateProvisionalCreditReversed \<Rightarrow>
          post_one inp PostingProvisionalCreditReversal AccountCustomer AccountSuspense (pin_Outstanding inp)
      | StateChargebackWon \<Rightarrow> settle_suspense inp SettleRecovered
      | StateChargebackLost \<Rightarrow> (if HasProvisionalCredit r then [] else settle_suspense inp SettleWrittenOff)
      | StateClosed \<Rightarrow> settle_suspense inp (pin_Settlement inp)
      | _ \<Rightarrow> [])"

fun SuspenseBalance_from :: "decimal \<Rightarrow> Posting list \<Rightarrow> decimal" where
  "SuspenseBalance_from acc [] = acc"
| "SuspenseBalance_from acc (p # ps) =
     (let t1 = if pst_Debit p = AccountSuspense then acc + pst_Amount p else acc;
          t2 = if pst_Credit p = AccountSuspense then t1 - pst_Amount p else t1
      in SuspenseBalance_from t2 ps)"

definition SuspenseBalance :: "Posting list \<Rightarrow> decimal" where
  "SuspenseBalance ps = SuspenseBalance_from 0 ps"

section \<open>A dispute with its ledger\<close>

text \<open>The balance of any account: what was debited to it less what was credited.\<close>

definition balance :: "account \<Rightarrow> Posting list \<Rightarrow> decimal" where
  "balance a ps = (\<Sum>p\<leftarrow>ps. (if pst_Debit p = a then pst_Amount p else 0) - (if pst_Credit p = a then pst_Amount p else 0))"

text \<open>The liability the service passes to \<open>Postings\<close>: the one of the payload, when \<open>CreditAmount\<close> accepts it,
  and zero when the payload has none.\<close>

definition input_ok :: "string_fixed \<Rightarrow> Rules \<Rightarrow> decimal \<Rightarrow> decimal \<Rightarrow> bool" where
  "input_ok sf r disputed liability \<longleftrightarrow> liability = 0 \<or> isOk (CreditAmount sf r disputed liability)"

inductive case_run :: "string_fixed \<Rightarrow> regime \<Rightarrow> decimal \<Rightarrow> event list \<Rightarrow> Dispute \<Rightarrow> Posting list \<Rightarrow> bool"
  for sf regime disputed where
  opened: "New_Dispute regime = Inr d \<Longrightarrow> case_run sf regime disputed [] d []"
| applied: "case_run sf regime disputed es d ps \<Longrightarrow> Apply d e = Inr d' \<Longrightarrow>
    RulesFor regime = Inr r \<Longrightarrow> input_ok sf r disputed liability \<Longrightarrow>
    ps' = Postings r \<lparr>pin_Entered = d_State d', pin_Disputed = disputed, pin_Currency = currency,
      pin_Liability = liability, pin_Outstanding = SuspenseBalance ps, pin_Settlement = settlement\<rparr> \<Longrightarrow>
    case_run sf regime disputed (es @ [e]) d' (ps @ ps')"

text \<open>The states in which nothing may be left in suspense.\<close>

fun suspense_clear :: "Rules \<Rightarrow> state \<Rightarrow> bool" where
  "suspense_clear r StateProvisionalCreditIssued \<longleftrightarrow> False"
| "suspense_clear r StateFastRefundIssued \<longleftrightarrow> False"
| "suspense_clear r StateSEPANQARefundIssued \<longleftrightarrow> False"
| "suspense_clear r StateChargebackFiled \<longleftrightarrow> False"
| "suspense_clear r StateChargebackAcknowledged \<longleftrightarrow> False"
| "suspense_clear r StateEvidenceSubmitted \<longleftrightarrow> False"
| "suspense_clear r StateChargebackLost \<longleftrightarrow> \<not> HasProvisionalCredit r"
| "suspense_clear r _ \<longleftrightarrow> True"

text \<open>The states of a cycle before its refund.\<close>

definition unrefunded :: "state \<Rightarrow> bool" where
  "unrefunded s \<longleftrightarrow> s \<in> {StateInitiated, StateInvestigating, StateQuestionnaireSent, StateQuestionnaireReceived}"

text \<open>What the books say of a dispute: suspense \<open>b\<close>, net credit \<open>c\<close> to the customer, after \<open>n\<close> appeals.\<close>

definition books_ok :: "Rules \<Rightarrow> decimal \<Rightarrow> state \<Rightarrow> int \<Rightarrow> decimal \<Rightarrow> decimal \<Rightarrow> bool" where
  "books_ok r disputed s n b c \<longleftrightarrow>
     0 \<le> b \<and> b \<le> max 0 disputed \<and> (suspense_clear r s \<longrightarrow> b = 0) \<and> b \<le> c \<and>
     c \<le> (of_int n + (if unrefunded s then 0 else 1)) * max 0 disputed"

definition refund_states :: "state set" where
  "refund_states = {StateProvisionalCreditIssued, StateFastRefundIssued, StateSEPANQARefundIssued}"

text \<open>A run with its ledger, computed: the inputs of each step are an event and its liability.\<close>

fun run_case :: "string_fixed \<Rightarrow> Rules \<Rightarrow> decimal \<Rightarrow> string \<Rightarrow> Dispute \<Rightarrow> Posting list \<Rightarrow> (event \<times> decimal \<times> suspense_settlement) list \<Rightarrow> (Dispute \<times> Posting list) option" where
  "run_case sf r disputed cur d ps [] = Some (d, ps)"
| "run_case sf r disputed cur d ps ((e, l, s) # xs) =
     (case Apply d e of
        Inl _ \<Rightarrow> None
      | Inr d' \<Rightarrow> if input_ok sf r disputed l then
          run_case sf r disputed cur d' (ps @ Postings r \<lparr>pin_Entered = d_State d', pin_Disputed = disputed,
            pin_Currency = cur, pin_Liability = l, pin_Outstanding = SuspenseBalance ps, pin_Settlement = s\<rparr>) xs
        else None)"

definition double_credit_run :: "(event \<times> decimal \<times> suspense_settlement) list" where
  "double_credit_run = [(EventOpenInvestigation, 0, SettleNone), (EventIssueRefund, 0, SettleNone),
     (EventFileChargeback, 0, SettleNone), (EventAcknowledgeChargeback, 0, SettleNone),
     (EventWinChargeback, 0, SettleNone), (EventIssueFinalCredit, 0, SettleNone),
     (EventClose, 0, SettleWrittenOff), (EventAppeal, 0, SettleNone), (EventIssueRefund, 0, SettleNone),
     (EventClose, 0, SettleWrittenOff)]"

definition sample_ledger :: "Posting list" where
  "sample_ledger =
     [\<lparr>pst_Kind = PostingFastRefund, pst_Debit = AccountSuspense, pst_Credit = AccountCustomer,
       pst_Amount = 70, pst_Currency = ''EUR''\<rparr>,
      \<lparr>pst_Kind = PostingWriteOff, pst_Debit = AccountLoss, pst_Credit = AccountSuspense,
       pst_Amount = 70, pst_Currency = ''EUR''\<rparr>]"

section \<open>Lemmas\<close>

lemma SuspenseBalance_from_eq: "SuspenseBalance_from t ps = t + balance AccountSuspense ps"
  by (induction ps arbitrary: t) (auto simp: balance_def Let_def)

lemma SuspenseBalance_eq: "SuspenseBalance ps = balance AccountSuspense ps"
  by (simp add: SuspenseBalance_def SuspenseBalance_from_eq)

lemma balance_append [simp]: "balance a (ps @ qs) = balance a ps + balance a qs"
  by (simp add: balance_def)

lemma balance_Nil [simp]: "balance a [] = 0"
  by (simp add: balance_def)

lemma balance_post_one [simp]:
  "balance a (post_one inp k d c x) =
     (if 0 < x then (if d = a then x else 0) - (if c = a then x else 0) else 0)"
  by (simp add: post_one_def balance_def)

lemma balance_settle [simp]:
  "balance AccountSuspense (settle_suspense inp s) = - max 0 (pin_Outstanding inp)"
  "balance AccountCustomer (settle_suspense inp s) = 0"
  by (auto simp: settle_suspense_def max_def)

lemma double_entry:
  "balance AccountCustomer ps + balance AccountSuspense ps + balance AccountRecovery ps + balance AccountLoss ps = 0"
proof (induction ps)
  case (Cons p ps)
  have "balance AccountCustomer [p] + balance AccountSuspense [p] + balance AccountRecovery [p] +
      balance AccountLoss [p] = 0"
    by (cases "pst_Debit p"; cases "pst_Credit p") (simp_all add: balance_def)
  with Cons show ?case
    using balance_append [of _ "[p]" ps] by (simp add: algebra_simps)
qed simp

lemma CreditAmount_InrD:
  "CreditAmount sf r disputed liability = Inr x \<Longrightarrow>
     x = disputed - liability \<and> 0 \<le> liability \<and> liability \<le> cents (r_LiabilityCapMinor r) \<and>
     (0 < disputed \<longrightarrow> 0 < x)"
  by (auto simp: CreditAmount_def Let_def split: if_splits)

lemma input_ok_liability: "input_ok sf r disputed liability \<Longrightarrow> 0 \<le> liability"
  by (auto simp: input_ok_def isOk_iff dest: CreditAmount_InrD split: if_splits)

lemma case_run_lifecycle: "case_run sf regime disputed es d ps \<Longrightarrow> lifecycle regime es d"
  by (induction rule: case_run.induct) (auto intro: lifecycle.intros)

lemmas books_unfold = books_ok_def unrefunded_def Postings_def HasRefundStep_def HasProvisionalCredit_def
  refundState_def

lemma books_refund:
  assumes "books_ok r disputed s n b c" "unrefunded s" "suspense_clear r s" "0 \<le> l"
    "to \<in> {StateProvisionalCreditIssued, StateFastRefundIssued, StateSEPANQARefundIssued}"
  shows "books_ok r disputed to n (b + max 0 (disputed - l)) (c + max 0 (disputed - l))"
proof -
  have "max 0 (disputed - l) \<le> max 0 disputed" using assms(4) by (simp add: max_def)
  with assms show ?thesis by (auto simp: books_ok_def unrefunded_def algebra_simps)
qed

lemma next_state_refund:
  "next_state r s e = Some to \<Longrightarrow> to \<in> refund_states \<Longrightarrow> unrefunded s \<and> suspense_clear r s"
  by (cases s; cases e) (auto simp: refund_states_def unrefunded_def split: if_splits)

lemma Postings_refund:
  assumes "pin_Entered inp \<in> refund_states"
  shows "balance AccountSuspense (Postings r inp) = max 0 (pin_Disputed inp - pin_Liability inp)"
    and "balance AccountCustomer (Postings r inp) = - max 0 (pin_Disputed inp - pin_Liability inp)"
  using assms by (auto simp: refund_states_def Postings_def max_def)

lemma books_step:
  assumes step: "next_state r s e = Some to" and ok: "books_ok r disputed s n b c" and l: "0 \<le> liability"
    and ps: "ps = Postings r \<lparr>pin_Entered = to, pin_Disputed = disputed, pin_Currency = currency,
      pin_Liability = liability, pin_Outstanding = b, pin_Settlement = settlement\<rparr>"
  shows "books_ok r disputed to n (b + balance AccountSuspense ps) (c - balance AccountCustomer ps)"
proof (cases "to \<in> refund_states")
  case True
  with next_state_refund [OF step] books_refund [OF ok _ _ l, of to] Postings_refund [of _ r]
  show ?thesis by (simp add: ps refund_states_def)
next
  case False
  have nonneg: "0 \<le> b" "0 \<le> max 0 disputed" using ok by (simp_all add: books_ok_def)
  show ?thesis using step ok False nonneg
    by (cases s; cases e)
       (auto simp: ps books_unfold refund_states_def algebra_simps split: if_splits refund_path.splits)
qed

lemma books_appeal:
  "books_ok r disputed StateClosed n b c \<Longrightarrow> books_ok r disputed StateInvestigating (n + 1) b c"
  by (simp add: books_ok_def unrefunded_def)

lemma case_run_books:
  "case_run sf regime disputed es d ps \<Longrightarrow> RulesFor regime = Inr r \<Longrightarrow>
     books_ok r disputed (d_State d) (d_Appeals d) (SuspenseBalance ps) (- balance AccountCustomer ps)"
proof (induction rule: case_run.induct)
  case (opened d)
  then show ?case by (auto simp: New_Dispute_def books_ok_def unrefunded_def SuspenseBalance_eq)
next
  case (applied es d ps e d' r' liability ps' currency settlement)
  have r: "r' = r" and regime: "d_Regime d = regime"
    using applied lifecycle_regime [OF case_run_lifecycle] by auto
  note ok = applied.IH [OF applied.prems]
  show ?case using applied.hyps(2)
  proof (cases rule: Apply_InrE)
    case (appeal r2)
    then have "ps' = []" using applied.hyps by (simp add: Postings_def)
    with ok appeal books_appeal show ?thesis by simp
  next
    case (step r2 to)
    then have "next_state r (d_State d) e = Some (d_State d')" using regime applied.prems by simp
    from books_step [OF this ok input_ok_liability [OF applied.hyps(4)] applied.hyps(5) [unfolded r]]
    show ?thesis using step by (simp add: SuspenseBalance_eq)
  qed
qed

lemma balance_nonneg_side: "balance AccountRecovery (Postings r inp) \<ge> 0 \<and> balance AccountLoss (Postings r inp) \<ge> 0"
  by (cases "pin_Entered inp") (auto simp: Postings_def settle_suspense_def)

lemma case_run_sides:
  "case_run sf regime disputed es d ps \<Longrightarrow> 0 \<le> balance AccountRecovery ps \<and> 0 \<le> balance AccountLoss ps"
  by (induction rule: case_run.induct) (auto simp: balance_nonneg_side)

lemma run_case_sound:
  "case_run sf regime disputed es d ps \<Longrightarrow> RulesFor regime = Inr r \<Longrightarrow>
     run_case sf r disputed cur d ps xs = Some (d', ps') \<Longrightarrow>
     case_run sf regime disputed (es @ map fst xs) d' ps'"
proof (induction xs arbitrary: es d ps)
  case (Cons x xs)
  obtain e l s where x: "x = (e, l, s)" by (cases x)
  with Cons.prems obtain d1 where d1: "Apply d e = Inr d1" "input_ok sf r disputed l"
    by (auto split: sum.splits if_splits)
  show ?case
    using Cons.IH [OF case_run.applied [OF Cons.prems(1) d1(1) Cons.prems(2) d1(2) refl] Cons.prems(2)]
      Cons.prems(3) d1 by (simp add: x)
qed simp

lemma sample_case_run:
  "case_run sf RegimeEUPSD2Card 100 [EventOpenInvestigation, EventIssueRefund, EventClose]
     \<lparr>d_Regime = RegimeEUPSD2Card, d_State = StateClosed, d_Appeals = 0\<rparr> sample_ledger"
proof -
  let ?d0 = "\<lparr>d_Regime = RegimeEUPSD2Card, d_State = StateInitiated, d_Appeals = 0\<rparr>"
  obtain r where r: "RulesFor RegimeEUPSD2Card = Inr r" by (simp add: RulesFor_def)
  have "case_run sf RegimeEUPSD2Card 100 [] ?d0 []"
    by (rule case_run.opened) (simp add: New_Dispute_def RulesFor_def)
  from run_case_sound [OF this r, of "''EUR''"
      "[(EventOpenInvestigation, 0, SettleNone), (EventIssueRefund, 30, SettleNone), (EventClose, 0, SettleWrittenOff)]"]
  show ?thesis using r
    by (auto simp: RulesFor_def Apply_def input_ok_def CreditAmount_def Postings_def post_one_def
        settle_suspense_def HasRefundStep_def refundState_def SuspenseBalance_eq balance_def cents_def
        sample_ledger_def)
qed

section \<open>Properties\<close>

text \<open>
  C13: whatever path a dispute takes, appeals included, what the bank has in suspense is never negative,
  never more than the disputed amount, and zero once the dispute is \<open>CLOSED\<close>; then all the customer
  received has been recovered or absorbed as a loss.
\<close>

theorem suspense_settled:
  assumes "case_run sf regime disputed es d ps"
  shows "0 \<le> SuspenseBalance ps \<and> SuspenseBalance ps \<le> max 0 disputed \<and>
    (IsTerminal d \<longrightarrow> SuspenseBalance ps = 0 \<and>
       - balance AccountCustomer ps = balance AccountRecovery ps + balance AccountLoss ps \<and>
       0 \<le> balance AccountRecovery ps \<and> 0 \<le> balance AccountLoss ps)"
proof -
  obtain r where "RulesFor regime = Inr r"
    using lifecycle_wf [OF case_run_lifecycle [OF assms]] lifecycle_regime [OF case_run_lifecycle [OF assms]]
    by (auto simp: wf_dispute_def split: sum.splits)
  with case_run_books [OF assms] double_entry [of ps] case_run_sides [OF assms] show ?thesis
    by (auto simp: books_ok_def IsTerminal_def SuspenseBalance_eq)
qed

theorem suspense_settled_witness:
  "SuspenseBalance sample_ledger = 0 \<and>
   - balance AccountCustomer sample_ledger = balance AccountRecovery sample_ledger + balance AccountLoss sample_ledger"
  using suspense_settled [OF sample_case_run] by (simp add: IsTerminal_def)

text \<open>
  The customer never owes the bank on a dispute and is credited at most the disputed amount per cycle,
  one cycle for the opening and one for each appeal.
\<close>

theorem customer_credit_bounded:
  assumes "case_run sf regime disputed es d ps"
  shows "0 \<le> - balance AccountCustomer ps \<and>
    - balance AccountCustomer ps \<le> (of_int (d_Appeals d) + 1) * max 0 disputed"
proof -
  obtain r where "RulesFor regime = Inr r"
    using lifecycle_wf [OF case_run_lifecycle [OF assms]] lifecycle_regime [OF case_run_lifecycle [OF assms]]
    by (auto simp: wf_dispute_def split: sum.splits)
  from case_run_books [OF assms this] show ?thesis
    by (auto simp: books_ok_def algebra_simps split: if_splits)
qed

theorem customer_credit_bounded_witness:
  "0 \<le> - balance AccountCustomer sample_ledger \<and> - balance AccountCustomer sample_ledger \<le> 100"
  using customer_credit_bounded [OF sample_case_run] by simp


text \<open>
  What a refund pays: the disputed amount less the liability, and a liability is accepted exactly when
  it is not negative, within the regime's cap and less than a positive claim. So an accepted refund of a
  positive claim pays the customer something, never more than the claim, and at least the claim less the cap.
\<close>

theorem credit_amount_exact:
  "CreditAmount sf r disputed liability = Inr x \<longleftrightarrow>
     x = disputed - liability \<and> 0 \<le> liability \<and> liability \<le> cents (r_LiabilityCapMinor r) \<and>
     (0 < disputed \<longrightarrow> 0 < x)"
  by (auto simp: CreditAmount_def Let_def)

text \<open>
  The three settlements of suspense an analyst may give: nothing, which is the regime's own, or one of
  the two names; any other string is refused as unprocessable, with the payload field named.
\<close>

theorem parse_settlement_exact:
  assumes "RulesFor regime = Inr r"
  shows "case ParseSettlement r raw of
       Inr s \<Rightarrow> s \<in> {SettleRecovered, SettleWrittenOff} \<and> raw \<in> {[], ''RECOVERED'', ''WRITTEN_OFF''} \<and>
         (raw = [] \<longrightarrow> s = r_CloseSettlement r)
     | Inl e \<Rightarrow> raw \<notin> {[], ''RECOVERED'', ''WRITTEN_OFF''} \<and> errors_Is e ErrInvalidSettlement \<and>
         map fe_Field (FieldsOf e) = [''body.payload.settlement'']"
proof -
  have "r_CloseSettlement r \<in> {SettleRecovered, SettleWrittenOff}"
    using assms by (cases regime) (auto simp: RulesFor_def)
  then show ?thesis by (auto simp: ParseSettlement_def FieldsOf_def)
qed

theorem parse_settlement_exact_witness:
  "\<exists>r. RulesFor RegimeUSRegZ = Inr r \<and> ParseSettlement r [] = Inr SettleWrittenOff"
proof -
  obtain r where r: "RulesFor RegimeUSRegZ = Inr r" by (simp add: RulesFor_def)
  with parse_settlement_exact [OF r, of "[]"] show ?thesis
    by (auto simp: RulesFor_def ParseSettlement_def)
qed

text \<open>The refund an analyst may reduce: the witness of \<open>credit_amount_exact\<close>.\<close>

theorem credit_amount_exact_witness:
  "\<exists>r. RulesFor RegimeUSRegE = Inr r \<and> (CreditAmount (\<lambda>_ _. []) r 100 50 = Inr 50)"
proof -
  obtain r where r: "RulesFor RegimeUSRegE = Inr r" by (simp add: RulesFor_def)
  then have "r_LiabilityCapMinor r = 5000" by (auto simp: RulesFor_def)
  with r credit_amount_exact [of "\<lambda>_ _. []" r 100 50 50] show ?thesis by (simp add: cents_def)
qed

end
