(* ===== verification/Deadlines.thy ===== *)
theory Deadlines
  imports Go_Time Lifecycle
begin

text \<open>
  \<^verbatim>\<open>backend/internal/dispute/domain/deadline.go\<close>: the regulatory clocks.

  \<open>Due\<close> counts days in the tenant's calendar. Its loop need not end in a zone whose clocks skip a whole
  day, so it is a partial function: \<open>None\<close> is a call that does not return. \<open>due_spec\<close> is the day it is meant
  to find. \<open>Settle\<close> is what entering a state does to an open clock.
\<close>

section \<open>Definitions\<close>

datatype deadline_status = DeadlineRunning | DeadlineMet | DeadlineLate | DeadlineBreached | DeadlineVoid

record Deadline =
  dl_Kind :: deadline_kind
  dl_Cycle :: int
  dl_StartedAt :: time
  dl_DueAt :: time
  dl_MetAt :: "time option"
  dl_VoidedAt :: "time option"
  dl_Basis :: string

definition Status :: "Deadline \<Rightarrow> time \<Rightarrow> deadline_status" where
  "Status d now =
     (case dl_MetAt d of
        Some met \<Rightarrow> if \<not> dl_DueAt d < met then DeadlineMet else DeadlineLate
      | None \<Rightarrow>
          (case dl_VoidedAt d of
             Some _ \<Rightarrow> DeadlineVoid
           | None \<Rightarrow> if dl_DueAt d < now then DeadlineBreached else DeadlineRunning))"

definition dl_Open :: "Deadline \<Rightarrow> bool" where
  "dl_Open d \<longleftrightarrow> dl_MetAt d = None \<and> dl_VoidedAt d = None"

text \<open>The holidays are the keys of the source's map; a nil location is \<open>None\<close>.\<close>

record Calendar =
  cal_Location :: "location option"
  cal_Holidays :: "string list"

definition DefaultCalendar :: Calendar where
  "DefaultCalendar = \<lparr>cal_Location = Some UTC, cal_Holidays = []\<rparr>"

text \<open>\<open>LoadLocation\<close> is the zone database of the host.\<close>

definition NewCalendar :: "(string \<Rightarrow> location option) \<Rightarrow> string \<Rightarrow> string list \<Rightarrow> Calendar result" where
  "NewCalendar LoadLocation zone holidays =
     bindR (if zone = [] then Inr UTC
            else case LoadLocation zone of
              None \<Rightarrow> Inl (Opaque (''domain: calendar zone '' @ go_quote zone))
            | Some l \<Rightarrow> Inr l)
       (\<lambda>loc. case find (\<lambda>h. parse_iso h = None) holidays of
          Some h \<Rightarrow> Inl (Opaque (''domain: calendar holiday '' @ go_quote h))
        | None \<Rightarrow> Inr \<lparr>cal_Location = Some loc, cal_Holidays = holidays\<rparr>)"

definition cal_loc :: "Calendar \<Rightarrow> location" where
  "cal_loc c = (case cal_Location c of None \<Rightarrow> UTC | Some l \<Rightarrow> l)"

definition IsBusinessDay :: "Calendar \<Rightarrow> time \<Rightarrow> bool" where
  "IsBusinessDay c t =
     (let wd = Weekday (cal_loc c) t in
      if wd = 6 \<or> wd = 0 then False
      else \<not> Format_iso (cal_loc c) t \<in> set (cal_Holidays c))"

partial_function (option) due_loop :: "Calendar \<Rightarrow> Clock \<Rightarrow> int \<Rightarrow> time \<Rightarrow> time option" where
  "due_loop c clock n day =
     (if n < clk_Count clock then
        let day' = AddDays (cal_loc c) 1 day in
        if clk_Unit clock = CalendarDays \<or> IsBusinessDay c day' then due_loop c clock (n + 1) day'
        else due_loop c clock n day'
      else Some day)"

definition Due :: "Calendar \<Rightarrow> time \<Rightarrow> Clock \<Rightarrow> time option" where
  "Due c start clock =
     (let loc = cal_loc c; (y, m, d) = civil_of_day (local_day loc start) in
      map_option (\<lambda>day. AddDays loc 1 day - 1) (due_loop c clock 0 (Date y m d 0 0 loc)))"

definition mkDeadline :: "Clock \<Rightarrow> int \<Rightarrow> time \<Rightarrow> time \<Rightarrow> Deadline" where
  "mkDeadline c cycle started due = \<lparr>dl_Kind = clk_Kind c, dl_Cycle = cycle, dl_StartedAt = started, dl_DueAt = due,
     dl_MetAt = None, dl_VoidedAt = None, dl_Basis = clk_Basis c\<rparr>"

fun start_clocks :: "Calendar \<Rightarrow> int \<Rightarrow> time \<Rightarrow> Clock list \<Rightarrow> Deadline list option" where
  "start_clocks cal cycle started [] = Some []"
| "start_clocks cal cycle started (c # cs) =
     (case Due cal started c of
        None \<Rightarrow> None
      | Some due \<Rightarrow> map_option (\<lambda>ds. mkDeadline c cycle started due # ds) (start_clocks cal cycle started cs))"

definition OpeningDeadlines :: "Rules \<Rightarrow> time \<Rightarrow> Calendar \<Rightarrow> Deadline list option" where
  "OpeningDeadlines r openedAt cal = start_clocks cal 0 openedAt (r_Clocks r)"

definition AppealDeadlines :: "Rules \<Rightarrow> int \<Rightarrow> time \<Rightarrow> Calendar \<Rightarrow> Deadline list option" where
  "AppealDeadlines r appeal started cal =
     start_clocks cal appeal started (filter (\<lambda>c. clk_Kind c = DeadlineResolution) (r_Clocks r))"

datatype settlement = Untouched | Met | Void

definition Settle :: "deadline_kind \<Rightarrow> state \<Rightarrow> settlement" where
  "Settle kind entered =
     (case kind of
        DeadlineRefund \<Rightarrow>
          (case entered of
             StateProvisionalCreditIssued \<Rightarrow> Met
           | StateFastRefundIssued \<Rightarrow> Met
           | StateSEPANQARefundIssued \<Rightarrow> Met
           | StateFinalCreditIssued \<Rightarrow> Met
           | StateClosed \<Rightarrow> Void
           | _ \<Rightarrow> Untouched)
      | DeadlineAcknowledge \<Rightarrow> (if entered = StateClosed then Void else Untouched)
      | DeadlineResolution \<Rightarrow> (if entered = StateClosed then Met else Untouched))"

definition hasClock :: "Rules \<Rightarrow> deadline_kind \<Rightarrow> bool" where
  "hasClock r kind \<longleftrightarrow> (\<exists>c \<in> set (r_Clocks r). clk_Kind c = kind)"

section \<open>What Due is meant to find\<close>

text \<open>A day number that a clock counts, and the days counted after \<open>D0\<close> up to \<open>D\<close>.\<close>

definition counted :: "Calendar \<Rightarrow> day_unit \<Rightarrow> int \<Rightarrow> bool" where
  "counted c unit D \<longleftrightarrow> unit = CalendarDays \<or>
     (weekday D \<noteq> 6 \<and> weekday D \<noteq> 0 \<and> civil_iso (civil_of_day D) \<notin> set (cal_Holidays c))"

definition counted_days :: "Calendar \<Rightarrow> day_unit \<Rightarrow> int \<Rightarrow> int \<Rightarrow> int set" where
  "counted_days c unit D0 D = {e. D0 < e \<and> e \<le> D \<and> counted c unit e}"

text \<open>\<open>D\<close> is the day a clock of \<open>n\<close> days started on day \<open>D0\<close> ends with.\<close>

definition due_spec :: "Calendar \<Rightarrow> Clock \<Rightarrow> int \<Rightarrow> int \<Rightarrow> bool" where
  "due_spec c clock D0 D \<longleftrightarrow> D0 \<le> D \<and> int (card (counted_days c (clk_Unit clock) D0 D)) = max 0 (clk_Count clock) \<and>
     (if 0 < clk_Count clock then counted c (clk_Unit clock) D else D = D0)"

text \<open>
  The zone of S\~ao Paulo around its last but one change to summer time: at 00:00 on 15 October 2017 the
  clocks went to 01:00.
\<close>

definition sao_paulo_2017 :: location where
  "sao_paulo_2017 s = (if s < 1508036400 then (-10800, None, Some 1508036400) else (-7200, Some 1508036400, None))"

section \<open>Lemmas\<close>

lemma IsBusinessDay_midnight:
  "keeps_midnights (cal_loc c) \<Longrightarrow>
     (clk_Unit clock = CalendarDays \<or> IsBusinessDay c (midnight (cal_loc c) D)) = counted c (clk_Unit clock) D"
  by (auto simp: IsBusinessDay_def Let_def counted_def Weekday_def Format_iso_def local_day_midnight)

lemma due_loop_step:
  "keeps_midnights (cal_loc c) \<Longrightarrow>
     due_loop c clock n (midnight (cal_loc c) D) =
     (if n < clk_Count clock then
        due_loop c clock (if counted c (clk_Unit clock) (D + 1) then n + 1 else n) (midnight (cal_loc c) (D + 1))
      else Some (midnight (cal_loc c) D))"
  by (subst due_loop.simps) (simp add: AddDays_midnight IsBusinessDay_midnight Let_def)

text \<open>From the epoch on there is always a next counted day: every week has a Monday, and the holidays are finitely many.\<close>

lemma weekday_monday: "weekday (b + (4 - b) mod 7) = 1"
  unfolding weekday_def by presburger

lemma next_counted: "\<exists>E > D. counted c unit E"
proof -
  define F where "F = (\<lambda>i. let b = max D 0 + 1 + 7 * int i in b + (4 - b) mod 7)"
  have mono: "F i < F (Suc i)" for i
  proof -
    have "(4 - (b + 7)) mod 7 = (4 - b) mod (7 :: int)" for b by presburger
    then show ?thesis by (simp add: F_def Let_def algebra_simps)
  qed
  have inj: "inj F" by (rule strict_mono_imp_inj_on) (simp add: strict_mono_Suc_iff mono)
  have pos: "D < F i" "0 \<le> F i" "weekday (F i) = 1" for i
  proof -
    have *: "0 \<le> (4 - b) mod (7 :: int)" for b by simp
    show "D < F i" "0 \<le> F i" using * [of "max D 0 + 1 + 7 * int i"] by (simp_all add: F_def Let_def)
    show "weekday (F i) = 1" unfolding F_def Let_def by (rule weekday_monday)
  qed
  have "\<not> (\<forall>i. civil_iso (civil_of_day (F i)) \<in> set (cal_Holidays c))"
  proof
    assume all: "\<forall>i. civil_iso (civil_of_day (F i)) \<in> set (cal_Holidays c)"
    have "inj (\<lambda>i. civil_iso (civil_of_day (F i)))"
      by (rule injI) (meson civil_iso_inj inj injD pos(2))
    then have "infinite (range (\<lambda>i. civil_iso (civil_of_day (F i))))" by (simp add: finite_image_iff)
    moreover have "range (\<lambda>i. civil_iso (civil_of_day (F i))) \<subseteq> set (cal_Holidays c)" using all by auto
    ultimately show False using finite_subset by blast
  qed
  then obtain i where "civil_iso (civil_of_day (F i)) \<notin> set (cal_Holidays c)" by blast
  with pos show ?thesis by (intro exI [of _ "F i"]) (simp add: counted_def)
qed

lemma finite_counted_days [simp]: "finite (counted_days c unit D0 D)"
  by (rule finite_subset [of _ "{D0..D}"]) (auto simp: counted_days_def)

lemma counted_days_step:
  "D0 \<le> D \<Longrightarrow> counted_days c unit D0 (D + 1) =
     (if counted c unit (D + 1) then insert (D + 1) (counted_days c unit D0 D) else counted_days c unit D0 D)"
  by (auto simp: counted_days_def) (metis add.commute zle_add1_eq_le order_le_less zless_add1_eq)+

lemma card_counted_days_step:
  assumes "D0 \<le> D"
  shows "int (card (counted_days c unit D0 (D + 1))) =
    int (card (counted_days c unit D0 D)) + (if counted c unit (D + 1) then 1 else 0)"
proof -
  have "D + 1 \<notin> counted_days c unit D0 D" by (simp add: counted_days_def)
  with assms show ?thesis by (simp add: counted_days_step)
qed

lemma least_counted:
  obtains E where "D < E" "counted c unit E" "\<And>e. D < e \<Longrightarrow> e < E \<Longrightarrow> \<not> counted c unit e"
proof -
  obtain E0 where E0: "D < E0" "counted c unit E0" using next_counted by blast
  define k where "k = (LEAST k :: nat. counted c unit (D + 1 + int k))"
  have ex: "\<exists>k :: nat. counted c unit (D + 1 + int k)"
    using E0 by (intro exI [of _ "nat (E0 - D - 1)"]) simp
  have "counted c unit (D + 1 + int k)" unfolding k_def by (rule LeastI_ex) (rule ex)
  moreover have "\<not> counted c unit e" if "D < e" "e < D + 1 + int k" for e
  proof
    assume "counted c unit e"
    then have "counted c unit (D + 1 + int (nat (e - D - 1)))" using that by simp
    then have "k \<le> nat (e - D - 1)" unfolding k_def by (rule Least_le)
    with that show False by linarith
  qed
  ultimately show thesis using that [of "D + 1 + int k"] by simp
qed

lemma due_loop_skip:
  assumes "keeps_midnights (cal_loc c)" "n < clk_Count clock" "D0 \<le> D" "D < E" "counted c (clk_Unit clock) E"
    "\<And>e. D < e \<Longrightarrow> e < E \<Longrightarrow> \<not> counted c (clk_Unit clock) e"
  shows "due_loop c clock n (midnight (cal_loc c) D) = due_loop c clock (n + 1) (midnight (cal_loc c) E) \<and>
    int (card (counted_days c (clk_Unit clock) D0 E)) = int (card (counted_days c (clk_Unit clock) D0 D)) + 1"
  using assms
proof (induction "nat (E - D)" arbitrary: D)
  case (Suc k)
  show ?case
  proof (cases "E = D + 1")
    case True
    with Suc.prems show ?thesis
      by (simp add: due_loop_step [OF Suc.prems(1), of clock n D] card_counted_days_step)
  next
    case False
    with Suc.prems have not: "\<not> counted c (clk_Unit clock) (D + 1)" by simp
    have "due_loop c clock n (midnight (cal_loc c) (D + 1)) = due_loop c clock (n + 1) (midnight (cal_loc c) E) \<and>
      int (card (counted_days c (clk_Unit clock) D0 E)) = int (card (counted_days c (clk_Unit clock) D0 (D + 1))) + 1"
      by (rule Suc.hyps) (use Suc.prems Suc.hyps(2) False in auto)
    with not Suc.prems show ?thesis
      by (simp add: due_loop_step [OF Suc.prems(1), of clock n D] card_counted_days_step)
  qed
qed simp

lemma due_loop_returns:
  assumes "keeps_midnights (cal_loc c)" "D0 \<le> D" "int (card (counted_days c (clk_Unit clock) D0 D)) = n"
    "n \<le> max 0 (clk_Count clock)" "0 < n \<longrightarrow> counted c (clk_Unit clock) D" "n = 0 \<longrightarrow> D = D0"
  shows "\<exists>E. due_loop c clock n (midnight (cal_loc c) D) = Some (midnight (cal_loc c) E) \<and> due_spec c clock D0 E"
  using assms
proof (induction "nat (clk_Count clock - n)" arbitrary: n D)
  case 0
  then have "due_loop c clock n (midnight (cal_loc c) D) = Some (midnight (cal_loc c) D)"
    by (subst due_loop.simps) simp
  with 0 show ?case by (intro exI [of _ D]) (auto simp: due_spec_def max_def)
next
  case (Suc k)
  then have n: "n < clk_Count clock" by simp
  obtain E where E: "D < E" "counted c (clk_Unit clock) E" "\<And>e. D < e \<Longrightarrow> e < E \<Longrightarrow> \<not> counted c (clk_Unit clock) e"
    by (rule least_counted [of D c "clk_Unit clock"]) blast
  note skip = due_loop_skip [OF Suc.prems(1) n Suc.prems(2) E]
  have "\<exists>F. due_loop c clock (n + 1) (midnight (cal_loc c) E) = Some (midnight (cal_loc c) F) \<and> due_spec c clock D0 F"
    by (rule Suc.hyps(1)) (use Suc E skip n in auto)
  with skip show ?case by simp
qed

lemma Due_start:
  "Due c start clock = map_option (\<lambda>day. AddDays (cal_loc c) 1 day - 1)
     (due_loop c clock 0 (midnight (cal_loc c) (local_day (cal_loc c) start)))"
proof -
  obtain y m d where c: "civil_of_day (local_day (cal_loc c) start) = (y, m, d)" by (metis prod_cases3)
  show ?thesis using Date_civil [OF c, of 0 0 0] by (simp add: Due_def Let_def c midnight_def)
qed

lemma due_spec_unique: "due_spec c clock D0 D \<Longrightarrow> due_spec c clock D0 E \<Longrightarrow> D = E"
proof -
  have less: False if "due_spec c clock D0 D" "due_spec c clock D0 E" "D < E" for D E
  proof -
    have sub: "counted_days c (clk_Unit clock) D0 D \<subseteq> counted_days c (clk_Unit clock) D0 E"
      using that(3) by (auto simp: counted_days_def)
    have "0 < clk_Count clock" using that by (auto simp: due_spec_def split: if_splits)
    then have "E \<in> counted_days c (clk_Unit clock) D0 E - counted_days c (clk_Unit clock) D0 D"
      using that by (auto simp: due_spec_def counted_days_def)
    with sub have "counted_days c (clk_Unit clock) D0 D \<subset> counted_days c (clk_Unit clock) D0 E" by blast
    from psubset_card_mono [OF finite_counted_days this] that show False by (simp add: due_spec_def)
  qed
  then show "due_spec c clock D0 D \<Longrightarrow> due_spec c clock D0 E \<Longrightarrow> D = E" by (meson linorder_neqE_linordered_idom)
qed

section \<open>Properties\<close>

text \<open>
  C15: \<open>Due\<close> returns, whatever the holidays, and the time it returns is the last nanosecond before the midnight
  that ends the \<open>N\<close>th day counted after the day of the start: calendar days or weekdays that are no
  holiday, as the clock says. This holds in every zone whose days begin at 00:00.
\<close>

theorem due_exact:
  assumes "keeps_midnights (cal_loc c)"
  shows "\<exists>!D. Due c start clock = Some (midnight (cal_loc c) (D + 1) - 1) \<and>
     due_spec c clock (local_day (cal_loc c) start) D"
proof -
  let ?D0 = "local_day (cal_loc c) start"
  have empty: "counted_days c (clk_Unit clock) ?D0 ?D0 = {}" by (auto simp: counted_days_def)
  obtain D where D: "due_loop c clock 0 (midnight (cal_loc c) ?D0) = Some (midnight (cal_loc c) D)"
    "due_spec c clock ?D0 D"
    using due_loop_returns [OF assms order_refl, of clock ?D0 0] empty by auto
  then have "Due c start clock = Some (midnight (cal_loc c) (D + 1) - 1)"
    by (simp add: Due_start AddDays_midnight [OF assms])
  with D due_spec_unique show ?thesis by blast
qed

theorem due_exact_witness:
  "\<exists>!D. Due DefaultCalendar 0 (mkClock DeadlineRefund 10 BusinessDays []) =
       Some (midnight (cal_loc DefaultCalendar) (D + 1) - 1) \<and>
     due_spec DefaultCalendar (mkClock DeadlineRefund 10 BusinessDays []) (local_day (cal_loc DefaultCalendar) 0) D"
  by (rule due_exact) (simp add: DefaultCalendar_def cal_loc_def UTC_keeps_midnights)


end
