(* ===== verification/Notices.thy ===== *)
theory Notices
  imports Regime Questionnaire
begin

text \<open>
  \<^verbatim>\<open>backend/internal/dispute/domain/notice.go\<close> and \<^verbatim>\<open>backend/internal/dispute/notice/notice.go\<close>:
  which notices a state owes the customer, what they say, and how they are rendered.

  \<open>loc\<close> is the location the process formats its times in. \<open>sf\<close> is the printer of the decimal package.
\<close>

section \<open>Which notices\<close>

datatype notice_kind = NoticeAcknowledgement | NoticeQuestionnaire | NoticeProvisionalCredit | NoticeRefund
  | NoticeReversal | NoticeResolution | NoticeRequestForInformation | NoticeStatusUpdate
  | NoticeDocumentsReceived | NoticeCustom | NoticeOther string

fun notice_kind_str :: "notice_kind \<Rightarrow> string" where
  "notice_kind_str NoticeAcknowledgement = ''ACKNOWLEDGEMENT''"
| "notice_kind_str NoticeQuestionnaire = ''QUESTIONNAIRE''"
| "notice_kind_str NoticeProvisionalCredit = ''PROVISIONAL_CREDIT''"
| "notice_kind_str NoticeRefund = ''REFUND''"
| "notice_kind_str NoticeReversal = ''REVERSAL''"
| "notice_kind_str NoticeResolution = ''RESOLUTION''"
| "notice_kind_str NoticeRequestForInformation = ''REQUEST_FOR_INFORMATION''"
| "notice_kind_str NoticeStatusUpdate = ''STATUS_UPDATE''"
| "notice_kind_str NoticeDocumentsReceived = ''DOCUMENTS_RECEIVED''"
| "notice_kind_str NoticeCustom = ''CUSTOM''"
| "notice_kind_str (NoticeOther s) = s"

definition ManualNoticeKinds :: "notice_kind list" where
  "ManualNoticeKinds = [NoticeRequestForInformation, NoticeStatusUpdate, NoticeDocumentsReceived, NoticeCustom]"

datatype channel = ChannelEmail | ChannelLetter

definition NoticesFor :: "Rules \<Rightarrow> state \<Rightarrow> notice_kind list" where
  "NoticesFor r entered =
     (case entered of
        StateInitiated \<Rightarrow> [NoticeAcknowledgement]
      | StateQuestionnaireSent \<Rightarrow> [NoticeQuestionnaire]
      | StateProvisionalCreditIssued \<Rightarrow> [NoticeProvisionalCredit]
      | StateFastRefundIssued \<Rightarrow> [NoticeRefund]
      | StateSEPANQARefundIssued \<Rightarrow> [NoticeRefund]
      | StateProvisionalCreditReversed \<Rightarrow> [NoticeReversal]
      | StateClosed \<Rightarrow> [NoticeResolution]
      | _ \<Rightarrow> [])"

definition ChannelsFor :: "Rules \<Rightarrow> notice_kind \<Rightarrow> channel list" where
  "ChannelsFor r kind =
     (if r_WrittenNotices r \<and> kind \<noteq> NoticeQuestionnaire then [ChannelEmail, ChannelLetter] else [ChannelEmail])"

section \<open>What they say\<close>

datatype outcome = OutcomeCredited | OutcomeDenied | OutcomeReversed | OutcomeRecovered | OutcomeNone

record Facts =
  f_Bank :: string
  f_Customer :: string
  f_DisputeID :: string
  f_Reason :: reason
  f_Regime :: regime
  f_Merchant :: string
  f_Amount :: decimal
  f_Currency :: string
  f_Credited :: decimal
  f_OccurredAt :: time
  f_OpenedAt :: time
  f_Now :: time
  f_ResolutionDue :: "time option"
  f_Questions :: "Question list"
  f_Outcome :: outcome
  f_ReversalAmount :: decimal

record Document =
  doc_Bank :: string
  doc_Subject :: string
  doc_Greeting :: string
  doc_Paragraphs :: "string list"
  doc_Closing :: string
  doc_Basis :: string

fun reasonWords :: "reason \<Rightarrow> string" where
  "reasonWords ReasonNotReceived = ''Undelivered''"
| "reasonWords ReasonDuplicate = ''Duplicate''"
| "reasonWords ReasonAmountDiffers = ''Incorrectly charged''"
| "reasonWords _ = ''Unauthorised''"

definition basis :: "regime \<Rightarrow> notice_kind \<Rightarrow> string" where
  "basis r kind =
     (case r of
        RegimeUSRegE \<Rightarrow>
          (case kind of
             NoticeProvisionalCredit \<Rightarrow> ''This notice is given under 12 CFR 1005.11(c)(2)(iv).''
           | NoticeReversal \<Rightarrow> ''This notice is given under 12 CFR 1005.11(d)(2).''
           | NoticeResolution \<Rightarrow> ''This notice is given under 12 CFR 1005.11(d)(1).''
           | _ \<Rightarrow> [])
      | RegimeUSRegZ \<Rightarrow>
          (case kind of
             NoticeAcknowledgement \<Rightarrow> ''This written acknowledgement is given under 12 CFR 1026.13(c)(1).''
           | NoticeResolution \<Rightarrow> ''This notice is given under 12 CFR 1026.13(e) and (f).''
           | _ \<Rightarrow> [])
      | RegimeEUPSD2Card \<Rightarrow>
          (if kind = NoticeRefund then ''Refund made under Article 73 of Directive (EU) 2015/2366.'' else [])
      | RegimeEUSEPADirectDebit \<Rightarrow>
          (if kind = NoticeRefund
           then ''Refund made under Article 77 of Directive (EU) 2015/2366 and the SEPA Core Direct Debit Scheme Rulebook.''
           else [])
      | RegimeOther s \<Rightarrow> [])"

definition money :: "string_fixed \<Rightarrow> Facts \<Rightarrow> decimal \<Rightarrow> string" where
  "money sf f d = sf d 2 @ '' '' @ f_Currency f"

definition doc_ref :: "Facts \<Rightarrow> string" where
  "doc_ref f = ''Dispute reference '' @ f_DisputeID f @ ''.''"

definition question_lines :: "Question list \<Rightarrow> string list" where
  "question_lines qs = map (\<lambda>(i, q). show_nat (i + 1) @ ''. '' @ q_Text q @ (if \<not> q_Required q then '' (optional)'' else []))
     (zip [0..<length qs] qs)"

definition resolution_paragraph :: "string_fixed \<Rightarrow> Facts \<Rightarrow> string" where
  "resolution_paragraph sf f =
     (let intro = ''We have completed our investigation of your dispute of '' @ money sf f (f_Amount f) @ '' to '' @ f_Merchant f
      in case f_Outcome f of
           OutcomeCredited \<Rightarrow> intro @ '' and found in your favour. The credit of '' @ money sf f (f_Credited f) @
             '' to your account is final.''
         | OutcomeRecovered \<Rightarrow> intro @ '' and found in your favour. The credit of '' @ money sf f (f_Credited f) @
             '' to your account is final.''
         | OutcomeReversed \<Rightarrow> intro @ '' and found that no error occurred. The provisional credit has been reversed, as we told you separately.''
         | _ \<Rightarrow> intro @ '' and found that no error occurred. No credit has been made.'')"

text \<open>The subject, the paragraphs and whether the provision is cited, by kind.\<close>

definition notice_body :: "string_fixed \<Rightarrow> location \<Rightarrow> notice_kind \<Rightarrow> Facts \<Rightarrow> string \<times> string list \<times> bool" where
  "notice_body sf loc kind f =
     (let m = money sf f; day = Format_long loc; ref = doc_ref f in
      case kind of
        NoticeAcknowledgement \<Rightarrow>
          (''We have received your dispute'',
           [''We have received your dispute of the '' @ to_lower (reasonWords (f_Reason f)) @ '' payment of '' @ m (f_Amount f) @
              '' to '' @ f_Merchant f @ '' made on '' @ day (f_OccurredAt f) @ '', and we have opened an investigation.''] @
           (case f_ResolutionDue f of None \<Rightarrow> [] | Some due \<Rightarrow> [''We will let you know the outcome by '' @ day due @ ''.'']) @
           [''You do not need to do anything now. If we need more from you, we will ask.'', ref], True)
      | NoticeQuestionnaire \<Rightarrow>
          (''A few questions about your dispute'',
           [''To investigate your dispute we need your answers to the following questions. Please reply as soon as you can.''] @
           question_lines (f_Questions f) @ [ref], False)
      | NoticeProvisionalCredit \<Rightarrow>
          (''Provisional credit posted to your account'',
           [''While we investigate, we have credited '' @ m (f_Credited f) @ '' to your account on '' @ day (f_Now f) @
              ''. You may use these funds.'',
            ''This credit is provisional. If our investigation finds that no error occurred, we will reverse it and tell you the date and amount before we do.'',
            ref], True)
      | NoticeRefund \<Rightarrow>
          (''Your refund'',
           [''We have refunded '' @ m (f_Credited f) @ '' to your account on '' @ day (f_Now f) @ ''.''] @
           (if f_Credited f < f_Amount f
            then [''This is '' @ m (f_Amount f - f_Credited f) @
              '' less than the disputed amount, which is the share the rules leave with you; we can explain how it was determined.'']
            else []) @ [ref], True)
      | NoticeReversal \<Rightarrow>
          (''Reversal of your provisional credit'',
           [''Our investigation has concluded that no error occurred. The provisional credit of '' @ m (f_ReversalAmount f) @
              '' will be debited from your account on '' @ day (AddDays loc 5 (f_Now f)) @ ''.'',
            ''Until that date we will honour payments from your account up to that amount without charge, as the rules require.'',
            ''You may ask us for the documents we relied on.'', ref], True)
      | NoticeResolution \<Rightarrow>
          (''The outcome of your dispute'',
           [resolution_paragraph sf f,
            ''You may ask us for copies of the documents we relied on, and you may appeal this decision.'', ref], True)
      | _ \<Rightarrow> ([], [], False))"

definition Compose :: "string_fixed \<Rightarrow> location \<Rightarrow> notice_kind \<Rightarrow> Facts \<Rightarrow> Document" where
  "Compose sf loc kind f =
     (let (subject, paragraphs, cited) = notice_body sf loc kind f in
      \<lparr>doc_Bank = f_Bank f, doc_Subject = subject, doc_Greeting = ''Dear '' @ f_Customer f @ '','',
       doc_Paragraphs = paragraphs, doc_Closing = ''Yours sincerely,'' @ newline @ f_Bank f @ '' disputes team'',
       doc_Basis = (if cited then basis (f_Regime f) kind else [])\<rparr>)"

section \<open>How they are rendered\<close>

definition Text :: "Document \<Rightarrow> string" where
  "Text d = doc_Greeting d @ newline @ newline @
     concat (map (\<lambda>p. p @ newline @ newline) (doc_Paragraphs d)) @
     doc_Closing d @ newline @ (if doc_Basis d \<noteq> [] then newline @ doc_Basis d @ newline else [])"

text \<open>\<open>html.EscapeString\<close>.\<close>

definition escape_char :: "char \<Rightarrow> string" where
  "escape_char c =
     (if c = CHR ''&'' then ''&amp;'' else if c = CHR ''<'' then ''&lt;'' else if c = CHR ''>'' then ''&gt;''
      else if c = CHR 34 then ''&#34;'' else if c = CHR 39 then ''&#39;'' else [c])"

definition html_escape :: "string \<Rightarrow> string" where
  "html_escape s = concat (map escape_char s)"

text \<open>\<open>strings.ReplaceAll(s, "\n", "<br>")\<close>.\<close>

definition br_lines :: "string \<Rightarrow> string" where
  "br_lines s = concat (map (\<lambda>c. if c = CHR 10 then ''<br>'' else [c]) s)"

definition html_text_style :: string where
  "html_text_style = ''font-family:Georgia,'Times New Roman',serif;font-size:16px;line-height:24px;color:#111111;''"

definition html_small_style :: string where
  "html_small_style = ''font-family:Georgia,'Times New Roman',serif;font-size:13px;line-height:20px;color:#555555;''"

definition html_cell :: "string \<Rightarrow> string \<Rightarrow> string" where
  "html_cell style inner = ''<tr><td style=\"'' @ style @ ''padding:0 0 16px 0;\">'' @ inner @ ''</td></tr>''"

definition html_head :: "string \<Rightarrow> string" where
  "html_head title = ''<!DOCTYPE html><html lang=\"en\"><head><meta charset=\"utf-8\"><meta name=\"viewport\" content=\"width=device-width\"><title>'' @
     title @ ''</title></head>''"

definition html_open :: string where
  "html_open = ''<body>'' @
     ''<table role=\"presentation\" width=\"100%\" cellpadding=\"0\" cellspacing=\"0\"><tr><td align=\"center\" style=\"padding:24px 12px;\">'' @
     ''<table role=\"presentation\" width=\"600\" cellpadding=\"0\" cellspacing=\"0\">''"

definition HTML :: "location \<Rightarrow> Document \<Rightarrow> time \<Rightarrow> string" where
  "HTML loc d date =
     html_head (html_escape (doc_Subject d)) @ html_open @
     html_cell html_small_style (html_escape (doc_Bank d) @ ''<br>'' @ html_escape (Format_long loc date)) @
     html_cell (html_text_style @ ''font-size:20px;line-height:28px;'') (''<b>'' @ html_escape (doc_Subject d) @ ''</b>'') @
     html_cell html_text_style (html_escape (doc_Greeting d)) @
     concat (map (\<lambda>p. html_cell html_text_style (br_lines (html_escape p))) (doc_Paragraphs d)) @
     html_cell html_text_style (br_lines (html_escape (doc_Closing d))) @
     (if doc_Basis d \<noteq> [] then html_cell html_small_style (html_escape (doc_Basis d)) else []) @
     ''</table></td></tr></table></body></html>''"

section \<open>Lemmas\<close>

text \<open>\<open>tags s\<close> counts the tags a text opens; a text that was escaped opens none.\<close>

definition tags :: "string \<Rightarrow> nat" where
  "tags s = length (filter (\<lambda>c. c = CHR ''<'') s)"

definition line_breaks :: "string \<Rightarrow> nat" where
  "line_breaks s = length (filter (\<lambda>c. c = CHR 10) s)"

lemma tags_append [simp]: "tags (s @ t) = tags s + tags t"
  by (simp add: tags_def)

lemma tags_Nil [simp]: "tags [] = 0"
  by (simp add: tags_def)

lemma tags_Cons: "tags (c # s) = (if c = CHR ''<'' then 1 else 0) + tags s"
  by (simp add: tags_def)

lemma escape_char_clean: "c \<in> set (escape_char x) \<Longrightarrow> c \<notin> {CHR ''<'', CHR ''>'', CHR 34, CHR 39}"
  by (auto simp: escape_char_def split: if_splits)

lemma html_escape_clean: "c \<in> set (html_escape s) \<Longrightarrow> c \<notin> {CHR ''<'', CHR ''>'', CHR 34, CHR 39}"
  using escape_char_clean by (auto simp: html_escape_def)

lemma tags_html_escape [simp]: "tags (html_escape s) = 0"
  using html_escape_clean by (fastforce simp: tags_def filter_empty_conv)

lemma html_escape_breaks [simp]: "line_breaks (html_escape s) = line_breaks s"
proof (induction s)
  case (Cons c s)
  have "line_breaks (escape_char c) = line_breaks [c]" by (simp add: escape_char_def line_breaks_def)
  then show ?case using Cons by (simp add: html_escape_def line_breaks_def)
qed (simp add: html_escape_def)

lemma tags_br_lines: "tags (br_lines s) = tags s + line_breaks s"
  by (induction s) (auto simp: br_lines_def line_breaks_def tags_Cons)

lemma tags_html_cell: "tags (html_cell style inner) = 4 + tags style + tags inner"
  by (simp add: html_cell_def tags_Cons)

lemma tags_styles [simp]: "tags html_text_style = 0" "tags html_small_style = 0"
  by (simp_all add: html_text_style_def html_small_style_def tags_Cons)

lemma tags_concat: "tags (concat (map f xs)) = (\<Sum>x\<leftarrow>xs. tags (f x))"
  by (induction xs) simp_all

section \<open>Properties\<close>

text \<open>
  C37: no text of a notice (the customer's name, the merchant, an analyst's words) adds markup to the email:
  the number of tags of the rendered document depends only on the number of its paragraphs, the line breaks in
  them and in the closing, and whether a provision is cited.
\<close>

theorem html_no_injection:
  "tags (HTML loc d date) =
     38 + (\<Sum>p\<leftarrow>doc_Paragraphs d. 4 + line_breaks p) + line_breaks (doc_Closing d) +
     (if doc_Basis d \<noteq> [] then 4 else 0)"
  by (simp add: HTML_def html_head_def html_open_def tags_html_cell tags_br_lines tags_concat tags_Cons)

end
