(* ===== verification/Templates.thy ===== *)
theory Templates
  imports Notices
begin

text \<open>
  \<^verbatim>\<open>backend/internal/dispute/notice/template.go\<close>: the emails an analyst composes, with the embedded
  \<^verbatim>\<open>templates/*.json\<close>.

  The two regular expressions of the source are matchers: \<open>match_placeholder\<close> for a placeholder at the front of
  a text and \<open>match_section\<close> for a section; \<open>replace_sections\<close> and \<open>replace_placeholders\<close> are
  \<open>ReplaceAllStringFunc\<close>, which replaces the leftmost matches that do not overlap, in one pass.
\<close>

section \<open>Forms\<close>

datatype field_type = FieldText | FieldTextarea | FieldNumber | FieldDate | FieldSelect | FieldMultiselect
  | FieldOther string

record Option_rec =
  opt_Key :: string
  opt_Label :: string
  opt_Text :: string

record Field =
  fld_ID :: string
  fld_Label :: string
  fld_Type :: field_type
  fld_Required :: bool
  fld_Options :: "Option_rec list"
  fld_List :: bool
  fld_Default :: string
  fld_Min :: "int option"
  fld_Max :: "int option"

record Template =
  tpl_Kind :: notice_kind
  tpl_Label :: string
  tpl_Description :: string
  tpl_Letter :: bool
  tpl_Fields :: "Field list"
  tpl_Subject :: string
  tpl_Paragraphs :: "string list"

definition factNames :: "string list" where
  "factNames = [''customer'', ''bank'', ''amount'', ''merchant'', ''dispute'', ''today'', ''dueDate'']"

section \<open>Placeholders\<close>

text \<open>A match: the mark after the braces, the name, the matched text and the text after it.\<close>

type_synonym placeholder_match = "string \<times> string \<times> string \<times> string"

definition match_name :: "string \<Rightarrow> string" where
  "match_name s = (case s of [] \<Rightarrow> [] | c # cs \<Rightarrow> if is_alpha c then c # takeWhile is_alnum cs else [])"

definition match_placeholder :: "string \<Rightarrow> placeholder_match option" where
  "match_placeholder s =
     (if \<not> starts_with ''{{'' s then None
      else let body = drop 2 s;
               mark = (case body of c # cs \<Rightarrow> if c = CHR ''#'' \<or> c = CHR ''/'' then [c] else [] | [] \<Rightarrow> []);
               name = match_name (drop (length mark) body);
               rest = drop (length mark + length name) body
           in if name \<noteq> [] \<and> starts_with ''}}'' rest
              then Some (mark, name, ''{{'' @ mark @ name @ ''}}'', drop 2 rest) else None)"

text \<open>\<open>FindAllStringSubmatch\<close>: the matches from the left; the fuel is the length of the text, and every match
  or step consumes a character.\<close>

fun find_placeholders :: "nat \<Rightarrow> string \<Rightarrow> placeholder_match list" where
  "find_placeholders 0 s = []"
| "find_placeholders (Suc n) s =
     (case match_placeholder s of
        Some (mark, name, txt, rest) \<Rightarrow> (mark, name, txt, rest) # find_placeholders n rest
      | None \<Rightarrow> (case s of [] \<Rightarrow> [] | c # cs \<Rightarrow> find_placeholders n cs))"

definition placeholders_in :: "string \<Rightarrow> placeholder_match list" where
  "placeholders_in s = find_placeholders (length s) s"

fun replace_fuel :: "nat \<Rightarrow> (placeholder_match \<Rightarrow> string) \<Rightarrow> string \<Rightarrow> string" where
  "replace_fuel 0 f s = s"
| "replace_fuel (Suc n) f s =
     (case match_placeholder s of
        Some m \<Rightarrow> f m @ replace_fuel n f (snd (snd (snd m)))
      | None \<Rightarrow> (case s of [] \<Rightarrow> [] | c # cs \<Rightarrow> c # replace_fuel n f cs))"

definition replace_placeholders :: "(placeholder_match \<Rightarrow> string) \<Rightarrow> string \<Rightarrow> string" where
  "replace_placeholders f s = replace_fuel (length s) f s"

text \<open>A section: its name, its body and the text after it. The body is the shortest one and does not span lines.\<close>

fun match_close :: "string \<Rightarrow> (string \<times> string) option" where
  "match_close [] = None"
| "match_close (c # cs) =
     (case match_placeholder (c # cs) of
        Some (mark, name, txt, rest) \<Rightarrow>
          if mark = ''/'' then Some ([], rest)
          else if c = CHR 10 then None else map_option (\<lambda>(body, rest). (c # body, rest)) (match_close cs)
      | None \<Rightarrow> if c = CHR 10 then None else map_option (\<lambda>(body, rest). (c # body, rest)) (match_close cs))"

definition match_section :: "string \<Rightarrow> (string \<times> string \<times> string) option" where
  "match_section s =
     (case match_placeholder s of
        Some (mark, name, txt, rest) \<Rightarrow>
          if mark = ''#'' then map_option (\<lambda>(body, r). (name, body, r)) (match_close rest) else None
      | None \<Rightarrow> None)"

fun sections_fuel :: "nat \<Rightarrow> (string \<Rightarrow> string \<Rightarrow> string) \<Rightarrow> string \<Rightarrow> string" where
  "sections_fuel 0 f s = s"
| "sections_fuel (Suc n) f s =
     (case match_section s of
        Some (name, body, rest) \<Rightarrow> f name body @ sections_fuel n f rest
      | None \<Rightarrow> (case s of [] \<Rightarrow> [] | c # cs \<Rightarrow> c # sections_fuel n f cs))"

definition replace_sections :: "(string \<Rightarrow> string \<Rightarrow> string) \<Rightarrow> string \<Rightarrow> string" where
  "replace_sections f s = sections_fuel (length s) f s"

section \<open>Checking a template\<close>

definition known_placeholder :: "string list \<Rightarrow> placeholder_match \<Rightarrow> bool" where
  "known_placeholder ids m \<longleftrightarrow> fst (snd m) \<in> set ids \<or> fst (snd m) \<in> set factNames"

definition option_ok :: "Option_rec \<Rightarrow> bool" where
  "option_ok opt \<longleftrightarrow> opt_Key opt \<noteq> [] \<and> opt_Label opt \<noteq> [] \<and> opt_Text opt \<noteq> [] \<and> CHR '','' \<notin> set (opt_Key opt)"

definition known_type :: "field_type \<Rightarrow> bool" where
  "known_type t \<longleftrightarrow> t \<in> set [FieldText, FieldTextarea, FieldNumber, FieldDate, FieldSelect, FieldMultiselect]"

text \<open>The struct a message prints with \<open>%+v\<close> is left out of it.\<close>

fun check_fields :: "string list \<Rightarrow> Field list \<Rightarrow> string list result" where
  "check_fields ids [] = Inr ids"
| "check_fields ids (f # fs) =
     (if fld_ID f = [] \<or> fld_Label f = [] then Inl (Opaque ''field needs an id and a label'')
      else if fld_ID f \<in> set ids \<or> fld_ID f \<in> set factNames then
        Inl (Opaque (''field id '' @ go_quote (fld_ID f) @ '' repeated or shadows a fact''))
      else if \<not> known_type (fld_Type f) then Inl (Opaque (''field '' @ go_quote (fld_ID f) @ '': unknown type''))
      else if (fld_Type f = FieldSelect \<or> fld_Type f = FieldMultiselect) \<and> fld_Options f = [] then
        Inl (Opaque (''field '' @ go_quote (fld_ID f) @ '': a select needs options''))
      else if \<not> list_all option_ok (fld_Options f) then
        Inl (Opaque (''field '' @ go_quote (fld_ID f) @ '': option needs key, label and text, and no comma in the key''))
      else check_fields (fld_ID f # ids) fs)"

definition checkTemplate :: "Template \<Rightarrow> unit result" where
  "checkTemplate t =
     (if \<not> tpl_Kind t \<in> set ManualNoticeKinds then
        Inl (Opaque (''kind '' @ go_quote (notice_kind_str (tpl_Kind t)) @ '' is not a manual notice kind''))
      else if tpl_Label t = [] \<or> tpl_Subject t = [] \<or> tpl_Paragraphs t = [] then
        Inl (Opaque ''needs a label, a subject and paragraphs'')
      else bindR (check_fields [] (tpl_Fields t)) (\<lambda>ids.
        case find (\<lambda>m. \<not> known_placeholder ids m) (concat (map placeholders_in (tpl_Subject t # tpl_Paragraphs t))) of
          Some m \<Rightarrow> Inl (Opaque (''placeholder '' @ go_quote (fst (snd m)) @ '' is neither a field nor a fact''))
        | None \<Rightarrow> Inr ()))"

type_synonym templates = "(notice_kind \<times> Template) list"

fun load_templates :: "templates \<Rightarrow> Template result list \<Rightarrow> templates result" where
  "load_templates acc [] = Inr acc"
| "load_templates acc (g # files) =
     bindR g (\<lambda>t. bindR (checkTemplate t) (\<lambda>_.
       if map_of acc (tpl_Kind t) \<noteq> None then Inl (Opaque ''kind defined twice'')
       else load_templates ((tpl_Kind t, t) # acc) files))"

definition LoadTemplates :: "Template result list \<Rightarrow> templates result" where
  "LoadTemplates files = load_templates [] files"

definition ErrInvalidFields :: Error where
  "ErrInvalidFields = New Unprocessable ''invalid-fields'' ''the email form is incomplete or malformed''"

definition ErrUnknownTemplate :: Error where
  "ErrUnknownTemplate = New Invalid ''unknown-template'' ''unknown email template''"

record FactValues =
  fv_Customer :: string
  fv_Bank :: string
  fv_Amount :: string
  fv_Merchant :: string
  fv_Dispute :: string
  fv_Today :: time

section \<open>Validating a form\<close>

type_synonym values_map = "(string \<times> string) list"

text \<open>\<open>strconv.Atoi\<close>: an optional sign and decimal digits, within 64 bits.\<close>

definition Atoi :: "string \<Rightarrow> int option" where
  "Atoi s =
     (let (neg, ds) = (case s of c # cs \<Rightarrow> if c = CHR ''-'' then (True, cs) else if c = CHR ''+'' then (False, cs) else (False, s)
                       | [] \<Rightarrow> (False, []));
          n = (if neg then - int (digits_val ds) else int (digits_val ds))
      in if ds = [] \<or> \<not> list_all is_digit ds \<or> n < - (2 ^ 63) \<or> 2 ^ 63 \<le> n then None else Some n)"

definition deref :: "int option \<Rightarrow> int \<Rightarrow> int" where
  "deref p d = (case p of None \<Rightarrow> d | Some v \<Rightarrow> v)"

definition missingField :: "Field \<Rightarrow> string" where
  "missingField f =
     (case fld_Type f of
        FieldSelect \<Rightarrow> ''Please select one of the options''
      | FieldMultiselect \<Rightarrow> ''Please select at least one option''
      | FieldDate \<Rightarrow> ''Please select a date''
      | FieldNumber \<Rightarrow> ''Please enter a number''
      | _ \<Rightarrow> ''Please fill in '' @ go_quote (fld_Label f))"

definition out_of_range :: "Field \<Rightarrow> int \<Rightarrow> bool" where
  "out_of_range f n \<longleftrightarrow> (case fld_Min f of Some lo \<Rightarrow> n < lo | None \<Rightarrow> False) \<or>
     (case fld_Max f of Some hi \<Rightarrow> hi < n | None \<Rightarrow> False)"

definition option_text :: "Field \<Rightarrow> string \<Rightarrow> string option" where
  "option_text f key = map_option opt_Text (find (\<lambda>opt. opt_Key opt = key) (fld_Options f))"

fun multi_texts :: "Field \<Rightarrow> string list \<Rightarrow> string + string list" where
  "multi_texts f [] = Inr []"
| "multi_texts f (k # ks) =
     (let key = trim_space k in
      if key = [] then multi_texts f ks
      else case option_text f key of
        None \<Rightarrow> Inl (go_quote key @ '' is not one of the options; please select only from the list'')
      | Some t \<Rightarrow> bindR (multi_texts f ks) (\<lambda>ts. Inr (t # ts)))"

text \<open>The value to show, or the message of what is wrong; the source returns both, one of them empty.\<close>

definition displayValue :: "Field \<Rightarrow> string \<Rightarrow> string + string" where
  "displayValue f raw =
     (case fld_Type f of
        FieldText \<Rightarrow> if 200 < length raw then Inl ''Please keep this under 200 characters'' else Inr raw
      | FieldTextarea \<Rightarrow> if 4000 < length raw then Inl ''Please keep this under 4000 characters'' else Inr raw
      | FieldNumber \<Rightarrow>
          (case Atoi raw of
             None \<Rightarrow> Inl ''Please enter a whole number''
           | Some n \<Rightarrow> if out_of_range f n
               then Inl (''Please enter a number between '' @ show_int (deref (fld_Min f) 0) @ '' and '' @ show_int (deref (fld_Max f) n))
               else Inr (show_int n))
      | FieldDate \<Rightarrow>
          (case parse_iso raw of
             None \<Rightarrow> Inl ''Please enter a date as YYYY-MM-DD''
           | Some (y, m, d) \<Rightarrow> Inr (Format_long UTC (Date y m d 0 0 UTC)))
      | FieldSelect \<Rightarrow>
          (case option_text f raw of
             Some t \<Rightarrow> Inr t
           | None \<Rightarrow> Inl ''Please select one of the options'')
      | FieldMultiselect \<Rightarrow>
          bindR (multi_texts f (split_on (CHR '','') raw)) (\<lambda>texts.
            if texts = [] then Inl ''Please select at least one option'' else Inr (join_with newline texts))
      | FieldOther s \<Rightarrow> Inr raw)"

definition lookup :: "values_map \<Rightarrow> string \<Rightarrow> string" where
  "lookup m k = (case map_of m k of None \<Rightarrow> [] | Some v \<Rightarrow> v)"

definition form_field :: "string \<Rightarrow> string" where
  "form_field i = ''body.fields.'' @ i"

text \<open>What one field contributes: a problem, a value, or nothing.\<close>

definition validate_field :: "values_map \<Rightarrow> Field \<Rightarrow> FieldError list \<times> values_map" where
  "validate_field inputs f =
     (let trimmed = trim_space (lookup inputs (fld_ID f));
          raw = (if trimmed = [] then fld_Default f else trimmed)
      in if raw = [] then
           (if fld_Required f then [\<lparr>fe_Field = form_field (fld_ID f), fe_Message = missingField f\<rparr>] else [], [])
         else case displayValue f raw of
           Inl msg \<Rightarrow> ([\<lparr>fe_Field = form_field (fld_ID f), fe_Message = msg\<rparr>], [])
         | Inr v \<Rightarrow> ([], [(fld_ID f, v)]))"

definition validate_unknown :: "Template \<Rightarrow> values_map \<Rightarrow> FieldError list" where
  "validate_unknown t inputs =
     map (\<lambda>(i, v). \<lparr>fe_Field = form_field i, fe_Message = ''this template has no such field''\<rparr>)
       (filter (\<lambda>(i, v). i \<notin> fld_ID ` set (tpl_Fields t)) inputs)"

text \<open>A later value of a repeated id would replace the earlier one; ids are distinct in a checked template.\<close>

definition Validate :: "Template \<Rightarrow> values_map \<Rightarrow> values_map result" where
  "Validate t inputs =
     (let outs = map (validate_field inputs) (tpl_Fields t);
          fields = concat (map fst outs) @ validate_unknown t inputs
      in if fields \<noteq> [] then Inl (Classified (WithFields ErrInvalidFields (sort_key fe_Field fields)))
         else Inr (rev (concat (map snd outs))))"

section \<open>Filling a template\<close>

definition factMap :: "location \<Rightarrow> FactValues \<Rightarrow> values_map" where
  "factMap loc f = [(''customer'', fv_Customer f), (''bank'', fv_Bank f), (''amount'', fv_Amount f),
     (''merchant'', fv_Merchant f), (''dispute'', fv_Dispute f), (''today'', Format_long loc (fv_Today f)),
     (''dueDate'', [])]"

definition trim_bullet :: "string \<Rightarrow> string" where
  "trim_bullet s = (if starts_with ''- '' s then drop 2 s else s)"

definition bullets :: "string \<Rightarrow> string" where
  "bullets v = join_with newline
     (map (\<lambda>l. ''- '' @ trim_bullet l) (filter (\<lambda>l. l \<noteq> []) (map trim_space (split_on (CHR 10) v))))"

definition substitute :: "string \<Rightarrow> values_map \<Rightarrow> string list \<Rightarrow> string" where
  "substitute s0 vals listy =
     (let s = replace_sections (\<lambda>name body. if lookup vals name = [] then [] else body) s0;
          t = trim_space s;
          whole = (case placeholders_in t of
                     (mark, name, txt, rest) # _ \<Rightarrow> if t = txt \<and> name \<in> set listy then Some name else None
                   | [] \<Rightarrow> None)
      in case whole of
           Some name \<Rightarrow> bullets (lookup vals name)
         | None \<Rightarrow> replace_placeholders (\<lambda>m. lookup vals (fst (snd m))) s)"

definition listy_fields :: "Template \<Rightarrow> string list" where
  "listy_fields t = map fld_ID (filter (\<lambda>f. fld_Type f = FieldMultiselect \<or> (fld_Type f = FieldTextarea \<and> fld_List f)) (tpl_Fields t))"

definition fill_values :: "location \<Rightarrow> FactValues \<Rightarrow> values_map \<Rightarrow> values_map" where
  "fill_values loc facts vals =
     (let all = vals @ factMap loc facts in
      case Atoi (lookup vals ''days'') of
        Some days \<Rightarrow> (''dueDate'', Format_long loc (AddDays loc days (fv_Today facts))) # all
      | None \<Rightarrow> all)"

definition Fill :: "location \<Rightarrow> Template \<Rightarrow> FactValues \<Rightarrow> values_map \<Rightarrow> Document" where
  "Fill loc t facts vals =
     (let all = fill_values loc facts vals in
      \<lparr>doc_Bank = fv_Bank facts, doc_Subject = substitute (tpl_Subject t) all [],
       doc_Greeting = ''Dear '' @ fv_Customer facts @ '','',
       doc_Paragraphs = filter (\<lambda>p. p \<noteq> [])
         (map (\<lambda>p. trim_space (substitute p all (listy_fields t))) (tpl_Paragraphs t)),
       doc_Closing = ''Yours sincerely,'' @ newline @ fv_Bank facts @ '' disputes team'', doc_Basis = []\<rparr>)"

definition substituteFacts :: "string \<Rightarrow> values_map \<Rightarrow> string" where
  "substituteFacts s facts = replace_placeholders (\<lambda>(mark, name, txt, rest).
     if mark \<noteq> [] \<or> name = ''dueDate'' then txt
     else case map_of facts name of Some v \<Rightarrow> v | None \<Rightarrow> txt) s"

definition Placeholders :: "location \<Rightarrow> Template \<Rightarrow> FactValues \<Rightarrow> Template" where
  "Placeholders loc t facts =
     (let all = factMap loc facts in
      t\<lparr>tpl_Subject := substituteFacts (tpl_Subject t) all,
        tpl_Paragraphs := map (\<lambda>p. substituteFacts p all) (tpl_Paragraphs t)\<rparr>)"

section \<open>A tenant's wording\<close>

record Override =
  ov_Label :: string
  ov_Description :: string
  ov_Subject :: string
  ov_Paragraphs :: "string list"
  ov_OptionTexts :: "(string \<times> string) list"

definition ErrInvalidOverride :: Error where
  "ErrInvalidOverride = New Unprocessable ''invalid-template-override''
     ''the template wording is not valid for its form''"

text \<open>\<open>strings.Cut(key, ".")\<close>: \<open>None\<close> when there is no dot.\<close>

definition cut_dot :: "string \<Rightarrow> (string \<times> string) option" where
  "cut_dot s = (if CHR ''.'' \<in> set s then Some (takeWhile (\<lambda>c. c \<noteq> CHR ''.'') s, tl (dropWhile (\<lambda>c. c \<noteq> CHR ''.'') s)) else None)"

definition set_option_text :: "string \<Rightarrow> string \<Rightarrow> Option_rec list \<Rightarrow> Option_rec list" where
  "set_option_text key txt opts =
     (let n = length (takeWhile (\<lambda>op. opt_Key op \<noteq> key) opts) in
      if n < length opts then opts[n := (opts ! n)\<lparr>opt_Text := txt\<rparr>] else opts)"

definition set_field_option :: "string \<Rightarrow> string \<Rightarrow> string \<Rightarrow> Field list \<Rightarrow> Field list" where
  "set_field_option fid key txt fs =
     (let n = length (takeWhile (\<lambda>f. fld_ID f \<noteq> fid) fs) in
      if n < length fs then fs[n := (fs ! n)\<lparr>fld_Options := set_option_text key txt (fld_Options (fs ! n))\<rparr>] else fs)"

definition override_problem :: "string \<Rightarrow> string \<Rightarrow> FieldError" where
  "override_problem key msg = \<lparr>fe_Field = ''body.optionTexts.'' @ key, fe_Message = msg\<rparr>"

fun apply_option_texts :: "Field list \<Rightarrow> (string \<times> string) list \<Rightarrow> Field list \<times> FieldError list" where
  "apply_option_texts fs [] = (fs, [])"
| "apply_option_texts fs ((key, txt) # kts) =
     (case cut_dot key of
        None \<Rightarrow> (let (fs', ps) = apply_option_texts fs kts in (fs', override_problem key ''no such field'' # ps))
      | Some (fid, optKey) \<Rightarrow>
          (case find (\<lambda>f. fld_ID f = fid) fs of
             None \<Rightarrow> (let (fs', ps) = apply_option_texts fs kts in (fs', override_problem key ''no such field'' # ps))
           | Some f \<Rightarrow>
               if optKey \<notin> opt_Key ` set (fld_Options f) then
                 (let (fs', ps) = apply_option_texts fs kts in (fs', override_problem key ''no such option'' # ps))
               else if trim_space txt = [] then
                 (let (fs', ps) = apply_option_texts fs kts in (fs', override_problem key ''text must not be empty'' # ps))
               else apply_option_texts (set_field_option fid optKey txt fs) kts))"

definition error_text :: "error \<Rightarrow> string" where
  "error_text e = (case e of Opaque m \<Rightarrow> m | _ \<Rightarrow> UserMessage e)"

definition Apply_Override :: "Template \<Rightarrow> Override \<Rightarrow> Template result" where
  "Apply_Override base ov =
     (let t0 = base\<lparr>tpl_Label := (if ov_Label ov \<noteq> [] then ov_Label ov else tpl_Label base),
                    tpl_Description := (if ov_Description ov \<noteq> [] then ov_Description ov else tpl_Description base),
                    tpl_Subject := (if ov_Subject ov \<noteq> [] then ov_Subject ov else tpl_Subject base),
                    tpl_Paragraphs := (if ov_Paragraphs ov \<noteq> [] then ov_Paragraphs ov else tpl_Paragraphs base)\<rparr>;
          (fs, problems) = apply_option_texts (tpl_Fields base) (ov_OptionTexts ov);
          t = t0\<lparr>tpl_Fields := fs\<rparr>;
          fields = problems @ (case checkTemplate t of Inl e \<Rightarrow> [\<lparr>fe_Field = ''body'', fe_Message = error_text e\<rparr>] | Inr _ \<Rightarrow> [])
      in if fields \<noteq> [] then Inl (Classified (WithFields ErrInvalidOverride (sort_key fe_Field fields))) else Inr t)"

section \<open>The embedded templates\<close>

definition form_input :: "string \<Rightarrow> string \<Rightarrow> field_type \<Rightarrow> bool \<Rightarrow> Field" where
  "form_input i l t req = \<lparr>fld_ID = i, fld_Label = l, fld_Type = t, fld_Required = req, fld_Options = [],
     fld_List = False, fld_Default = [], fld_Min = None, fld_Max = None\<rparr>"

definition choice :: "string \<Rightarrow> string \<Rightarrow> string \<Rightarrow> Option_rec" where
  "choice k l t = \<lparr>opt_Key = k, opt_Label = l, opt_Text = t\<rparr>"

definition template_CUSTOM :: Template where
  "template_CUSTOM = \<lparr>tpl_Kind = NoticeCustom, tpl_Label = ''Custom message'',
     tpl_Description = ''A message in your own words, on the bank's letterhead.'',
     tpl_Letter = False, tpl_Fields =
       [form_input ''subject'' ''Subject'' FieldText True,
        form_input ''body'' ''Message'' FieldTextarea True],
     tpl_Subject = ''{{subject}}'', tpl_Paragraphs =
       [''{{body}}'',
        ''Dispute reference {{dispute}}.'']\<rparr>"

definition template_DOCUMENTS_RECEIVED :: Template where
  "template_DOCUMENTS_RECEIVED = \<lparr>tpl_Kind = NoticeDocumentsReceived, tpl_Label = ''Documents received'',
     tpl_Description = ''Confirm what the customer sent and whether anything is still missing.'',
     tpl_Letter = False, tpl_Fields =
       [(form_input ''received'' ''What we received (one item per line)'' FieldTextarea True)
        \<lparr>fld_List := True\<rparr>,
        (form_input ''missing'' ''Still missing (one item per line)'' FieldTextarea False)
        \<lparr>fld_List := True\<rparr>],
     tpl_Subject = ''Thank you, we have your documents'', tpl_Paragraphs =
       [''Thank you for sending us the following about your dispute of the {{amount}} payment to {{merchant}}:'',
        ''{{received}}'',
        ''{{#missing}}We are still missing:{{/missing}}'',
        ''{{missing}}'',
        ''We will let you know as soon as our investigation is complete. Dispute reference {{dispute}}.'']\<rparr>"

definition template_REQUEST_FOR_INFORMATION :: Template where
  "template_REQUEST_FOR_INFORMATION = \<lparr>tpl_Kind = NoticeRequestForInformation, tpl_Label = ''Request for information'',
     tpl_Description = ''Ask the customer for documents or details the investigation needs, with a date to reply by.'',
     tpl_Letter = True, tpl_Fields =
       [(form_input ''items'' ''What we need'' FieldMultiselect True)
        \<lparr>fld_Options := [choice ''receipt'' ''Receipt or invoice''
            ''a copy of the receipt, invoice or order confirmation for the payment'',
          choice ''merchant_contact'' ''Proof of merchant contact''
            ''any correspondence with the merchant about this payment (emails, letters, chat transcripts) and their response'',
          choice ''delivery'' ''Delivery information''
            ''the expected delivery date, the delivery address and any tracking number'',
          choice ''cancellation'' ''Cancellation information''
            ''a copy of the cancellation and the date it was sent to the merchant'',
          choice ''return'' ''Return information''
            ''proof that the item was returned, how it was returned, and the shipping receipt'',
          choice ''police_report'' ''Police report''
            ''the police report or its reference number'',
          choice ''statement'' ''Other bank statement''
            ''a statement showing the same amount paid by another means'']\<rparr>,
        (form_input ''other'' ''Anything else (one item per line)'' FieldTextarea False)
        \<lparr>fld_List := True\<rparr>,
        (form_input ''days'' ''Days to respond'' FieldNumber True)
        \<lparr>fld_Default := ''10'', fld_Min := Some 1, fld_Max := Some 60\<rparr>],
     tpl_Subject = ''We need a little more information about your dispute'', tpl_Paragraphs =
       [''We are looking into your dispute of the {{amount}} payment to {{merchant}}. To continue, we need the following from you:'',
        ''{{items}}'',
        ''{{other}}'',
        ''Please reply by {{dueDate}} ({{days}} days from today). If we do not hear from you by then, we will decide the dispute on what we have.'',
        ''Dispute reference {{dispute}}.'']\<rparr>"

definition template_STATUS_UPDATE :: Template where
  "template_STATUS_UPDATE = \<lparr>tpl_Kind = NoticeStatusUpdate, tpl_Label = ''Status update'',
     tpl_Description = ''Tell the customer where the investigation stands and what happens next.'',
     tpl_Letter = False, tpl_Fields =
       [(form_input ''stage'' ''Where we are'' FieldSelect True)
        \<lparr>fld_Options := [choice ''reviewing'' ''Reviewing your documents''
            ''We have received your documents and are reviewing them.'',
          choice ''merchant'' ''Waiting for the merchant''
            ''We have raised the case with the merchant's bank through the card network and are waiting for their response.'',
          choice ''network'' ''With the card network''
            ''The merchant contested the case and it is now being decided by the card network.'',
          choice ''final'' ''Nearly decided''
            ''Our investigation is nearly complete and we expect to write to you with the outcome shortly.'']\<rparr>,
        form_input ''note'' ''Anything to add'' FieldTextarea False,
        form_input ''nextBy'' ''You will hear from us by'' FieldDate False],
     tpl_Subject = ''An update on your dispute'', tpl_Paragraphs =
       [''{{stage}}'',
        ''{{note}}'',
        ''{{#nextBy}}We will write to you again by {{nextBy}}.{{/nextBy}}'',
        ''There is nothing you need to do now. Dispute reference {{dispute}}.'']\<rparr>"

definition templateFiles :: "Template result list" where
  "templateFiles = map Inr [template_CUSTOM, template_DOCUMENTS_RECEIVED, template_REQUEST_FOR_INFORMATION, template_STATUS_UPDATE]"

definition templates :: templates where
  "templates = (case LoadTemplates templateFiles of Inr ts \<Rightarrow> ts | Inl _ \<Rightarrow> [])"

definition TemplateFor :: "notice_kind \<Rightarrow> Template option" where
  "TemplateFor kind = map_of templates kind"

definition Templates :: "Template list" where
  "Templates = sort_key (\<lambda>t. notice_kind_str (tpl_Kind t)) (map snd templates)"

section \<open>Lemmas\<close>

lemma check_fields_ok:
  "check_fields ids fs = Inr ids' \<Longrightarrow>
     ids' = rev (map fld_ID fs) @ ids \<and> distinct (map fld_ID fs) \<and> set ids \<inter> fld_ID ` set fs = {} \<and>
     (\<forall>f \<in> set fs. fld_ID f \<noteq> [] \<and> fld_ID f \<notin> set factNames \<and> known_type (fld_Type f) \<and> list_all option_ok (fld_Options f))"
  by (induction ids fs rule: check_fields.induct) (auto split: if_splits)

text \<open>What a checked template guarantees: every placeholder it uses is a field of its form or a fact.\<close>

definition placeholders_known :: "Template \<Rightarrow> bool" where
  "placeholders_known t \<longleftrightarrow> (\<forall>s \<in> set (tpl_Subject t # tpl_Paragraphs t).
     \<forall>m \<in> set (placeholders_in s). fst (snd m) \<in> fld_ID ` set (tpl_Fields t) \<or> fst (snd m) \<in> set factNames)"

lemma checkTemplate_ok:
  assumes "checkTemplate t = Inr ()"
  shows "tpl_Kind t \<in> set ManualNoticeKinds" "tpl_Subject t \<noteq> []" "distinct (map fld_ID (tpl_Fields t))"
    "placeholders_known t"
proof -
  let ?bad = "\<lambda>ids. find (\<lambda>m. \<not> known_placeholder ids m) (concat (map placeholders_in (tpl_Subject t # tpl_Paragraphs t)))"
  have kind: "tpl_Kind t \<in> set ManualNoticeKinds" "tpl_Subject t \<noteq> []"
    using assms by (auto simp: checkTemplate_def split: if_splits)
  obtain ids where ids: "check_fields [] (tpl_Fields t) = Inr ids"
    using assms by (cases "check_fields [] (tpl_Fields t)") (auto simp: checkTemplate_def split: if_splits)
  with assms have none: "?bad ids = None"
    by (cases "?bad ids") (simp_all add: checkTemplate_def split: if_splits)
  from check_fields_ok [OF ids] have ids_eq: "set ids = fld_ID ` set (tpl_Fields t)" and dist: "distinct (map fld_ID (tpl_Fields t))"
    by auto
  show "tpl_Kind t \<in> set ManualNoticeKinds" "tpl_Subject t \<noteq> []" by (fact kind)+
  show "distinct (map fld_ID (tpl_Fields t))" by (fact dist)
  show "placeholders_known t"
    using none unfolding placeholders_known_def find_None_iff known_placeholder_def ids_eq by fastforce
qed

text \<open>The form of a template: what the analyst fills in, without the words.\<close>

definition form_of :: "Field list \<Rightarrow> (string \<times> field_type \<times> bool \<times> string list) list" where
  "form_of fs = map (\<lambda>f. (fld_ID f, fld_Type f, fld_Required f, map opt_Key (fld_Options f))) fs"

lemma set_option_text_keys [simp]: "map opt_Key (set_option_text key txt opts) = map opt_Key opts"
  by (simp add: set_option_text_def Let_def map_update_same)

lemma form_of_set_field_option [simp]: "form_of (set_field_option fid key txt fs) = form_of fs"
  unfolding set_field_option_def form_of_def Let_def by (auto intro!: map_update_same)

lemma apply_option_texts_form: "form_of (fst (apply_option_texts fs kts)) = form_of fs"
  by (induction fs kts rule: apply_option_texts.induct) (auto simp: Let_def split: option.splits prod.splits)

lemma Apply_Override_InrD:
  assumes "Apply_Override base ov = Inr t"
  shows "checkTemplate t = Inr ()" "tpl_Kind t = tpl_Kind base" "tpl_Letter t = tpl_Letter base"
    "form_of (tpl_Fields t) = form_of (tpl_Fields base)"
  using assms apply_option_texts_form [of "tpl_Fields base" "ov_OptionTexts ov"]
  by (auto simp: Apply_Override_def Let_def split: if_splits prod.splits sum.splits)

lemma validate_field_ok:
  assumes "validate_field inputs f = ([], vs)"
  shows "(fld_Required f \<longrightarrow> vs \<noteq> []) \<and> (\<forall>(k, v) \<in> set vs. k = fld_ID f \<and>
     (\<exists>raw. raw \<noteq> [] \<and> raw \<in> {trim_space (lookup inputs (fld_ID f)), fld_Default f} \<and> displayValue f raw = Inr v))"
proof -
  define raw where "raw = (if trim_space (lookup inputs (fld_ID f)) = [] then fld_Default f else trim_space (lookup inputs (fld_ID f)))"
  have raw: "raw \<in> {trim_space (lookup inputs (fld_ID f)), fld_Default f}" by (simp add: raw_def)
  have eq: "validate_field inputs f =
      (if raw = [] then
         (if fld_Required f then [\<lparr>fe_Field = form_field (fld_ID f), fe_Message = missingField f\<rparr>] else [], [])
       else case displayValue f raw of
         Inl msg \<Rightarrow> ([\<lparr>fe_Field = form_field (fld_ID f), fe_Message = msg\<rparr>], [])
       | Inr v \<Rightarrow> ([], [(fld_ID f, v)]))"
    by (simp only: validate_field_def Let_def raw_def)
  show ?thesis
  proof (cases "raw = []")
    case True
    with assms eq show ?thesis by (auto split: if_splits)
  next
    case False
    with assms eq obtain v where "displayValue f raw = Inr v" "vs = [(fld_ID f, v)]"
      by (cases "displayValue f raw") auto
    with False raw show ?thesis by auto
  qed
qed

lemma Validate_fields:
  assumes "Validate t inputs = Inr vals"
  shows "\<forall>f \<in> set (tpl_Fields t). fst (validate_field inputs f) = []"
    and "fst ` set inputs \<subseteq> fld_ID ` set (tpl_Fields t)"
    and "set vals = (\<Union>f \<in> set (tpl_Fields t). set (snd (validate_field inputs f)))"
  using assms by (auto simp: Validate_def Let_def validate_unknown_def filter_empty_conv split: if_splits)

lemma template_kinds [simp]:
  "tpl_Kind template_CUSTOM = NoticeCustom" "tpl_Kind template_DOCUMENTS_RECEIVED = NoticeDocumentsReceived"
  "tpl_Kind template_REQUEST_FOR_INFORMATION = NoticeRequestForInformation"
  "tpl_Kind template_STATUS_UPDATE = NoticeStatusUpdate"
  by (simp_all add: template_CUSTOM_def template_DOCUMENTS_RECEIVED_def template_REQUEST_FOR_INFORMATION_def
      template_STATUS_UPDATE_def)

lemma embedded_templates:
  "LoadTemplates templateFiles = Inr [(NoticeStatusUpdate, template_STATUS_UPDATE),
     (NoticeRequestForInformation, template_REQUEST_FOR_INFORMATION), (NoticeDocumentsReceived, template_DOCUMENTS_RECEIVED),
     (NoticeCustom, template_CUSTOM)]"
proof -
  have "checkTemplate template_CUSTOM = Inr ()" "checkTemplate template_DOCUMENTS_RECEIVED = Inr ()"
    "checkTemplate template_REQUEST_FOR_INFORMATION = Inr ()" "checkTemplate template_STATUS_UPDATE = Inr ()"
    by code_simp+
  then show ?thesis by (simp add: LoadTemplates_def templateFiles_def)
qed

lemma embedded_templates_load: "LoadTemplates templateFiles = Inr templates"
  by (simp add: templates_def embedded_templates)

text \<open>The catalogue is in the order of the kinds' names.\<close>

lemma Templates_eq:
  "Templates = [template_CUSTOM, template_DOCUMENTS_RECEIVED, template_REQUEST_FOR_INFORMATION, template_STATUS_UPDATE]"
proof -
  have "''CUSTOM'' \<le> ''DOCUMENTS_RECEIVED''" "''DOCUMENTS_RECEIVED'' \<le> ''REQUEST_FOR_INFORMATION''"
    "''REQUEST_FOR_INFORMATION'' \<le> ''STATUS_UPDATE''" "''CUSTOM'' \<le> ''REQUEST_FOR_INFORMATION''"
    "''CUSTOM'' \<le> ''STATUS_UPDATE''" "''DOCUMENTS_RECEIVED'' \<le> ''STATUS_UPDATE''"
    by code_simp+
  then show ?thesis by (simp add: Templates_def templates_def embedded_templates)
qed

lemma load_templates_ok:
  "load_templates acc files = Inr ts \<Longrightarrow> (\<forall>(k, t) \<in> set acc. tpl_Kind t = k \<and> checkTemplate t = Inr ()) \<Longrightarrow>
     (\<forall>(k, t) \<in> set ts. tpl_Kind t = k \<and> checkTemplate t = Inr ())"
proof (induction files arbitrary: acc)
  case (Cons g files)
  from Cons.prems(1) obtain t where t: "g = Inr t" "checkTemplate t = Inr ()"
    "load_templates ((tpl_Kind t, t) # acc) files = Inr ts"
    by (auto simp: bindR_eq_Inr split: if_splits)
  with Cons.prems(2) Cons.IH [OF t(3)] show ?case by simp
qed simp

lemma TemplateFor_checked: "TemplateFor kind = Some t \<Longrightarrow> tpl_Kind t = kind \<and> checkTemplate t = Inr ()"
  using load_templates_ok [of "[]" templateFiles] embedded_templates_load
  by (auto simp: LoadTemplates_def TemplateFor_def dest!: map_of_SomeD)

section \<open>Properties\<close>

text \<open>
  C36: a tenant may change a template's words, never its form: whatever override is accepted keeps the kind,
  whether a letter goes out, and every field's id, type, obligation and option keys, and the result passes the
  check of the embedded files, so each placeholder it uses is a field of the form or a known fact.
\<close>

theorem override_keeps_form:
  assumes "Apply_Override base ov = Inr t"
  shows "tpl_Kind t = tpl_Kind base \<and> tpl_Letter t = tpl_Letter base \<and>
    form_of (tpl_Fields t) = form_of (tpl_Fields base) \<and> checkTemplate t = Inr () \<and> placeholders_known t"
  using Apply_Override_InrD [OF assms] checkTemplate_ok(4) by blast

theorem override_keeps_form_witness:
  "placeholders_known (template_CUSTOM\<lparr>tpl_Subject := ''About {{merchant}}: {{subject}}''\<rparr>)"
proof -
  have "Apply_Override template_CUSTOM \<lparr>ov_Label = [], ov_Description = [], ov_Subject = ''About {{merchant}}: {{subject}}'',
      ov_Paragraphs = [], ov_OptionTexts = []\<rparr> = Inr (template_CUSTOM\<lparr>tpl_Subject := ''About {{merchant}}: {{subject}}''\<rparr>)"
    by code_simp
  from override_keeps_form [OF this] show ?thesis by blast
qed

text \<open>
  C35: a form that \<open>Validate\<close> accepts answers every required field, has no input the template does not
  know, and every value it returns is the display value of the analyst's trimmed input or of the field's
  default.
\<close>

theorem validate_form_sound:
  assumes "Validate t inputs = Inr vals"
  shows "fst ` set inputs \<subseteq> fld_ID ` set (tpl_Fields t) \<and>
    (\<forall>f \<in> set (tpl_Fields t). fld_Required f \<longrightarrow> fld_ID f \<in> fst ` set vals) \<and>
    (\<forall>(k, v) \<in> set vals. \<exists>f \<in> set (tpl_Fields t). k = fld_ID f \<and>
      (\<exists>raw. raw \<noteq> [] \<and> raw \<in> {trim_space (lookup inputs k), fld_Default f} \<and> displayValue f raw = Inr v))"
proof -
  note ok = Validate_fields [OF assms]
  have each: "validate_field inputs f = ([], snd (validate_field inputs f))" if "f \<in> set (tpl_Fields t)" for f
    using ok(1) that by (metis prod.collapse)
  have "fld_ID f \<in> fst ` set vals" if "f \<in> set (tpl_Fields t)" "fld_Required f" for f
  proof -
    from validate_field_ok [OF each [OF that(1)]] that(2)
    obtain v where "(fld_ID f, v) \<in> set (snd (validate_field inputs f))"
      by (cases "snd (validate_field inputs f)") auto
    with ok(3) that(1) show ?thesis by force
  qed
  moreover have "\<exists>f \<in> set (tpl_Fields t). k = fld_ID f \<and>
      (\<exists>raw. raw \<noteq> [] \<and> raw \<in> {trim_space (lookup inputs k), fld_Default f} \<and> displayValue f raw = Inr v)"
    if "(k, v) \<in> set vals" for k v
  proof -
    from ok(3) that obtain f where f: "f \<in> set (tpl_Fields t)" "(k, v) \<in> set (snd (validate_field inputs f))" by auto
    then have "k = fld_ID f" "\<exists>raw. raw \<noteq> [] \<and> raw \<in> {trim_space (lookup inputs (fld_ID f)), fld_Default f} \<and>
        displayValue f raw = Inr v"
      using validate_field_ok [OF each [OF f(1)]] by (auto dest!: bspec [of _ _ "(k, v)"])
    with f(1) show ?thesis by blast
  qed
  ultimately show ?thesis using ok(2) by blast
qed

theorem validate_form_sound_witness:
  "fst ` set [(''subject'', ''Hello''), (''body'', ''One line'')] \<subseteq> fld_ID ` set (tpl_Fields template_CUSTOM)"
proof -
  have "Validate template_CUSTOM [(''subject'', ''Hello''), (''body'', ''One line'')] =
      Inr [(''body'', ''One line''), (''subject'', ''Hello'')]"
    by (simp add: Validate_def validate_field_def validate_unknown_def displayValue_def lookup_def
        trim_space_visible visible_def template_CUSTOM_def form_input_def)
  from validate_form_sound [OF this] show ?thesis by blast
qed

end
