(* ===== verification/Ports.thy ===== *)
theory Ports
  imports Access Ledger Deadlines Templates
begin

text \<open>
  \<^verbatim>\<open>backend/internal/dispute/application/ports.go\<close>, the views of \<^verbatim>\<open>service.go\<close>, \<^verbatim>\<open>default_access.go\<close> and
  \<^verbatim>\<open>platform/tenant/tenant.go\<close>: the records the use cases keep, what they show of them, and the context of a request.

  A stored document, response or wording is the value itself, where the source keeps its JSON encoding.
\<close>

section \<open>Errors\<close>

definition ErrNotFound :: Error where
  "ErrNotFound = New NotFound ''not-found'' ''the requested resource does not exist''"

definition ErrConflict :: Error where
  "ErrConflict = New Conflict ''concurrent-update''
     ''the dispute changed while this request was in flight; reload and try again''"

definition ErrIdempotencyReuse :: Error where
  "ErrIdempotencyReuse = New Unprocessable ''idempotency-key-reuse''
     ''this Idempotency-Key was already used with a different request''"

definition ErrUnavailable :: Error where
  "ErrUnavailable = New Unavailable ''unavailable'' ''a dependency is temporarily unavailable''"

definition ErrMissing :: Error where
  "ErrMissing = New Internal ''internal'' ''no tenant in context''"

section \<open>Records\<close>

text \<open>JSON values; an event payload is one. An object keeps the order and the repeats of its text.\<close>

datatype json = JNull | JBool bool | JNum string | JStr string | JArr "json list" | JObj "(string \<times> json) list"

record DisputeRecord =
  dr_ID :: uuid
  dr_TenantID :: uuid
  dr_Team :: string
  dr_Regime :: regime
  dr_State :: state
  dr_Appeals :: int
  dr_Version :: int
  dr_TransactionID :: uuid
  dr_AccountID :: uuid
  dr_DisputedAmount :: decimal
  dr_Currency :: string
  dr_OpenedAt :: time
  dr_UpdatedAt :: time
  dr_Reason :: reason

definition Lifecycle_of :: "DisputeRecord \<Rightarrow> Dispute" where
  "Lifecycle_of r = \<lparr>d_Regime = dr_Regime r, d_State = dr_State r, d_Appeals = dr_Appeals r\<rparr>"

record EventRecord =
  ev_Seq :: int
  ev_Event :: event
  ev_FromState :: state
  ev_ToState :: state
  ev_Actor :: string
  ev_ActorID :: string
  ev_Payload :: json
  ev_IdempotencyKey :: "string option"
  ev_TraceID :: "string option"
  ev_OccurredAt :: time

record TransactionRecord =
  tr_ID :: uuid
  tr_TenantID :: uuid
  tr_AccountID :: uuid
  tr_Rail :: rail
  tr_Amount :: decimal
  tr_Currency :: string
  tr_AccountCurrency :: string
  tr_AccountOpenedAt :: time
  tr_Merchant :: string
  tr_MCC :: string
  tr_OccurredAt :: time

record AccountRecord =
  ar_ID :: uuid
  ar_Holder :: string
  ar_Currency :: string
  ar_Email :: string
  ar_PostalAddress :: string
  ar_OpenedAt :: time

record Attachment =
  at_ID :: uuid
  at_DisputeID :: uuid
  at_NoticeID :: "int option"
  at_Filename :: string
  at_ContentType :: string
  at_Size :: nat
  at_Content :: string
  at_UploadedBy :: string
  at_UploadedAt :: time

record TenantTemplate =
  tt_Kind :: notice_kind
  tt_Override :: "Override option"
  tt_UpdatedBy :: string
  tt_UpdatedAt :: time

record RiskRecord =
  rk_Seq :: int
  rk_Assessment :: Assessment
  rk_AssessedAt :: time

record NoticeRecord =
  nt_ID :: int
  nt_TenantID :: uuid
  nt_DisputeID :: uuid
  nt_Seq :: int
  nt_Kind :: notice_kind
  nt_Channel :: channel
  nt_Recipient :: string
  nt_Subject :: string
  nt_Document :: Document
  nt_CreatedAt :: time
  nt_SentAt :: "time option"
  nt_Attempts :: int
  nt_LastError :: "string option"
  nt_Actor :: string
  nt_ResendOf :: "int option"
  nt_TraceContext :: string

record TenantMetadata =
  tm_HasLogo :: bool
  tm_LogoUpdatedAt :: "time option"

record Image =
  im_Content :: string
  im_ContentType :: string

record CoreConfig =
  cc_Kind :: string
  cc_Settings :: string

record CoreReceipt =
  cr_RRN :: string
  cr_ResponseCode :: string
  cr_ResponseText :: string
  cr_Approved :: bool
  cr_Duplicate :: bool
  cr_AuthCode :: string
  cr_ProcessedAt :: time
  cr_Latency :: int

record LedgerEntry =
  le_Seq :: int
  le_Posting :: Posting
  le_Reference :: string
  le_PostedAt :: time
  le_Core :: "CoreReceipt option"

record Questionnaire =
  qn_Reason :: reason
  qn_Questions :: "Question list"
  qn_Answers :: answers
  qn_SentAt :: time
  qn_ReceivedAt :: "time option"

record Cursor =
  cu_OpenedAt :: time
  cu_ID :: uuid

record ListQuery =
  lq_State :: "state option"
  lq_Reason :: "reason option"
  lq_After :: "Cursor option"
  lq_Limit :: int
  lq_Overdue :: bool
  lq_Now :: time

section \<open>Views\<close>

record RiskHistoryView =
  rh_Seq :: int
  rh_Score :: int
  rh_Tier :: risk_tier
  rh_AssessedAt :: time

record RiskView =
  rv_Score :: int
  rv_Tier :: risk_tier
  rv_Signals :: "Signal list"
  rv_AssessedAt :: time
  rv_History :: "RiskHistoryView list"

record AttachmentView =
  av_ID :: uuid
  av_Filename :: string
  av_ContentType :: string
  av_Size :: nat

record NoticeView =
  nv_ID :: int
  nv_Seq :: int
  nv_Kind :: notice_kind
  nv_Channel :: channel
  nv_Recipient :: string
  nv_Subject :: string
  nv_CreatedAt :: time
  nv_SentAt :: "time option"
  nv_Error :: "string option"
  nv_Actor :: string
  nv_ResendOf :: "int option"
  nv_Attachments :: "AttachmentView list"

record QuestionnaireView =
  qv_Reason :: reason
  qv_Questions :: "Question list"
  qv_Answers :: answers
  qv_Inconsistencies :: "string list"
  qv_SentAt :: time
  qv_ReceivedAt :: "time option"

record CoreReceiptView =
  crv_RRN :: string
  crv_ResponseCode :: string
  crv_LatencyMs :: int

record LedgerView =
  lv_Seq :: int
  lv_Kind :: posting_kind
  lv_Debit :: account
  lv_Credit :: account
  lv_Amount :: decimal
  lv_Currency :: string
  lv_Reference :: string
  lv_PostedAt :: time
  lv_Core :: "CoreReceiptView option"

record Balances =
  bl_Customer :: decimal
  bl_Suspense :: decimal
  bl_Recovery :: decimal
  bl_Loss :: decimal

record DeadlineView =
  dv_Kind :: deadline_kind
  dv_Cycle :: int
  dv_StartedAt :: time
  dv_DueAt :: time
  dv_MetAt :: "time option"
  dv_Status :: deadline_status
  dv_Basis :: string

record EventView =
  evv_Seq :: int
  evv_Event :: event
  evv_FromState :: state
  evv_ToState :: state
  evv_Actor :: string
  evv_Payload :: json
  evv_TraceID :: "string option"
  evv_OccurredAt :: time

record DisputeView =
  vw_ID :: uuid
  vw_Regime :: regime
  vw_Reason :: reason
  vw_State :: state
  vw_Appeals :: int
  vw_Version :: int
  vw_TransactionID :: uuid
  vw_AccountID :: uuid
  vw_DisputedAmount :: decimal
  vw_Currency :: string
  vw_OpenedAt :: time
  vw_UpdatedAt :: time
  vw_AllowedEvents :: "event list"
  vw_Events :: "EventView list"
  vw_Deadlines :: "DeadlineView list"
  vw_Ledger :: "LedgerView list"
  vw_Balances :: Balances
  vw_Questionnaire :: "QuestionnaireView option"
  vw_Notices :: "NoticeView list"
  vw_Risk :: "RiskView option"

record StoredResponse =
  sr_RequestHash :: string
  sr_StatusCode :: int
  sr_Body :: DisputeView
  sr_CreatedAt :: time


section \<open>The context of a request\<close>

text \<open>What \<open>context.Context\<close> carries for the use cases: the tenant, the caller, and the trace.\<close>

record Ctx =
  cx_Tenant :: "uuid option"
  cx_Principal :: "Principal option"
  cx_TraceID :: "string option"
  cx_TraceContext :: string

definition tenant_IDFrom :: "Ctx \<Rightarrow> uuid option" where
  "tenant_IDFrom ctx = (case cx_Tenant ctx of Some t \<Rightarrow> if t = uuid_Nil then None else Some t | None \<Rightarrow> None)"

definition principal_From :: "Ctx \<Rightarrow> Principal option" where
  "principal_From ctx = cx_Principal ctx"

section \<open>The access of a tenant without teams\<close>

definition DefaultTeam :: string where
  "DefaultTeam = ''general''"

definition plain_grant :: "role \<Rightarrow> action \<Rightarrow> Grant" where
  "plain_grant r a = \<lparr>g_Team = DefaultTeam, g_Role = r, g_Action = a, g_AmountLimit = None\<rparr>"

definition DefaultAccess :: "Principal option \<Rightarrow> Access" where
  "DefaultAccess p =
     \<lparr>ac_Version = 0, ac_DefaultTeam = DefaultTeam, ac_Teams = [DefaultTeam],
      ac_Grants =
        [plain_grant RoleJunior ActionCreate, plain_grant RoleJunior ActionComposeEmail,
         plain_grant RoleJunior ActionUploadAttachment, plain_grant RoleJunior ActionResendNotice,
         plain_grant RoleLead ActionReassign] @
        map (\<lambda>e. plain_grant RoleJunior (EventAction e)) AllEvents,
      ac_Routing = [],
      ac_Members =
        (case p of
           Some q \<Rightarrow> if pr_Kind q = Analyst then [\<lparr>mb_Team = DefaultTeam, mb_Role = RoleLead\<rparr>] else []
         | None \<Rightarrow> [])\<rparr>"

end
