(* ===== verification/Codec.thy ===== *)
theory Codec
  imports Go_Time "HOL-Library.Monad_Syntax"
begin

text \<open>
  What the cursors and tokens of the API use of Go's \<open>encoding/base64\<close> and \<open>time\<close> packages:
  \<open>base64.RawURLEncoding\<close>, and the layout \<open>time.RFC3339Nano\<close> written in UTC and read back. Reading is as lenient as the
  packages are: base64 skips line ends and ignores the spare bits of the last group; a time may have a one-digit
  hour, a comma before the fraction, more than nine digits of it, and any offset up to 24 hours and 60 minutes. The name
  of a downloaded file is written as \<open>mime.FormatMediaType\<close> does.
\<close>

section \<open>Base64 for URLs, without padding\<close>

definition b64_alphabet :: string where
  "b64_alphabet = ''ABCDEFGHIJKLMNOPQRSTUVWXYZabcdefghijklmnopqrstuvwxyz0123456789-_''"

definition b64_char :: "nat \<Rightarrow> char" where
  "b64_char v = b64_alphabet ! v"

definition b64_val :: "char \<Rightarrow> nat option" where
  "b64_val c = map_of (zip b64_alphabet [0..<64]) c"

fun b64_sextets :: "nat list \<Rightarrow> nat list" where
  "b64_sextets [] = []"
| "b64_sextets [a] = [a div 4, a mod 4 * 16]"
| "b64_sextets [a, b] = [a div 4, a mod 4 * 16 + b div 16, b mod 16 * 4]"
| "b64_sextets (a # b # c # rest) =
     [a div 4, a mod 4 * 16 + b div 16, b mod 16 * 4 + c div 64, c mod 64] @ b64_sextets rest"

fun b64_octets :: "nat list \<Rightarrow> nat list option" where
  "b64_octets [] = Some []"
| "b64_octets [x] = None"
| "b64_octets [x, y] = Some [x * 4 + y div 16]"
| "b64_octets [x, y, z] = Some [x * 4 + y div 16, y mod 16 * 16 + z div 4]"
| "b64_octets (x # y # z # u # rest) =
     map_option (\<lambda>os. [x * 4 + y div 16, y mod 16 * 16 + z div 4, z mod 4 * 64 + u] @ os) (b64_octets rest)"

definition b64_encode :: "string \<Rightarrow> string" where
  "b64_encode s = map b64_char (b64_sextets (map of_char s))"

definition b64_decode :: "string \<Rightarrow> string option" where
  "b64_decode s = do {
     vs \<leftarrow> those (map b64_val (filter (\<lambda>c. c \<noteq> CHR 0x0A \<and> c \<noteq> CHR 0x0D) s));
     os \<leftarrow> b64_octets vs;
     Some (map char_of os)
   }"

section \<open>RFC 3339 with nanoseconds\<close>

text \<open>The fraction of a second: no trailing zeros, and nothing for a whole second.\<close>

definition frac_str :: "nat \<Rightarrow> string" where
  "frac_str ns = (if ns = 0 then [] else ''.'' @ rev (dropWhile (\<lambda>c. c = CHR ''0'') (rev (pad_nat 9 ns))))"

definition Format_RFC3339Nano :: "time \<Rightarrow> string" where
  "Format_RFC3339Nano t =
     (let s = t div second; clock = nat (s mod day_seconds) in
      civil_iso (civil_of_day (s div day_seconds)) @ ''T'' @ pad_nat 2 (clock div 3600) @ '':'' @
      pad_nat 2 (clock div 60 mod 60) @ '':'' @ pad_nat 2 (clock mod 60) @ frac_str (nat (t mod second)) @ ''Z'')"

definition expect :: "char \<Rightarrow> string \<Rightarrow> string option" where
  "expect c s = (case s of x # r \<Rightarrow> if x = c then Some r else None | [] \<Rightarrow> None)"

definition ensure :: "bool \<Rightarrow> unit option" where
  "ensure b = (if b then Some () else None)"

text \<open>\<open>getnum\<close>: two digits, or one where the layout allows it.\<close>

definition getnum :: "bool \<Rightarrow> string \<Rightarrow> (nat \<times> string) option" where
  "getnum fixed s =
     (case s of
        [] \<Rightarrow> None
      | c # r \<Rightarrow>
          if \<not> is_digit c then None
          else (case r of
              d # r' \<Rightarrow> if is_digit d then Some (10 * digit_val c + digit_val d, r')
                        else if fixed then None else Some (digit_val c, r)
            | [] \<Rightarrow> if fixed then None else Some (digit_val c, [])))"

definition frac_val :: "string \<Rightarrow> nat" where
  "frac_val ds = digits_val (take 9 ds) * 10 ^ (9 - length (take 9 ds))"

definition parse_frac :: "string \<Rightarrow> nat \<times> string" where
  "parse_frac s =
     (case s of
        p # d # r \<Rightarrow> if (p = CHR ''.'' \<or> p = CHR '','') \<and> is_digit d
                     then (frac_val (takeWhile is_digit (d # r)), dropWhile is_digit (d # r)) else (0, s)
      | _ \<Rightarrow> (0, s))"

text \<open>The offset in seconds east of UTC.\<close>

definition parse_offset :: "string \<Rightarrow> (int \<times> string) option" where
  "parse_offset s =
     (if s \<noteq> [] \<and> hd s = CHR ''Z'' then Some (0, tl s)
      else if length s < 6 \<or> s ! 3 \<noteq> CHR '':'' \<or> (s ! 0 \<noteq> CHR ''+'' \<and> s ! 0 \<noteq> CHR ''-'') then None
      else do {
        (hr, _) \<leftarrow> getnum True (take 2 (drop 1 s));
        (mi, _) \<leftarrow> getnum True (take 2 (drop 4 s));
        ensure (hr \<le> 24 \<and> mi \<le> 60);
        Some ((if s ! 0 = CHR ''-'' then - 1 else 1) * ((int hr * 60 + int mi) * 60), drop 6 s)
      })"

definition Parse_RFC3339Nano :: "string \<Rightarrow> time option" where
  "Parse_RFC3339Nano s = do {
     ensure (4 \<le> length s \<and> list_all is_digit (take 4 s));
     let y = int (digits_val (take 4 s));
     s \<leftarrow> expect (CHR ''-'') (drop 4 s);
     (m, s) \<leftarrow> getnum True s;
     s \<leftarrow> expect (CHR ''-'') s;
     (d, s) \<leftarrow> getnum True s;
     s \<leftarrow> expect (CHR ''T'') s;
     (h, s) \<leftarrow> getnum False s;
     s \<leftarrow> expect (CHR '':'') s;
     (mi, s) \<leftarrow> getnum True s;
     s \<leftarrow> expect (CHR '':'') s;
     (sec, s) \<leftarrow> getnum True s;
     let (ns, s) = parse_frac s;
     (off, s) \<leftarrow> parse_offset s;
     ensure (1 \<le> m \<and> m \<le> 12 \<and> h < 24 \<and> mi < 60 \<and> sec < 60 \<and> 1 \<le> d \<and> int d \<le> days_in y (int m) \<and> s = []);
     Some ((day_of_civil y (int m) (int d) * day_seconds + int (h * 3600 + mi * 60 + sec) - off) * second + int ns)
   }"

section \<open>Media types\<close>

text \<open>\<open>mime.FormatMediaType\<close> on a type without a slash and one parameter.\<close>

definition tspecials :: string where
  "tspecials = ''()<>@,;:'' @ [CHR 0x5C, CHR 0x22] @ ''/[]?=''"

definition token_char :: "char \<Rightarrow> bool" where
  "token_char c \<longleftrightarrow> 32 < (of_char c :: nat) \<and> (of_char c :: nat) < 127 \<and> c \<notin> set tspecials"

definition isToken :: "string \<Rightarrow> bool" where
  "isToken s \<longleftrightarrow> s \<noteq> [] \<and> list_all token_char s"

definition needsEncoding :: "string \<Rightarrow> bool" where
  "needsEncoding s \<longleftrightarrow> list_ex (\<lambda>c. ((of_char c :: nat) < 32 \<or> 126 < (of_char c :: nat)) \<and> (of_char c :: nat) \<noteq> 9) s"

definition upperhex :: "nat \<Rightarrow> char" where
  "upperhex n = ''0123456789ABCDEF'' ! n"

definition percent_char :: "char \<Rightarrow> string" where
  "percent_char c =
     (let n = of_char c :: nat in
      if n \<le> 32 \<or> 127 \<le> n \<or> c \<in> {CHR ''*'', CHR 0x27, CHR ''%''} \<or> c \<in> set tspecials
      then [CHR ''%'', upperhex (n div 16), upperhex (n mod 16)] else [c])"

definition quoted_char :: "char \<Rightarrow> string" where
  "quoted_char c = (if c = CHR 0x22 \<or> c = CHR 0x5C then [CHR 0x5C, c] else [c])"

definition FormatMediaType :: "string \<Rightarrow> string \<Rightarrow> string \<Rightarrow> string" where
  "FormatMediaType t attribute value =
     (if \<not> isToken t \<or> \<not> isToken attribute then []
      else to_lower t @ ''; '' @ to_lower attribute @
        (if needsEncoding value then ''*=utf-8'' @ [CHR 0x27, CHR 0x27] @ concat (map percent_char value)
         else ''='' @ (if isToken value then value else [CHR 0x22] @ concat (map quoted_char value) @ [CHR 0x22])))"

section \<open>Lemmas on base64\<close>

lemma b64_val_char [simp]: "v < 64 \<Longrightarrow> b64_val (b64_char v) = Some v"
proof -
  have "list_all (\<lambda>v. b64_val (b64_char v) = Some v) [0..<64]" by code_simp
  then show "v < 64 \<Longrightarrow> ?thesis" by (simp add: list_all_iff)
qed

lemma b64_char_plain: "v < 64 \<Longrightarrow> b64_char v \<noteq> CHR 0x0A \<and> b64_char v \<noteq> CHR 0x0D"
proof -
  have "list_all (\<lambda>v. b64_char v \<noteq> CHR 0x0A \<and> b64_char v \<noteq> CHR 0x0D) [0..<64]" by code_simp
  then show "v < 64 \<Longrightarrow> ?thesis" by (simp add: list_all_iff)
qed

lemma b64_sextets_bound: "list_all (\<lambda>n. n < 256) xs \<Longrightarrow> list_all (\<lambda>n. n < 64) (b64_sextets xs)"
  by (induction xs rule: b64_sextets.induct) auto

lemma b64_octets_sextets: "list_all (\<lambda>n. n < 256) xs \<Longrightarrow> b64_octets (b64_sextets xs) = Some xs"
  by (induction xs rule: b64_sextets.induct) auto

lemma those_map_Some: "list_all (\<lambda>x. f x = Some (g x)) xs \<Longrightarrow> those (map f xs) = Some (map g xs)"
  by (induction xs) simp_all

text \<open>What was encoded decodes to itself, whatever the bytes.\<close>

lemma b64_round_trip [simp]: "b64_decode (b64_encode s) = Some s"
proof -
  let ?xs = "map of_char s :: nat list"
  have bytes: "list_all (\<lambda>n. n < 256) ?xs" by (simp add: list_all_iff)
  note small = b64_sextets_bound [OF bytes]
  then have "filter (\<lambda>c. c \<noteq> CHR 0x0A \<and> c \<noteq> CHR 0x0D) (b64_encode s) = b64_encode s"
    by (auto simp: b64_encode_def filter_id_conv list_all_iff b64_char_plain)
  moreover have "those (map b64_val (b64_encode s)) = Some (b64_sextets ?xs)"
    using those_map_Some [of "b64_val \<circ> b64_char" id "b64_sextets ?xs"] small
    by (simp add: b64_encode_def list_all_iff)
  ultimately show ?thesis by (simp add: b64_decode_def b64_octets_sextets [OF bytes] comp_def)
qed

section \<open>Lemmas on times\<close>

lemma getnum_pad [simp]: "n < 100 \<Longrightarrow> getnum fixed (pad_nat 2 n @ r) = Some (n, r)"
proof -
  assume n: "n < 100"
  then have "length (pad_nat 2 n) = 2" by (intro length_pad_nat_le) auto
  then obtain c d where cd: "pad_nat 2 n = [c, d]" by (auto simp: numeral_2_eq_2 length_Suc_conv)
  then have "is_digit c" "is_digit d" using pad_nat_digits [of _ 2 n] by auto
  moreover have "10 * digit_val c + digit_val d = n" using digits_val_pad_nat [of 2 n] by (simp add: cd digits_val_def)
  ultimately show ?thesis by (simp add: getnum_def cd)
qed

lemma expect_Cons [simp]: "expect c (c # r) = Some r"
  by (simp add: expect_def)

lemma ensure_True [simp]: "b \<Longrightarrow> ensure b = Some ()"
  by (simp add: ensure_def)

lemma digits_val_append_zeros: "digits_val (ds @ zeros k) = digits_val ds * 10 ^ k"
proof (induction k)
  case (Suc k)
  have "ds @ zeros (Suc k) = (ds @ zeros k) @ [CHR ''0'']" by (simp add: zeros_def replicate_append_same)
  moreover have "digit_val (CHR ''0'') = 0" by (simp add: digit_val_def)
  ultimately show ?case by (metis Suc.IH add_0_right digits_val_snoc mult.commute mult.left_commute power_Suc)
qed (simp add: zeros_def)

lemma dropWhile_zeros:
  "\<exists>k. s = rev (dropWhile (\<lambda>c. c = CHR ''0'') (rev s)) @ zeros k"
proof -
  have "\<forall>c \<in> set (takeWhile (\<lambda>c. c = CHR ''0'') (rev s)). c = CHR ''0''" by (auto dest: set_takeWhileD)
  then have "takeWhile (\<lambda>c. c = CHR ''0'') (rev s) = zeros (length (takeWhile (\<lambda>c. c = CHR ''0'') (rev s)))"
    by (simp add: zeros_def replicate_length_same)
  then have "rev s = zeros (length (takeWhile (\<lambda>c. c = CHR ''0'') (rev s))) @ dropWhile (\<lambda>c. c = CHR ''0'') (rev s)"
    by (metis takeWhile_dropWhile_id)
  then have "s = rev (dropWhile (\<lambda>c. c = CHR ''0'') (rev s)) @ zeros (length (takeWhile (\<lambda>c. c = CHR ''0'') (rev s)))"
    by (metis rev_append rev_replicate rev_rev_ident zeros_def)
  then show ?thesis ..
qed

lemma parse_frac_str [simp]: "ns < 1000000000 \<Longrightarrow> parse_frac (frac_str ns @ ''Z'') = (ns, ''Z'')"
proof (cases "ns = 0")
  case True
  then show ?thesis by (simp add: parse_frac_def frac_str_def)
next
  case False
  assume ns: "ns < 1000000000"
  let ?ds = "rev (dropWhile (\<lambda>c. c = CHR ''0'') (rev (pad_nat 9 ns)))"
  obtain k where k: "pad_nat 9 ns = ?ds @ zeros k" using dropWhile_zeros by blast
  have len: "length ?ds + k = 9" using length_pad_nat_le [of ns 9] ns arg_cong [OF k, of length] by (simp add: zeros_def)
  have val: "digits_val ?ds * 10 ^ k = ns" using arg_cong [OF k, of digits_val] by (simp only: digits_val_append_zeros digits_val_pad_nat)
  have digs: "list_all is_digit ?ds" unfolding list_all_iff by (metis pad_nat_digits set_dropWhileD set_rev)
  have "?ds \<noteq> []" using val False by (metis digits_val_Nil mult_0)
  then obtain d r where dr: "?ds = d # r" by (cases ?ds) auto
  have "takeWhile is_digit (?ds @ ''Z'') = ?ds" "dropWhile is_digit (?ds @ ''Z'') = ''Z''"
    using digs by (auto simp: list_all_iff takeWhile_append dropWhile_append is_digit_def)
  then have "takeWhile is_digit (d # r @ ''Z'') = ?ds" "dropWhile is_digit (d # r @ ''Z'') = ''Z''" by (simp_all add: dr)
  moreover have "is_digit d" using digs by (simp add: dr)
  ultimately have "parse_frac (frac_str ns @ ''Z'') = (frac_val ?ds, ''Z'')" using False by (simp add: parse_frac_def frac_str_def dr)
  moreover have "frac_val ?ds = ns" using len val by (simp add: frac_val_def) (metis add_diff_cancel_left')
  ultimately show ?thesis by simp
qed

lemma month_of_yday_fits:
  assumes "0 \<le> yday" "yday \<le> (if leap then 365 else 364)" "month_of_yday leap yday = (m, d)"
  shows "d \<le> (if m = 2 \<and> leap then 29 else daysBefore m - daysBefore (m - 1))"
proof (cases "leap \<and> yday = 59")
  case True
  with assms show ?thesis by (simp add: month_of_yday_def)
next
  case False
  define day where "day = (if leap \<and> 59 < yday then yday - 1 else yday)"
  define q where "q = day div 31"
  have day: "0 \<le> day" "day \<le> 364" using assms False by (auto simp: day_def split: if_splits)
  have md: "(if daysBefore (q + 1) \<le> day then (q + 2, day - daysBefore (q + 1) + 1)
      else (q + 1, day - daysBefore q + 1)) = (m, d)"
    using assms(3) False
    by (simp only: month_of_yday_def Let_def day_def [symmetric] q_def [symmetric] if_False)
  have q: "31 * q \<le> day" "day < 31 * q + 31" unfolding q_def by linarith+
  then consider "q = 0" | "q = 1" | "q = 2" | "q = 3" | "q = 4" | "q = 5" | "q = 6" | "q = 7" | "q = 8"
    | "q = 9" | "q = 10" | "q = 11" using day by atomize_elim presburger
  then have "d \<le> daysBefore m - daysBefore (m - 1)"
    using md q day by cases (auto split: if_splits)
  then show ?thesis by auto
qed

lemma civil_day_in_month: "civil_of_day D = (y, m, d) \<Longrightarrow> d \<le> days_in y m"
proof -
  assume civil: "civil_of_day D = (y, m, d)"
  obtain yday where yd: "year_of_day D = (y, yday)" and md: "month_of_yday (is_leap y) yday = (m, d)"
    using civil by (auto simp: civil_of_day_def split: prod.splits)
  from yd obtain c400 c100 c4 c1 where p:
    "y = 400 * c400 + 100 * c100 + 4 * c4 + c1 + 1" "0 \<le> c4" "c4 \<le> 24" "0 \<le> c100" "c100 \<le> 3" "0 \<le> yday"
    "yday \<le> 364 \<or> (yday = 365 \<and> c1 = 3 \<and> (c4 < 24 \<or> c100 = 3))"
    by (rule year_of_day_parts)
  have "yday \<le> (if is_leap y then 365 else 364)"
    using p is_leap_parts [of c1 c4 c100 c400] by auto
  from month_of_yday_fits [OF p(6) this md] show "d \<le> days_in y m" by (simp add: days_in_def)
qed

text \<open>The years the layout writes with four digits.\<close>

definition four_digit_year :: "time \<Rightarrow> bool" where
  "four_digit_year t = (case civil_of_day (t div second div day_seconds) of (y, _) \<Rightarrow> 0 \<le> y \<and> y \<le> 9999)"

text \<open>A time written with four digits of year reads back as itself, to the nanosecond.\<close>

lemma RFC3339Nano_round_trip:
  assumes "four_digit_year t"
  shows "Parse_RFC3339Nano (Format_RFC3339Nano t) = Some t"
proof -
  define s where "s = t div second"
  define clock where "clock = nat (s mod day_seconds)"
  define ns where "ns = nat (t mod second)"
  obtain y m d where civil: "civil_of_day (s div day_seconds) = (y, m, d)" by (cases "civil_of_day (s div day_seconds)") auto
  then have y: "0 \<le> y" "y \<le> 9999" using assms by (auto simp: four_digit_year_def s_def)
  note md = civil_of_day_range [OF civil]
  have clock: "clock < 86400" unfolding clock_def by auto
  have ns: "ns < 1000000000" by (simp add: ns_def)
  have written: "Format_RFC3339Nano t = pad_nat 4 (nat y) @ CHR ''-'' # pad_nat 2 (nat m) @ CHR ''-'' # pad_nat 2 (nat d) @
      CHR ''T'' # pad_nat 2 (clock div 3600) @ CHR '':'' # pad_nat 2 (clock div 60 mod 60) @ CHR '':'' # pad_nat 2 (clock mod 60) @
      frac_str ns @ ''Z''"
    using y by (simp add: Format_RFC3339Nano_def Let_def s_def clock_def ns_def civil [unfolded s_def] civil_iso_def year_str_def)
  have four: "length (pad_nat 4 (nat y)) = 4" using y by (intro length_pad_nat_le) auto
  have digits: "list_all is_digit (pad_nat 4 (nat y))" by (simp add: list_all_iff pad_nat_digits)
  have small: "nat m < 100" "nat d < 100" "clock div 3600 < 100" "clock div 60 mod 60 < 100" "clock mod 60 < 100"
      "clock div 3600 < 24" "clock div 60 mod 60 < 60" "clock mod 60 < 60"
      "Suc 0 \<le> nat m" "nat m \<le> 12" "Suc 0 \<le> nat d"
    using md clock by auto
  have "d \<le> days_in y m" by (rule civil_day_in_month [OF civil])
  moreover have "parse_offset ''Z'' = Some (0, [])" by (simp add: parse_offset_def)
  ultimately have "Parse_RFC3339Nano (Format_RFC3339Nano t) = Some ((day_of_civil y m d * day_seconds +
      int (clock div 3600 * 3600 + clock div 60 mod 60 * 60 + clock mod 60) - 0) * second + int ns)"
    using md y four digits ns small by (simp add: Parse_RFC3339Nano_def written)
  moreover have "clock div 3600 = clock div 60 div 60" by (simp add: div_mult2_eq [symmetric])
  then have "clock div 3600 * 3600 + clock div 60 mod 60 * 60 + clock mod 60 = clock"
    using div_mult_mod_eq [of clock 60] div_mult_mod_eq [of "clock div 60" 60] by linarith
  moreover have "day_of_civil y m d = s div day_seconds" by (rule day_of_civil_of_day [OF civil])
  moreover have "(s div day_seconds * day_seconds + int clock - 0) * second + int ns = t"
    by (simp add: s_def ns_def clock_def)
  ultimately show ?thesis by simp
qed

text \<open>A time is written without the character that ends it in a cursor.\<close>

lemma digits_no_bar: "CHR ''|'' \<notin> set (pad_nat w n)"
  using pad_nat_digits [of "CHR ''|''" w n] by (auto simp: is_digit_def)

lemma frac_no_bar: "CHR ''|'' \<notin> set (frac_str ns)"
proof -
  have "set (rev (dropWhile (\<lambda>c. c = CHR ''0'') (rev (pad_nat 9 ns)))) \<subseteq> set (pad_nat 9 ns)"
    using set_dropWhileD by fastforce
  then show ?thesis using digits_no_bar [of 9 ns] by (auto simp: frac_str_def)
qed

lemma Format_no_bar:
  assumes "four_digit_year t"
  shows "CHR ''|'' \<notin> set (Format_RFC3339Nano t)"
proof -
  obtain y m d where civil: "civil_of_day (t div second div day_seconds) = (y, m, d)" by (cases "civil_of_day (t div second div day_seconds)") auto
  with assms have "0 \<le> y" by (simp add: four_digit_year_def)
  then show ?thesis
    by (simp add: Format_RFC3339Nano_def Let_def civil civil_iso_def year_str_def digits_no_bar frac_no_bar)
qed

section \<open>Lemmas on media types\<close>

text \<open>Nothing but printable ASCII and tabs: no line end, so one header stays one header.\<close>

definition header_char :: "char \<Rightarrow> bool" where
  "header_char c \<longleftrightarrow> (32 \<le> (of_char c :: nat) \<and> (of_char c :: nat) \<le> 126) \<or> (of_char c :: nat) = 9"

lemma upperhex_header: "n < 16 \<Longrightarrow> header_char (upperhex n)"
proof -
  have "list_all (\<lambda>n. header_char (upperhex n)) [0..<16]" by code_simp
  then show "n < 16 \<Longrightarrow> ?thesis" by (simp add: list_all_iff)
qed

lemma percent_char_header: "list_all header_char (percent_char c)"
proof -
  have "(of_char c :: nat) div 16 < 16" "(of_char c :: nat) mod 16 < 16" using nat_of_char_less_256 [of c] by (simp_all add: less_mult_imp_div_less)
  then have "header_char (upperhex (of_char c div 16))" "header_char (upperhex (of_char c mod 16))" by (simp_all add: upperhex_header)
  moreover have "header_char (CHR ''%'')" by (simp add: header_char_def)
  moreover have "header_char c" if "\<not> ((of_char c :: nat) \<le> 32 \<or> 127 \<le> (of_char c :: nat))" using that by (simp add: header_char_def)
  ultimately show ?thesis by (simp add: percent_char_def Let_def)
qed

lemma quoted_char_header: "header_char c \<Longrightarrow> list_all header_char (quoted_char c)"
  by (simp add: quoted_char_def header_char_def)

lemma FormatMediaType_header: "list_all header_char (FormatMediaType ''inline'' ''filename'' name)"
proof (cases "needsEncoding name")
  case True
  have "list_all header_char (concat (map percent_char name))"
    using percent_char_header by (induction name) auto
  with True show ?thesis by (auto simp: FormatMediaType_def header_char_def to_lower_def is_upper_def)
next
  case False
  then have plain: "list_all header_char name" by (auto simp: needsEncoding_def header_char_def list_all_iff list_ex_iff)
  then have "list_all header_char (concat (map quoted_char name))"
    using quoted_char_header by (induction name) auto
  with False plain show ?thesis by (auto simp: FormatMediaType_def header_char_def to_lower_def is_upper_def)
qed

end
