(* ===== verification/Gateway.thy ===== *)
theory Gateway
  imports Ports Codec
begin

text \<open>
  What stands between the network and the use cases: \<^verbatim>\<open>platform/httpserver\<close> (problem responses, the chain of
  middleware, request ids, the internal guard, cross-origin answers), \<^verbatim>\<open>platform/auth\<close> (credentials, the limiter of
  guesses, the service key), \<^verbatim>\<open>platform/ratelimit\<close>, the tenant keys of \<^verbatim>\<open>infrastructure/postgres/keys.go\<close>, the
  class of each operation (\<^verbatim>\<open>ports/http/operations.go\<close>) and the order of \<^verbatim>\<open>cmd/api/main.go\<close>.

  A handler takes the context and the request and answers under a server state: the tables of tenants, keys and rate
  windows, the hits of the limiter, and whatever the application keeps (the rest of the record). Each request reads the
  clock once. Random values (a request id, a secret), the digest of a key, the token library, the JSON reader of a
  token, the table of internal networks and the router with its schema checks are parameters.
\<close>

section \<open>Problem responses\<close>

record Problem =
  pb_Type :: string
  pb_Title :: string
  pb_Status :: nat
  pb_Detail :: string
  pb_Instance :: string
  pb_Code :: string
  pb_Retryable :: bool
  pb_RetryAfterSeconds :: "int option"
  pb_RequestID :: string
  pb_Errors :: "FieldError list"

fun statusByKind :: "kind \<Rightarrow> nat" where
  "statusByKind Invalid = 400"
| "statusByKind NotFound = 404"
| "statusByKind Conflict = 409"
| "statusByKind Unprocessable = 422"
| "statusByKind Unauthorized = 401"
| "statusByKind Forbidden = 403"
| "statusByKind Unavailable = 503"
| "statusByKind RateLimited = 429"
| "statusByKind Internal = 500"

fun titleByKind :: "kind \<Rightarrow> string" where
  "titleByKind Invalid = ''The request is not valid''"
| "titleByKind NotFound = ''Not found''"
| "titleByKind Conflict = ''The request conflicts with the current state''"
| "titleByKind Unprocessable = ''The request cannot be processed''"
| "titleByKind Unauthorized = ''Authentication required''"
| "titleByKind Forbidden = ''Not allowed''"
| "titleByKind Unavailable = ''Temporarily unavailable''"
| "titleByKind RateLimited = ''Too many requests''"
| "titleByKind Internal = ''Something went wrong on our side''"

definition WithRetryAfter :: "Problem \<Rightarrow> int \<Rightarrow> Problem" where
  "WithRetryAfter p n = p\<lparr>pb_RetryAfterSeconds := Some n\<rparr>"

definition ProblemFrom :: "string \<Rightarrow> string \<Rightarrow> error \<Rightarrow> Problem" where
  "ProblemFrom rid path err =
     (let kind = KindOf err;
          p = \<lparr>pb_Type = ''urn:dispute-engine:error:'' @ CodeOf err, pb_Title = titleByKind kind,
               pb_Status = statusByKind kind, pb_Detail = UserMessage err, pb_Instance = path, pb_Code = CodeOf err,
               pb_Retryable = Retryable err, pb_RetryAfterSeconds = None, pb_RequestID = rid, pb_Errors = FieldsOf err\<rparr>
      in case kind of
           Internal \<Rightarrow> p\<lparr>pb_Detail := ''Something went wrong on our side. Reference: '' @ rid\<rparr>
         | Unavailable \<Rightarrow> p\<lparr>pb_RetryAfterSeconds := Some 5,
              pb_Detail := (if pb_Detail p = [] then ''A dependency is unavailable. Reference: '' @ rid else pb_Detail p)\<rparr>
         | _ \<Rightarrow> p)"

definition itoa :: "int \<Rightarrow> string" where
  "itoa n = (if n = 0 then ''0'' else if n < 0 then [] else show_nat (nat n))"

section \<open>Requests, responses and the chain\<close>

record Request =
  rq_Method :: string
  rq_Path :: string
  rq_RemoteAddr :: string
  rq_Header :: "string \<Rightarrow> string"

datatype 'b body = NoBody | PlainBody string | ProblemBody Problem | Content 'b

record 'b Response =
  rs_Status :: nat
  rs_Header :: "string \<Rightarrow> string option"
  rs_Body :: "'b body"

record AuthPrincipal =
  ap_Tenant :: uuid
  ap_Subject :: string
  ap_Sid :: string
  ap_Email :: string
  ap_Name :: string
  ap_FirstName :: string
  ap_LastName :: string
  ap_Roles :: "string list"

text \<open>The context of a request: the tenant and caller the use cases read, and what the middleware leaves for later.\<close>

record ReqCtx = Ctx +
  hx_RequestID :: string
  hx_AuthErr :: "error option"
  hx_Analyst :: "AuthPrincipal option"
  hx_Service :: bool

type_synonym ('s, 'b) handler = "ReqCtx \<Rightarrow> Request \<Rightarrow> 's \<Rightarrow> 'b Response \<times> 's"

definition Chain :: "('s, 'b) handler \<Rightarrow> (('s, 'b) handler \<Rightarrow> ('s, 'b) handler) list \<Rightarrow> ('s, 'b) handler" where
  "Chain h mws = foldr (\<lambda>m h. m h) mws h"

text \<open>Headers set before the next handler runs; what that one sets again is its own.\<close>

definition with_headers :: "(string \<Rightarrow> string option) \<Rightarrow> 'b Response \<times> 's \<Rightarrow> 'b Response \<times> 's" where
  "with_headers hs r = (fst r\<lparr>rs_Header := hs ++ rs_Header (fst r)\<rparr>, snd r)"

definition WriteProblem :: "Problem \<Rightarrow> 'b Response" where
  "WriteProblem p = \<lparr>rs_Status = pb_Status p,
     rs_Header = (case pb_RetryAfterSeconds p of Some n \<Rightarrow> [''Retry-After'' \<mapsto> itoa n] | None \<Rightarrow> Map.empty)
       (''Content-Type'' \<mapsto> ''application/problem+json''),
     rs_Body = ProblemBody p\<rparr>"

definition fail :: "ReqCtx \<Rightarrow> Request \<Rightarrow> error \<Rightarrow> 'b Response" where
  "fail ctx rq err = WriteProblem (ProblemFrom (hx_RequestID ctx) (rq_Path rq) err)"

definition RequestID :: "string \<Rightarrow> ('s, 'b) handler \<Rightarrow> ('s, 'b) handler" where
  "RequestID newRequestID next ctx rq s =
     (let h = rq_Header rq ''X-Request-ID''; rid = (if h = [] then newRequestID else h) in
      with_headers [''X-Request-ID'' \<mapsto> rid] (next (ctx\<lparr>hx_RequestID := rid\<rparr>) rq s))"

definition http_NotFound :: "'b Response" where
  "http_NotFound = \<lparr>rs_Status = 404, rs_Header = [''Content-Type'' \<mapsto> ''text/plain; charset=utf-8''],
     rs_Body = PlainBody (''404 page not found'' @ newline)\<rparr>"

definition InternalOnly :: "string \<Rightarrow> (string \<Rightarrow> bool) \<Rightarrow> ('s, 'b) handler \<Rightarrow> ('s, 'b) handler" where
  "InternalOnly prefix peerAllowed next ctx rq s =
     (if starts_with prefix (rq_Path rq) \<and> \<not> peerAllowed (rq_RemoteAddr rq) then (http_NotFound, s) else next ctx rq s)"

definition CORS :: "string list \<Rightarrow> ('s, 'b) handler \<Rightarrow> ('s, 'b) handler" where
  "CORS origins next ctx rq s =
     (let origin = rq_Header rq ''Origin'' in
      if origin \<noteq> [] \<and> origin \<in> set origins then
        (let hs = [''Access-Control-Allow-Origin'' \<mapsto> origin, ''Vary'' \<mapsto> ''Origin'',
                   ''Access-Control-Expose-Headers'' \<mapsto> ''X-Request-ID'']
         in if rq_Method rq = ''OPTIONS'' then
              (\<lparr>rs_Status = 204, rs_Header = hs(''Access-Control-Allow-Methods'' \<mapsto> ''GET, POST, PUT, DELETE, OPTIONS'',
                  ''Access-Control-Allow-Headers'' \<mapsto> ''Authorization, Content-Type, Idempotency-Key, X-Request-ID'',
                  ''Access-Control-Max-Age'' \<mapsto> ''600''), rs_Body = NoBody\<rparr>, s)
            else with_headers hs (next ctx rq s))
      else next ctx rq s)"

definition ParseOrigins :: "string \<Rightarrow> string list" where
  "ParseOrigins raw = filter (\<lambda>x. x \<noteq> []) (map trim_space (split_on (CHR '','') raw))"

section \<open>The tables of tenants and keys\<close>

record TenantRow =
  te_ID :: uuid
  te_Slug :: string
  te_Name :: string
  te_OidcIssuer :: "string option"
  te_EmailDomains :: "string list"
  te_DisabledAt :: "time option"

record KeyRow =
  kr_ID :: uuid
  kr_TenantID :: uuid
  kr_Hash :: string
  kr_Prefix :: string
  kr_Label :: string
  kr_CreatedAt :: time
  kr_LastUsedAt :: "time option"
  kr_ExpiresAt :: "time option"
  kr_RevokedAt :: "time option"

record Gate =
  db_tenants :: "TenantRow list"
  db_keys :: "KeyRow list"
  db_windows :: "uuid \<times> time \<Rightarrow> int option"
  ks_touched :: "uuid \<Rightarrow> time option"
  oi_verifiers :: "string list"
  fl_hits :: "string \<Rightarrow> time list option"
  fl_lastSweep :: time

record KeyIdentity =
  ki_Tenant :: uuid
  ki_ID :: uuid
  ki_Prefix :: string

abbreviation minute :: int where "minute \<equiv> 60 * second"

definition tenant_enabled :: "'m Gate_scheme \<Rightarrow> uuid \<Rightarrow> bool" where
  "tenant_enabled db i \<longleftrightarrow> list_ex (\<lambda>t. te_ID t = i \<and> te_DisabledAt t = None) (db_tenants db)"

definition key_live :: "time \<Rightarrow> KeyRow \<Rightarrow> bool" where
  "key_live now k \<longleftrightarrow> kr_RevokedAt k = None \<and> (case kr_ExpiresAt k of None \<Rightarrow> True | Some x \<Rightarrow> now < x)"

definition GetTenantByTenantKeyHash :: "time \<Rightarrow> string \<Rightarrow> 'm Gate_scheme \<Rightarrow> KeyRow option" where
  "GetTenantByTenantKeyHash now hash db =
     find (\<lambda>k. kr_Hash k = hash \<and> key_live now k \<and> tenant_enabled db (kr_TenantID k)) (db_keys db)"

definition TouchTenantKey :: "time \<Rightarrow> uuid \<Rightarrow> 'm Gate_scheme \<Rightarrow> 'm Gate_scheme" where
  "TouchTenantKey now i db =
     db\<lparr>db_keys := map (\<lambda>k. if kr_ID k = i then k\<lparr>kr_LastUsedAt := Some now\<rparr> else k) (db_keys db)\<rparr>"

definition touch :: "time \<Rightarrow> uuid \<Rightarrow> 'm Gate_scheme \<Rightarrow> 'm Gate_scheme" where
  "touch now i db =
     (if (case ks_touched db i of Some used \<Rightarrow> now - used < minute | None \<Rightarrow> False) then db
      else TouchTenantKey now i (db\<lparr>ks_touched := (ks_touched db)(i \<mapsto> now)\<rparr>))"

definition KeyForHash :: "time \<Rightarrow> string \<Rightarrow> 'm Gate_scheme \<Rightarrow> KeyIdentity result \<times> 'm Gate_scheme" where
  "KeyForHash now hash db =
     (case GetTenantByTenantKeyHash now hash db of
        None \<Rightarrow> (Inl (Classified ErrNotFound), db)
      | Some row \<Rightarrow> (Inr \<lparr>ki_Tenant = kr_TenantID row, ki_ID = kr_ID row, ki_Prefix = kr_Prefix row\<rparr>, touch now (kr_ID row) db))"

definition TenantForIssuer :: "string \<Rightarrow> 'm Gate_scheme \<Rightarrow> uuid result" where
  "TenantForIssuer issuer db =
     (case find (\<lambda>t. te_OidcIssuer t = Some issuer \<and> te_DisabledAt t = None) (db_tenants db) of
        None \<Rightarrow> Inl (Classified ErrNotFound)
      | Some t \<Rightarrow> Inr (te_ID t))"

section \<open>Credentials\<close>

definition ErrUnauthenticated :: Error where
  "ErrUnauthenticated = New Unauthorized ''unauthenticated'' ''a valid tenant key is required''"

definition auth_ErrForbidden :: Error where
  "auth_ErrForbidden = New Forbidden ''forbidden'' ''this credential may not perform this operation''"

definition RoleTenantAdmin :: string where
  "RoleTenantAdmin = ''tenant-admin''"

definition NewSecret :: "string \<Rightarrow> string" where
  "NewSecret b = ''tk_'' @ b64_encode b"

definition PrefixLen :: nat where
  "PrefixLen = 12"

definition Prefix :: "string \<Rightarrow> string" where
  "Prefix key = (if length key < PrefixLen then key else take PrefixLen key)"

definition LooksLikeJWT :: "string \<Rightarrow> bool" where
  "LooksLikeJWT token \<longleftrightarrow> length (filter (\<lambda>c. c = CHR ''.'') token) = 2 \<and> \<not> starts_with ''tk_'' token"

definition WithPrincipal :: "ReqCtx \<Rightarrow> AuthPrincipal \<Rightarrow> ReqCtx" where
  "WithPrincipal ctx p =
     (let display = (if ap_Email p = [] then ap_Subject p else ap_Email p) in
      ctx\<lparr>cx_Principal := Some \<lparr>pr_Kind = Analyst, pr_ID = ap_Subject p, pr_Display = display,
            pr_TenantAdmin = (RoleTenantAdmin \<in> set (ap_Roles p))\<rparr>,
          hx_Analyst := Some p, cx_Tenant := Some (ap_Tenant p)\<rparr>)"

text \<open>The token library: discovery of an issuer's keys, and what a verified token says.\<close>

record Claims =
  cl_TenantID :: string
  cl_Sid :: string
  cl_Email :: string
  cl_Name :: string
  cl_FirstName :: string
  cl_LastName :: string
  cl_Roles :: "string list"

record IDToken =
  tk_Subject :: string
  tk_Claims :: "Claims option"

record TokenLib =
  tl_Issuer :: "string \<Rightarrow> string option"
  tl_Discovers :: "string \<Rightarrow> bool"
  tl_Verify :: "string \<Rightarrow> string \<Rightarrow> IDToken option"

text \<open>\<open>tl_Issuer\<close> reads the \<open>iss\<close> of a payload; an empty one is refused like a missing one.\<close>

definition unverifiedIssuer :: "TokenLib \<Rightarrow> string \<Rightarrow> string option" where
  "unverifiedIssuer lib raw =
     (case split_on (CHR ''.'') raw of
        [_, payload, _] \<Rightarrow> do {
          bytes \<leftarrow> b64_decode payload;
          iss \<leftarrow> tl_Issuer lib bytes;
          ensure (iss \<noteq> []);
          Some iss
        }
      | _ \<Rightarrow> None)"

definition ErrProvider :: error where
  "ErrProvider = Wrap (Classified (New Unavailable ''unavailable'' ''the identity provider is temporarily unavailable''))"

definition verifier :: "TokenLib \<Rightarrow> string \<Rightarrow> 'm Gate_scheme \<Rightarrow> bool \<times> 'm Gate_scheme" where
  "verifier lib issuer s =
     (if issuer \<in> set (oi_verifiers s) then (True, s)
      else if tl_Discovers lib issuer then (True, s\<lparr>oi_verifiers := issuer # oi_verifiers s\<rparr>)
      else (False, s))"

definition principal_of :: "uuid \<Rightarrow> IDToken \<Rightarrow> AuthPrincipal result" where
  "principal_of tenant tok =
     (case tk_Claims tok of
        None \<Rightarrow> Inl (Classified ErrUnauthenticated)
      | Some c \<Rightarrow>
          if cl_TenantID c \<noteq> [] \<and> cl_TenantID c \<noteq> tenant then Inl (Classified ErrUnauthenticated)
          else if tk_Subject tok = [] then Inl (Classified ErrUnauthenticated)
          else Inr \<lparr>ap_Tenant = tenant, ap_Subject = tk_Subject tok, ap_Sid = cl_Sid c, ap_Email = cl_Email c,
                 ap_Name = cl_Name c, ap_FirstName = cl_FirstName c, ap_LastName = cl_LastName c, ap_Roles = cl_Roles c\<rparr>)"

definition Verify :: "TokenLib \<Rightarrow> string \<Rightarrow> 'm Gate_scheme \<Rightarrow> AuthPrincipal result \<times> 'm Gate_scheme" where
  "Verify lib raw s =
     (case unverifiedIssuer lib raw of
        None \<Rightarrow> (Inl (Classified ErrUnauthenticated), s)
      | Some issuer \<Rightarrow>
          (case TenantForIssuer issuer s of
             Inl err \<Rightarrow> (Inl (if KindOf err = NotFound then Classified ErrUnauthenticated else err), s)
           | Inr tenant \<Rightarrow>
               (case verifier lib issuer s of
                  (False, s1) \<Rightarrow> (Inl ErrProvider, s1)
                | (True, s1) \<Rightarrow>
                    (case tl_Verify lib issuer raw of
                       None \<Rightarrow> (Inl (Classified ErrUnauthenticated), s1)
                     | Some tok \<Rightarrow> (principal_of tenant tok, s1)))))"

text \<open>The credential of the header, if one is presented.\<close>

definition credential :: "Request \<Rightarrow> string option" where
  "credential rq =
     (let h = rq_Header rq ''Authorization''; cred = trim_space (drop 7 h) in
      if \<not> starts_with ''Bearer '' h \<or> cred = [] then None else Some cred)"

text \<open>
  \<open>Bearer\<close>: the credential is resolved if one is presented, and the outcome recorded; \<open>keys\<close> and \<open>oidc\<close> are the two
  ways to resolve it.
\<close>

definition Bearer :: "(string \<Rightarrow> string) \<Rightarrow> (string \<Rightarrow> 's \<Rightarrow> KeyIdentity result \<times> 's) \<Rightarrow>
    (string \<Rightarrow> 's \<Rightarrow> AuthPrincipal result \<times> 's) option \<Rightarrow> ('s, 'b) handler \<Rightarrow> ('s, 'b) handler" where
  "Bearer hashKey keys oidc next ctx rq s =
     (let refused = (\<lambda>err s. next (ctx\<lparr>hx_AuthErr := Some (if KindOf err = NotFound then Classified ErrUnauthenticated else err)\<rparr>) rq s) in
      case credential rq of
        None \<Rightarrow> next (ctx\<lparr>hx_AuthErr := Some (Classified ErrUnauthenticated)\<rparr>) rq s
      | Some cred \<Rightarrow>
          if LooksLikeJWT cred then
            (case oidc of
               None \<Rightarrow> refused (Classified ErrUnauthenticated) s
             | Some verify \<Rightarrow>
                 (case verify cred s of
                    (Inl err, s1) \<Rightarrow> refused err s1
                  | (Inr p, s1) \<Rightarrow> next ((WithPrincipal ctx p)\<lparr>cx_Tenant := Some (ap_Tenant p)\<rparr>) rq s1))
          else
            (case keys (hashKey cred) s of
               (Inl err, s1) \<Rightarrow> refused err s1
             | (Inr k, s1) \<Rightarrow>
                 next (ctx\<lparr>cx_Principal := Some \<lparr>pr_Kind = Key, pr_ID = ki_ID k, pr_Display = ''key:'' @ ki_Prefix k,
                   pr_TenantAdmin = False\<rparr>, cx_Tenant := Some (ki_Tenant k)\<rparr>) rq s1))"

definition ServiceKey :: "string \<Rightarrow> ('s, 'b) handler \<Rightarrow> ('s, 'b) handler" where
  "ServiceKey key next ctx rq s =
     (let got = rq_Header rq ''X-Service-Key'' in
      next (if key \<noteq> [] \<and> got \<noteq> [] \<and> got = key then ctx\<lparr>hx_Service := True\<rparr> else ctx) rq s)"

datatype scheme = bearerAuth | serviceKey

definition Required :: "ReqCtx \<Rightarrow> scheme \<Rightarrow> unit result" where
  "Required ctx scheme =
     (case scheme of
        serviceKey \<Rightarrow> if hx_Service ctx then Inr () else Inl (Classified ErrUnauthenticated)
      | bearerAuth \<Rightarrow>
          (case tenant_IDFrom (Ctx.truncate ctx) of
             Some _ \<Rightarrow> Inr ()
           | None \<Rightarrow> Inl (case hx_AuthErr ctx of Some err \<Rightarrow> err | None \<Rightarrow> Classified ErrUnauthenticated)))"

section \<open>The limiter of guesses\<close>

definition ErrTooManyFailures :: Error where
  "ErrTooManyFailures = New RateLimited ''rate-limited'' ''too many failed authentication attempts from this address''"

text \<open>\<open>net.SplitHostPort\<close>: the host, or nothing where it gives an error.\<close>

definition index_of :: "char \<Rightarrow> string \<Rightarrow> nat" where
  "index_of c s = length (takeWhile (\<lambda>x. x \<noteq> c) s)"

definition SplitHostPort :: "string \<Rightarrow> string option" where
  "SplitHostPort s =
     (if CHR '':'' \<notin> set s then None
      else let i = length s - 1 - index_of (CHR '':'') (rev s) in
        if hd s = CHR ''['' then
          (let e = index_of (CHR '']'') s in
           if e = length s \<or> e + 1 \<noteq> i \<or> CHR ''['' \<in> set (drop 1 s) \<or> CHR '']'' \<in> set (drop (e + 1) s) then None
           else Some (drop 1 (take e s)))
        else let host = take i s in
          if CHR '':'' \<in> set host \<or> CHR ''['' \<in> set s \<or> CHR '']'' \<in> set s then None else Some host)"

definition peerOf :: "string \<Rightarrow> string" where
  "peerOf remote = (case SplitHostPort remote of Some host \<Rightarrow> host | None \<Rightarrow> remote)"

definition hits_of :: "'m Gate_scheme \<Rightarrow> string \<Rightarrow> time list" where
  "hits_of f peer = (case fl_hits f peer of Some ts \<Rightarrow> ts | None \<Rightarrow> [])"

definition recentLocked :: "time \<Rightarrow> string \<Rightarrow> 'm Gate_scheme \<Rightarrow> time list" where
  "recentLocked now peer f = dropWhile (\<lambda>t. t < now - minute) (hits_of f peer)"

definition sweepLocked :: "time \<Rightarrow> 'm Gate_scheme \<Rightarrow> 'm Gate_scheme" where
  "sweepLocked now f =
     (if now - fl_lastSweep f < minute then f
      else f\<lparr>fl_lastSweep := now, fl_hits := (\<lambda>peer. if recentLocked now peer f = [] then None else fl_hits f peer)\<rparr>)"

definition blocked :: "int \<Rightarrow> time \<Rightarrow> string \<Rightarrow> 'm Gate_scheme \<Rightarrow> bool \<times> 'm Gate_scheme" where
  "blocked perMinute now peer f = (let f1 = sweepLocked now f in (perMinute \<le> int (length (recentLocked now peer f1)), f1))"

definition record_hit :: "time \<Rightarrow> string \<Rightarrow> 'm Gate_scheme \<Rightarrow> 'm Gate_scheme" where
  "record_hit now peer f = f\<lparr>fl_hits := (fl_hits f)(peer \<mapsto> recentLocked now peer f @ [now])\<rparr>"

definition FailureLimiter :: "int \<Rightarrow> time \<Rightarrow> ('m Gate_scheme, 'b) handler \<Rightarrow> ('m Gate_scheme, 'b) handler" where
  "FailureLimiter perMinute now next ctx rq s =
     (if perMinute \<le> 0 \<or> rq_Header rq ''Authorization'' = [] then next ctx rq s
      else let peer = peerOf (rq_RemoteAddr rq) in
        (case blocked perMinute now peer s of
           (True, s1) \<Rightarrow>
             (WriteProblem (WithRetryAfter (ProblemFrom (hx_RequestID ctx) (rq_Path rq) (Classified ErrTooManyFailures)) 60), s1)
         | (False, s1) \<Rightarrow> next ctx rq (if hx_AuthErr ctx \<noteq> None then record_hit now peer s1 else s1)))"

section \<open>The budget of a tenant\<close>

definition ErrRateLimited :: Error where
  "ErrRateLimited = New RateLimited ''rate-limited'' ''this tenant has used its request budget for the current minute''"

text \<open>The statement's count is a column of 32 bits, and its tenant one of the table of tenants.\<close>

definition BumpTenantRateWindow :: "uuid \<Rightarrow> time \<Rightarrow> 'm Gate_scheme \<Rightarrow> int result \<times> 'm Gate_scheme" where
  "BumpTenantRateWindow tid wnd s =
     (if \<not> list_ex (\<lambda>t. te_ID t = tid) (db_tenants s) then (Inl (Opaque ''foreign key violation''), s)
      else let n = (case db_windows s (tid, wnd) of None \<Rightarrow> 1 | Some c \<Rightarrow> c + 1) in
        if 2 ^ 31 \<le> n then (Inl (Opaque ''integer out of range''), s)
        else (Inr n, s\<lparr>db_windows := (db_windows s)((tid, wnd) \<mapsto> n)\<rparr>))"

definition PurgeTenantRateWindows :: "time \<Rightarrow> 'm Gate_scheme \<Rightarrow> 'm Gate_scheme" where
  "PurgeTenantRateWindows before s = s\<lparr>db_windows := (\<lambda>(tid, wnd). if wnd < before then None else db_windows s (tid, wnd))\<rparr>"

definition Purge :: "time \<Rightarrow> 'm Gate_scheme \<Rightarrow> 'm Gate_scheme" where
  "Purge now s = PurgeTenantRateWindows (now - 60 * minute) s"

definition window_of :: "time \<Rightarrow> time" where
  "window_of now = now - now mod minute"

definition retry_seconds :: "time \<Rightarrow> int" where
  "retry_seconds now = (window_of now + minute - now) div second + 1"

definition RateLimit :: "(uuid \<Rightarrow> time \<Rightarrow> 's \<Rightarrow> int result \<times> 's) \<Rightarrow> int \<Rightarrow> time \<Rightarrow> ('s, 'b) handler \<Rightarrow> ('s, 'b) handler" where
  "RateLimit bump perMinute now next ctx rq s =
     (if perMinute \<le> 0 then next ctx rq s
      else case tenant_IDFrom (Ctx.truncate ctx) of
        None \<Rightarrow> next ctx rq s
      | Some tid \<Rightarrow>
          (case bump tid (window_of now) s of
             (Inl err, s1) \<Rightarrow> next ctx rq s1
           | (Inr n, s1) \<Rightarrow>
               (let hs = [''RateLimit-Limit'' \<mapsto> show_int perMinute, ''RateLimit-Remaining'' \<mapsto> show_int (max (perMinute - n) 0)] in
                if perMinute < n then
                  (let retry = retry_seconds now in
                   with_headers (hs(''Retry-After'' \<mapsto> show_int retry))
                     (WriteProblem (WithRetryAfter (ProblemFrom (hx_RequestID ctx) (rq_Path rq) (Classified ErrRateLimited)) retry), s1))
                else with_headers hs (next ctx rq s1))))"

section \<open>Operations\<close>

datatype operation = GetHealthz | GetReadyz | ListDisputes_op | GetDispute_op | GetAttachment_op | GetNotice_op
  | ListEmailTemplates_op | GetTenant_op | GetTenantLogo_op | GetMyAvatar | PutMyAvatar | SuggestQuestionnaireAnswers_op
  | SuggestSearchFilters_op | SuggestDisputeReason_op | CreateDispute_op | ApplyDisputeEvent | ComposeEmail_op
  | UploadAttachment | ResendNotice | ReassignDispute | ListTenantTemplates | PutTenantTemplate_op | DeleteTenantTemplate_op
  | PutTenantLogo_op | ListTenantKeys | CreateTenantKey | RevokeTenantKey | PutSession | GetSession | DeleteSession
  | DeleteSessions | ListTenants

datatype opClass = opPublic | opInternal | opTenantWide | opDecided

fun operationClass :: "operation \<Rightarrow> opClass" where
  "operationClass GetHealthz = opPublic"
| "operationClass GetReadyz = opPublic"
| "operationClass ListDisputes_op = opTenantWide"
| "operationClass GetDispute_op = opTenantWide"
| "operationClass GetAttachment_op = opTenantWide"
| "operationClass GetNotice_op = opTenantWide"
| "operationClass ListEmailTemplates_op = opTenantWide"
| "operationClass GetTenant_op = opTenantWide"
| "operationClass GetTenantLogo_op = opTenantWide"
| "operationClass GetMyAvatar = opTenantWide"
| "operationClass PutMyAvatar = opTenantWide"
| "operationClass SuggestQuestionnaireAnswers_op = opTenantWide"
| "operationClass SuggestSearchFilters_op = opTenantWide"
| "operationClass SuggestDisputeReason_op = opTenantWide"
| "operationClass CreateDispute_op = opDecided"
| "operationClass ApplyDisputeEvent = opDecided"
| "operationClass ComposeEmail_op = opDecided"
| "operationClass UploadAttachment = opDecided"
| "operationClass ResendNotice = opDecided"
| "operationClass ReassignDispute = opDecided"
| "operationClass ListTenantTemplates = opDecided"
| "operationClass PutTenantTemplate_op = opDecided"
| "operationClass DeleteTenantTemplate_op = opDecided"
| "operationClass PutTenantLogo_op = opDecided"
| "operationClass ListTenantKeys = opDecided"
| "operationClass CreateTenantKey = opDecided"
| "operationClass RevokeTenantKey = opDecided"
| "operationClass PutSession = opInternal"
| "operationClass GetSession = opInternal"
| "operationClass DeleteSession = opInternal"
| "operationClass DeleteSessions = opInternal"
| "operationClass ListTenants = opInternal"

text \<open>
  The security of the API description: a tenant by default, nothing where the list is empty, the service key for the
  internal operations. A requirement with several schemes would need each of them.
\<close>

definition spec_security :: "operation \<Rightarrow> scheme list" where
  "spec_security op =
     (if op \<in> {GetHealthz, GetReadyz} then []
      else if op \<in> {PutSession, GetSession, DeleteSession, DeleteSessions, ListTenants} then [serviceKey]
      else [bearerAuth])"

text \<open>
  The routes: the router finds the operation (or answers itself), the validator asks \<open>Required\<close> for each scheme the
  operation lists and then checks the request against the description.
\<close>

definition Mount :: "(Request \<Rightarrow> 'b Response + operation) \<Rightarrow> (operation \<Rightarrow> Request \<Rightarrow> unit result) \<Rightarrow>
    (operation \<Rightarrow> ('s, 'b) handler) \<Rightarrow> ('s, 'b) handler" where
  "Mount route contract handle ctx rq s =
     (case route rq of
        Inl resp \<Rightarrow> (resp, s)
      | Inr op \<Rightarrow>
          if \<not> list_all (\<lambda>sch. isOk (Required ctx sch)) (spec_security op) then
            (fail ctx rq (Classified ErrUnauthenticated), s)
          else (case contract op rq of
              Inl err \<Rightarrow> (fail ctx rq err, s)
            | Inr _ \<Rightarrow> handle op ctx rq s))"

record Config =
  cf_PeerAllowed :: "string \<Rightarrow> bool"
  cf_CORSOrigins :: "string list"
  cf_AuthFailuresPerMinute :: int
  cf_ServiceKey :: string
  cf_RatePerMinute :: int
  cf_HashKey :: "string \<Rightarrow> string"
  cf_Tokens :: TokenLib

definition server :: "Config \<Rightarrow> time \<Rightarrow> string \<Rightarrow> ('m Gate_scheme, 'b) handler \<Rightarrow> ('m Gate_scheme, 'b) handler" where
  "server cfg now newRequestID mux = Chain mux
     [RequestID newRequestID,
      InternalOnly ''/internal/'' (cf_PeerAllowed cfg),
      CORS (cf_CORSOrigins cfg),
      Bearer (cf_HashKey cfg) (KeyForHash now) (Some (Verify (cf_Tokens cfg))),
      FailureLimiter (cf_AuthFailuresPerMinute cfg) now,
      ServiceKey (cf_ServiceKey cfg),
      RateLimit BumpTenantRateWindow (cf_RatePerMinute cfg) now]"

section \<open>What a middleware may do\<close>

text \<open>
  A middleware answers on its own, whatever comes next, or hands the request on: with a context and a state of which
  \<open>P\<close> holds, and some headers set. Either way it leaves the application's state alone.
\<close>

definition mw_outcome :: "(('m Gate_scheme, 'b) handler \<Rightarrow> ('m Gate_scheme, 'b) handler) \<Rightarrow> ReqCtx \<Rightarrow> Request \<Rightarrow> 'm Gate_scheme \<Rightarrow>
    (ReqCtx \<Rightarrow> 'm Gate_scheme \<Rightarrow> bool) \<Rightarrow> bool" where
  "mw_outcome m ctx rq s P \<longleftrightarrow>
     (\<exists>r s'. (\<forall>next. m next ctx rq s = (r, s')) \<and> Gate.more s' = Gate.more s) \<or>
     (\<exists>hs ctx' s'. (\<forall>next. m next ctx rq s = with_headers hs (next ctx' rq s')) \<and> Gate.more s' = Gate.more s \<and> P ctx' s')"

lemma with_headers_empty [simp]: "with_headers Map.empty r = r"
  by (cases r) (simp add: with_headers_def)

lemma with_headers_twice [simp]: "with_headers a (with_headers b r) = with_headers (a ++ b) r"
  by (simp add: with_headers_def)

lemma with_headers_sel [simp]:
  "snd (with_headers hs r) = snd r" "rs_Body (fst (with_headers hs r)) = rs_Body (fst r)"
  "rs_Status (fst (with_headers hs r)) = rs_Status (fst r)"
  by (simp_all add: with_headers_def)

lemma mw_outcome_answers: "(\<And>next. m next ctx rq s = (r, s')) \<Longrightarrow> Gate.more s' = Gate.more s \<Longrightarrow> mw_outcome m ctx rq s P"
  by (auto simp: mw_outcome_def)

lemma mw_outcome_passes:
  "(\<And>next. m next ctx rq s = with_headers hs (next ctx' rq s')) \<Longrightarrow> Gate.more s' = Gate.more s \<Longrightarrow> P ctx' s' \<Longrightarrow> mw_outcome m ctx rq s P"
  unfolding mw_outcome_def by blast

lemma mw_outcome_hands_on:
  "(\<And>next. m next ctx rq s = next ctx' rq s') \<Longrightarrow> Gate.more s' = Gate.more s \<Longrightarrow> P ctx' s' \<Longrightarrow> mw_outcome m ctx rq s P"
  by (rule mw_outcome_passes [of _ _ _ _ Map.empty]) simp_all

lemma mw_outcome_mono: "mw_outcome m ctx rq s P \<Longrightarrow> (\<And>ctx' s'. P ctx' s' \<Longrightarrow> Q ctx' s') \<Longrightarrow> mw_outcome m ctx rq s Q"
  unfolding mw_outcome_def by blast

lemma outcomeE:
  assumes "mw_outcome m ctx rq s P"
  obtains r s' where "\<And>next. m next ctx rq s = (r, s')" "Gate.more s' = Gate.more s"
  | hs ctx' s' where "\<And>next. m next ctx rq s = with_headers hs (next ctx' rq s')" "Gate.more s' = Gate.more s" "P ctx' s'"
  using assms unfolding mw_outcome_def by blast

lemma mw_outcome_then:
  assumes "mw_outcome m ctx rq s P" and "\<And>ctx' s'. P ctx' s' \<Longrightarrow> mw_outcome m' ctx' rq s' Q"
  shows "mw_outcome (\<lambda>h. m (m' h)) ctx rq s Q"
  using assms(1)
proof (rule outcomeE)
  fix r s'
  assume "\<And>next. m next ctx rq s = (r, s')" "Gate.more s' = Gate.more s"
  then show ?thesis by (rule mw_outcome_answers)
next
  fix hs ctx' s'
  assume first: "\<And>next. m next ctx rq s = with_headers hs (next ctx' rq s')" "Gate.more s' = Gate.more s" "P ctx' s'"
  from assms(2) [OF first(3)] show ?thesis
  proof (rule outcomeE)
    fix r s''
    assume "\<And>next. m' next ctx' rq s' = (r, s'')" "Gate.more s'' = Gate.more s'"
    then show ?thesis using first by (intro mw_outcome_answers [of _ _ _ _ "fst (with_headers hs (r, s''))" s'']) (simp_all add: with_headers_def)
  next
    fix hs' ctx'' s''
    assume "\<And>next. m' next ctx' rq s' = with_headers hs' (next ctx'' rq s'')" "Gate.more s'' = Gate.more s'" "Q ctx'' s''"
    then show ?thesis using first by (intro mw_outcome_passes [of _ _ _ _ "hs ++ hs'" ctx'' s'']) simp_all
  qed
qed

text \<open>What each middleware leaves of the context for the ones after it.\<close>

lemma RequestID_outcome: "mw_outcome (RequestID rid) ctx rq s (\<lambda>ctx' s'. s' = s \<and> (\<exists>i. ctx' = ctx\<lparr>hx_RequestID := i\<rparr>))"
  by (rule mw_outcome_passes, unfold RequestID_def Let_def, rule refl) auto

lemma InternalOnly_outcome:
  "mw_outcome (InternalOnly prefix allowed) ctx rq s
     (\<lambda>ctx' s'. s' = s \<and> ctx' = ctx \<and> (starts_with prefix (rq_Path rq) \<longrightarrow> allowed (rq_RemoteAddr rq)))"
proof (cases "starts_with prefix (rq_Path rq) \<and> \<not> allowed (rq_RemoteAddr rq)")
  case True
  then show ?thesis by (intro mw_outcome_answers [where r = http_NotFound and s' = s]) (simp_all add: InternalOnly_def)
next
  case False
  then show ?thesis by (intro mw_outcome_hands_on [where ctx' = ctx and s' = s]) (auto simp: InternalOnly_def)
qed

lemma CORS_outcome: "mw_outcome (CORS origins) ctx rq s (\<lambda>ctx' s'. s' = s \<and> ctx' = ctx)"
proof (cases "rq_Header rq ''Origin'' \<noteq> [] \<and> rq_Header rq ''Origin'' \<in> set origins")
  case True
  show ?thesis
  proof (cases "rq_Method rq = ''OPTIONS''")
    case preflight: True
    show ?thesis by (rule mw_outcome_answers, unfold CORS_def Let_def if_P [OF True] if_P [OF preflight], rule refl) (rule refl)
  next
    case False
    show ?thesis by (rule mw_outcome_passes, unfold CORS_def Let_def if_P [OF True] if_not_P [OF False], rule refl) auto
  qed
next
  case False
  show ?thesis by (rule mw_outcome_hands_on, unfold CORS_def Let_def if_not_P [OF False], rule refl) auto
qed

text \<open>Who a credential stands for: a live key of an enabled tenant, or a verified token of an enabled tenant's issuer.\<close>

definition key_admits :: "Config \<Rightarrow> time \<Rightarrow> 'm Gate_scheme \<Rightarrow> string \<Rightarrow> ReqCtx \<Rightarrow> bool" where
  "key_admits cfg now s cred ctx \<longleftrightarrow> \<not> LooksLikeJWT cred \<and>
     (\<exists>k \<in> set (db_keys s). kr_Hash k = cf_HashKey cfg cred \<and> key_live now k \<and> tenant_enabled s (kr_TenantID k) \<and>
        cx_Tenant ctx = Some (kr_TenantID k) \<and> hx_Analyst ctx = None \<and>
        cx_Principal ctx = Some \<lparr>pr_Kind = Key, pr_ID = kr_ID k, pr_Display = ''key:'' @ kr_Prefix k, pr_TenantAdmin = False\<rparr>)"

definition token_admits :: "Config \<Rightarrow> 'm Gate_scheme \<Rightarrow> string \<Rightarrow> ReqCtx \<Rightarrow> bool" where
  "token_admits cfg s cred ctx \<longleftrightarrow> LooksLikeJWT cred \<and>
     (\<exists>issuer t tok c. unverifiedIssuer (cf_Tokens cfg) cred = Some issuer \<and> t \<in> set (db_tenants s) \<and> te_OidcIssuer t = Some issuer \<and>
        te_DisabledAt t = None \<and> tl_Verify (cf_Tokens cfg) issuer cred = Some tok \<and> tk_Claims tok = Some c \<and>
        (cl_TenantID c = [] \<or> cl_TenantID c = te_ID t) \<and> tk_Subject tok \<noteq> [] \<and>
        cx_Tenant ctx = Some (te_ID t) \<and> map_option ap_Subject (hx_Analyst ctx) = Some (tk_Subject tok) \<and>
        (\<exists>p. cx_Principal ctx = Some p \<and> pr_Kind p = Analyst \<and> pr_ID p = tk_Subject tok \<and>
           pr_TenantAdmin p = (RoleTenantAdmin \<in> set (cl_Roles c))))"

definition authentic :: "Config \<Rightarrow> time \<Rightarrow> 'm Gate_scheme \<Rightarrow> Request \<Rightarrow> ReqCtx \<Rightarrow> bool" where
  "authentic cfg now s rq ctx \<longleftrightarrow>
     (\<exists>cred. credential rq = Some cred \<and> (key_admits cfg now s cred ctx \<or> token_admits cfg s cred ctx))"

definition anonymous :: "ReqCtx \<Rightarrow> bool" where
  "anonymous ctx \<longleftrightarrow> cx_Tenant ctx = None \<and> cx_Principal ctx = None \<and> hx_Analyst ctx = None \<and> hx_AuthErr ctx = None \<and> \<not> hx_Service ctx"

lemma touch_more [simp]: "Gate.more (touch now i s) = Gate.more s"
  by (simp add: touch_def TouchTenantKey_def)

lemma KeyForHash_cases:
  obtains "KeyForHash now hash s = (Inl (Classified ErrNotFound), s)"
  | k where "k \<in> set (db_keys s)" "kr_Hash k = hash" "key_live now k" "tenant_enabled s (kr_TenantID k)"
      "KeyForHash now hash s = (Inr \<lparr>ki_Tenant = kr_TenantID k, ki_ID = kr_ID k, ki_Prefix = kr_Prefix k\<rparr>, touch now (kr_ID k) s)"
proof (cases "GetTenantByTenantKeyHash now hash s")
  case None
  then show thesis using that(1) by (simp add: KeyForHash_def)
next
  case (Some k)
  then have "k \<in> set (db_keys s)" "kr_Hash k = hash" "key_live now k" "tenant_enabled s (kr_TenantID k)"
    by (auto simp: GetTenantByTenantKeyHash_def find_Some_iff)
  then show thesis using that(2) [of k] Some by (simp add: KeyForHash_def)
qed

lemma verifier_more [simp]: "Gate.more (snd (verifier lib issuer s)) = Gate.more s"
  by (simp add: verifier_def)

lemma TenantForIssuer_Inr: "TenantForIssuer issuer s = Inr i \<Longrightarrow>
    \<exists>t \<in> set (db_tenants s). te_ID t = i \<and> te_OidcIssuer t = Some issuer \<and> te_DisabledAt t = None"
  by (auto simp: TenantForIssuer_def find_Some_iff split: option.splits)

lemma Verify_more [simp]: "Gate.more (snd (Verify lib raw s)) = Gate.more s"
proof (cases "unverifiedIssuer lib raw")
  case (Some issuer)
  show ?thesis
  proof (cases "verifier lib issuer s")
    case (Pair b s1)
    then have "Gate.more s1 = Gate.more s" using verifier_more [of lib issuer s] by simp
    then show ?thesis using Some Pair by (simp add: Verify_def split: sum.split option.split bool.split)
  qed
qed (simp add: Verify_def)

lemma Verify_cases:
  obtains err s1 where "Verify lib raw s = (Inl err, s1)" "Gate.more s1 = Gate.more s"
  | issuer t tok c s1 p where "unverifiedIssuer lib raw = Some issuer" "t \<in> set (db_tenants s)" "te_OidcIssuer t = Some issuer"
      "te_DisabledAt t = None" "tl_Verify lib issuer raw = Some tok" "tk_Claims tok = Some c"
      "cl_TenantID c = [] \<or> cl_TenantID c = te_ID t" "tk_Subject tok \<noteq> []" "Verify lib raw s = (Inr p, s1)"
      "p = \<lparr>ap_Tenant = te_ID t, ap_Subject = tk_Subject tok, ap_Sid = cl_Sid c, ap_Email = cl_Email c,
         ap_Name = cl_Name c, ap_FirstName = cl_FirstName c, ap_LastName = cl_LastName c, ap_Roles = cl_Roles c\<rparr>"
      "Gate.more s1 = Gate.more s"
proof (cases "Verify lib raw s")
  case (Pair r s1)
  have more: "Gate.more s1 = Gate.more s" using Verify_more [of lib raw s] by (simp add: Pair)
  show thesis
  proof (cases r)
    case (Inl err)
    then show thesis using that(1) Pair more by simp
  next
    case (Inr p)
    then obtain issuer tid tok where at: "unverifiedIssuer lib raw = Some issuer" "TenantForIssuer issuer s = Inr tid"
        "tl_Verify lib issuer raw = Some tok" "principal_of tid tok = Inr p"
      using Pair by (auto simp: Verify_def split: option.splits sum.splits prod.splits bool.splits)
    from TenantForIssuer_Inr [OF at(2)] obtain t where t: "t \<in> set (db_tenants s)" "te_ID t = tid"
        "te_OidcIssuer t = Some issuer" "te_DisabledAt t = None" by blast
    from at(4) obtain c where "tk_Claims tok = Some c" "cl_TenantID c = [] \<or> cl_TenantID c = te_ID t" "tk_Subject tok \<noteq> []"
        "p = \<lparr>ap_Tenant = te_ID t, ap_Subject = tk_Subject tok, ap_Sid = cl_Sid c, ap_Email = cl_Email c,
         ap_Name = cl_Name c, ap_FirstName = cl_FirstName c, ap_LastName = cl_LastName c, ap_Roles = cl_Roles c\<rparr>"
      using t(2) by (auto simp: principal_of_def split: option.splits if_splits)
    then show thesis using that(2) [OF at(1) t(1,3,4) at(3)] Pair Inr more by simp
  qed
qed

lemma Bearer_outcome:
  assumes "anonymous ctx"
  shows "mw_outcome (Bearer (cf_HashKey cfg) (KeyForHash now) (Some (Verify (cf_Tokens cfg)))) ctx rq s
     (\<lambda>ctx' s'. \<not> hx_Service ctx' \<and>
        (cx_Tenant ctx' = None \<and> hx_AuthErr ctx' \<noteq> None \<or> authentic cfg now s rq ctx' \<and> hx_AuthErr ctx' = None))"
proof (cases "credential rq")
  case None
  show ?thesis
    by (rule mw_outcome_hands_on, unfold Bearer_def Let_def None option.case, rule refl) (use assms in \<open>simp_all add: anonymous_def\<close>)
next
  case (Some cred)
  show ?thesis
  proof (cases "LooksLikeJWT cred")
    case True
    show ?thesis
    proof (rule Verify_cases [of "cf_Tokens cfg" cred s])
      fix err s1
      assume run: "Verify (cf_Tokens cfg) cred s = (Inl err, s1)" and more: "Gate.more s1 = Gate.more s"
      show ?thesis
        by (rule mw_outcome_hands_on, unfold Bearer_def Let_def Some option.case if_P [OF True] run prod.case sum.case, rule refl)
          (use assms more in \<open>simp_all add: anonymous_def\<close>)
    next
      fix issuer t tok c s1 p
      assume token: "unverifiedIssuer (cf_Tokens cfg) cred = Some issuer" "t \<in> set (db_tenants s)" "te_OidcIssuer t = Some issuer"
        "te_DisabledAt t = None" "tl_Verify (cf_Tokens cfg) issuer cred = Some tok" "tk_Claims tok = Some c"
        "cl_TenantID c = [] \<or> cl_TenantID c = te_ID t" "tk_Subject tok \<noteq> []" and run: "Verify (cf_Tokens cfg) cred s = (Inr p, s1)"
        and p: "p = \<lparr>ap_Tenant = te_ID t, ap_Subject = tk_Subject tok, ap_Sid = cl_Sid c, ap_Email = cl_Email c,
           ap_Name = cl_Name c, ap_FirstName = cl_FirstName c, ap_LastName = cl_LastName c, ap_Roles = cl_Roles c\<rparr>"
        "Gate.more s1 = Gate.more s"
      show ?thesis
        by (rule mw_outcome_hands_on, unfold Bearer_def Let_def Some option.case if_P [OF True] run prod.case sum.case, rule refl)
          (use assms Some True token p in \<open>auto simp: anonymous_def authentic_def token_admits_def WithPrincipal_def Let_def\<close>)
    qed
  next
    case False
    show ?thesis
    proof (rule KeyForHash_cases [of now "cf_HashKey cfg cred" s])
      assume run: "KeyForHash now (cf_HashKey cfg cred) s = (Inl (Classified ErrNotFound), s)"
      show ?thesis
        by (rule mw_outcome_hands_on, unfold Bearer_def Let_def Some option.case if_not_P [OF False] run prod.case sum.case, rule refl)
          (use assms in \<open>simp_all add: anonymous_def\<close>)
    next
      fix k
      assume key: "k \<in> set (db_keys s)" "kr_Hash k = cf_HashKey cfg cred" "key_live now k" "tenant_enabled s (kr_TenantID k)"
        and run: "KeyForHash now (cf_HashKey cfg cred) s =
           (Inr \<lparr>ki_Tenant = kr_TenantID k, ki_ID = kr_ID k, ki_Prefix = kr_Prefix k\<rparr>, touch now (kr_ID k) s)"
      show ?thesis
        by (rule mw_outcome_hands_on, unfold Bearer_def Let_def Some option.case if_not_P [OF False] run prod.case sum.case, rule refl)
          (use assms Some False key in \<open>auto simp: anonymous_def authentic_def key_admits_def\<close>)
    qed
  qed
qed

lemma blocked_more: "blocked n now peer s = (b, s1) \<Longrightarrow> Gate.more s1 = Gate.more s"
  by (auto simp: blocked_def sweepLocked_def Let_def)

lemma FailureLimiter_outcome: "mw_outcome (FailureLimiter n now) ctx rq s (\<lambda>ctx' s'. ctx' = ctx)"
proof (cases "n \<le> 0 \<or> rq_Header rq ''Authorization'' = []")
  case True
  show ?thesis by (rule mw_outcome_hands_on, unfold FailureLimiter_def Let_def if_P [OF True], rule refl) simp_all
next
  case limited: False
  show ?thesis
  proof (cases "blocked n now (peerOf (rq_RemoteAddr rq)) s")
    case (Pair b s1)
    show ?thesis
    proof (cases b)
      case True
      show ?thesis
        by (rule mw_outcome_answers [where s' = s1 and r = "WriteProblem (WithRetryAfter
              (ProblemFrom (hx_RequestID ctx) (rq_Path rq) (Classified ErrTooManyFailures)) 60)"])
          (use limited Pair True blocked_more [OF Pair] in \<open>simp_all add: FailureLimiter_def\<close>)
    next
      case False
      show ?thesis
        by (rule mw_outcome_hands_on [where ctx' = ctx and s' = "if hx_AuthErr ctx \<noteq> None then record_hit now (peerOf (rq_RemoteAddr rq)) s1 else s1"],
            unfold FailureLimiter_def Let_def if_not_P [OF limited] Pair prod.case)
          (use False blocked_more [OF Pair] in \<open>simp_all add: record_hit_def\<close>)
    qed
  qed
qed

lemma ServiceKey_outcome:
  "mw_outcome (ServiceKey key) ctx rq s (\<lambda>ctx' s'. s' = s \<and>
     (ctx' = ctx \<or> ctx' = ctx\<lparr>hx_Service := True\<rparr> \<and> key \<noteq> [] \<and> rq_Header rq ''X-Service-Key'' = key))"
  by (rule mw_outcome_hands_on, unfold ServiceKey_def Let_def, rule refl) auto

lemma BumpTenantRateWindow_more: "BumpTenantRateWindow tid wnd s = (r, s1) \<Longrightarrow> Gate.more s1 = Gate.more s"
  by (auto simp: BumpTenantRateWindow_def Let_def split: if_splits)

lemma RateLimit_outcome:
  "mw_outcome (RateLimit BumpTenantRateWindow n now) ctx rq s (\<lambda>ctx' s'. ctx' = ctx)"
proof (cases "n \<le> 0")
  case True
  show ?thesis by (rule mw_outcome_hands_on, unfold RateLimit_def Let_def if_P [OF True], rule refl) simp_all
next
  case limited: False
  show ?thesis
  proof (cases "tenant_IDFrom (Ctx.truncate ctx)")
    case None
    show ?thesis by (rule mw_outcome_hands_on, unfold RateLimit_def Let_def if_not_P [OF limited] None option.case, rule refl) simp_all
  next
    case (Some tid)
    show ?thesis
    proof (cases "BumpTenantRateWindow tid (window_of now) s")
      case (Pair r s1)
      note more = BumpTenantRateWindow_more [OF Pair]
      show ?thesis
      proof (cases r)
        case (Inl err)
        show ?thesis
          by (rule mw_outcome_hands_on, unfold RateLimit_def Let_def if_not_P [OF limited] Some option.case Pair Inl prod.case sum.case, rule refl)
            (simp_all add: more)
      next
        case (Inr k)
        show ?thesis
        proof (cases "n < k")
          case True
          show ?thesis
            by (rule mw_outcome_answers, unfold RateLimit_def Let_def if_not_P [OF limited] Some option.case Pair Inr prod.case sum.case
                if_P [OF True] with_headers_def, rule refl) (simp add: more)
        next
          case False
          show ?thesis
            by (rule mw_outcome_passes, unfold RateLimit_def Let_def if_not_P [OF limited] Some option.case Pair Inr prod.case sum.case
                if_not_P [OF False], rule refl) (simp_all add: more)
        qed
      qed
    qed
  qed
qed

lemma server_chain:
  "server cfg now rid = (\<lambda>h. RequestID rid (InternalOnly ''/internal/'' (cf_PeerAllowed cfg) (CORS (cf_CORSOrigins cfg)
     (Bearer (cf_HashKey cfg) (KeyForHash now) (Some (Verify (cf_Tokens cfg)))
       (FailureLimiter (cf_AuthFailuresPerMinute cfg) now (ServiceKey (cf_ServiceKey cfg)
         (RateLimit BumpTenantRateWindow (cf_RatePerMinute cfg) now h)))))))"
  by (simp add: fun_eq_iff server_def Chain_def)

text \<open>What the request may have done on its way to the routes.\<close>

definition cleared :: "Config \<Rightarrow> time \<Rightarrow> 'm Gate_scheme \<Rightarrow> Request \<Rightarrow> ReqCtx \<Rightarrow> bool" where
  "cleared cfg now s rq ctx \<longleftrightarrow>
     (starts_with ''/internal/'' (rq_Path rq) \<longrightarrow> cf_PeerAllowed cfg (rq_RemoteAddr rq)) \<and>
     (cx_Tenant ctx \<noteq> None \<longrightarrow> authentic cfg now s rq ctx) \<and>
     (hx_Service ctx \<longrightarrow> cf_ServiceKey cfg \<noteq> [] \<and> rq_Header rq ''X-Service-Key'' = cf_ServiceKey cfg)"

lemma authentic_service [simp]: "authentic cfg now s rq (ctx\<lparr>hx_Service := b\<rparr>) = authentic cfg now s rq ctx"
  by (simp add: authentic_def key_admits_def token_admits_def)

lemma server_outcome:
  assumes "anonymous ctx"
  shows "mw_outcome (server cfg now rid) ctx rq s (\<lambda>ctx' s'. cleared cfg now s rq ctx')"
  unfolding server_chain
proof (rule mw_outcome_then [OF RequestID_outcome], elim conjE exE)
  fix ctx1 s1 i
  assume 1: "s1 = s" "ctx1 = ctx\<lparr>hx_RequestID := i\<rparr>"
  then have anon: "anonymous ctx1" using assms by (simp add: anonymous_def)
  show "mw_outcome (\<lambda>h. InternalOnly ''/internal/'' (cf_PeerAllowed cfg) (CORS (cf_CORSOrigins cfg)
     (Bearer (cf_HashKey cfg) (KeyForHash now) (Some (Verify (cf_Tokens cfg)))
       (FailureLimiter (cf_AuthFailuresPerMinute cfg) now (ServiceKey (cf_ServiceKey cfg)
         (RateLimit BumpTenantRateWindow (cf_RatePerMinute cfg) now h))))))
     ctx1 rq s1 (\<lambda>ctx' s'. cleared cfg now s rq ctx')"
    unfolding 1(1)
  proof (rule mw_outcome_then [OF InternalOnly_outcome], elim conjE, hypsubst, rule mw_outcome_then [OF CORS_outcome], elim conjE, hypsubst,
      rule mw_outcome_then [OF Bearer_outcome [OF anon]], elim conjE)
    fix ctx2 s2
    assume 2: "starts_with ''/internal/'' (rq_Path rq) \<longrightarrow> cf_PeerAllowed cfg (rq_RemoteAddr rq)"
      "\<not> hx_Service ctx2" "cx_Tenant ctx2 = None \<and> hx_AuthErr ctx2 \<noteq> None \<or> authentic cfg now s rq ctx2 \<and> hx_AuthErr ctx2 = None"
    show "mw_outcome (\<lambda>h. FailureLimiter (cf_AuthFailuresPerMinute cfg) now (ServiceKey (cf_ServiceKey cfg)
         (RateLimit BumpTenantRateWindow (cf_RatePerMinute cfg) now h))) ctx2 rq s2
       (\<lambda>ctx' s'. cleared cfg now s rq ctx')"
    proof (rule mw_outcome_then [OF FailureLimiter_outcome], hypsubst, rule mw_outcome_then [OF ServiceKey_outcome], elim conjE)
      fix s3 ctx4 s4
      assume 3: "ctx4 = ctx2 \<or> ctx4 = ctx2\<lparr>hx_Service := True\<rparr> \<and> cf_ServiceKey cfg \<noteq> [] \<and> rq_Header rq ''X-Service-Key'' = cf_ServiceKey cfg"
      have "cleared cfg now s rq ctx4" using 2 3 by (auto simp: cleared_def)
      then show "mw_outcome (RateLimit BumpTenantRateWindow (cf_RatePerMinute cfg) now) ctx4 rq s4
         (\<lambda>ctx' s'. cleared cfg now s rq ctx')"
        by (intro mw_outcome_mono [OF RateLimit_outcome]) simp
    qed
  qed
qed

lemma Required_bearer: "isOk (Required ctx bearerAuth) \<Longrightarrow> cx_Tenant ctx \<noteq> None"
  by (auto simp: Required_def tenant_IDFrom_def Ctx.truncate_def split: option.splits)

lemma Required_service: "isOk (Required ctx serviceKey) \<longleftrightarrow> hx_Service ctx"
  by (simp add: Required_def)

lemma spec_security_class:
  "operationClass op = opInternal \<Longrightarrow> spec_security op = [serviceKey]"
  "operationClass op \<in> {opTenantWide, opDecided} \<Longrightarrow> spec_security op = [bearerAuth]"
  by (cases op; simp add: spec_security_def)+

lemma Mount_cases:
  obtains r where "\<forall>handle'. Mount route contract handle' ctx rq s = (r, s)"
  | op where "route rq = Inr op" "list_all (\<lambda>sch. isOk (Required ctx sch)) (spec_security op)"
      "Mount route contract handle ctx rq s = handle op ctx rq s"
proof (cases "route rq")
  case (Inl r)
  then show thesis using that(1) by (simp add: Mount_def)
next
  case (Inr op)
  note routed = this
  show thesis
  proof (cases "list_all (\<lambda>sch. isOk (Required ctx sch)) (spec_security op)")
    case True
    show thesis
    proof (cases "contract op rq")
      case (Inl err)
      then show thesis using that(1) [of "fail ctx rq err"] routed True by (simp add: Mount_def)
    next
      case (Inr u)
      then show thesis using that(2) [OF routed True] routed True by (simp add: Mount_def)
    qed
  next
    case False
    then show thesis using that(1) [of "fail ctx rq (Classified ErrUnauthenticated)"] routed by (simp add: Mount_def)
  qed
qed

text \<open>A request to the whole server is answered before any operation, or by one it was entitled to.\<close>

lemma operation_entitled:
  fixes handle :: "operation \<Rightarrow> ('m Gate_scheme, 'b) handler"
  assumes "anonymous ctx"
    and "server cfg now rid (Mount route contract handle) ctx rq s = (resp, s')"
    and routes: "\<And>op. route rq = Inr op \<Longrightarrow> operationClass op = opInternal \<Longrightarrow> starts_with ''/internal/'' (rq_Path rq)"
  shows "((\<forall>handle'. server cfg now rid (Mount route contract handle') ctx rq s = (resp, s')) \<and> Gate.more s' = Gate.more s) \<or>
    (\<exists>op ctx' s1 r. route rq = Inr op \<and> handle op ctx' rq s1 = (r, s') \<and> rs_Status resp = rs_Status r \<and> rs_Body resp = rs_Body r \<and>
       Gate.more s1 = Gate.more s \<and>
       (operationClass op \<in> {opTenantWide, opDecided} \<longrightarrow> authentic cfg now s rq ctx') \<and>
       (operationClass op = opInternal \<longrightarrow> cf_PeerAllowed cfg (rq_RemoteAddr rq) \<and> cf_ServiceKey cfg \<noteq> [] \<and>
          rq_Header rq ''X-Service-Key'' = cf_ServiceKey cfg))"
  using server_outcome [OF assms(1), of cfg now rid rq s]
proof (rule outcomeE)
  fix r s1
  assume "\<And>next :: ('m Gate_scheme, 'b) handler. server cfg now rid next ctx rq s = (r, s1)" "Gate.more s1 = Gate.more s"
  then show ?thesis using assms(2) by simp
next
  fix hs ctx1 s1
  assume passed: "\<And>next :: ('m Gate_scheme, 'b) handler. server cfg now rid next ctx rq s = with_headers hs (next ctx1 rq s1)"
    and more: "Gate.more s1 = Gate.more s" and clear: "cleared cfg now s rq ctx1"
  then have resp: "(resp, s') = with_headers hs (Mount route contract handle ctx1 rq s1)" using assms(2) by simp
  consider r where "\<forall>handle'. Mount route contract handle' ctx1 rq s1 = (r, s1)"
    | op where "route rq = Inr op" "list_all (\<lambda>sch. isOk (Required ctx1 sch)) (spec_security op)"
        "Mount route contract handle ctx1 rq s1 = handle op ctx1 rq s1"
    by (rule Mount_cases)
  then show ?thesis
  proof cases
    case (1 r)
    then show ?thesis using resp more by (simp add: passed with_headers_def)
  next
    case (2 op)
    obtain r s2 where run: "handle op ctx1 rq s1 = (r, s2)" by fastforce
    then have "s2 = s'" "rs_Status resp = rs_Status r" "rs_Body resp = rs_Body r" using resp 2(3) by (simp_all add: with_headers_def)
    moreover have "operationClass op \<in> {opTenantWide, opDecided} \<Longrightarrow> authentic cfg now s rq ctx1"
      using 2(2) clear spec_security_class(2) [of op] Required_bearer [of ctx1] by (simp add: cleared_def)
    moreover have "operationClass op = opInternal \<Longrightarrow> cf_PeerAllowed cfg (rq_RemoteAddr rq) \<and> cf_ServiceKey cfg \<noteq> [] \<and>
        rq_Header rq ''X-Service-Key'' = cf_ServiceKey cfg"
      using 2(1,2) clear spec_security_class(1) [of op] routes [of op] by (simp add: cleared_def Required_service)
    ultimately show ?thesis using 2(1) run more by (intro disjI2 exI [of _ op] exI [of _ ctx1] exI [of _ s1] exI [of _ r]) blast
  qed
qed

section \<open>Properties\<close>

text \<open>
  C6: no operation runs without its credential. Whatever a request is, either the server answers it on its own, the same
  whatever the operations do and without touching the application's state, or one operation runs, whose answer is the
  server's, and the request was entitled to it: for an operation of a tenant, the header carried a live key of an enabled
  tenant, or a token verified under the issuer of an enabled tenant that names its subject, and the operation sees that
  tenant and that caller and no other; for an internal one, the peer is in the internal networks and sent the service key.
\<close>

theorem operations_guarded:
  fixes handle :: "operation \<Rightarrow> ('m Gate_scheme, 'b) handler"
  assumes "anonymous ctx"
    and "server cfg now rid (Mount route contract handle) ctx rq s = (resp, s')"
    and routes: "\<And>op. route rq = Inr op \<Longrightarrow> operationClass op = opInternal \<Longrightarrow> starts_with ''/internal/'' (rq_Path rq)"
  shows "((\<forall>handle'. server cfg now rid (Mount route contract handle') ctx rq s = (resp, s')) \<and> Gate.more s' = Gate.more s) \<or>
    (\<exists>op ctx' s1 r. route rq = Inr op \<and> handle op ctx' rq s1 = (r, s') \<and> rs_Status resp = rs_Status r \<and> rs_Body resp = rs_Body r \<and>
       Gate.more s1 = Gate.more s \<and>
       (operationClass op \<in> {opTenantWide, opDecided} \<longrightarrow> authentic cfg now s rq ctx') \<and>
       (operationClass op = opInternal \<longrightarrow> cf_PeerAllowed cfg (rq_RemoteAddr rq) \<and> cf_ServiceKey cfg \<noteq> [] \<and>
          rq_Header rq ''X-Service-Key'' = cf_ServiceKey cfg))"
  using assms by (rule operation_entitled)

text \<open>A small deployment: one tenant with one key, whose digest is the key itself.\<close>

definition sample_tokens :: TokenLib where
  "sample_tokens = \<lparr>tl_Issuer = (\<lambda>_. None), tl_Discovers = (\<lambda>_. False), tl_Verify = (\<lambda>_ _. None)\<rparr>"

definition sample_config :: Config where
  "sample_config = \<lparr>cf_PeerAllowed = (\<lambda>_. False), cf_CORSOrigins = [], cf_AuthFailuresPerMinute = 3, cf_ServiceKey = [],
     cf_RatePerMinute = 2, cf_HashKey = (\<lambda>k. k), cf_Tokens = sample_tokens\<rparr>"

definition sample_key :: KeyRow where
  "sample_key = \<lparr>kr_ID = ''k1'', kr_TenantID = ''t1'', kr_Hash = ''tk_abc'', kr_Prefix = ''tk_abc'', kr_Label = ''ci'', kr_CreatedAt = 0,
     kr_LastUsedAt = None, kr_ExpiresAt = Some 100, kr_RevokedAt = None\<rparr>"

definition sample_gate :: Gate where
  "sample_gate = \<lparr>db_tenants = [\<lparr>te_ID = ''t1'', te_Slug = ''one'', te_Name = ''One'', te_OidcIssuer = None, te_EmailDomains = [],
       te_DisabledAt = None\<rparr>],
     db_keys = [sample_key], db_windows = Map.empty, ks_touched = Map.empty, oi_verifiers = [], fl_hits = Map.empty, fl_lastSweep = 0\<rparr>"

definition fresh_ctx :: ReqCtx where
  "fresh_ctx = \<lparr>cx_Tenant = None, cx_Principal = None, cx_TraceID = None, cx_TraceContext = [], hx_RequestID = [], hx_AuthErr = None,
     hx_Analyst = None, hx_Service = False\<rparr>"

definition key_request :: "string \<Rightarrow> Request" where
  "key_request key = \<lparr>rq_Method = ''GET'', rq_Path = ''/disputes'', rq_RemoteAddr = ''198.51.100.7:4000'',
     rq_Header = (\<lambda>h. if h = ''Authorization'' then ''Bearer '' @ key else [])\<rparr>"

definition answer_with :: "nat \<Rightarrow> (Gate, unit) handler" where
  "answer_with n ctx rq s = (\<lparr>rs_Status = n, rs_Header = Map.empty, rs_Body = Content ()\<rparr>, s)"

definition sample_server :: "nat \<Rightarrow> Request \<Rightarrow> unit Response \<times> Gate" where
  "sample_server n rq = server sample_config 5 ''r1'' (Mount (\<lambda>_. Inr ListDisputes_op) (\<lambda>_ _. Inr ()) (\<lambda>_. answer_with n)) fresh_ctx rq sample_gate"

lemma sample_credential: "credential (key_request ''tk_abc'') = Some ''tk_abc''"
  by (simp add: credential_def key_request_def starts_with_def Let_def trim_space_visible visible_def)

lemma sample_served: "rs_Status (fst (sample_server n (key_request ''tk_abc''))) = n"
proof -
  have "rq_Header (key_request ''tk_abc'') h = (if h = ''Authorization'' then ''Bearer tk_abc'' else [])" for h
    by (simp add: key_request_def)
  moreover have "KeyForHash 5 ''tk_abc'' sample_gate =
      (Inr \<lparr>ki_Tenant = ''t1'', ki_ID = ''k1'', ki_Prefix = ''tk_abc''\<rparr>, touch 5 ''k1'' sample_gate)"
    by (simp add: KeyForHash_def GetTenantByTenantKeyHash_def sample_gate_def sample_key_def key_live_def tenant_enabled_def)
  moreover have "\<not> LooksLikeJWT ''tk_abc''" by (simp add: LooksLikeJWT_def)
  moreover have "blocked 3 5 p (touch 5 ''k1'' sample_gate) = (False, touch 5 ''k1'' sample_gate)" for p
    by (simp add: blocked_def sweepLocked_def recentLocked_def hits_of_def touch_def TouchTenantKey_def sample_gate_def Let_def)
  moreover obtain s2 where "BumpTenantRateWindow ''t1'' 0 (touch 5 ''k1'' sample_gate) = (Inr 1, s2)"
    by (simp add: BumpTenantRateWindow_def touch_def TouchTenantKey_def sample_gate_def Let_def)
  ultimately show ?thesis using sample_credential
    by (simp add: sample_server_def server_chain RequestID_def Let_def InternalOnly_def CORS_def Bearer_def sample_config_def
        FailureLimiter_def ServiceKey_def RateLimit_def fresh_ctx_def tenant_IDFrom_def Ctx.truncate_def uuid_Nil_def window_of_def
        Mount_def spec_security_def Required_def answer_with_def with_headers_def starts_with_def key_request_def)
qed

theorem operations_guarded_witness:
  "\<exists>ctx'. authentic sample_config 5 sample_gate (key_request ''tk_abc'') ctx'"
proof -
  have differ: "sample_server 200 (key_request ''tk_abc'') \<noteq> sample_server 201 (key_request ''tk_abc'')"
    using sample_served [of 200] sample_served [of 201] by auto
  obtain resp s' where run: "sample_server 200 (key_request ''tk_abc'') = (resp, s')" by fastforce
  then have differ': "sample_server 201 (key_request ''tk_abc'') \<noteq> (resp, s')" using differ by simp
  from operations_guarded [OF _ run [unfolded sample_server_def]] have
    "(\<forall>handle'. server sample_config 5 ''r1'' (Mount (\<lambda>_. Inr ListDisputes_op) (\<lambda>_ _. Inr ()) handle') fresh_ctx
        (key_request ''tk_abc'') sample_gate = (resp, s')) \<or>
     (\<exists>ctx'. authentic sample_config 5 sample_gate (key_request ''tk_abc'') ctx')"
    by (fastforce simp: anonymous_def fresh_ctx_def)
  then show ?thesis using differ' unfolding sample_server_def by blast
qed

end
