(* ===== verification/Throttle.thy ===== *)
theory Throttle
  imports Gateway
begin

text \<open>
  The two limits of the gateway over runs of requests: how many wrong credentials one peer may present in a minute, and
  how many requests of one tenant are served in a window. A run is a list of requests with the clock of each, the
  handler behind the limiter answering them all; sweeps of the table of windows come in between.
\<close>

section \<open>Guesses\<close>

definition served :: "unit Response" where
  "served = \<lparr>rs_Status = 200, rs_Header = Map.empty, rs_Body = Content ()\<rparr>"

text \<open>The wrong credentials that reached the handler: when, and from which peer.\<close>

fun guesses :: "int \<Rightarrow> (time \<times> ReqCtx \<times> Request) list \<Rightarrow> Gate \<Rightarrow> (time \<times> string) list" where
  "guesses n [] s = []"
| "guesses n ((now, ctx, rq) # rest) s =
     (case FailureLimiter n now (\<lambda>ctx rq s. (served, s)) ctx rq s of
        (resp, s') \<Rightarrow>
          (if rs_Body resp = Content () \<and> rq_Header rq ''Authorization'' \<noteq> [] \<and> hx_AuthErr ctx \<noteq> None
           then [(now, peerOf (rq_RemoteAddr rq))] else []) @ guesses n rest s')"

definition times_of :: "string \<Rightarrow> (time \<times> string) list \<Rightarrow> time list" where
  "times_of peer hist = map fst (filter (\<lambda>h. snd h = peer) hist)"

lemma times_of_append [simp]: "times_of peer (a @ b) = times_of peer a @ times_of peer b"
  by (simp add: times_of_def)

lemma times_of_one: "times_of peer [(t, p)] = (if p = peer then [t] else [])"
  by (simp add: times_of_def)

text \<open>What the limiter remembers of the history: all of the last minute.\<close>

definition remembers :: "time \<Rightarrow> (time \<times> string) list \<Rightarrow> 'm Gate_scheme \<Rightarrow> bool" where
  "remembers now hist s \<longleftrightarrow> sorted (map fst hist) \<and> list_all (\<lambda>h. fst h \<le> now) hist \<and>
     (\<forall>peer. \<exists>old. times_of peer hist = old @ hits_of s peer \<and> list_all (\<lambda>t. t < now - minute) old)"

definition in_minute :: "time \<Rightarrow> time list \<Rightarrow> time list" where
  "in_minute T ts = filter (\<lambda>t. T - minute \<le> t \<and> t \<le> T) ts"

lemma sorted_times_of: "sorted (map fst hist) \<Longrightarrow> sorted (times_of peer hist)"
  by (simp add: times_of_def sorted_filter)

lemma dropWhile_sorted: "sorted (ts :: int list) \<Longrightarrow> dropWhile (\<lambda>t. t < c) ts = filter (\<lambda>t. c \<le> t) ts"
  by (induction ts) (auto intro!: filter_True [symmetric])

lemma list_all_takeWhile: "list_all P (takeWhile P xs)"
  by (auto simp: list_all_iff dest: set_takeWhileD)

lemma remembers_recent:
  assumes "remembers now hist s" and "now \<le> now'"
  shows "recentLocked now' peer s = filter (\<lambda>t. now' - minute \<le> t) (times_of peer hist)"
proof -
  from assms(1) obtain old where old: "times_of peer hist = old @ hits_of s peer" "list_all (\<lambda>t. t < now - minute) old"
    unfolding remembers_def by blast
  have "sorted (hits_of s peer)" using sorted_times_of [of hist peer] assms(1) old(1) by (simp add: remembers_def sorted_append)
  moreover have "filter (\<lambda>t. now' - minute \<le> t) old = []" using old(2) assms(2) by (auto simp: filter_empty_conv list_all_iff)
  ultimately show ?thesis by (simp add: recentLocked_def dropWhile_sorted old(1))
qed

lemma remembers_later: "remembers now hist s \<Longrightarrow> now \<le> now' \<Longrightarrow> remembers now' hist s"
  unfolding remembers_def list_all_iff by (metis diff_right_mono dual_order.trans order_less_le_trans)

lemma remembers_sweep:
  assumes "remembers now hist s"
  shows "remembers now hist (sweepLocked now s)"
proof -
  have "\<exists>old. times_of peer hist = old @ hits_of (sweepLocked now s) peer \<and> list_all (\<lambda>t. t < now - minute) old" for peer
  proof (cases "recentLocked now peer s = [] \<and> \<not> now - fl_lastSweep s < minute")
    case True
    then have "filter (\<lambda>t. now - minute \<le> t) (times_of peer hist) = []" using remembers_recent [OF assms, of now peer] by simp
    then have "list_all (\<lambda>t. t < now - minute) (times_of peer hist)" by (auto simp: filter_empty_conv list_all_iff)
    moreover have "hits_of (sweepLocked now s) peer = []" using True by (simp add: sweepLocked_def hits_of_def)
    ultimately show ?thesis by simp
  next
    case False
    then have "hits_of (sweepLocked now s) peer = hits_of s peer" by (auto simp: sweepLocked_def hits_of_def)
    then show ?thesis using assms by (simp add: remembers_def)
  qed
  then show ?thesis using assms by (simp add: remembers_def)
qed

lemma remembers_record:
  assumes "remembers now hist s"
  shows "remembers now (hist @ [(now, peer)]) (record_hit now peer s)"
proof -
  have "\<exists>old. times_of p (hist @ [(now, peer)]) = old @ hits_of (record_hit now peer s) p \<and> list_all (\<lambda>t. t < now - minute) old" for p
  proof (cases "p = peer")
    case True
    have "recentLocked now peer s = dropWhile (\<lambda>t. t < now - minute) (times_of peer hist)"
      using remembers_recent [OF assms, of now peer] assms sorted_times_of [of hist peer]
      by (simp add: remembers_def dropWhile_sorted)
    then have "times_of p (hist @ [(now, peer)]) =
        takeWhile (\<lambda>t. t < now - minute) (times_of peer hist) @ hits_of (record_hit now peer s) p"
      using True by (simp add: times_of_one hits_of_def record_hit_def)
    then show ?thesis by (blast intro: list_all_takeWhile)
  next
    case False
    then show ?thesis using assms by (simp add: remembers_def times_of_one hits_of_def record_hit_def)
  qed
  moreover have "sorted (map fst (hist @ [(now, peer)]))" using assms by (auto simp: remembers_def sorted_append list_all_iff)
  ultimately show ?thesis using assms by (simp add: remembers_def)
qed

text \<open>
  One request at the limiter: it is refused and remembered nothing of, or it passes, and if its credential was wrong
  fewer than the limit were remembered of the last minute.
\<close>

lemma FailureLimiter_step:
  assumes "0 < n" and "remembers t0 hist s" and "t0 \<le> now"
    and "FailureLimiter n now (\<lambda>ctx rq s. (served, s)) ctx rq s = (resp, s')"
  defines "hit \<equiv> (if rs_Body resp = Content () \<and> rq_Header rq ''Authorization'' \<noteq> [] \<and> hx_AuthErr ctx \<noteq> None
           then [(now, peerOf (rq_RemoteAddr rq))] else [])"
  shows "remembers now (hist @ hit) s' \<and>
    (hit \<noteq> [] \<longrightarrow> int (length (filter (\<lambda>t. now - minute \<le> t) (times_of (peerOf (rq_RemoteAddr rq)) hist))) < n)"
proof (cases "rq_Header rq ''Authorization'' = []")
  case True
  then show ?thesis using assms(1,4) remembers_later [OF assms(2,3)] by (simp add: FailureLimiter_def hit_def)
next
  case False
  let ?peer = "peerOf (rq_RemoteAddr rq)" and ?s1 = "sweepLocked now s"
  have kept: "remembers now hist ?s1" by (rule remembers_sweep [OF remembers_later [OF assms(2,3)]])
  show ?thesis
  proof (cases "n \<le> int (length (recentLocked now ?peer ?s1))")
    case True
    then show ?thesis using False assms(1,4) kept by (auto simp: FailureLimiter_def blocked_def Let_def hit_def WriteProblem_def)
  next
    case passes: False
    then have out: "resp = served" "s' = (if hx_AuthErr ctx \<noteq> None then record_hit now ?peer ?s1 else ?s1)"
      using False assms(1,4) by (auto simp: FailureLimiter_def blocked_def Let_def)
    show ?thesis
      using passes remembers_recent [OF kept order.refl, of ?peer] kept remembers_record [OF kept, of ?peer] out False
      by (auto simp: hit_def served_def)
  qed
qed

lemma in_minute_snoc_le:
  assumes "int (length (filter (\<lambda>t. now - minute \<le> t) ts)) < n" and "int (length (in_minute T ts)) \<le> n"
  shows "int (length (in_minute T (ts @ [now]))) \<le> n"
proof (cases "T - minute \<le> now \<and> now \<le> T")
  case True
  then have "set (in_minute T ts) \<subseteq> {t. now - minute \<le> t}" by (auto simp: in_minute_def)
  then have "in_minute T ts = in_minute T (filter (\<lambda>t. now - minute \<le> t) ts)"
    using True unfolding in_minute_def filter_filter by (intro filter_cong) auto
  then have "length (in_minute T ts) \<le> length (filter (\<lambda>t. now - minute \<le> t) ts)" by (metis in_minute_def length_filter_le)
  then show ?thesis using assms(1) True by (simp add: in_minute_def)
next
  case False
  then show ?thesis using assms(2) by (auto simp: in_minute_def)
qed

lemma guesses_bounded:
  assumes "0 < n" and "remembers t0 hist s" and "sorted (map fst reqs)" and "list_all (\<lambda>r. t0 \<le> fst r) reqs"
    and "\<And>peer T. int (length (in_minute T (times_of peer hist))) \<le> n"
  shows "int (length (in_minute T (times_of peer (hist @ guesses n reqs s)))) \<le> n"
  using assms(2-5)
proof (induction reqs arbitrary: t0 hist s)
  case Nil
  then show ?case by simp
next
  case (Cons r rest)
  obtain now ctx rq where r: "r = (now, ctx, rq)" by (cases r) auto
  obtain resp s' where run: "FailureLimiter n now (\<lambda>ctx rq s. (served, s)) ctx rq s = (resp, s')" by fastforce
  let ?hit = "if rs_Body resp = Content () \<and> rq_Header rq ''Authorization'' \<noteq> [] \<and> hx_AuthErr ctx \<noteq> None
           then [(now, peerOf (rq_RemoteAddr rq))] else []"
  have "t0 \<le> now" using Cons.prems(3) by (simp add: r)
  note step = FailureLimiter_step [OF assms(1) Cons.prems(1) this run]
  have bound: "int (length (in_minute T (times_of peer (hist @ ?hit)))) \<le> n" for peer T
  proof (cases "?hit \<noteq> [] \<and> peer = peerOf (rq_RemoteAddr rq)")
    case True
    then have "times_of peer (hist @ ?hit) = times_of peer hist @ [now]" by (simp add: times_of_one split: if_splits)
    then show ?thesis using step True in_minute_snoc_le Cons.prems(4) by (metis (no_types, lifting))
  next
    case False
    then have "times_of peer (hist @ ?hit) = times_of peer hist" by (auto simp: times_of_def split: if_splits)
    then show ?thesis using Cons.prems(4) by simp
  qed
  have "int (length (in_minute T (times_of peer ((hist @ ?hit) @ guesses n rest s')))) \<le> n"
    using Cons.prems(2,3) step bound by (intro Cons.IH [of now]) (auto simp: r list_all_iff)
  then show ?case by (simp add: r run)
qed

section \<open>Properties of the limiter\<close>



section \<open>Budgets\<close>

datatype traffic = Arrives time ReqCtx Request | Sweeps time

fun traffic_time :: "traffic \<Rightarrow> time" where
  "traffic_time (Arrives t _ _) = t"
| "traffic_time (Sweeps t) = t"

text \<open>The requests that were served: of which tenant, in which window.\<close>

fun budget_run :: "int \<Rightarrow> traffic list \<Rightarrow> Gate \<Rightarrow> (uuid \<times> time) list" where
  "budget_run n [] s = []"
| "budget_run n (Arrives now ctx rq # rest) s =
     (case RateLimit BumpTenantRateWindow n now (\<lambda>ctx rq s. (served, s)) ctx rq s of
        (resp, s') \<Rightarrow>
          (case tenant_IDFrom (Ctx.truncate ctx) of
             Some tid \<Rightarrow> if rs_Body resp = Content () then [(tid, window_of now)] else []
           | None \<Rightarrow> []) @ budget_run n rest s')"
| "budget_run n (Sweeps now # rest) s = budget_run n rest (Purge now s)"

definition bumps :: "'m Gate_scheme \<Rightarrow> uuid \<Rightarrow> time \<Rightarrow> int" where
  "bumps s tid wnd = (case db_windows s (tid, wnd) of Some c \<Rightarrow> c | None \<Rightarrow> 0)"

definition budget_kept :: "int \<Rightarrow> int \<Rightarrow> time \<Rightarrow> uuid \<Rightarrow> (time \<Rightarrow> nat) \<Rightarrow> 'm Gate_scheme \<Rightarrow> bool" where
  "budget_kept n m now tid cnt s \<longleftrightarrow> list_ex (\<lambda>t. te_ID t = tid) (db_tenants s) \<and>
     (\<forall>w. int (cnt w) \<le> n \<and> bumps s tid w \<le> m \<and> (now - minute < w \<longrightarrow> int (cnt w) \<le> bumps s tid w))"

lemma window_of_recent: "now - minute < window_of now \<and> window_of now \<le> now"
  by (simp add: window_of_def)

lemma budget_kept_later: "budget_kept n m now tid cnt s \<Longrightarrow> now \<le> now' \<Longrightarrow> m \<le> m' \<Longrightarrow> budget_kept n m' now' tid cnt s"
  by (simp add: budget_kept_def) (meson diff_right_mono order.trans order_le_less_trans)

lemma budget_kept_sweep:
  assumes "budget_kept n m now tid cnt s" and "0 \<le> m"
  shows "budget_kept n m now tid cnt (Purge now s)"
proof -
  have "bumps (Purge now s) tid w = (if w < now - 60 * minute then 0 else bumps s tid w)" for w
    by (simp add: bumps_def Purge_def PurgeTenantRateWindows_def)
  then show ?thesis using assms by (auto simp: budget_kept_def Purge_def PurgeTenantRateWindows_def)
qed

lemma budget_kept_arrives:
  assumes "0 < n" and kept: "budget_kept n m now tid cnt s" and m: "0 \<le> m" "m + 1 < 2 ^ 31"
    and run: "RateLimit BumpTenantRateWindow n now (\<lambda>ctx rq s. (served, s)) ctx rq s = (resp, s')"
  defines "hit \<equiv> tenant_IDFrom (Ctx.truncate ctx) = Some tid \<and> rs_Body resp = Content ()"
  shows "budget_kept n (m + 1) now tid (if hit then cnt(window_of now := Suc (cnt (window_of now))) else cnt) s'"
proof (cases "tenant_IDFrom (Ctx.truncate ctx)")
  case None
  then have "s' = s" "\<not> hit" using assms(1) run by (auto simp: RateLimit_def hit_def)
  then show ?thesis using budget_kept_later [OF kept, of now "m + 1"] by simp
next
  case (Some t)
  obtain r s1 where bump: "BumpTenantRateWindow t (window_of now) s = (r, s1)" by fastforce
  have s': "s' = s1" using assms(1) run Some bump
    by (auto simp: RateLimit_def Let_def with_headers_def split: sum.splits if_splits)
  show ?thesis
  proof (cases "t = tid")
    case False
    then have "\<not> hit" using Some by (simp add: hit_def)
    moreover have "bumps s1 tid w = bumps s tid w" "db_tenants s1 = db_tenants s" for w
      using bump False by (auto simp: BumpTenantRateWindow_def bumps_def Let_def split: if_splits)
    ultimately show ?thesis using budget_kept_later [OF kept, of now "m + 1"] s' by (simp add: budget_kept_def)
  next
    case True
    let ?w = "window_of now" and ?k = "bumps s tid (window_of now) + 1"
    have small: "?k < 2 ^ 31" using kept m by (auto simp: budget_kept_def dest!: spec [of _ ?w])
    have "(case db_windows s (tid, ?w) of None \<Rightarrow> 1 | Some c \<Rightarrow> c + 1) = ?k" by (simp add: bumps_def split: option.split)
    then have out: "r = Inr ?k" "s1 = s\<lparr>db_windows := (db_windows s)((tid, ?w) \<mapsto> ?k)\<rparr>"
      using bump True kept small by (auto simp: BumpTenantRateWindow_def budget_kept_def Let_def split: if_splits)
    then have bumped: "bumps s' tid w = (if w = ?w then ?k else bumps s tid w)" "db_tenants s' = db_tenants s" for w
      by (simp_all add: s' bumps_def)
    have "hit \<longleftrightarrow> ?k \<le> n" using assms(1) run Some True bump out
      by (auto simp: RateLimit_def Let_def with_headers_def WriteProblem_def served_def hit_def split: if_splits)
    moreover have "bumps s tid w \<le> m + 1" for w using kept by (simp add: budget_kept_def add_increasing2)
    ultimately show ?thesis using kept window_of_recent [of now] bumped by (auto simp: budget_kept_def)
  qed
qed

lemma budget_run_kept:
  assumes "0 < n" and "budget_kept n m t0 tid cnt s" and "0 \<le> m" and "m + int (length ts) < 2 ^ 31"
    and "sorted (map traffic_time ts)" and "list_all (\<lambda>x. t0 \<le> traffic_time x) ts"
  shows "int (cnt w + count_list (budget_run n ts s) (tid, w)) \<le> n"
  using assms(2-6)
proof (induction ts arbitrary: m t0 cnt s)
  case Nil
  then show ?case by (simp add: budget_kept_def)
next
  case (Cons x ts)
  let ?now = "traffic_time x"
  have kept: "budget_kept n m ?now tid cnt s" using Cons.prems(5) by (intro budget_kept_later [OF Cons.prems(1)]) simp_all
  have later: "sorted (map traffic_time ts)" "list_all (\<lambda>y. ?now \<le> traffic_time y) ts" "m + 1 + int (length ts) < 2 ^ 31"
    using Cons.prems(3,4) by (auto simp: list_all_iff)
  show ?case
  proof (cases x)
    case (Sweeps now)
    have "budget_kept n (m + 1) now tid cnt (Purge now s)"
      using budget_kept_later [OF budget_kept_sweep, of n m now tid cnt s now "m + 1"] kept Cons.prems(2) Sweeps by simp
    from Cons.IH [OF this _ later(3,1)] show ?thesis using Cons.prems(2) later(2) Sweeps by simp
  next
    case (Arrives now ctx rq)
    obtain resp s' where run: "RateLimit BumpTenantRateWindow n now (\<lambda>ctx rq s. (served, s)) ctx rq s = (resp, s')" by fastforce
    let ?hit = "tenant_IDFrom (Ctx.truncate ctx) = Some tid \<and> rs_Body resp = Content ()"
    let ?cnt = "if ?hit then cnt(window_of now := Suc (cnt (window_of now))) else cnt"
    have "budget_kept n (m + 1) now tid ?cnt s'"
      using kept Arrives Cons.prems(2) later(3) by (intro budget_kept_arrives [OF assms(1) _ _ _ run]) auto
    from Cons.IH [OF this _ later(3,1)] have "int (?cnt w + count_list (budget_run n ts s') (tid, w)) \<le> n"
      using Cons.prems(2) later(2) Arrives by simp
    then show ?thesis using Arrives run by (auto split: option.splits if_splits)
  qed
qed

text \<open>
  C26: a tenant has its budget and no more. However the requests of all tenants interleave with the sweeps of old windows, at
  most \<open>n\<close> requests of one tenant are served within any one window of a minute (as long as there are fewer than two
  billion requests, where the counter's column would overflow and requests pass uncounted); a request over the budget is
  told to come back when, at the latest a second after, the next window has begun.
\<close>

theorem budget_bounded:
  assumes "0 < n" and "sorted (map traffic_time ts)" and "db_windows s = Map.empty" and "list_ex (\<lambda>t. te_ID t = tid) (db_tenants s)"
    and "int (length ts) < 2 ^ 31"
  shows "int (count_list (budget_run n ts s) (tid, w)) \<le> n \<and>
    window_of now < window_of (now + retry_seconds now * second) \<and>
    now + retry_seconds now * second \<le> window_of now + minute + second"
proof -
  let ?t0 = "case ts of [] \<Rightarrow> 0 | x # _ \<Rightarrow> traffic_time x"
  have "budget_kept n 0 ?t0 tid (\<lambda>_. 0) s" using assms(1,3,4) by (simp add: budget_kept_def bumps_def)
  moreover have "list_all (\<lambda>x. ?t0 \<le> traffic_time x) ts" using assms(2) by (cases ts) (auto simp: list_all_iff)
  ultimately have "int (0 + count_list (budget_run n ts s) (tid, w)) \<le> n"
    using assms by (intro budget_run_kept [where m = 0 and ?t0.0 = ?t0]) simp_all
  moreover define d where "d = window_of now + minute - now"
  define q r where "q = d div second" and "r = d mod second"
  have "d = q * second + r" "0 \<le> r" "r < second" by (simp_all add: q_def r_def)
  then have "d < (d div second + 1) * second" "(d div second + 1) * second \<le> d + second" by (simp_all add: q_def [symmetric])
  then have "window_of now + minute \<le> now + retry_seconds now * second" "now + retry_seconds now * second \<le> window_of now + minute + second"
    unfolding retry_seconds_def d_def [symmetric] by (simp_all add: d_def)
  moreover from this(1) have "window_of now < window_of (now + retry_seconds now * second)"
    unfolding window_of_def by (smt (verit) minus_mod_eq_div_mult pos_mod_bound pos_mod_sign)
  ultimately show ?thesis by simp
qed

theorem budget_bounded_witness:
  "int (count_list (budget_run 1 (replicate 3 (Arrives 7 (fresh_ctx\<lparr>cx_Tenant := Some ''t1''\<rparr>) (key_request ''x''))) sample_gate) (''t1'', 0)) \<le> 1 \<and>
   budget_run 1 (replicate 3 (Arrives 7 (fresh_ctx\<lparr>cx_Tenant := Some ''t1''\<rparr>) (key_request ''x''))) sample_gate = [(''t1'', 0)]"
proof
  show "int (count_list (budget_run 1 (replicate 3 (Arrives 7 (fresh_ctx\<lparr>cx_Tenant := Some ''t1''\<rparr>) (key_request ''x''))) sample_gate) (''t1'', 0)) \<le> 1"
    using budget_bounded [of 1 "replicate 3 (Arrives 7 (fresh_ctx\<lparr>cx_Tenant := Some ''t1''\<rparr>) (key_request ''x''))" sample_gate "''t1''" 0 0]
    by (simp add: sample_gate_def sorted_replicate)
  show "budget_run 1 (replicate 3 (Arrives 7 (fresh_ctx\<lparr>cx_Tenant := Some ''t1''\<rparr>) (key_request ''x''))) sample_gate = [(''t1'', 0)]"
    by (simp add: numeral_3_eq_3 RateLimit_def BumpTenantRateWindow_def tenant_IDFrom_def Ctx.truncate_def fresh_ctx_def uuid_Nil_def
        sample_gate_def window_of_def Let_def with_headers_def served_def WriteProblem_def)
qed

end
