(* ===== verification/Store.thy ===== *)
theory Store
  imports Ports "HOL-Library.AList" "HOL-Library.Product_Lexorder"
begin

text \<open>
  \<^verbatim>\<open>backend/internal/dispute/application/apptest/memstore.go\<close>: the store of the use cases (the \<open>Store\<close> and \<open>Tx\<close>
  interfaces of \<^verbatim>\<open>ports.go\<close>), by its in-memory implementation, which scopes every read to the tenant and the caller's
  teams the way row-level security scopes the database, and takes a failed transaction back.

  A Go map that is iterated is an association list, in the order of insertion; one that is only read and written by
  key is a function. Every operation is a \<open>tx\<close>: it returns an error or a value, and the store after it. The store
  record is extensible, so that what lives beside the store (the banking core) can share the state. An operation of
  the \<open>Tx\<close> interface is \<open>Tx_\<dots>\<close> and takes the transaction's tenant, caller and wall clock.
\<close>

section \<open>State\<close>

record MemAccess =
  ma_Version :: int
  ma_Teams :: "string list"
  ma_Default :: string
  ma_Grants :: "Grant list"
  ma_Routing :: "RoutingRule list"
  ma_Members :: "string \<Rightarrow> Membership list"

record MemStore =
  Transactions :: "uuid \<Rightarrow> TransactionRecord option"
  Disputes :: "(uuid \<times> DisputeRecord) list"
  Events :: "uuid \<Rightarrow> EventRecord list"
  Idempotent :: "(string \<times> StoredResponse) list"
  Deadlines :: "uuid \<Rightarrow> Deadline list"
  Ledger :: "uuid \<Rightarrow> LedgerEntry list"
  Questions :: "uuid \<Rightarrow> Questionnaire option"
  Notices :: "NoticeRecord list"
  RiskLog :: "uuid \<Rightarrow> RiskRecord list"
  Attachments :: "(uuid \<times> Attachment) list"
  TenantWordings :: "uuid \<Rightarrow> (notice_kind \<times> TenantTemplate) list"
  Accounts :: "uuid \<Rightarrow> AccountRecord option"
  Names :: "uuid \<Rightarrow> string option"
  TenantLogos :: "uuid \<Rightarrow> Image option"
  TenantLogoAt :: "uuid \<Rightarrow> time"
  Avatars :: "uuid \<Rightarrow> string \<Rightarrow> Image option"
  nextNotice :: int
  Calendars :: "uuid \<Rightarrow> Calendar option"
  Cores :: "uuid \<Rightarrow> CoreConfig option"
  AccessOf :: "uuid \<Rightarrow> MemAccess option"

definition NewMemStore :: MemStore where
  "NewMemStore = \<lparr>Transactions = Map.empty, Disputes = [], Events = (\<lambda>_. []), Idempotent = [], Deadlines = (\<lambda>_. []),
     Ledger = (\<lambda>_. []), Questions = Map.empty, Notices = [], RiskLog = (\<lambda>_. []), Attachments = [],
     TenantWordings = (\<lambda>_. []), Accounts = Map.empty, Names = Map.empty, TenantLogos = Map.empty,
     TenantLogoAt = (\<lambda>_. 0), Avatars = (\<lambda>_ _. None), nextNotice = 0, Calendars = Map.empty, Cores = Map.empty,
     AccessOf = Map.empty\<rparr>"

record MemTx =
  mt_Tenant :: uuid
  mt_Principal :: "Principal option"
  mt_Wall :: time

type_synonym ('x, 'a) store_tx = "('x MemStore_scheme, error, 'a) tx"

definition not_found :: error where
  "not_found = Classified ErrNotFound"

definition conflict :: error where
  "conflict = Classified ErrConflict"

definition found :: "'a option \<Rightarrow> error + 'a" where
  "found x = (case x of None \<Rightarrow> Inl not_found | Some v \<Rightarrow> Inr v)"

section \<open>Transactions of the store\<close>

record snapshotT =
  sn_disputes :: "(uuid \<times> DisputeRecord) list"
  sn_events :: "uuid \<Rightarrow> EventRecord list"
  sn_idempotent :: "(string \<times> StoredResponse) list"
  sn_deadlines :: "uuid \<Rightarrow> Deadline list"
  sn_ledger :: "uuid \<Rightarrow> LedgerEntry list"
  sn_questions :: "uuid \<Rightarrow> Questionnaire option"
  sn_notices :: "NoticeRecord list"
  sn_risk :: "uuid \<Rightarrow> RiskRecord list"
  sn_files :: "(uuid \<times> Attachment) list"

definition snapshot :: "'x MemStore_scheme \<Rightarrow> snapshotT" where
  "snapshot m = \<lparr>sn_disputes = Disputes m, sn_events = Events m, sn_idempotent = Idempotent m,
     sn_deadlines = Deadlines m, sn_ledger = Ledger m, sn_questions = Questions m, sn_notices = Notices m,
     sn_risk = RiskLog m, sn_files = Attachments m\<rparr>"

definition restore :: "snapshotT \<Rightarrow> 'x MemStore_scheme \<Rightarrow> 'x MemStore_scheme" where
  "restore s m = m\<lparr>Disputes := sn_disputes s, Events := sn_events s, Idempotent := sn_idempotent s,
     Deadlines := sn_deadlines s, Ledger := sn_ledger s, Questions := sn_questions s, Notices := sn_notices s,
     RiskLog := sn_risk s, Attachments := sn_files s\<rparr>"

definition WithTx :: "time \<Rightarrow> Ctx \<Rightarrow> (MemTx \<Rightarrow> ('x, 'a) store_tx) \<Rightarrow> ('x, 'a) store_tx" where
  "WithTx wall ctx fn = (\<lambda>m.
     case tenant_IDFrom ctx of
       None \<Rightarrow> (Inl (Classified ErrMissing), m)
     | Some did \<Rightarrow>
         (let snap = snapshot m in
          case fn \<lparr>mt_Tenant = did, mt_Principal = principal_From ctx, mt_Wall = wall\<rparr> m of
            (Inl e, m') \<Rightarrow> (Inl e, restore snap m')
          | (Inr x, m') \<Rightarrow> (Inr x, m')))"

section \<open>Disputes and their log\<close>

definition Tx_GetTransaction :: "MemTx \<Rightarrow> uuid \<Rightarrow> ('x, TransactionRecord) store_tx" where
  "Tx_GetTransaction t did = tx_read (\<lambda>s.
     case Transactions s did of
       None \<Rightarrow> Inl not_found
     | Some r \<Rightarrow> if tr_TenantID r \<noteq> mt_Tenant t then Inl not_found else Inr r)"

definition Tx_InsertDispute :: "MemTx \<Rightarrow> DisputeRecord \<Rightarrow> ('x, unit) store_tx" where
  "Tx_InsertDispute t d = tx_modify (\<lambda>s. s\<lparr>Disputes := AList.update (dr_ID d) (d\<lparr>dr_TenantID := mt_Tenant t\<rparr>) (Disputes s)\<rparr>)"

definition access_of :: "MemTx \<Rightarrow> Principal option \<Rightarrow> 'x MemStore_scheme \<Rightarrow> Access" where
  "access_of t p s =
     (case AccessOf s (mt_Tenant t) of
        None \<Rightarrow> DefaultAccess p
      | Some ma \<Rightarrow> \<lparr>ac_Version = ma_Version ma, ac_DefaultTeam = ma_Default ma, ac_Teams = ma_Teams ma,
          ac_Grants = ma_Grants ma, ac_Routing = ma_Routing ma,
          ac_Members = (case p of Some q \<Rightarrow> if pr_Kind q = Analyst then ma_Members ma (pr_ID q) else [] | None \<Rightarrow> [])\<rparr>)"

definition Tx_Access :: "MemTx \<Rightarrow> Principal option \<Rightarrow> ('x, Access) store_tx" where
  "Tx_Access t p = tx_gets (access_of t p)"

definition visible_rec :: "MemTx \<Rightarrow> 'x MemStore_scheme \<Rightarrow> DisputeRecord \<Rightarrow> bool" where
  "visible_rec t s rec \<longleftrightarrow>
     (case mt_Principal t of Some p \<Rightarrow> pr_Kind p = Key | None \<Rightarrow> False) \<or>
     (\<exists>m \<in> set (ac_Members (access_of t (mt_Principal t) s)). mb_Team m = dr_Team rec)"

definition get_dispute :: "MemTx \<Rightarrow> uuid \<Rightarrow> 'x MemStore_scheme \<Rightarrow> error + DisputeRecord" where
  "get_dispute t did s =
     (case map_of (Disputes s) did of
        None \<Rightarrow> Inl not_found
      | Some r \<Rightarrow> if dr_TenantID r \<noteq> mt_Tenant t \<or> \<not> visible_rec t s r then Inl not_found else Inr r)"

definition Tx_GetDispute :: "MemTx \<Rightarrow> uuid \<Rightarrow> ('x, DisputeRecord) store_tx" where
  "Tx_GetDispute t did = tx_read (get_dispute t did)"

definition Tx_UpdateDisputeState :: "MemTx \<Rightarrow> uuid \<Rightarrow> int \<Rightarrow> state \<Rightarrow> int \<Rightarrow> time \<Rightarrow> ('x, unit) store_tx" where
  "Tx_UpdateDisputeState t did expected state appeals upd = (\<lambda>s.
     case map_of (Disputes s) did of
       None \<Rightarrow> (Inl conflict, s)
     | Some r \<Rightarrow>
         if dr_TenantID r \<noteq> mt_Tenant t \<or> dr_Version r \<noteq> expected then (Inl conflict, s)
         else (Inr (), s\<lparr>Disputes := AList.update did
           (r\<lparr>dr_State := state, dr_Appeals := appeals, dr_Version := expected + 1, dr_UpdatedAt := upd\<rparr>) (Disputes s)\<rparr>))"

definition Tx_UpdateDisputeTeam :: "MemTx \<Rightarrow> uuid \<Rightarrow> int \<Rightarrow> string \<Rightarrow> time \<Rightarrow> ('x, unit) store_tx" where
  "Tx_UpdateDisputeTeam t did expected team upd = (\<lambda>s.
     case map_of (Disputes s) did of
       None \<Rightarrow> (Inl conflict, s)
     | Some r \<Rightarrow>
         if dr_TenantID r \<noteq> mt_Tenant t \<or> dr_Version r \<noteq> expected then (Inl conflict, s)
         else (Inr (), s\<lparr>Disputes := AList.update did
           (r\<lparr>dr_Team := team, dr_Version := expected + 1, dr_UpdatedAt := upd\<rparr>) (Disputes s)\<rparr>))"

definition Tx_AppendEvent :: "uuid \<Rightarrow> EventRecord \<Rightarrow> ('x, unit) store_tx" where
  "Tx_AppendEvent did e = (\<lambda>s.
     if \<exists>x \<in> set (Events s did). ev_Seq x = ev_Seq e then (Inl conflict, s)
     else (Inr (), s\<lparr>Events := (Events s)(did := Events s did @ [e])\<rparr>))"

definition Tx_ListEvents :: "uuid \<Rightarrow> ('x, EventRecord list) store_tx" where
  "Tx_ListEvents did = tx_gets (\<lambda>s. Events s did)"

definition NUL :: string where
  "NUL = [char_of (0 :: nat)]"

definition idem_key :: "uuid \<Rightarrow> string \<Rightarrow> string \<Rightarrow> string" where
  "idem_key tenant scope key = tenant @ NUL @ scope @ NUL @ key"

definition Tx_GetIdempotent :: "MemTx \<Rightarrow> string \<Rightarrow> string \<Rightarrow> ('x, StoredResponse) store_tx" where
  "Tx_GetIdempotent t scope key = tx_read (\<lambda>s. found (map_of (Idempotent s) (idem_key (mt_Tenant t) scope key)))"

text \<open>The zero value of a Go time.\<close>

definition zero_time :: time where
  "zero_time = day_of_civil 1 1 1 * day_seconds * second"

definition Tx_PutIdempotent :: "MemTx \<Rightarrow> string \<Rightarrow> string \<Rightarrow> StoredResponse \<Rightarrow> ('x, unit) store_tx" where
  "Tx_PutIdempotent t scope key r = tx_modify (\<lambda>s. s\<lparr>Idempotent := AList.update (idem_key (mt_Tenant t) scope key)
     (if sr_CreatedAt r = zero_time then r\<lparr>sr_CreatedAt := mt_Wall t\<rparr> else r) (Idempotent s)\<rparr>)"

definition overdue :: "'x MemStore_scheme \<Rightarrow> uuid \<Rightarrow> time \<Rightarrow> bool" where
  "overdue s did now \<longleftrightarrow> (\<exists>d \<in> set (Deadlines s did). dl_Open d \<and> dl_DueAt d < now)"

definition list_matches :: "MemTx \<Rightarrow> 'x MemStore_scheme \<Rightarrow> ListQuery \<Rightarrow> DisputeRecord \<Rightarrow> bool" where
  "list_matches t s q d \<longleftrightarrow>
     \<not> (dr_TenantID d \<noteq> mt_Tenant t \<or> \<not> visible_rec t s d \<or> (case lq_State q of Some x \<Rightarrow> dr_State d \<noteq> x | None \<Rightarrow> False)) \<and>
     \<not> (case lq_Reason q of Some x \<Rightarrow> dr_Reason d \<noteq> x | None \<Rightarrow> False) \<and>
     \<not> (lq_Overdue q \<and> \<not> overdue s (dr_ID d) (lq_Now q)) \<and>
     \<not> (case lq_After q of Some c \<Rightarrow> cu_OpenedAt c < dr_OpenedAt d | None \<Rightarrow> False) \<and>
     \<not> (case lq_After q of Some c \<Rightarrow> dr_OpenedAt d = cu_OpenedAt c \<and> cu_ID c \<le> dr_ID d | None \<Rightarrow> False)"

text \<open>Newest first, then by descending id: the ascending order of both, reversed.\<close>

definition list_key :: "DisputeRecord \<Rightarrow> time \<times> uuid" where
  "list_key d = (dr_OpenedAt d, dr_ID d)"

definition list_disputes :: "MemTx \<Rightarrow> ListQuery \<Rightarrow> 'x MemStore_scheme \<Rightarrow> DisputeRecord list" where
  "list_disputes t q s =
     (let all = rev (sort_key list_key (filter (list_matches t s q) (map snd (Disputes s))))
      in if lq_Limit q < int (length all) then take (nat (lq_Limit q)) all else all)"

definition Tx_ListDisputes :: "MemTx \<Rightarrow> ListQuery \<Rightarrow> ('x, DisputeRecord list) store_tx" where
  "Tx_ListDisputes t q = tx_gets (list_disputes t q)"

section \<open>Clocks\<close>

definition Tx_TenantCalendar :: "MemTx \<Rightarrow> ('x, Calendar) store_tx" where
  "Tx_TenantCalendar t = tx_gets (\<lambda>s. case Calendars s (mt_Tenant t) of Some c \<Rightarrow> c | None \<Rightarrow> DefaultCalendar)"

definition Tx_InsertDeadlines :: "MemTx \<Rightarrow> uuid \<Rightarrow> Deadline list \<Rightarrow> ('x, unit) store_tx" where
  "Tx_InsertDeadlines t did ds = tx_bind (Tx_GetDispute t did) (\<lambda>_.
     tx_modify (\<lambda>s. s\<lparr>Deadlines := (Deadlines s)(did := Deadlines s did @ ds)\<rparr>))"

definition Tx_ListDeadlines :: "MemTx \<Rightarrow> uuid \<Rightarrow> ('x, Deadline list) store_tx" where
  "Tx_ListDeadlines t did = tx_bind (Tx_GetDispute t did) (\<lambda>_. tx_gets (\<lambda>s. Deadlines s did))"

definition settle_one :: "deadline_kind \<Rightarrow> int \<Rightarrow> bool \<Rightarrow> time \<Rightarrow> Deadline \<Rightarrow> Deadline" where
  "settle_one kind cycle met stamp d =
     (if dl_Kind d = kind \<and> dl_Cycle d = cycle \<and> dl_Open d then
        (if met then d\<lparr>dl_MetAt := Some stamp\<rparr> else d\<lparr>dl_VoidedAt := Some stamp\<rparr>)
      else d)"

definition Tx_SettleDeadline :: "MemTx \<Rightarrow> uuid \<Rightarrow> deadline_kind \<Rightarrow> int \<Rightarrow> bool \<Rightarrow> time \<Rightarrow> ('x, unit) store_tx" where
  "Tx_SettleDeadline t did kind cycle met stamp = tx_bind (Tx_GetDispute t did) (\<lambda>_.
     tx_modify (\<lambda>s. s\<lparr>Deadlines := (Deadlines s)(did := map (settle_one kind cycle met stamp) (Deadlines s did))\<rparr>))"

definition owned :: "MemTx \<Rightarrow> 'x MemStore_scheme \<Rightarrow> uuid \<Rightarrow> bool" where
  "owned t s did \<longleftrightarrow> (case map_of (Disputes s) did of Some d \<Rightarrow> dr_TenantID d = mt_Tenant t | None \<Rightarrow> False)"

fun earliest :: "Deadline option \<Rightarrow> Deadline list \<Rightarrow> Deadline option" where
  "earliest cur [] = cur"
| "earliest cur (d # ds) =
     (if \<not> dl_Open d then earliest cur ds
      else if (case cur of None \<Rightarrow> True | Some c \<Rightarrow> dl_DueAt d < dl_DueAt c) then earliest (Some d) ds
      else earliest cur ds)"

definition Tx_NextDeadlines :: "MemTx \<Rightarrow> uuid list \<Rightarrow> ('x, uuid \<rightharpoonup> Deadline) store_tx" where
  "Tx_NextDeadlines t ids = tx_gets (\<lambda>s did.
     if did \<in> set ids \<and> owned t s did then earliest None (Deadlines s did) else None)"

section \<open>The ledger and the questionnaire\<close>

definition append_entry :: "uuid \<Rightarrow> LedgerEntry \<Rightarrow> ('x, unit) store_tx" where
  "append_entry did e = (\<lambda>s.
     if \<exists>have \<in> set (Ledger s did). le_Reference have = le_Reference e then (Inl conflict, s)
     else (Inr (), s\<lparr>Ledger := (Ledger s)(did := Ledger s did @ [e])\<rparr>))"

definition Tx_AppendLedger :: "MemTx \<Rightarrow> uuid \<Rightarrow> LedgerEntry list \<Rightarrow> ('x, unit) store_tx" where
  "Tx_AppendLedger t did entries = tx_bind (Tx_GetDispute t did) (\<lambda>_. tx_foreach (append_entry did) entries)"

definition Tx_ListLedger :: "MemTx \<Rightarrow> uuid \<Rightarrow> ('x, LedgerEntry list) store_tx" where
  "Tx_ListLedger t did = tx_bind (Tx_GetDispute t did) (\<lambda>_. tx_gets (\<lambda>s. Ledger s did))"

definition Tx_TenantCore :: "MemTx \<Rightarrow> ('x, CoreConfig) store_tx" where
  "Tx_TenantCore t = tx_gets (\<lambda>s. case Cores s (mt_Tenant t) of Some c \<Rightarrow> c | None \<Rightarrow> \<lparr>cc_Kind = [], cc_Settings = []\<rparr>)"

definition Tx_SendQuestionnaire :: "MemTx \<Rightarrow> uuid \<Rightarrow> Questionnaire \<Rightarrow> ('x, unit) store_tx" where
  "Tx_SendQuestionnaire t did q = tx_bind (Tx_GetDispute t did) (\<lambda>_.
     tx_modify (\<lambda>s. s\<lparr>Questions := (Questions s)(did \<mapsto> q\<lparr>qn_Answers := [], qn_ReceivedAt := None\<rparr>)\<rparr>))"

definition Tx_GetQuestionnaire :: "MemTx \<Rightarrow> uuid \<Rightarrow> ('x, Questionnaire) store_tx" where
  "Tx_GetQuestionnaire t did = tx_bind (Tx_GetDispute t did) (\<lambda>_. tx_read (\<lambda>s. found (Questions s did)))"

definition Tx_AnswerQuestionnaire :: "MemTx \<Rightarrow> uuid \<Rightarrow> answers \<Rightarrow> time \<Rightarrow> ('x, unit) store_tx" where
  "Tx_AnswerQuestionnaire t did answers received = tx_bind (Tx_GetQuestionnaire t did) (\<lambda>q.
     if qn_ReceivedAt q \<noteq> None then tx_fail not_found
     else tx_modify (\<lambda>s. s\<lparr>Questions := (Questions s)(did \<mapsto> q\<lparr>qn_Answers := answers, qn_ReceivedAt := Some received\<rparr>)\<rparr>))"

section \<open>Accounts, notices and risk\<close>

definition Tx_GetAccount :: "uuid \<Rightarrow> ('x, AccountRecord) store_tx" where
  "Tx_GetAccount did = tx_read (\<lambda>s. found (Accounts s did))"

definition Tx_TenantName :: "MemTx \<Rightarrow> ('x, string) store_tx" where
  "Tx_TenantName t = tx_gets (\<lambda>s. case Names s (mt_Tenant t) of Some n \<Rightarrow> n | None \<Rightarrow> ''Test Bank'')"

definition Tx_InsertNotice :: "MemTx \<Rightarrow> NoticeRecord \<Rightarrow> ('x, int) store_tx" where
  "Tx_InsertNotice t n = tx_bind (Tx_GetDispute t (nt_DisputeID n)) (\<lambda>_ s.
     let nid = nextNotice s + 1
     in (Inr nid, s\<lparr>nextNotice := nid, Notices := Notices s @ [n\<lparr>nt_ID := nid, nt_TenantID := mt_Tenant t\<rparr>]\<rparr>))"

definition notices_of :: "uuid \<Rightarrow> 'x MemStore_scheme \<Rightarrow> NoticeRecord list" where
  "notices_of did s = filter (\<lambda>n. nt_DisputeID n = did) (Notices s)"

definition Tx_ListNotices :: "MemTx \<Rightarrow> uuid \<Rightarrow> ('x, NoticeRecord list) store_tx" where
  "Tx_ListNotices t did = tx_bind (Tx_GetDispute t did) (\<lambda>_. tx_gets (notices_of did))"

definition Tx_GetNotice :: "MemTx \<Rightarrow> uuid \<Rightarrow> int \<Rightarrow> ('x, NoticeRecord) store_tx" where
  "Tx_GetNotice t disputeID did = tx_bind (Tx_ListNotices t disputeID) (\<lambda>ns.
     tx_lift (found (find (\<lambda>n. nt_ID n = did) ns)))"

definition Tx_AccountHistory :: "MemTx \<Rightarrow> uuid \<Rightarrow> uuid \<Rightarrow> time \<Rightarrow> ('x, int \<times> int) store_tx" where
  "Tx_AccountHistory t accountID exclude since = tx_gets (\<lambda>s.
     let mine = filter (\<lambda>(did, d). \<not> (dr_TenantID d \<noteq> mt_Tenant t \<or> dr_AccountID d \<noteq> accountID \<or> did = exclude)) (Disputes s)
     in (int (length (filter (\<lambda>(did, d). \<not> dr_OpenedAt d < since) mine)),
         int (length (filter (\<lambda>(did, d). \<exists>e \<in> set (Events s did). ev_ToState e = StateChargebackLost) mine))))"

definition Tx_InsertRisk :: "MemTx \<Rightarrow> uuid \<Rightarrow> RiskRecord \<Rightarrow> ('x, unit) store_tx" where
  "Tx_InsertRisk t did r = tx_bind (Tx_GetDispute t did) (\<lambda>_.
     tx_modify (\<lambda>s. s\<lparr>RiskLog := (RiskLog s)(did := RiskLog s did @ [r])\<rparr>))"

definition Tx_ListRisk :: "MemTx \<Rightarrow> uuid \<Rightarrow> ('x, RiskRecord list) store_tx" where
  "Tx_ListRisk t did = tx_bind (Tx_GetDispute t did) (\<lambda>_. tx_gets (\<lambda>s. RiskLog s did))"

definition Tx_LatestRisk :: "MemTx \<Rightarrow> uuid list \<Rightarrow> ('x, uuid \<rightharpoonup> Assessment) store_tx" where
  "Tx_LatestRisk t ids = tx_gets (\<lambda>s did.
     if did \<in> set ids \<and> owned t s did \<and> RiskLog s did \<noteq> [] then Some (rk_Assessment (last (RiskLog s did))) else None)"

section \<open>Attachments\<close>

definition Tx_InsertAttachment :: "MemTx \<Rightarrow> uuid \<Rightarrow> Attachment \<Rightarrow> ('x, unit) store_tx" where
  "Tx_InsertAttachment t disputeID a = tx_bind (Tx_GetDispute t disputeID) (\<lambda>_.
     tx_modify (\<lambda>s. s\<lparr>Attachments := AList.update (at_ID a) (a\<lparr>at_DisputeID := disputeID\<rparr>) (Attachments s)\<rparr>))"

fun claim_files :: "uuid \<Rightarrow> int \<Rightarrow> uuid list \<Rightarrow> (uuid \<times> Attachment) list \<Rightarrow> int \<times> (uuid \<times> Attachment) list" where
  "claim_files disputeID noticeID [] files = (0, files)"
| "claim_files disputeID noticeID (did # ids) files =
     (case map_of files did of
        None \<Rightarrow> claim_files disputeID noticeID ids files
      | Some a \<Rightarrow>
          if at_NoticeID a \<noteq> None \<or> at_DisputeID a \<noteq> disputeID then claim_files disputeID noticeID ids files
          else let (n, files') = claim_files disputeID noticeID ids (AList.update did (a\<lparr>at_NoticeID := Some noticeID\<rparr>) files)
               in (n + 1, files'))"

definition Tx_ClaimAttachments :: "uuid \<Rightarrow> int \<Rightarrow> uuid list \<Rightarrow> ('x, int) store_tx" where
  "Tx_ClaimAttachments disputeID noticeID ids = (\<lambda>s.
     let (n, files) = claim_files disputeID noticeID ids (Attachments s) in (Inr n, s\<lparr>Attachments := files\<rparr>))"

definition Tx_ListAttachmentMeta :: "uuid \<Rightarrow> int list \<Rightarrow> ('x, Attachment list) store_tx" where
  "Tx_ListAttachmentMeta disputeID noticeIDs = tx_gets (\<lambda>s.
     sort_key at_UploadedAt (map (\<lambda>a. a\<lparr>at_Content := []\<rparr>)
       (filter (\<lambda>a. \<not> at_DisputeID a \<noteq> disputeID \<and>
          (case at_NoticeID a of None \<Rightarrow> True | Some n \<Rightarrow> n \<in> set noticeIDs)) (map snd (Attachments s)))))"

definition Tx_GetAttachment :: "uuid \<Rightarrow> uuid \<Rightarrow> ('x, Attachment) store_tx" where
  "Tx_GetAttachment disputeID did = tx_read (\<lambda>s.
     case map_of (Attachments s) did of
       None \<Rightarrow> Inl not_found
     | Some a \<Rightarrow> if at_DisputeID a \<noteq> disputeID then Inl not_found else Inr a)"

section \<open>The tenant's wordings, logo and avatars\<close>

definition Tx_TenantTemplates :: "MemTx \<Rightarrow> ('x, TenantTemplate list) store_tx" where
  "Tx_TenantTemplates t = tx_gets (\<lambda>s.
     sort_key (\<lambda>tt. notice_kind_str (tt_Kind tt)) (map snd (TenantWordings s (mt_Tenant t))))"

definition Tx_PutTenantTemplate :: "MemTx \<Rightarrow> TenantTemplate \<Rightarrow> ('x, unit) store_tx" where
  "Tx_PutTenantTemplate t tt = tx_modify (\<lambda>s. s\<lparr>TenantWordings := (TenantWordings s)
     (mt_Tenant t := AList.update (tt_Kind tt) tt (TenantWordings s (mt_Tenant t)))\<rparr>)"

definition Tx_DeleteTenantTemplate :: "MemTx \<Rightarrow> notice_kind \<Rightarrow> ('x, bool) store_tx" where
  "Tx_DeleteTenantTemplate t kind = (\<lambda>s.
     (Inr (map_of (TenantWordings s (mt_Tenant t)) kind \<noteq> None),
      s\<lparr>TenantWordings := (TenantWordings s)(mt_Tenant t := AList.delete kind (TenantWordings s (mt_Tenant t)))\<rparr>))"

definition Tx_GetTenantMetadata :: "MemTx \<Rightarrow> ('x, TenantMetadata) store_tx" where
  "Tx_GetTenantMetadata t = tx_gets (\<lambda>s.
     case TenantLogos s (mt_Tenant t) of
       None \<Rightarrow> \<lparr>tm_HasLogo = False, tm_LogoUpdatedAt = None\<rparr>
     | Some img \<Rightarrow> if im_Content img = [] then \<lparr>tm_HasLogo = False, tm_LogoUpdatedAt = None\<rparr>
         else \<lparr>tm_HasLogo = True, tm_LogoUpdatedAt = Some (TenantLogoAt s (mt_Tenant t))\<rparr>)"

definition Tx_GetTenantLogo :: "MemTx \<Rightarrow> ('x, Image) store_tx" where
  "Tx_GetTenantLogo t = tx_read (\<lambda>s. found (TenantLogos s (mt_Tenant t)))"

definition Tx_PutTenantLogo :: "MemTx \<Rightarrow> Image \<Rightarrow> time \<Rightarrow> ('x, unit) store_tx" where
  "Tx_PutTenantLogo t img stamp = tx_modify (\<lambda>s. s\<lparr>TenantLogos := (TenantLogos s)(mt_Tenant t \<mapsto> img),
     TenantLogoAt := (TenantLogoAt s)(mt_Tenant t := stamp)\<rparr>)"

definition Tx_GetAnalystAvatar :: "MemTx \<Rightarrow> string \<Rightarrow> ('x, Image) store_tx" where
  "Tx_GetAnalystAvatar t subject = tx_read (\<lambda>s. found (Avatars s (mt_Tenant t) subject))"

definition Tx_PutAnalystAvatar :: "MemTx \<Rightarrow> string \<Rightarrow> Image \<Rightarrow> ('x, unit) store_tx" where
  "Tx_PutAnalystAvatar t subject img = tx_modify (\<lambda>s. s\<lparr>Avatars := (Avatars s)
     (mt_Tenant t := (Avatars s (mt_Tenant t))(subject \<mapsto> img))\<rparr>)"

section \<open>Outside a tenant: the outbox and the purges\<close>

definition unsent_email :: "NoticeRecord \<Rightarrow> bool" where
  "unsent_email n \<longleftrightarrow> nt_SentAt n = None \<and> nt_Channel n = ChannelEmail"

fun claim_notices :: "nat \<Rightarrow> NoticeRecord list \<Rightarrow> NoticeRecord list \<times> NoticeRecord list" where
  "claim_notices k [] = ([], [])"
| "claim_notices k (n # ns) =
     (if unsent_email n \<and> 0 < k then
        (let n' = n\<lparr>nt_Attempts := nt_Attempts n + 1\<rparr>; (out, ns') = claim_notices (k - 1) ns in (n' # out, n' # ns'))
      else let (out, ns') = claim_notices k ns in (out, n # ns'))"

definition ClaimNotices :: "nat \<Rightarrow> ('x, NoticeRecord list) store_tx" where
  "ClaimNotices batch = (\<lambda>s. let (out, ns) = claim_notices batch (Notices s) in (Inr out, s\<lparr>Notices := ns\<rparr>))"

definition OutboxBacklog :: "('x, int) store_tx" where
  "OutboxBacklog = tx_gets (\<lambda>s. int (length (filter unsent_email (Notices s))))"

definition finish_one :: "time \<Rightarrow> int \<Rightarrow> string \<Rightarrow> NoticeRecord \<Rightarrow> NoticeRecord" where
  "finish_one wall did failure n =
     (if nt_ID n = did then
        (if failure = [] then n\<lparr>nt_SentAt := Some wall, nt_LastError := None\<rparr> else n\<lparr>nt_LastError := Some failure\<rparr>)
      else n)"

definition FinishNotice :: "time \<Rightarrow> int \<Rightarrow> string \<Rightarrow> ('x, unit) store_tx" where
  "FinishNotice wall did failure = tx_modify (\<lambda>s. s\<lparr>Notices := map (finish_one wall did failure) (Notices s)\<rparr>)"

definition NoticeAttachments :: "int \<Rightarrow> ('x, Attachment list) store_tx" where
  "NoticeAttachments noticeID = tx_gets (\<lambda>s.
     sort_key at_UploadedAt (filter (\<lambda>a. at_NoticeID a = Some noticeID) (map snd (Attachments s))))"

definition PurgeIdempotencyKeys :: "time \<Rightarrow> ('x, int) store_tx" where
  "PurgeIdempotencyKeys before = (\<lambda>s.
     (Inr (int (length (filter (\<lambda>(k, r). sr_CreatedAt r < before) (Idempotent s)))),
      s\<lparr>Idempotent := filter (\<lambda>(k, r). \<not> sr_CreatedAt r < before) (Idempotent s)\<rparr>))"

definition stale_draft :: "time \<Rightarrow> Attachment \<Rightarrow> bool" where
  "stale_draft before a \<longleftrightarrow> at_NoticeID a = None \<and> at_UploadedAt a < before"

definition PurgeDraftAttachments :: "time \<Rightarrow> ('x, int) store_tx" where
  "PurgeDraftAttachments before = (\<lambda>s.
     (Inr (int (length (filter (\<lambda>(did, a). stale_draft before a) (Attachments s)))),
      s\<lparr>Attachments := filter (\<lambda>(did, a). \<not> stale_draft before a) (Attachments s)\<rparr>))"

section \<open>Lemmas\<close>

lemmas tx_read_defs = Tx_GetTransaction_def Tx_Access_def Tx_GetDispute_def Tx_ListEvents_def Tx_GetIdempotent_def
  Tx_ListDisputes_def Tx_TenantCalendar_def Tx_ListDeadlines_def Tx_NextDeadlines_def Tx_ListLedger_def Tx_TenantCore_def
  Tx_GetQuestionnaire_def Tx_GetAccount_def Tx_TenantName_def Tx_ListNotices_def Tx_GetNotice_def Tx_AccountHistory_def
  Tx_ListRisk_def Tx_LatestRisk_def Tx_ListAttachmentMeta_def Tx_GetAttachment_def Tx_TenantTemplates_def
  Tx_GetTenantMetadata_def Tx_GetTenantLogo_def Tx_GetAnalystAvatar_def

text \<open>The reads leave every store as it is; so they are in every frame.\<close>

locale store_frame = tx_frame R for R :: "'x MemStore_scheme \<Rightarrow> 'x MemStore_scheme \<Rightarrow> bool"
begin

lemma stays_tx_reads:
  "stays R (Tx_GetTransaction t a)" "stays R (Tx_Access t p)" "stays R (Tx_GetDispute t a)" "stays R (Tx_ListEvents a)"
  "stays R (Tx_GetIdempotent t b c)" "stays R (Tx_ListDisputes t q)" "stays R (Tx_TenantCalendar t)"
  "stays R (Tx_ListDeadlines t a)" "stays R (Tx_NextDeadlines t ids)" "stays R (Tx_ListLedger t a)"
  "stays R (Tx_TenantCore t)" "stays R (Tx_GetQuestionnaire t a)" "stays R (Tx_GetAccount a)" "stays R (Tx_TenantName t)"
  "stays R (Tx_ListNotices t a)" "stays R (Tx_GetNotice t a n)" "stays R (Tx_AccountHistory t a b n)"
  "stays R (Tx_ListRisk t a)" "stays R (Tx_LatestRisk t ids)" "stays R (Tx_ListAttachmentMeta a ns)"
  "stays R (Tx_GetAttachment a b)" "stays R (Tx_TenantTemplates t)" "stays R (Tx_GetTenantMetadata t)"
  "stays R (Tx_GetTenantLogo t)" "stays R (Tx_GetAnalystAvatar t b)"
  unfolding tx_read_defs by (intro stays_ops)+

end

text \<open>The frames of the store: nothing at all; everything but one dispute.\<close>

definition only :: "uuid \<Rightarrow> 'x MemStore_scheme \<Rightarrow> 'x MemStore_scheme \<Rightarrow> bool" where
  "only did s s' \<longleftrightarrow> (\<forall>k. k \<noteq> did \<longrightarrow> map_of (Disputes s') k = map_of (Disputes s) k \<and> Events s' k = Events s k \<and>
     Deadlines s' k = Deadlines s k \<and> Ledger s' k = Ledger s k \<and> Questions s' k = Questions s k \<and>
     RiskLog s' k = RiskLog s k \<and> notices_of k s' = notices_of k s)"

interpretation unchanged: store_frame "\<lambda>s s' :: 'x MemStore_scheme. s' = s"
  by unfold_locales simp_all

interpretation one: store_frame "only did"
  by unfold_locales (auto simp: only_def)

lemma tx_reads_only:
  "m s = (x, s') \<Longrightarrow> stays (\<lambda>s s'. s' = s) m \<Longrightarrow> s' = s"
  by (drule (1) staysD)

lemma GetDispute_Inr:
  "Tx_GetDispute t did s = (Inr r, s') \<longleftrightarrow>
     s' = s \<and> map_of (Disputes s) did = Some r \<and> dr_TenantID r = mt_Tenant t \<and> visible_rec t s r"
  by (auto simp: Tx_GetDispute_def get_dispute_def split: option.splits if_splits)

lemma UpdateDisputeState_Inr:
  "Tx_UpdateDisputeState t did v st ap upd s = (Inr (), s') \<longleftrightarrow>
     (\<exists>r. map_of (Disputes s) did = Some r \<and> dr_TenantID r = mt_Tenant t \<and> dr_Version r = v \<and>
        s' = s\<lparr>Disputes := AList.update did
          (r\<lparr>dr_State := st, dr_Appeals := ap, dr_Version := v + 1, dr_UpdatedAt := upd\<rparr>) (Disputes s)\<rparr>)"
  by (auto simp: Tx_UpdateDisputeState_def split: option.splits if_splits)

lemma UpdateDisputeTeam_Inr:
  "Tx_UpdateDisputeTeam t did v team upd s = (Inr (), s') \<longleftrightarrow>
     (\<exists>r. map_of (Disputes s) did = Some r \<and> dr_TenantID r = mt_Tenant t \<and> dr_Version r = v \<and>
        s' = s\<lparr>Disputes := AList.update did (r\<lparr>dr_Team := team, dr_Version := v + 1, dr_UpdatedAt := upd\<rparr>) (Disputes s)\<rparr>)"
  by (auto simp: Tx_UpdateDisputeTeam_def split: option.splits if_splits)

lemma AppendEvent_Inr:
  "Tx_AppendEvent did e s = (Inr (), s') \<longleftrightarrow>
     (\<forall>x \<in> set (Events s did). ev_Seq x \<noteq> ev_Seq e) \<and> s' = s\<lparr>Events := (Events s)(did := Events s did @ [e])\<rparr>"
  by (auto simp: Tx_AppendEvent_def split: if_splits)

lemma ListLedger_Inr:
  "Tx_ListLedger t did s = (Inr es, s') \<Longrightarrow> s' = s \<and> es = Ledger s did"
  by (auto simp: Tx_ListLedger_def tx_bind_Inr_iff GetDispute_Inr)

lemma ListDeadlines_Inr:
  "Tx_ListDeadlines t did s = (Inr ds, s') \<Longrightarrow> s' = s \<and> ds = Deadlines s did"
  by (auto simp: Tx_ListDeadlines_def tx_bind_Inr_iff GetDispute_Inr)

lemma ListRisk_Inr:
  "Tx_ListRisk t did s = (Inr rs, s') \<Longrightarrow> s' = s \<and> rs = RiskLog s did"
  by (auto simp: Tx_ListRisk_def tx_bind_Inr_iff GetDispute_Inr)

lemma ListEvents_Inr: "Tx_ListEvents did s = (Inr es, s') \<longleftrightarrow> s' = s \<and> es = Events s did"
  by (auto simp: Tx_ListEvents_def)

lemma append_entries_Inr:
  "tx_foreach (append_entry did) es s = (Inr (), s') \<Longrightarrow> distinct (map le_Reference (Ledger s did)) \<Longrightarrow>
     s' = s\<lparr>Ledger := (Ledger s)(did := Ledger s did @ es)\<rparr> \<and> distinct (map le_Reference (Ledger s did @ es))"
proof (induction es arbitrary: s)
  case (Cons e es)
  then obtain s1 where one: "append_entry did e s = (Inr (), s1)" and rest: "tx_foreach (append_entry did) es s1 = (Inr (), s')"
    by (auto simp: tx_then_Inr_iff)
  from one have s1: "s1 = s\<lparr>Ledger := (Ledger s)(did := Ledger s did @ [e])\<rparr>"
    and new: "le_Reference e \<notin> le_Reference ` set (Ledger s did)"
    by (auto simp: append_entry_def split: if_splits)
  with Cons.prems have "distinct (map le_Reference (Ledger s1 did))" by simp
  moreover have same: "(f(did := a))(did := b) = f(did := b)" for f :: "uuid \<Rightarrow> LedgerEntry list" and a b by simp
  ultimately show ?case using Cons.IH [OF rest] s1
    by (auto simp del: fun_upd_apply simp add: fun_upd_same same)
qed simp

lemma AppendLedger_Inr:
  assumes "Tx_AppendLedger t did es s = (Inr (), s')" "distinct (map le_Reference (Ledger s did))"
  shows "s' = s\<lparr>Ledger := (Ledger s)(did := Ledger s did @ es)\<rparr>" "distinct (map le_Reference (Ledger s did @ es))"
proof -
  have "tx_foreach (append_entry did) es s = (Inr (), s')"
    using assms(1) by (auto simp: Tx_AppendLedger_def tx_bind_Inr_iff GetDispute_Inr)
  from append_entries_Inr [OF this assms(2)]
  show "s' = s\<lparr>Ledger := (Ledger s)(did := Ledger s did @ es)\<rparr>" "distinct (map le_Reference (Ledger s did @ es))"
    by simp_all
qed

text \<open>A failed transaction leaves the nine maps of the snapshot as they were.\<close>

lemma WithTx_Inl:
  "WithTx wall ctx fn s = (Inl e, s') \<Longrightarrow> snapshot s' = snapshot s"
  by (auto simp: WithTx_def Let_def snapshot_def restore_def split: option.splits prod.splits sum.splits)

lemma WithTx_Inr:
  "WithTx wall ctx fn s = (Inr x, s') \<longleftrightarrow>
     (\<exists>tid. tenant_IDFrom ctx = Some tid \<and>
        fn \<lparr>mt_Tenant = tid, mt_Principal = principal_From ctx, mt_Wall = wall\<rparr> s = (Inr x, s'))"
  by (auto simp: WithTx_def Let_def split: option.splits prod.splits sum.splits)

text \<open>What each write leaves alone.\<close>

lemma stays_only_writes [frame_intros]:
  "dr_ID d = did \<Longrightarrow> stays (only did) (Tx_InsertDispute t d)"
  "stays (only did) (Tx_UpdateDisputeState t did v st ap upd)"
  "stays (only did) (Tx_UpdateDisputeTeam t did v team upd)"
  "stays (only did) (Tx_AppendEvent did e)"
  "stays (only did) (Tx_InsertDeadlines t did ds)"
  "stays (only did) (Tx_SettleDeadline t did kind cycle met stamp)"
  "stays (only did) (Tx_AppendLedger t did es)"
  "stays (only did) (Tx_SendQuestionnaire t did q)"
  "stays (only did) (Tx_AnswerQuestionnaire t did ans stamp)"
  "nt_DisputeID n = did \<Longrightarrow> stays (only did) (Tx_InsertNotice t n)"
  "stays (only did) (Tx_InsertRisk t did r)"
  "stays (only did) (Tx_InsertAttachment t did a)"
  "stays (only did) (Tx_ClaimAttachments did nid ids)"
  "stays (only did) (Tx_PutIdempotent t sc k resp)"
proof -
  note defs = Tx_InsertDeadlines_def Tx_SettleDeadline_def Tx_AppendLedger_def Tx_SendQuestionnaire_def
    Tx_AnswerQuestionnaire_def Tx_InsertRisk_def Tx_InsertAttachment_def
  have modify: "(\<And>s. only did s (f s)) \<Longrightarrow> stays (only did) (tx_modify f)" for f :: "'x MemStore_scheme \<Rightarrow> 'x MemStore_scheme"
    by (rule stays_modify)
  show "dr_ID d = did \<Longrightarrow> stays (only did) (Tx_InsertDispute t d)"
    unfolding Tx_InsertDispute_def by (intro modify) (simp add: only_def update_conv' notices_of_def)
  show "stays (only did) (Tx_UpdateDisputeState t did v st ap upd)" "stays (only did) (Tx_UpdateDisputeTeam t did v team upd)"
    by (auto simp: stays_def only_def Tx_UpdateDisputeState_def Tx_UpdateDisputeTeam_def update_conv' notices_of_def
        split: option.splits)
  show "stays (only did) (Tx_AppendEvent did e)"
    by (auto simp: stays_def only_def Tx_AppendEvent_def notices_of_def)
  have entry: "stays (only did) (append_entry did e)" for e
    by (auto simp: stays_def only_def append_entry_def notices_of_def)
  show "stays (only did) (Tx_InsertDeadlines t did ds)" "stays (only did) (Tx_SettleDeadline t did kind cycle met stamp)"
    "stays (only did) (Tx_AppendLedger t did es)" "stays (only did) (Tx_SendQuestionnaire t did q)"
    "stays (only did) (Tx_AnswerQuestionnaire t did ans stamp)" "stays (only did) (Tx_InsertRisk t did r)"
    "stays (only did) (Tx_InsertAttachment t did a)"
    unfolding defs
    by (intro one.stays_bind one.stays_tx_reads one.stays_read one.stays_foreach stays_if modify entry;
        simp add: only_def notices_of_def)+
  show "stays (only did) (Tx_InsertNotice t n)" if "nt_DisputeID n = did"
    unfolding Tx_InsertNotice_def
    by (intro one.stays_bind one.stays_tx_reads) (use that in \<open>auto simp: stays_def only_def notices_of_def Let_def\<close>)
  show "stays (only did) (Tx_ClaimAttachments did nid ids)"
    by (auto simp: stays_def only_def Tx_ClaimAttachments_def notices_of_def Let_def split: prod.splits)
  show "stays (only did) (Tx_PutIdempotent t sc k resp)"
    unfolding Tx_PutIdempotent_def by (intro modify) (simp add: only_def notices_of_def)
qed

end
