(* ===== verification/Banking_Core.thy ===== *)
theory Banking_Core
  imports Ports
begin

text \<open>
  \<^verbatim>\<open>backend/internal/dispute/application/core.go\<close> and
  \<^verbatim>\<open>backend/internal/dispute/infrastructure/mockcore/mockcore.go\<close>: the port to a tenant's core banking system, the router
  over its adapters, and the simulated core.

  A core keeps a state of its own, which no rollback of the store takes back. \<open>sha256\<close> (the digest, 32 bytes),
  the decoding of a tenant's settings and the decimal package's integer part are arguments.
\<close>

section \<open>The port\<close>

record CoreInstruction =
  ci_Reference :: string
  ci_DisputeID :: uuid
  ci_AccountID :: uuid
  ci_TransactionID :: uuid
  ci_Kind :: posting_kind
  ci_CreditAccount :: bool
  ci_Amount :: decimal
  ci_Currency :: string
  ci_RequestedAt :: time

definition ErrCoreDeclined :: Error where
  "ErrCoreDeclined = New Unprocessable ''core-declined'' ''the banking core declined the posting''"

text \<open>An adapter: an answer or an error, and the core's state after it.\<close>

type_synonym 'c adapter = "CoreConfig \<Rightarrow> CoreInstruction \<Rightarrow> ('c, error, CoreReceipt) tx"

definition bookOnly_Post :: "'c adapter" where
  "bookOnly_Post cfg ins = tx_return
     \<lparr>cr_RRN = [], cr_ResponseCode = ''00'', cr_ResponseText = ''booked without a core'', cr_Approved = True,
      cr_Duplicate = False, cr_AuthCode = [], cr_ProcessedAt = ci_RequestedAt ins, cr_Latency = 0\<rparr>"

definition CoreRouter_Post :: "(string \<rightharpoonup> 'c adapter) \<Rightarrow> 'c adapter" where
  "CoreRouter_Post Adapters cfg ins =
     (if cc_Kind cfg = [] then bookOnly_Post cfg ins
      else case Adapters (cc_Kind cfg) of
        None \<Rightarrow> tx_fail (Wrap (Classified ErrUnavailable))
      | Some adapter \<Rightarrow> adapter cfg ins)"

section \<open>The simulated core\<close>

definition Kind_mock :: string where
  "Kind_mock = ''mock''"

record Settings =
  st_DeclineAbove :: "decimal option"
  st_InsufficientFundsAccounts :: "uuid list"
  st_LatencyMs :: int
  st_Outage :: bool

definition no_settings :: Settings where
  "no_settings = \<lparr>st_DeclineAbove = None, st_InsufficientFundsAccounts = [], st_LatencyMs = 0, st_Outage = False\<rparr>"

record Message =
  ms_MTI :: string
  ms_ProcessingCode :: string
  ms_Amount :: string
  ms_Transmission :: string
  ms_STAN :: string
  ms_RRN :: string
  ms_AuthCode :: string
  ms_ResponseCode :: string
  ms_Currency :: string
  ms_Account :: string

text \<open>
  The core's state: the sequence number, the first answer to each reference number, and the exchanges of its log,
  newest last.
\<close>

record Core =
  co_stan :: int
  co_seen :: "string \<rightharpoonup> CoreReceipt"
  co_log :: "(Message \<times> Message) list"

definition New_Core :: Core where
  "New_Core = \<lparr>co_stan = 0, co_seen = Map.empty, co_log = []\<rparr>"

definition currencyCodes :: "(string \<times> string) list" where
  "currencyCodes = [(''EUR'', ''978''), (''USD'', ''840''), (''HUF'', ''348''), (''GBP'', ''826'')]"

definition responseTexts :: "(string \<times> string) list" where
  "responseTexts = [(''00'', ''approved''), (''51'', ''insufficient funds''), (''61'', ''exceeds amount limit''),
     (''94'', ''duplicate transmission''), (''96'', ''system malfunction'')]"

text \<open>A key that is absent from a Go map reads as the zero value.\<close>

definition str_map :: "(string \<times> string) list \<Rightarrow> string \<Rightarrow> string" where
  "str_map m k = (case map_of m k of Some v \<Rightarrow> v | None \<Rightarrow> [])"

text \<open>\<open>strings.ToUpper\<close> on ASCII text, and \<open>hex.EncodeToString\<close>.\<close>

definition to_upper :: "string \<Rightarrow> string" where
  "to_upper s = map (\<lambda>c. if 97 \<le> (of_char c :: nat) \<and> (of_char c :: nat) \<le> 122 then char_of ((of_char c :: nat) - 32) else c) s"

definition hex_encode :: "string \<Rightarrow> string" where
  "hex_encode bs = concat (map (\<lambda>c. let n = (of_char c :: nat) in [hex_digit (n div 16), hex_digit (n mod 16)]) bs)"

definition Format_MMDDhhmmss :: "time \<Rightarrow> string" where
  "Format_MMDDhhmmss t =
     (let secs = local_seconds UTC t; day = local_day UTC t; (y, m, d) = civil_of_day day; r = nat (secs - day * day_seconds)
      in pad_nat 2 (nat m) @ pad_nat 2 (nat d) @ pad_nat 2 (r div 3600) @ pad_nat 2 (r div 60 mod 60) @ pad_nat 2 (r mod 60))"

text \<open>\<open>%012d\<close> of an integer that may be negative.\<close>

definition pad_int :: "nat \<Rightarrow> int \<Rightarrow> string" where
  "pad_int w i = (if i < 0 then ''-'' @ pad_nat (w - 1) (nat (- i)) else pad_nat w (nat i))"

definition rrn_of :: "(string \<Rightarrow> string) \<Rightarrow> string \<Rightarrow> string" where
  "rrn_of sha256 reference = to_upper (hex_encode (take 6 (sha256 reference)))"

text \<open>\<open>IntPart\<close> truncates toward zero; the amount is in minor units of a two-decimal currency.\<close>

definition IntPart :: "decimal \<Rightarrow> int" where
  "IntPart d = (if 0 \<le> d then \<lfloor>d\<rfloor> else \<lceil>d\<rceil>)"

definition core_request :: "(string \<Rightarrow> string) \<Rightarrow> CoreInstruction \<Rightarrow> Core \<Rightarrow> Message \<times> Core" where
  "core_request sha256 ins c =
     (let stan = (co_stan c + 1) mod 2 ^ 32
      in (\<lparr>ms_MTI = ''0200'', ms_ProcessingCode = (if ci_CreditAccount ins then ''200000'' else ''010000''),
           ms_Amount = pad_int 12 (IntPart (ci_Amount ins * 100)),
           ms_Transmission = Format_MMDDhhmmss (ci_RequestedAt ins),
           ms_STAN = pad_nat 6 (nat (stan mod 1000000)), ms_RRN = rrn_of sha256 (ci_Reference ins),
           ms_AuthCode = [], ms_ResponseCode = [],
           ms_Currency = str_map currencyCodes (ci_Currency ins), ms_Account = ci_AccountID ins\<rparr>,
          c\<lparr>co_stan := stan\<rparr>))"

definition exchange :: "Message \<Rightarrow> CoreReceipt \<Rightarrow> Core \<Rightarrow> Core" where
  "exchange req rcpt c = c\<lparr>co_log := co_log c @
     [(req, req\<lparr>ms_MTI := ''0210'', ms_ResponseCode := cr_ResponseCode rcpt, ms_AuthCode := cr_AuthCode rcpt\<rparr>)]\<rparr>"

text \<open>
  What a call finds of the world: the digest, the decoder of the settings, whether the context ended before the
  configured latency had passed, and the clock when the call started, was processed and was answered.
\<close>

record core_env =
  ce_sha256 :: "string \<Rightarrow> string"
  ce_decode :: "string \<Rightarrow> Settings option"
  ce_timed_out :: bool
  ce_started :: time
  ce_processed :: time
  ce_answered :: time

definition decline_code :: "Settings \<Rightarrow> CoreInstruction \<Rightarrow> string" where
  "decline_code s ins =
     (if ci_CreditAccount ins \<and> (case st_DeclineAbove s of Some a \<Rightarrow> a < ci_Amount ins | None \<Rightarrow> False) then ''61''
      else if \<not> ci_CreditAccount ins \<and> ci_AccountID ins \<in> set (st_InsufficientFundsAccounts s) then ''51''
      else ''00'')"

definition Core_Post :: "core_env \<Rightarrow> Core adapter" where
  "Core_Post env cfg ins = (\<lambda>c.
     case (if cc_Settings cfg = [] then Some no_settings else ce_decode env (cc_Settings cfg)) of
       None \<Rightarrow> (Inl (Wrap (Classified ErrUnavailable)), c)
     | Some s \<Rightarrow>
         (let (req, c1) = core_request (ce_sha256 env) ins c in
          if 0 < st_LatencyMs s \<and> ce_timed_out env then (Inl (Wrap (Classified ErrUnavailable)), c1)
          else if st_Outage s then (Inl (Wrap (Classified ErrUnavailable)), c1)
          else case co_seen c1 (ms_RRN req) of
            Some first \<Rightarrow>
              (let dup = first\<lparr>cr_Duplicate := True, cr_ResponseCode := ''94'', cr_ResponseText := str_map responseTexts ''94'',
                           cr_Latency := ce_answered env - ce_started env\<rparr>
               in (Inr dup, exchange req dup c1))
          | None \<Rightarrow>
              (let code = decline_code s ins; approved = (code = ''00'');
                   rcpt = \<lparr>cr_RRN = ms_RRN req, cr_ResponseCode = code, cr_ResponseText = str_map responseTexts code,
                     cr_Approved = approved, cr_Duplicate = False,
                     cr_AuthCode = (if approved then to_upper (take 6 (ms_RRN req)) else []),
                     cr_ProcessedAt = ce_processed env, cr_Latency = ce_answered env - ce_started env\<rparr>;
                   c2 = (if approved then c1\<lparr>co_seen := (co_seen c1)(ms_RRN req \<mapsto> rcpt)\<rparr> else c1)
               in (Inr rcpt, exchange req rcpt c2))))"

section \<open>What a core owes its caller\<close>

text \<open>
  The money a core has moved, by its log: an exchange moves money when its response approves it for the first
  time (code 00). \<open>moved rrn\<close> counts those of one reference number.
\<close>

definition moved :: "string \<Rightarrow> Core \<Rightarrow> nat" where
  "moved rrn c = length (filter (\<lambda>(req, res). ms_RRN req = rrn \<and> ms_ResponseCode res = ''00'') (co_log c))"

text \<open>A reference that has been seen was answered with an approval, and money moved for exactly the references seen.\<close>

definition core_ok :: "Core \<Rightarrow> bool" where
  "core_ok c \<longleftrightarrow>
     (\<forall>rrn. moved rrn c = (if co_seen c rrn = None then 0 else 1)) \<and>
     (\<forall>rrn r. co_seen c rrn = Some r \<longrightarrow> cr_Approved r \<and> cr_RRN r = rrn)"

text \<open>
  The contract of the port: money for a reference moves at most once whatever is sent, an approval means it has
  moved, and an answer that is not an approval, or no answer, moves nothing. \<open>paid\<close> counts the movements of a
  reference in a core's state, \<open>good\<close> are the states it may be in.
\<close>

locale banking_core =
  fixes post :: "'c adapter" and paid :: "string \<Rightarrow> 'c \<Rightarrow> nat" and good :: "'c \<Rightarrow> bool"
  assumes good_post: "good c \<Longrightarrow> good (snd (post cfg ins c))"
    and paid_once: "good c \<Longrightarrow> paid ref c \<le> 1"
    and paid_mono: "good c \<Longrightarrow> paid ref c \<le> paid ref (snd (post cfg ins c))"
    and approved_paid: "good c \<Longrightarrow> post cfg ins c = (Inr r, c') \<Longrightarrow> cr_Approved r \<Longrightarrow> paid (ci_Reference ins) c' = 1"
    and refused_unpaid: "good c \<Longrightarrow> post cfg ins c = (Inr r, c') \<Longrightarrow> \<not> cr_Approved r \<Longrightarrow> paid (ci_Reference ins) c' = 0"
    and silent_unpaid: "good c \<Longrightarrow> post cfg ins c = (Inl e, c') \<Longrightarrow> paid ref c' = paid ref c"
begin

lemma paid_stable: "good c \<Longrightarrow> paid ref c = 1 \<Longrightarrow> paid ref (snd (post cfg ins c)) = 1"
  using paid_mono [of c ref cfg ins] paid_once [OF good_post, of c ref cfg ins] by linarith

lemma retry_pays_once:
  "good c \<Longrightarrow> paid (ci_Reference ins) c = 1 \<Longrightarrow> post cfg ins c = (Inr r, c') \<Longrightarrow>
     cr_Approved r \<and> paid (ci_Reference ins) c' = 1"
  using paid_stable [of c "ci_Reference ins" cfg ins] refused_unpaid [of c cfg ins r c'] by fastforce

end

text \<open>A history of calls: each with what it finds of the world.\<close>

type_synonym core_call = "core_env \<times> CoreConfig \<times> CoreInstruction"

fun Post_all :: "core_call list \<Rightarrow> Core \<Rightarrow> (error + CoreReceipt) list \<times> Core" where
  "Post_all [] c = ([], c)"
| "Post_all ((env, cfg, ins) # rest) c =
     (let (r, c1) = Core_Post env cfg ins c; (rs, c2) = Post_all rest c1 in (r # rs, c2))"

definition approves :: "(string \<Rightarrow> string) \<Rightarrow> string \<Rightarrow> core_call \<Rightarrow> error + CoreReceipt \<Rightarrow> bool" where
  "approves sha256 rrn call r \<longleftrightarrow> (case call of (env, cfg, ins) \<Rightarrow>
     rrn_of sha256 (ci_Reference ins) = rrn \<and> (case r of Inr x \<Rightarrow> cr_Approved x | Inl _ \<Rightarrow> False))"

section \<open>Lemmas\<close>

lemma moved_exchange [simp]:
  "moved rrn (exchange req rcpt c) = moved rrn c + (if ms_RRN req = rrn \<and> cr_ResponseCode rcpt = ''00'' then 1 else 0)"
  by (simp add: moved_def exchange_def)

lemma moved_stan [simp]: "moved rrn (c\<lparr>co_stan := n\<rparr>) = moved rrn c" "moved rrn (c\<lparr>co_seen := f\<rparr>) = moved rrn c"
  by (simp_all add: moved_def)

lemma core_ok_New [simp]: "core_ok New_Core"
  by (simp add: core_ok_def New_Core_def moved_def)

lemma decline_code_cases: "decline_code s ins \<in> {''00'', ''51'', ''61''}"
  by (simp add: decline_code_def)

text \<open>The three ways a call ends: no answer, the answer to a repeat, the answer to a new reference.\<close>

lemma Core_Post_cases:
  assumes "Core_Post env cfg ins c = (r, c')"
  obtains (silent) e n where "r = Inl e" "c' = c \<or> c' = c\<lparr>co_stan := n\<rparr>"
  | (repeat) first req dup n where "co_seen c (rrn_of (ce_sha256 env) (ci_Reference ins)) = Some first"
      "ms_RRN req = rrn_of (ce_sha256 env) (ci_Reference ins)" "cr_Approved dup = cr_Approved first"
      "cr_ResponseCode dup = ''94''" "cr_Duplicate dup" "r = Inr dup" "c' = exchange req dup (c\<lparr>co_stan := n\<rparr>)"
  | (declined) req rcpt n where "co_seen c (rrn_of (ce_sha256 env) (ci_Reference ins)) = None"
      "ms_RRN req = rrn_of (ce_sha256 env) (ci_Reference ins)" "cr_ResponseCode rcpt \<noteq> ''00''" "\<not> cr_Approved rcpt"
      "\<not> cr_Duplicate rcpt" "r = Inr rcpt" "c' = exchange req rcpt (c\<lparr>co_stan := n\<rparr>)"
  | (approved) req rcpt n where "co_seen c (rrn_of (ce_sha256 env) (ci_Reference ins)) = None"
      "ms_RRN req = rrn_of (ce_sha256 env) (ci_Reference ins)" "cr_ResponseCode rcpt = ''00''" "cr_Approved rcpt"
      "\<not> cr_Duplicate rcpt" "cr_RRN rcpt = ms_RRN req" "r = Inr rcpt"
      "c' = exchange req rcpt (c\<lparr>co_stan := n, co_seen := (co_seen c)(ms_RRN req \<mapsto> rcpt)\<rparr>)"
proof -
  define stan where "stan = (co_stan c + 1) mod 2 ^ 32"
  define req where "req = fst (core_request (ce_sha256 env) ins c)"
  have req: "core_request (ce_sha256 env) ins c = (req, c\<lparr>co_stan := stan\<rparr>)"
    by (simp add: req_def core_request_def stan_def Let_def)
  have rrn: "ms_RRN req = rrn_of (ce_sha256 env) (ci_Reference ins)"
    by (simp add: req_def core_request_def Let_def)
  let ?s = "if cc_Settings cfg = [] then Some no_settings else ce_decode env (cc_Settings cfg)"
  consider "?s = None" | s where "?s = Some s" "(0 < st_LatencyMs s \<and> ce_timed_out env) \<or> st_Outage s"
    | s first where "?s = Some s" "\<not> ((0 < st_LatencyMs s \<and> ce_timed_out env) \<or> st_Outage s)"
        "co_seen c (ms_RRN req) = Some first"
    | s where "?s = Some s" "\<not> ((0 < st_LatencyMs s \<and> ce_timed_out env) \<or> st_Outage s)"
        "co_seen c (ms_RRN req) = None"
    by (cases ?s; cases "co_seen c (ms_RRN req)") auto
  then show thesis
  proof cases
    case 1
    with assms silent show thesis by (auto simp: Core_Post_def)
  next
    case 2
    with assms silent show thesis by (auto simp: Core_Post_def req split: if_splits)
  next
    case (3 s first)
    let ?dup = "first\<lparr>cr_Duplicate := True, cr_ResponseCode := ''94'', cr_ResponseText := str_map responseTexts ''94'',
      cr_Latency := ce_answered env - ce_started env\<rparr>"
    have "r = Inr ?dup" "c' = exchange req ?dup (c\<lparr>co_stan := stan\<rparr>)"
      using 3 assms by (auto simp: Core_Post_def req Let_def)
    with 3 rrn show thesis by (intro repeat [of first req ?dup stan]) simp_all
  next
    case (4 s)
    let ?code = "decline_code s ins"
    let ?rcpt = "\<lparr>cr_RRN = ms_RRN req, cr_ResponseCode = ?code, cr_ResponseText = str_map responseTexts ?code,
      cr_Approved = (?code = ''00''), cr_Duplicate = False,
      cr_AuthCode = (if ?code = ''00'' then to_upper (take 6 (ms_RRN req)) else []),
      cr_ProcessedAt = ce_processed env, cr_Latency = ce_answered env - ce_started env\<rparr>"
    have r: "r = Inr ?rcpt" and c': "c' = exchange req ?rcpt (if ?code = ''00''
        then c\<lparr>co_stan := stan, co_seen := (co_seen c)(ms_RRN req \<mapsto> ?rcpt)\<rparr> else c\<lparr>co_stan := stan\<rparr>)"
      using 4 assms by (auto simp: Core_Post_def req Let_def)
    show thesis
    proof (cases "?code = ''00''")
      case True
      with 4 rrn r c' show thesis by (intro approved [of req ?rcpt stan]) simp_all
    next
      case False
      with 4 rrn r c' show thesis by (intro declined [of req ?rcpt stan]) simp_all
    qed
  qed
qed

lemma core_ok_log: "core_ok c \<Longrightarrow> co_seen c' = co_seen c \<Longrightarrow> (\<And>rrn. moved rrn c' = moved rrn c) \<Longrightarrow> core_ok c'"
  by (simp add: core_ok_def)

lemma core_ok_Post [inv_intros]:
  assumes "core_ok c" and "Core_Post env cfg ins c = (r, c')"
  shows "core_ok c'"
  using assms(2)
proof (cases rule: Core_Post_cases)
  case silent
  then show ?thesis using assms(1) by (auto intro: core_ok_log)
next
  case repeat
  then show ?thesis using assms(1) by (auto intro!: core_ok_log [OF assms(1)] simp: exchange_def moved_def)
next
  case declined
  then show ?thesis using assms(1) by (auto intro!: core_ok_log [OF assms(1)] simp: exchange_def moved_def)
next
  case (approved req rcpt n)
  have seen: "co_seen c' = (co_seen c)(ms_RRN req \<mapsto> rcpt)" using approved by (simp add: exchange_def)
  have "moved rrn c' = moved rrn c + (if ms_RRN req = rrn then 1 else 0)" for rrn
    using approved by simp
  with assms(1) approved seen show ?thesis by (auto simp: core_ok_def)
qed

text \<open>The simulated core keeps the contract, in every environment; a reference is known to it by its number.\<close>

interpretation mock: banking_core "Core_Post env" "\<lambda>ref. moved (rrn_of (ce_sha256 env) ref)" core_ok
proof unfold_locales
  fix c cfg ins ref r c' e
  assume ok: "core_ok c"
  obtain r0 c0 where post: "Core_Post env cfg ins c = (r0, c0)" by (cases "Core_Post env cfg ins c")
  show "core_ok (snd (Core_Post env cfg ins c))" using core_ok_Post [OF ok post] post by simp
  show "moved (rrn_of (ce_sha256 env) ref) c \<le> 1" using ok by (simp add: core_ok_def)
  show "moved (rrn_of (ce_sha256 env) ref) c \<le> moved (rrn_of (ce_sha256 env) ref) (snd (Core_Post env cfg ins c))"
    using post by (cases rule: Core_Post_cases) (auto simp: post)
  have seen: "moved rrn c' = (if co_seen c' rrn = None then 0 else 1)" if "core_ok c'" for rrn c'
    using that by (simp add: core_ok_def)
  { assume *: "Core_Post env cfg ins c = (Inr r, c')" "cr_Approved r"
    from *(1) show "moved (rrn_of (ce_sha256 env) (ci_Reference ins)) c' = 1"
      using *(2) seen [OF core_ok_Post [OF ok *(1)]]
      by (cases rule: Core_Post_cases) (auto simp: exchange_def) }
  { assume *: "Core_Post env cfg ins c = (Inr r, c')" "\<not> cr_Approved r"
    from *(1) show "moved (rrn_of (ce_sha256 env) (ci_Reference ins)) c' = 0"
      using *(2) ok seen [OF core_ok_Post [OF ok *(1)]]
      by (cases rule: Core_Post_cases) (auto simp: exchange_def core_ok_def) }
  assume "Core_Post env cfg ins c = (Inl e, c')"
  then show "moved (rrn_of (ce_sha256 env) ref) c' = moved (rrn_of (ce_sha256 env) ref) c"
    by (cases rule: Core_Post_cases) auto
qed

lemma Post_all_length: "Post_all calls c = (rs, c') \<Longrightarrow> length rs = length calls"
  by (induction calls arbitrary: c rs c') (auto simp: Let_def split: prod.splits)

lemma Post_moves:
  assumes "core_ok c" and "Core_Post env cfg ins c = (r, c')"
  shows "moved rrn c' = (if 0 < moved rrn c \<or> approves (ce_sha256 env) rrn (env, cfg, ins) r then 1 else 0)"
proof -
  have ok: "core_ok c'" by (rule core_ok_Post [OF assms])
  show ?thesis
  proof (cases "rrn_of (ce_sha256 env) (ci_Reference ins) = rrn")
    case True
    have *: "moved rrn c = (if co_seen c rrn = None then 0 else 1)" "\<And>r. co_seen c rrn = Some r \<Longrightarrow> cr_Approved r"
      using assms(1) by (simp_all add: core_ok_def)
    show ?thesis using assms(2) True *
      by (cases rule: Core_Post_cases) (auto simp: approves_def)
  next
    case False
    have *: "moved rrn c = (if co_seen c rrn = None then 0 else 1)" using assms(1) by (simp add: core_ok_def)
    show ?thesis using assms(2) False *
      by (cases rule: Core_Post_cases) (auto simp: approves_def)
  qed
qed

lemma Post_all_moves:
  assumes "core_ok c" and "Post_all calls c = (rs, c')" and "\<forall>call \<in> set calls. ce_sha256 (fst call) = sha256"
  shows "core_ok c' \<and> moved rrn c' = (if 0 < moved rrn c \<or> list_ex (\<lambda>(call, r). approves sha256 rrn call r) (zip calls rs) then 1 else 0)"
  using assms
proof (induction calls arbitrary: c rs)
  case Nil
  then show ?case by (auto simp: core_ok_def)
next
  case (Cons call calls)
  obtain env cfg ins where call: "call = (env, cfg, ins)" by (cases call)
  obtain r c1 where one: "Core_Post env cfg ins c = (r, c1)" by (cases "Core_Post env cfg ins c")
  with Cons.prems call obtain rs' where rest: "Post_all calls c1 = (rs', c')" and rs: "rs = r # rs'"
    by (auto simp: Let_def split: prod.splits)
  have sha: "ce_sha256 env = sha256" using Cons.prems(3) call by simp
  note IH = Cons.IH [OF core_ok_Post [OF Cons.prems(1) one] rest]
  have "\<forall>call \<in> set calls. ce_sha256 (fst call) = sha256" using Cons.prems(3) by auto
  with IH Post_moves [OF Cons.prems(1) one, of rrn] show ?case by (simp add: rs call sha)
qed

section \<open>Properties\<close>

text \<open>
  C18: exactly once. Whatever calls reach the simulated core, repeats, declines, outages and timeouts among them, it
  has moved money once for each reference number it ever approved and never for any other. So a caller that repeats
  an instruction until it is approved has it carried out once.
\<close>

theorem core_pays_once:
  assumes "Post_all calls New_Core = (rs, c)" and "\<forall>call \<in> set calls. ce_sha256 (fst call) = sha256"
  shows "moved rrn c = (if list_ex (\<lambda>(call, r). approves sha256 rrn call r) (zip calls rs) then 1 else 0)"
  using Post_all_moves [OF core_ok_New assms, of rrn] by (simp add: New_Core_def moved_def)

definition sample_core_env :: "bool \<Rightarrow> core_env" where
  "sample_core_env late = \<lparr>ce_sha256 = (\<lambda>_. ''abcdef''), ce_decode = (\<lambda>_. Some (no_settings\<lparr>st_LatencyMs := 5\<rparr>)),
     ce_timed_out = late, ce_started = 0, ce_processed = 1, ce_answered = 2\<rparr>"

definition sample_instruction :: "decimal \<Rightarrow> CoreInstruction" where
  "sample_instruction amount = \<lparr>ci_Reference = ''dispute:1:4:PROVISIONAL_CREDIT'', ci_DisputeID = ''1'', ci_AccountID = ''a'',
     ci_TransactionID = ''x'', ci_Kind = PostingProvisionalCredit, ci_CreditAccount = True, ci_Amount = amount,
     ci_Currency = ''USD'', ci_RequestedAt = 0\<rparr>"

definition sample_calls :: "core_call list" where
  "sample_calls = map (\<lambda>late. (sample_core_env late, \<lparr>cc_Kind = ''mock'', cc_Settings = ''s''\<rparr>, sample_instruction 1))
     [True, False, False]"

theorem core_pays_once_witness:
  "moved ''616263646566'' (snd (Post_all sample_calls New_Core)) = 1"
proof -
  obtain rs c where run: "Post_all sample_calls New_Core = (rs, c)" by (cases "Post_all sample_calls New_Core")
  have "list_ex (\<lambda>(call, r). approves (\<lambda>_. ''abcdef'') ''616263646566'' call r)
      (zip sample_calls (fst (Post_all sample_calls New_Core)))"
    by code_simp
  with core_pays_once [OF run, of "\<lambda>_. ''abcdef''" "''616263646566''"] run show ?thesis
    by (auto simp: sample_calls_def sample_core_env_def)
qed

end
