(* ===== verification/Cedar.thy ===== *)
theory Cedar
  imports Money
begin

text \<open>
  The policy language the sources rely on (\<open>cedar-go\<close>, a library).

  A policy is its syntax tree; \<open>policy_result\<close> is what Cedar documents of evaluating one: its scope, its
  \<open>in\<close> relation over the entity hierarchy, attribute access that is an error when the attribute is absent. The
  engine itself is the interface \<open>cedar_engine\<close>: \<open>Authorize\<close> allows exactly when some permit is satisfied and
  no forbid is, names the policies that decided, and reports those whose evaluation failed. \<open>Authorize_ref\<close> is an
  engine of that interface, so that the development can be run.
\<close>

section \<open>Entities\<close>

type_synonym euid = "string \<times> string"

datatype cvalue = VStr string | VBool bool | VDec decimal | VUid euid | VSet "cvalue list"

record entity =
  en_Parents :: "euid list"
  en_Attrs :: "(string \<times> cvalue) list"

text \<open>An entity map, the latest entry of a key first.\<close>

type_synonym entity_map = "(euid \<times> entity) list"

fun in_fuel :: "nat \<Rightarrow> entity_map \<Rightarrow> euid \<Rightarrow> euid \<Rightarrow> bool" where
  "in_fuel 0 m u v \<longleftrightarrow> u = v"
| "in_fuel (Suc n) m u v \<longleftrightarrow> u = v \<or>
     (case map_of m u of None \<Rightarrow> False | Some e \<Rightarrow> list_ex (\<lambda>p. in_fuel n m p v) (en_Parents e))"

text \<open>A chain of distinct entities is no longer than the map.\<close>

definition entity_in :: "entity_map \<Rightarrow> euid \<Rightarrow> euid \<Rightarrow> bool" where
  "entity_in m u v = in_fuel (length m) m u v"

section \<open>Policies\<close>

record request =
  rq_Principal :: euid
  rq_Action :: euid
  rq_Resource :: euid

datatype effect = Permit | Forbid

datatype who_scope = AnyWho | IsType string | InEntity euid

datatype action_scope = AnyAction | ActionEq euid | ActionIn "euid list"

datatype expr = PrincipalAttr string | ResourceAttr string | Lit cvalue | PrincipalIs string
  | Equal expr expr | And expr expr | Contains expr expr | LessEq expr expr

datatype condition = Always | When expr | Unless expr

record policy =
  pol_Id :: string
  pol_Effect :: effect
  pol_Principal :: who_scope
  pol_Action :: action_scope
  pol_Resource :: who_scope
  pol_Condition :: condition

definition attr_of :: "entity_map \<Rightarrow> euid \<Rightarrow> string \<Rightarrow> cvalue option" where
  "attr_of m u a = (case map_of m u of None \<Rightarrow> None | Some e \<Rightarrow> map_of (en_Attrs e) a)"

text \<open>An expression whose evaluation is an error has the value \<open>None\<close>.\<close>

fun eval :: "entity_map \<Rightarrow> request \<Rightarrow> expr \<Rightarrow> cvalue option" where
  "eval m r (PrincipalAttr a) = attr_of m (rq_Principal r) a"
| "eval m r (ResourceAttr a) = attr_of m (rq_Resource r) a"
| "eval m r (Lit v) = Some v"
| "eval m r (PrincipalIs t) = Some (VBool (fst (rq_Principal r) = t))"
| "eval m r (Equal a b) = (case (eval m r a, eval m r b) of (Some x, Some y) \<Rightarrow> Some (VBool (x = y)) | _ \<Rightarrow> None)"
| "eval m r (And a b) =
     (case eval m r a of
        Some (VBool False) \<Rightarrow> Some (VBool False)
      | Some (VBool True) \<Rightarrow> (case eval m r b of Some (VBool x) \<Rightarrow> Some (VBool x) | _ \<Rightarrow> None)
      | _ \<Rightarrow> None)"
| "eval m r (Contains a b) =
     (case (eval m r a, eval m r b) of (Some (VSet xs), Some y) \<Rightarrow> Some (VBool (y \<in> set xs)) | _ \<Rightarrow> None)"
| "eval m r (LessEq a b) =
     (case (eval m r a, eval m r b) of (Some (VDec x), Some (VDec y)) \<Rightarrow> Some (VBool (x \<le> y)) | _ \<Rightarrow> None)"

definition who_matches :: "entity_map \<Rightarrow> who_scope \<Rightarrow> euid \<Rightarrow> bool" where
  "who_matches m s u = (case s of AnyWho \<Rightarrow> True | IsType t \<Rightarrow> fst u = t | InEntity e \<Rightarrow> entity_in m u e)"

definition action_matches :: "action_scope \<Rightarrow> euid \<Rightarrow> bool" where
  "action_matches s a = (case s of AnyAction \<Rightarrow> True | ActionEq b \<Rightarrow> a = b | ActionIn bs \<Rightarrow> a \<in> set bs)"

definition in_scope :: "entity_map \<Rightarrow> request \<Rightarrow> policy \<Rightarrow> bool" where
  "in_scope m r p \<longleftrightarrow> who_matches m (pol_Principal p) (rq_Principal r) \<and>
     action_matches (pol_Action p) (rq_Action r) \<and> who_matches m (pol_Resource p) (rq_Resource r)"

datatype policy_outcome = Satisfied | Unsatisfied | Failed

definition policy_result :: "entity_map \<Rightarrow> request \<Rightarrow> policy \<Rightarrow> policy_outcome" where
  "policy_result m r p =
     (if \<not> in_scope m r p then Unsatisfied
      else case pol_Condition p of
        Always \<Rightarrow> Satisfied
      | When e \<Rightarrow> (case eval m r e of
                     Some (VBool b) \<Rightarrow> if b then Satisfied else Unsatisfied
                   | _ \<Rightarrow> Failed)
      | Unless e \<Rightarrow> (case eval m r e of
                     Some (VBool b) \<Rightarrow> if b then Unsatisfied else Satisfied
                   | _ \<Rightarrow> Failed))"

definition satisfied_ids :: "effect \<Rightarrow> policy list \<Rightarrow> entity_map \<Rightarrow> request \<Rightarrow> string set" where
  "satisfied_ids eff ps m r = pol_Id ` {p \<in> set ps. pol_Effect p = eff \<and> policy_result m r p = Satisfied}"

section \<open>The engine\<close>

record diagnostic =
  dg_Allow :: bool
  dg_Reasons :: "string list"
  dg_Errors :: "string list"

locale cedar_engine =
  fixes Authorize :: "policy list \<Rightarrow> entity_map \<Rightarrow> request \<Rightarrow> diagnostic"
  assumes allow_law: "dg_Allow (Authorize ps m r) \<longleftrightarrow>
      satisfied_ids Permit ps m r \<noteq> {} \<and> satisfied_ids Forbid ps m r = {}"
    and reasons_law: "set (dg_Reasons (Authorize ps m r)) =
      (if satisfied_ids Forbid ps m r \<noteq> {} then satisfied_ids Forbid ps m r else satisfied_ids Permit ps m r)"
    and errors_law: "set (dg_Errors (Authorize ps m r)) = pol_Id ` {p \<in> set ps. policy_result m r p = Failed}"
begin

lemma forbid_overrides:
  assumes "p \<in> set ps" "pol_Effect p = Forbid" "policy_result m r p = Satisfied"
  shows "\<not> dg_Allow (Authorize ps m r)"
  using assms by (auto simp: allow_law satisfied_ids_def)

lemma allowed_by_permit:
  assumes "dg_Allow (Authorize ps m r)"
  obtains p where "p \<in> set ps" "pol_Effect p = Permit" "policy_result m r p = Satisfied"
  using assms by (auto simp: allow_law satisfied_ids_def)

lemma no_errors:
  assumes "dg_Errors (Authorize ps m r) = []" "p \<in> set ps"
  shows "policy_result m r p \<noteq> Failed"
  using assms errors_law [of ps m r] by auto

end

definition Authorize_ref :: "policy list \<Rightarrow> entity_map \<Rightarrow> request \<Rightarrow> diagnostic" where
  "Authorize_ref ps m r =
     (let sat = filter (\<lambda>p. policy_result m r p = Satisfied) ps;
          permits = filter (\<lambda>p. pol_Effect p = Permit) sat;
          forbids = filter (\<lambda>p. pol_Effect p = Forbid) sat
      in \<lparr>dg_Allow = (permits \<noteq> [] \<and> forbids = []),
          dg_Reasons = map pol_Id (if forbids \<noteq> [] then forbids else permits),
          dg_Errors = map pol_Id (filter (\<lambda>p. policy_result m r p = Failed) ps)\<rparr>)"

interpretation cedar_ref: cedar_engine Authorize_ref
proof
  fix ps m r
  have sets: "satisfied_ids eff ps m r =
      set (map pol_Id (filter (\<lambda>p. pol_Effect p = eff) (filter (\<lambda>p. policy_result m r p = Satisfied) ps)))" for eff
    by (auto simp: satisfied_ids_def)
  have empty: "satisfied_ids eff ps m r = {} \<longleftrightarrow>
      filter (\<lambda>p. pol_Effect p = eff) (filter (\<lambda>p. policy_result m r p = Satisfied) ps) = []" for eff
    unfolding sets set_empty map_is_Nil_conv ..
  show "dg_Allow (Authorize_ref ps m r) \<longleftrightarrow> satisfied_ids Permit ps m r \<noteq> {} \<and> satisfied_ids Forbid ps m r = {}"
    by (simp only: empty Authorize_ref_def Let_def diagnostic.select_convs)
  show "set (dg_Reasons (Authorize_ref ps m r)) =
      (if satisfied_ids Forbid ps m r \<noteq> {} then satisfied_ids Forbid ps m r else satisfied_ids Permit ps m r)"
    unfolding empty by (simp only: sets Authorize_ref_def Let_def diagnostic.select_convs split: if_split) blast
  show "set (dg_Errors (Authorize_ref ps m r)) = pol_Id ` {p \<in> set ps. policy_result m r p = Failed}"
    by (auto simp: Authorize_ref_def Let_def)
qed

section \<open>Lemmas\<close>

lemma in_fuel_refl [simp]: "in_fuel n m u u"
  by (cases n) simp_all

lemma entity_in_refl [simp]: "entity_in m u u"
  by (simp add: entity_in_def)

lemma satisfied_in_scope: "policy_result m r p = Satisfied \<Longrightarrow> in_scope m r p"
  by (auto simp: policy_result_def split: if_splits)

end
