(* ===== verification/Authz.thy ===== *)
theory Authz
  imports Cedar Access
begin

text \<open>
  \<^verbatim>\<open>backend/internal/dispute/authz\<close>: the guardrails (\<^verbatim>\<open>policy/guardrails.cedar\<close>), the compiled grants
  (\<^verbatim>\<open>compile.go\<close>), the entities of a request (\<^verbatim>\<open>entities.go\<close>) and the decision
  (\<^verbatim>\<open>authz.go\<close>).

  The policies are syntax trees, where the source writes and parses their text; \<open>Authorize\<close> is the engine of
  \<open>cedar_engine\<close> and \<open>round4\<close> the decimal package's rounding to the four places its text has.
\<close>

section \<open>Definitions\<close>

definition uid :: "string \<Rightarrow> string \<Rightarrow> euid" where
  "uid typ i = (typ, i)"

definition teamRole :: "string \<Rightarrow> role \<Rightarrow> euid" where
  "teamRole team r = uid ''TeamRole'' (team @ ''/'' @ role_str r)"

definition principalUID :: "Principal \<Rightarrow> euid" where
  "principalUID p = (if pr_Kind p = Key then uid ''TenantKey'' (pr_ID p) else uid ''Analyst'' (pr_ID p))"

text \<open>The decimals of Cedar: four places in 64 bits.\<close>

definition cedarMax :: decimal where
  "cedarMax = 9223372036854775807 / 10000"

definition ParseDecimal :: "decimal \<Rightarrow> decimal option" where
  "ParseDecimal d = (if - (9223372036854775808 / 10000) \<le> d \<and> d \<le> cedarMax then Some d else None)"

text \<open>\<^verbatim>\<open>policy/guardrails.cedar\<close>.\<close>

definition act :: "string \<Rightarrow> euid" where
  "act a = uid ''Action'' a"

definition guardrails :: "policy list" where
  "guardrails =
    [\<lparr>pol_Id = ''sod-final-credit'', pol_Effect = Forbid, pol_Principal = IsType ''Analyst'',
      pol_Action = ActionEq (act ''ISSUE_FINAL_CREDIT''), pol_Resource = IsType ''Dispute'',
      pol_Condition = When (Equal (ResourceAttr ''investigationOpenedBy'') (PrincipalAttr ''id''))\<rparr>,
     \<lparr>pol_Id = ''sod-unrecorded-investigator'', pol_Effect = Forbid, pol_Principal = IsType ''Analyst'',
      pol_Action = ActionEq (act ''ISSUE_FINAL_CREDIT''), pol_Resource = IsType ''Dispute'',
      pol_Condition = When (Equal (ResourceAttr ''investigationOpenedBy'') (Lit (VStr ''?unrecorded'')))\<rparr>,
     \<lparr>pol_Id = ''reassign-leads-only'', pol_Effect = Forbid, pol_Principal = AnyWho,
      pol_Action = ActionEq (act ''reassign''), pol_Resource = IsType ''Dispute'',
      pol_Condition = Unless (And (PrincipalIs ''Analyst'') (Contains (PrincipalAttr ''leadOf'') (ResourceAttr ''team'')))\<rparr>,
     \<lparr>pol_Id = ''tenant-admin'', pol_Effect = Permit, pol_Principal = IsType ''Analyst'',
      pol_Action = ActionIn [act ''manage-keys'', act ''manage-templates'', act ''manage-branding''],
      pol_Resource = IsType ''Tenant'', pol_Condition = When (PrincipalAttr ''tenantAdmin'')\<rparr>,
     \<lparr>pol_Id = ''keys-disputes'', pol_Effect = Permit, pol_Principal = IsType ''TenantKey'', pol_Action = AnyAction,
      pol_Resource = IsType ''Dispute'', pol_Condition = Always\<rparr>,
     \<lparr>pol_Id = ''keys-create'', pol_Effect = Permit, pol_Principal = IsType ''TenantKey'',
      pol_Action = ActionEq (act ''create''), pol_Resource = IsType ''Team'', pol_Condition = Always\<rparr>,
     \<lparr>pol_Id = ''keys-not-people'', pol_Effect = Forbid, pol_Principal = IsType ''TenantKey'',
      pol_Action = ActionIn [act ''compose-email'', act ''upload-attachment'', act ''resend-notice'', act ''reassign''],
      pol_Resource = AnyWho, pol_Condition = Always\<rparr>]"

text \<open>The regular expressions of \<^verbatim>\<open>compile.go\<close>.\<close>

definition safe_char :: "char \<Rightarrow> bool" where
  "safe_char c \<longleftrightarrow> is_alnum c \<or> c = CHR ''_'' \<or> c = CHR ''-''"

definition safeTeam :: "string \<Rightarrow> bool" where
  "safeTeam s \<longleftrightarrow> 1 \<le> length s \<and> length s \<le> 64 \<and> list_all safe_char s"

definition safeAction :: "string \<Rightarrow> bool" where
  "safeAction s \<longleftrightarrow> 1 \<le> length s \<and> length s \<le> 64 \<and> list_all (\<lambda>c. safe_char c \<or> c = CHR '':'') s"

definition grant_ok :: "Grant \<Rightarrow> bool" where
  "grant_ok g \<longleftrightarrow> g_Role g \<in> set Roles \<and> safeTeam (g_Team g) \<and> safeAction (g_Action g) \<and>
     (case g_AmountLimit g of None \<Rightarrow> True | Some l \<Rightarrow> \<not> (l < 0 \<or> cedarMax < l))"

definition grant_id :: "Grant \<Rightarrow> string" where
  "grant_id g = ''grant:'' @ g_Team g @ ''/'' @ role_str (g_Role g) @ ''/'' @ g_Action g"

definition grant_policy :: "(decimal \<Rightarrow> decimal) \<Rightarrow> Grant \<Rightarrow> policy" where
  "grant_policy round4 g =
     \<lparr>pol_Id = grant_id g, pol_Effect = Permit, pol_Principal = InEntity (teamRole (g_Team g) (g_Role g)),
      pol_Action = ActionEq (act (g_Action g)), pol_Resource = InEntity (uid ''Team'' (g_Team g)),
      pol_Condition = (case g_AmountLimit g of
          None \<Rightarrow> Always
        | Some l \<Rightarrow> When (LessEq (ResourceAttr ''amount'') (Lit (VDec (round4 l)))))\<rparr>"

definition skipped_text :: "Grant \<Rightarrow> string" where
  "skipped_text g = go_quote (g_Team g) @ ''/'' @ go_quote (role_str (g_Role g)) @ ''/'' @ go_quote (g_Action g)"

definition Compile :: "(decimal \<Rightarrow> decimal) \<Rightarrow> Access \<Rightarrow> policy list \<times> string list" where
  "Compile round4 a =
     (map (grant_policy round4) (filter grant_ok (ac_Grants a)), map skipped_text (filter (\<lambda>g. \<not> grant_ok g) (ac_Grants a)))"

text \<open>The ladder of a team, the latest entry first.\<close>

definition ladder :: "string \<Rightarrow> entity_map" where
  "ladder t =
     [(uid ''Team'' t, \<lparr>en_Parents = [], en_Attrs = []\<rparr>),
      (teamRole t RoleJunior, \<lparr>en_Parents = [], en_Attrs = []\<rparr>),
      (teamRole t RoleSenior, \<lparr>en_Parents = [teamRole t RoleJunior], en_Attrs = []\<rparr>),
      (teamRole t RoleLead, \<lparr>en_Parents = [teamRole t RoleSenior], en_Attrs = []\<rparr>)]"

definition caller_entity :: "Principal \<Rightarrow> Access \<Rightarrow> entity" where
  "caller_entity p a =
     (case pr_Kind p of
        Analyst \<Rightarrow> \<lparr>en_Parents = map (\<lambda>mem. teamRole (mb_Team mem) (mb_Role mem)) (ac_Members a),
          en_Attrs = [(''id'', VStr (pr_ID p)),
            (''leadOf'', VSet (map (\<lambda>mem. VUid (uid ''Team'' (mb_Team mem))) (filter (\<lambda>mem. mb_Role mem = RoleLead) (ac_Members a)))),
            (''tenantAdmin'', VBool (pr_TenantAdmin p))]\<rparr>
      | Key \<Rightarrow> \<lparr>en_Parents = [], en_Attrs = [(''profile'', VStr [])]\<rparr>)"

definition base_entities :: "Principal \<Rightarrow> Access \<Rightarrow> euid \<Rightarrow> entity_map" where
  "base_entities p a tenant =
     (tenant, \<lparr>en_Parents = [], en_Attrs = []\<rparr>) # (principalUID p, caller_entity p a) #
     concat (map ladder (rev (ac_Teams a)))"

definition entities :: "(decimal \<Rightarrow> decimal) \<Rightarrow> Principal \<Rightarrow> Access \<Rightarrow> DisputeFacts option \<Rightarrow> euid \<Rightarrow> (entity_map \<times> euid) result" where
  "entities round4 p a d tenant =
     (let m = base_entities p a tenant in
      case d of
        None \<Rightarrow> Inr (m, tenant)
      | Some f \<Rightarrow>
          if df_ID f = uuid_Nil then Inr (m, uid ''Team'' (df_Team f))
          else case ParseDecimal (round4 (min (df_Amount f) cedarMax)) of
            None \<Rightarrow> Inl (Opaque ''decimal out of range'')
          | Some amount \<Rightarrow>
              let res = uid ''Dispute'' (df_ID f) in
              Inr ((res, \<lparr>en_Parents = [uid ''Team'' (df_Team f)],
                en_Attrs = [(''team'', VUid (uid ''Team'' (df_Team f))), (''amount'', VDec amount),
                  (''currency'', VStr (df_Currency f)), (''rail'', VStr (rail_str (df_Rail f))),
                  (''state'', VStr (state_str (df_State f))),
                  (''investigationOpenedBy'', VStr (df_InvestigationOpenedBy f))]\<rparr>) # m, res))"

text \<open>\<open>ps.Add\<close>: a policy of the same id is replaced.\<close>

definition add_policy :: "policy \<Rightarrow> policy list \<Rightarrow> policy list" where
  "add_policy p ps = filter (\<lambda>q. pol_Id q \<noteq> pol_Id p) ps @ [p]"

definition policy_set :: "(decimal \<Rightarrow> decimal) \<Rightarrow> Access \<Rightarrow> policy list" where
  "policy_set round4 a = fold add_policy (guardrails @ fst (Compile round4 a)) []"

text \<open>The engine's cache of compiled sets, by tenant, with the policy version they were compiled at.\<close>

type_synonym engine = "uuid \<Rightarrow> (int \<times> policy list) option"

definition engine_set :: "(decimal \<Rightarrow> decimal) \<Rightarrow> engine \<Rightarrow> uuid \<Rightarrow> Access \<Rightarrow> policy list \<times> engine" where
  "engine_set round4 e tenantID a =
     (case e tenantID of
        Some (version, cached) \<Rightarrow>
          if version = ac_Version a then (cached, e)
          else (policy_set round4 a, e(tenantID := Some (ac_Version a, policy_set round4 a)))
      | None \<Rightarrow> (policy_set round4 a, e(tenantID := Some (ac_Version a, policy_set round4 a))))"

definition decide_with :: "(policy list \<Rightarrow> entity_map \<Rightarrow> request \<Rightarrow> diagnostic) \<Rightarrow> (decimal \<Rightarrow> decimal) \<Rightarrow> policy list \<Rightarrow>
    uuid \<Rightarrow> Principal \<Rightarrow> Access \<Rightarrow> action \<Rightarrow> DisputeFacts option \<Rightarrow> Decision result" where
  "decide_with Authorize round4 ps tenantID p a action d =
     bindR (entities round4 p a d (uid ''Tenant'' tenantID)) (\<lambda>(ents, resource).
       let dg = Authorize ps ents \<lparr>rq_Principal = principalUID p, rq_Action = act action, rq_Resource = resource\<rparr>
       in if dg_Errors dg \<noteq> [] then Inl (Opaque ''authz: evaluation'')
          else Inr \<lparr>dec_Allowed = dg_Allow dg, dec_Policies = sort (dg_Reasons dg)\<rparr>)"

definition Decide :: "(policy list \<Rightarrow> entity_map \<Rightarrow> request \<Rightarrow> diagnostic) \<Rightarrow> (decimal \<Rightarrow> decimal) \<Rightarrow> engine \<Rightarrow>
    uuid \<Rightarrow> Principal \<Rightarrow> Access \<Rightarrow> action \<Rightarrow> DisputeFacts option \<Rightarrow> Decision result \<times> engine" where
  "Decide Authorize round4 e tenantID p a action d =
     (let (ps, e') = engine_set round4 e tenantID a
      in (decide_with Authorize round4 ps tenantID p a action d, e'))"

section \<open>A tenant to try it on\<close>

definition sample_access :: Access where
  "sample_access = \<lparr>ac_Version = 1, ac_DefaultTeam = ''cards'', ac_Teams = [''cards''],
     ac_Grants = [\<lparr>g_Team = ''cards'', g_Role = RoleSenior, g_Action = ''ISSUE_FINAL_CREDIT'', g_AmountLimit = Some 500\<rparr>],
     ac_Routing = [], ac_Members = [\<lparr>mb_Team = ''cards'', mb_Role = RoleLead\<rparr>]\<rparr>"

definition sample_analyst :: Principal where
  "sample_analyst = \<lparr>pr_Kind = Analyst, pr_ID = ''ann'', pr_Display = ''Ann'', pr_TenantAdmin = False\<rparr>"

definition sample_facts :: "string \<Rightarrow> DisputeFacts" where
  "sample_facts opener = \<lparr>df_ID = ''d'', df_Team = ''cards'', df_Amount = 100, df_Currency = ''USD'', df_Rail = RailCard,
     df_State = StateChargebackWon, df_InvestigationOpenedBy = opener\<rparr>"

section \<open>What the decision is meant to be\<close>

fun rung :: "role \<Rightarrow> nat" where
  "rung RoleJunior = 1"
| "rung RoleSenior = 2"
| "rung RoleLead = 3"
| "rung (RoleOther s) = 0"

text \<open>Access data as the schema constrains it: rows unique by team, role and action, slugs for
  teams, members on the ladder of a team of the tenant.\<close>

definition wf_access :: "Access \<Rightarrow> bool" where
  "wf_access a \<longleftrightarrow>
     distinct (map (\<lambda>g. (g_Team g, role_str (g_Role g), g_Action g)) (ac_Grants a)) \<and>
     list_all safeTeam (ac_Teams a) \<and>
     list_all (\<lambda>mem. mb_Role mem \<in> set Roles \<and> mb_Team mem \<in> set (ac_Teams a)) (ac_Members a)"

text \<open>A grant row that lets the caller act on a dispute: of the dispute's team and the action asked for, at a role
  the caller holds or exceeds in that team, within its limit.\<close>

definition grant_reaches :: "(decimal \<Rightarrow> decimal) \<Rightarrow> Access \<Rightarrow> action \<Rightarrow> DisputeFacts \<Rightarrow> Grant \<Rightarrow> bool" where
  "grant_reaches round4 a action f g \<longleftrightarrow> grant_ok g \<and> g_Action g = action \<and> g_Team g = df_Team f \<and>
     (\<exists>mem \<in> set (ac_Members a). mb_Team mem = df_Team f \<and> rung (g_Role g) \<le> rung (mb_Role mem)) \<and>
     (case g_AmountLimit g of None \<Rightarrow> True | Some l \<Rightarrow> round4 (min (df_Amount f) cedarMax) \<le> round4 l)"

definition is_lead_of :: "Access \<Rightarrow> string \<Rightarrow> bool" where
  "is_lead_of a team \<longleftrightarrow> (\<exists>mem \<in> set (ac_Members a). mb_Team mem = team \<and> mb_Role mem = RoleLead)"

definition analyst_may :: "(decimal \<Rightarrow> decimal) \<Rightarrow> Principal \<Rightarrow> Access \<Rightarrow> action \<Rightarrow> DisputeFacts \<Rightarrow> bool" where
  "analyst_may round4 p a action f \<longleftrightarrow> (\<exists>g \<in> set (ac_Grants a). grant_reaches round4 a action f g) \<and>
     (action = ''ISSUE_FINAL_CREDIT'' \<longrightarrow>
        df_InvestigationOpenedBy f \<noteq> pr_ID p \<and> df_InvestigationOpenedBy f \<noteq> ''?unrecorded'') \<and>
     (action = ''reassign'' \<longrightarrow> is_lead_of a (df_Team f))"

definition in_cedar_range :: "(decimal \<Rightarrow> decimal) \<Rightarrow> DisputeFacts \<Rightarrow> bool" where
  "in_cedar_range round4 f \<longleftrightarrow> ParseDecimal (round4 (min (df_Amount f) cedarMax)) \<noteq> None"

text \<open>A cache whose every entry is the set compiled from the tenant's access data at that version.\<close>

definition cache_ok :: "(decimal \<Rightarrow> decimal) \<Rightarrow> (uuid \<Rightarrow> int \<Rightarrow> Grant list) \<Rightarrow> engine \<Rightarrow> bool" where
  "cache_ok round4 grants_at e \<longleftrightarrow>
     (\<forall>t v ps. e t = Some (v, ps) \<longrightarrow> (\<forall>a. ac_Grants a = grants_at t v \<longrightarrow> ps = policy_set round4 a))"

text \<open>The entities of a request on a dispute.\<close>

definition dispute_entities :: "(decimal \<Rightarrow> decimal) \<Rightarrow> Principal \<Rightarrow> Access \<Rightarrow> DisputeFacts \<Rightarrow> euid \<Rightarrow> entity_map" where
  "dispute_entities round4 p a f tenant =
     (uid ''Dispute'' (df_ID f), \<lparr>en_Parents = [uid ''Team'' (df_Team f)],
        en_Attrs = [(''team'', VUid (uid ''Team'' (df_Team f))), (''amount'', VDec (round4 (min (df_Amount f) cedarMax))),
          (''currency'', VStr (df_Currency f)), (''rail'', VStr (rail_str (df_Rail f))),
          (''state'', VStr (state_str (df_State f))),
          (''investigationOpenedBy'', VStr (df_InvestigationOpenedBy f))]\<rparr>) # base_entities p a tenant"

section \<open>Lemmas on the entities\<close>

lemma uid_inject [simp]: "uid a b = uid c d \<longleftrightarrow> a = c \<and> b = d"
  by (simp add: uid_def)

lemma fst_uid [simp]: "fst (uid a b) = a"
  by (simp add: uid_def)

lemma safe_no_slash: "safeTeam t \<Longrightarrow> CHR ''/'' \<notin> set t"
  by (auto simp: safeTeam_def safe_char_def is_alnum_def is_alpha_def is_upper_def is_digit_def list_all_iff)

lemma safeAction_no_slash: "safeAction t \<Longrightarrow> CHR ''/'' \<notin> set t"
  by (auto simp: safeAction_def safe_char_def is_alnum_def is_alpha_def is_upper_def is_digit_def list_all_iff)

lemma role_no_slash: "r \<in> set Roles \<Longrightarrow> CHR ''/'' \<notin> set (role_str r)"
  by (auto simp: Roles_def)

lemma role_str_inj: "r \<in> set Roles \<Longrightarrow> r' \<in> set Roles \<Longrightarrow> role_str r = role_str r' \<Longrightarrow> r = r'"
  by (auto simp: Roles_def)

lemma teamRole_inj:
  assumes "safeTeam T" "r \<in> set Roles" "r' \<in> set Roles"
  shows "teamRole T r = teamRole t r' \<longleftrightarrow> T = t \<and> r = r'"
  using assms safe_no_slash role_no_slash role_str_inj
  by (auto simp: teamRole_def uid_def append_Cons_eq_iff)

lemma role_rung: "r \<in> set Roles \<longleftrightarrow> r \<in> {RoleJunior, RoleSenior, RoleLead}"
  by (auto simp: Roles_def)

definition rung_parents :: "string \<Rightarrow> role \<Rightarrow> euid list" where
  "rung_parents t r = (case r of RoleLead \<Rightarrow> [teamRole t RoleSenior] | RoleSenior \<Rightarrow> [teamRole t RoleJunior] | _ \<Rightarrow> [])"

lemma ladder_lookup:
  assumes "safeTeam t" "r \<in> set Roles"
  shows "map_of (ladder t' @ m) (teamRole t r) =
     (if t' = t then Some \<lparr>en_Parents = rung_parents t r, en_Attrs = []\<rparr> else map_of m (teamRole t r))"
proof -
  have team: "teamRole t r \<noteq> uid ''Team'' t'" by (simp add: teamRole_def uid_def)
  have eq: "teamRole t r = teamRole t' r' \<longleftrightarrow> t = t' \<and> r = r'" if "r' \<in> set Roles" for r'
    using teamRole_inj [OF assms that] .
  have "RoleJunior \<in> set Roles" "RoleSenior \<in> set Roles" "RoleLead \<in> set Roles" by (simp_all add: Roles_def)
  then show ?thesis
    using assms(2) team eq [of RoleJunior] eq [of RoleSenior] eq [of RoleLead]
    by (auto simp: ladder_def role_rung rung_parents_def)
qed

lemma ladders_lookup:
  "safeTeam t \<Longrightarrow> r \<in> set Roles \<Longrightarrow> t \<in> set ts \<Longrightarrow>
     map_of (concat (map ladder ts)) (teamRole t r) = Some \<lparr>en_Parents = rung_parents t r, en_Attrs = []\<rparr>"
  by (induction ts) (auto simp: ladder_lookup simp del: map_of_append)

lemma other_lookup:
  "typ \<noteq> ''Team'' \<Longrightarrow> typ \<noteq> ''TeamRole'' \<Longrightarrow> map_of (concat (map ladder ts)) (typ, i) = None"
  by (induction ts) (auto simp: ladder_def teamRole_def uid_def)

lemma team_lookup: "map_of (concat (map ladder ts)) (uid ''Team'' t) = Some e \<Longrightarrow> en_Parents e = []"
  by (induction ts) (auto simp: ladder_def teamRole_def uid_def split: if_splits)

lemma principal_type: "fst (principalUID p) = (if pr_Kind p = Key then ''TenantKey'' else ''Analyst'')"
  by (simp add: principalUID_def uid_def)

lemma dispute_lookup [simp]:
  "map_of (dispute_entities round4 p a f (uid ''Tenant'' i)) (teamRole t r) = map_of (concat (map ladder (rev (ac_Teams a)))) (teamRole t r)"
  "map_of (dispute_entities round4 p a f (uid ''Tenant'' i)) (principalUID p) = Some (caller_entity p a)"
  "map_of (dispute_entities round4 p a f (uid ''Tenant'' i)) (uid ''Team'' t) = map_of (concat (map ladder (rev (ac_Teams a)))) (uid ''Team'' t)"
  by (auto simp: dispute_entities_def base_entities_def teamRole_def principalUID_def uid_def)

lemma in_ladder:
  assumes wf: "wf_access a" and m_def: "m = dispute_entities round4 p a f (uid ''Tenant'' i)"
    and T: "safeTeam T" "r \<in> set Roles" and t: "t \<in> set (ac_Teams a)" "r1 \<in> set Roles"
  shows "in_fuel n m (teamRole t r1) (teamRole T r) \<Longrightarrow> t = T \<and> rung r \<le> rung r1"
    and "2 \<le> n \<Longrightarrow> t = T \<Longrightarrow> rung r \<le> rung r1 \<Longrightarrow> in_fuel n m (teamRole t r1) (teamRole T r)"
proof -
  have safe: "safeTeam t" using wf t by (auto simp: wf_access_def list_all_iff)
  have "t \<in> set (rev (ac_Teams a))" using t(1) by simp
  note look = ladders_lookup [OF safe _ this]
  have eq: "teamRole t r' = teamRole T r \<longleftrightarrow> t = T \<and> r = r'" if "r' \<in> set Roles" for r'
    using teamRole_inj [OF T that] by metis
  have R: "RoleJunior \<in> set Roles" "RoleSenior \<in> set Roles" "RoleLead \<in> set Roles" by (simp_all add: Roles_def)
  have junior: "in_fuel k m (teamRole t RoleJunior) (teamRole T r) \<longleftrightarrow> t = T \<and> r = RoleJunior" for k
    using eq [OF R(1)] look [OF R(1)] by (cases k) (simp_all add: m_def rung_parents_def)
  have senior: "in_fuel k m (teamRole t RoleSenior) (teamRole T r) \<longleftrightarrow>
      t = T \<and> (r = RoleSenior \<or> (0 < k \<and> r = RoleJunior))" for k
    using eq [OF R(2)] look [OF R(2)] junior by (cases k) (auto simp: m_def rung_parents_def)
  have lead: "in_fuel k m (teamRole t RoleLead) (teamRole T r) \<longleftrightarrow>
      t = T \<and> (r = RoleLead \<or> (0 < k \<and> r = RoleSenior) \<or> (1 < k \<and> r = RoleJunior))" for k
    using eq [OF R(3)] look [OF R(3)] senior by (cases k) (auto simp: m_def rung_parents_def)
  show "in_fuel n m (teamRole t r1) (teamRole T r) \<Longrightarrow> t = T \<and> rung r \<le> rung r1"
    using t(2) T(2) junior senior lead by (auto simp: role_rung)
  show "2 \<le> n \<Longrightarrow> t = T \<Longrightarrow> rung r \<le> rung r1 \<Longrightarrow> in_fuel n m (teamRole t r1) (teamRole T r)"
    using t(2) T(2) junior senior lead by (auto simp: role_rung)
qed

lemma member_in:
  assumes wf: "wf_access a" and m_def: "m = dispute_entities round4 p a f (uid ''Tenant'' i)"
    and T: "safeTeam T" "r \<in> set Roles" and "pr_Kind p = Analyst"
  shows "entity_in m (principalUID p) (teamRole T r) \<longleftrightarrow>
    (\<exists>mem \<in> set (ac_Members a). mb_Team mem = T \<and> rung r \<le> rung (mb_Role mem))"
proof -
  have mem: "mb_Role mem \<in> set Roles" "mb_Team mem \<in> set (ac_Teams a)" if "mem \<in> set (ac_Members a)" for mem
    using wf that by (auto simp: wf_access_def list_all_iff)
  have ne: "principalUID p \<noteq> teamRole T r" by (simp add: principalUID_def teamRole_def uid_def)
  have len: "3 + 4 * length (ac_Teams a) = length m"
    by (simp add: m_def dispute_entities_def base_entities_def length_concat comp_def ladder_def sum_list_triv)
  obtain n where n: "length m = Suc n" "2 \<le> n" using len by (cases "length m") auto
  have look: "map_of m (principalUID p) = Some (caller_entity p a)" by (simp add: m_def)
  have step: "entity_in m (principalUID p) (teamRole T r) \<longleftrightarrow>
      (\<exists>mem \<in> set (ac_Members a). in_fuel n m (teamRole (mb_Team mem) (mb_Role mem)) (teamRole T r))"
    using ne assms(5) by (simp add: entity_in_def n look caller_entity_def list_ex_iff)
  show ?thesis unfolding step
    using in_ladder [OF wf m_def T mem(2,1)] n(2) by blast
qed

lemma key_in:
  assumes m_def: "m = dispute_entities round4 p a f (uid ''Tenant'' i)" and "pr_Kind p = Key"
  shows "\<not> entity_in m (principalUID p) (teamRole T r)"
proof -
  have ne: "principalUID p \<noteq> teamRole T r" by (simp add: principalUID_def teamRole_def uid_def)
  then show ?thesis using assms(2)
    by (cases "length m") (simp_all add: entity_in_def m_def caller_entity_def)
qed

lemma dispute_in_team:
  assumes m_def: "m = dispute_entities round4 p a f (uid ''Tenant'' i)"
  shows "entity_in m (uid ''Dispute'' (df_ID f)) (uid ''Team'' T) \<longleftrightarrow> T = df_Team f"
proof -
  have team: "in_fuel n m (uid ''Team'' t) (uid ''Team'' T) \<longleftrightarrow> T = t" for n t
    by (cases n) (auto simp: m_def dest: team_lookup split: option.splits)
  obtain n where n: "length m = Suc n" by (cases "length m") (simp_all add: m_def dispute_entities_def)
  have "map_of m (uid ''Dispute'' (df_ID f)) \<noteq> None" "en_Parents (the (map_of m (uid ''Dispute'' (df_ID f)))) = [uid ''Team'' (df_Team f)]"
    by (simp_all add: m_def dispute_entities_def)
  then show ?thesis using team by (auto simp: entity_in_def n uid_def)
qed

section \<open>Lemmas on the policies\<close>

lemma fold_add_policy_distinct:
  "distinct (map pol_Id (acc @ ps)) \<Longrightarrow> fold add_policy ps acc = acc @ ps"
proof (induction ps arbitrary: acc)
  case (Cons q ps)
  have "filter (\<lambda>x. pol_Id x \<noteq> pol_Id q) acc = acc"
    using Cons.prems by (auto simp: filter_id_conv) (metis image_eqI)
  with Cons show ?case by (simp add: add_policy_def)
qed simp

lemma grant_id_inj:
  assumes "grant_ok g" "grant_ok h" "grant_id g = grant_id h"
  shows "(g_Team g, role_str (g_Role g), g_Action g) = (g_Team h, role_str (g_Role h), g_Action h)"
proof -
  have no: "CHR ''/'' \<notin> set (g_Team x)" "CHR ''/'' \<notin> set (role_str (g_Role x))" if "grant_ok x" for x
    using that safe_no_slash role_no_slash by (auto simp: grant_ok_def)
  have split: "takeWhile (\<lambda>c. c \<noteq> CHR ''/'') (u @ CHR ''/'' # v) = u \<and> dropWhile (\<lambda>c. c \<noteq> CHR ''/'') (u @ CHR ''/'' # v) = CHR ''/'' # v"
    if "CHR ''/'' \<notin> set u" for u v :: string
    using that by (induction u) auto
  have eq: "g_Team g @ CHR ''/'' # role_str (g_Role g) @ CHR ''/'' # g_Action g =
      g_Team h @ CHR ''/'' # role_str (g_Role h) @ CHR ''/'' # g_Action h"
    using assms(3) by (simp add: grant_id_def)
  from eq split [OF no(1) [OF assms(1)]] split [OF no(1) [OF assms(2)]]
  have "g_Team g = g_Team h" and rest: "role_str (g_Role g) @ CHR ''/'' # g_Action g = role_str (g_Role h) @ CHR ''/'' # g_Action h"
    by (metis, metis list.inject)
  from rest split [OF no(2) [OF assms(1)]] split [OF no(2) [OF assms(2)]]
  have "role_str (g_Role g) = role_str (g_Role h)" "g_Action g = g_Action h"
    by (metis, metis list.inject)
  with \<open>g_Team g = g_Team h\<close> show ?thesis by simp
qed

lemma distinct_policy_ids:
  assumes "wf_access a"
  shows "distinct (map pol_Id (guardrails @ fst (Compile round4 a)))"
proof -
  have "distinct (map (\<lambda>g. (g_Team g, role_str (g_Role g), g_Action g)) (filter grant_ok (ac_Grants a)))"
    using assms by (simp add: wf_access_def distinct_map_filter)
  then have "distinct (map grant_id (filter grant_ok (ac_Grants a)))"
    unfolding distinct_map using grant_id_inj by (auto simp: inj_on_def)
  then have "distinct (map pol_Id (fst (Compile round4 a)))"
    by (simp add: Compile_def grant_policy_def comp_def)
  moreover have "set (map pol_Id guardrails) \<inter> set (map pol_Id (fst (Compile round4 a))) = {}"
    by (auto simp: guardrails_def Compile_def grant_policy_def grant_id_def)
  moreover have "distinct (map pol_Id guardrails)" by (simp add: guardrails_def)
  ultimately show ?thesis by simp
qed

lemma set_policy_set:
  "wf_access a \<Longrightarrow> set (policy_set round4 a) = set guardrails \<union> grant_policy round4 ` {g \<in> set (ac_Grants a). grant_ok g}"
  using fold_add_policy_distinct [of "[]", simplified, OF distinct_policy_ids]
  unfolding policy_set_def by (auto simp: Compile_def)

lemma dispute_attrs [simp]:
  "attr_of (dispute_entities round4 p a f t) (uid ''Dispute'' (df_ID f)) ''investigationOpenedBy'' = Some (VStr (df_InvestigationOpenedBy f))"
  "attr_of (dispute_entities round4 p a f t) (uid ''Dispute'' (df_ID f)) ''team'' = Some (VUid (uid ''Team'' (df_Team f)))"
  "attr_of (dispute_entities round4 p a f t) (uid ''Dispute'' (df_ID f)) ''amount'' = Some (VDec (round4 (min (df_Amount f) cedarMax)))"
  by (simp_all add: attr_of_def dispute_entities_def)

lemma analyst_attrs [simp]:
  assumes "pr_Kind p = Analyst"
  shows "attr_of (dispute_entities round4 p a f (uid ''Tenant'' i)) (principalUID p) ''id'' = Some (VStr (pr_ID p))"
    and "attr_of (dispute_entities round4 p a f (uid ''Tenant'' i)) (principalUID p) ''leadOf'' =
      Some (VSet (map (\<lambda>mem. VUid (uid ''Team'' (mb_Team mem))) (filter (\<lambda>mem. mb_Role mem = RoleLead) (ac_Members a))))"
  using assms by (simp_all add: attr_of_def caller_entity_def)

text \<open>A request of \<open>p\<close> for an action on the dispute of \<open>f\<close>.\<close>

definition dispute_request :: "Principal \<Rightarrow> action \<Rightarrow> DisputeFacts \<Rightarrow> request" where
  "dispute_request p action f =
     \<lparr>rq_Principal = principalUID p, rq_Action = act action, rq_Resource = uid ''Dispute'' (df_ID f)\<rparr>"

lemmas policy_eval = policy_result_def in_scope_def who_matches_def action_matches_def dispute_request_def

lemma grant_policy_result:
  assumes "wf_access a" "m = dispute_entities round4 p a f (uid ''Tenant'' i)" "grant_ok g"
  shows "policy_result m (dispute_request p action f) (grant_policy round4 g) =
     (if pr_Kind p = Analyst \<and> grant_reaches round4 a action f g then Satisfied else Unsatisfied)"
proof -
  have safe: "safeTeam (g_Team g)" "g_Role g \<in> set Roles" using assms(3) by (auto simp: grant_ok_def)
  have who: "entity_in m (principalUID p) (teamRole (g_Team g) (g_Role g)) \<longleftrightarrow> pr_Kind p = Analyst \<and>
      (\<exists>mem \<in> set (ac_Members a). mb_Team mem = g_Team g \<and> rung (g_Role g) \<le> rung (mb_Role mem))"
    using member_in [OF assms(1,2) safe] key_in [OF assms(2)] by (cases "pr_Kind p") auto
  have amount: "attr_of m (uid ''Dispute'' (df_ID f)) ''amount'' = Some (VDec (round4 (min (df_Amount f) cedarMax)))"
    by (simp add: assms(2))
  show ?thesis
    using assms(3)
    by (auto simp: policy_eval grant_policy_def who dispute_in_team [OF assms(2)] amount grant_reaches_def act_def
        split: option.splits)
qed

lemma set_guardrails:
  "set guardrails = {guardrails ! 0, guardrails ! 1, guardrails ! 2, guardrails ! 3, guardrails ! 4, guardrails ! 5, guardrails ! 6}"
proof -
  have "guardrails = map ((!) guardrails) [0, 1, 2, 3, 4, 5, 6]"
    by (rule nth_equalityI) (auto simp: guardrails_def less_Suc_eq numeral_eq_Suc)
  then have "set guardrails = set (map ((!) guardrails) [0, 1, 2, 3, 4, 5, 6])" by metis
  then show ?thesis by simp
qed

lemma guardrail_effects:
  "pol_Effect (guardrails ! 0) = Forbid" "pol_Effect (guardrails ! 1) = Forbid" "pol_Effect (guardrails ! 2) = Forbid"
  "pol_Effect (guardrails ! 3) = Permit" "pol_Effect (guardrails ! 4) = Permit" "pol_Effect (guardrails ! 5) = Permit"
  "pol_Effect (guardrails ! 6) = Forbid"
  by (simp_all add: guardrails_def)

text \<open>What each guardrail says of an analyst's request on a dispute.\<close>

lemma analyst_guardrail_results:
  assumes "m = dispute_entities round4 p a f (uid ''Tenant'' i)" "pr_Kind p = Analyst"
  shows "policy_result m (dispute_request p action f) (guardrails ! 0) =
      (if action = ''ISSUE_FINAL_CREDIT'' \<and> df_InvestigationOpenedBy f = pr_ID p then Satisfied else Unsatisfied)"
    and "policy_result m (dispute_request p action f) (guardrails ! 1) =
      (if action = ''ISSUE_FINAL_CREDIT'' \<and> df_InvestigationOpenedBy f = ''?unrecorded'' then Satisfied else Unsatisfied)"
    and "policy_result m (dispute_request p action f) (guardrails ! 2) =
      (if action = ''reassign'' \<and> \<not> is_lead_of a (df_Team f) then Satisfied else Unsatisfied)"
    and "policy_result m (dispute_request p action f) (guardrails ! 3) = Unsatisfied"
    and "policy_result m (dispute_request p action f) (guardrails ! 4) = Unsatisfied"
    and "policy_result m (dispute_request p action f) (guardrails ! 5) = Unsatisfied"
    and "policy_result m (dispute_request p action f) (guardrails ! 6) = Unsatisfied"
proof -
  have lead: "VUid (uid ''Team'' (df_Team f)) \<in> (\<lambda>mem. VUid (uid ''Team'' (mb_Team mem))) ` {mem \<in> set (ac_Members a). mb_Role mem = RoleLead}
      \<longleftrightarrow> is_lead_of a (df_Team f)"
    unfolding is_lead_of_def image_def by auto
  note simps = assms(1) guardrails_def policy_eval principal_type act_def
  show "policy_result m (dispute_request p action f) (guardrails ! 0) =
      (if action = ''ISSUE_FINAL_CREDIT'' \<and> df_InvestigationOpenedBy f = pr_ID p then Satisfied else Unsatisfied)"
    "policy_result m (dispute_request p action f) (guardrails ! 1) =
      (if action = ''ISSUE_FINAL_CREDIT'' \<and> df_InvestigationOpenedBy f = ''?unrecorded'' then Satisfied else Unsatisfied)"
    using assms(2) by (simp_all add: simps)
  show "policy_result m (dispute_request p action f) (guardrails ! 2) =
      (if action = ''reassign'' \<and> \<not> is_lead_of a (df_Team f) then Satisfied else Unsatisfied)"
    using assms(2) lead by (simp add: simps)
  show "policy_result m (dispute_request p action f) (guardrails ! 3) = Unsatisfied"
    "policy_result m (dispute_request p action f) (guardrails ! 4) = Unsatisfied"
    "policy_result m (dispute_request p action f) (guardrails ! 5) = Unsatisfied"
    "policy_result m (dispute_request p action f) (guardrails ! 6) = Unsatisfied"
    using assms(2) by (simp_all add: simps)
qed

text \<open>What each guardrail says of a tenant key's request on a dispute.\<close>

lemma key_guardrail_results:
  assumes "m = dispute_entities round4 p a f (uid ''Tenant'' i)" "pr_Kind p = Key"
  shows "policy_result m (dispute_request p action f) (guardrails ! 0) = Unsatisfied"
    and "policy_result m (dispute_request p action f) (guardrails ! 1) = Unsatisfied"
    and "policy_result m (dispute_request p action f) (guardrails ! 2) = (if action = ''reassign'' then Satisfied else Unsatisfied)"
    and "policy_result m (dispute_request p action f) (guardrails ! 3) = Unsatisfied"
    and "policy_result m (dispute_request p action f) (guardrails ! 4) = Satisfied"
    and "policy_result m (dispute_request p action f) (guardrails ! 5) = Unsatisfied"
    and "policy_result m (dispute_request p action f) (guardrails ! 6) =
      (if action \<in> {''compose-email'', ''upload-attachment'', ''resend-notice'', ''reassign''} then Satisfied else Unsatisfied)"
  using assms(2) by (simp_all add: assms(1) guardrails_def policy_eval principal_type act_def)

section \<open>Lemmas on the decision\<close>

lemma entities_dispute:
  assumes "df_ID f \<noteq> uuid_Nil" "in_cedar_range round4 f"
  shows "entities round4 p a (Some f) t = Inr (dispute_entities round4 p a f t, uid ''Dispute'' (df_ID f))"
  using assms by (auto simp: entities_def dispute_entities_def in_cedar_range_def ParseDecimal_def Let_def split: if_splits)

lemma entities_dispute_InrD:
  "df_ID f \<noteq> uuid_Nil \<Longrightarrow> entities round4 p a (Some f) t = Inr x \<Longrightarrow> in_cedar_range round4 f"
  by (auto simp: entities_def in_cedar_range_def Let_def split: option.splits)

text \<open>A compiled grant never takes the id of a guardrail, so no grant can displace one.\<close>

lemma fold_add_policy_keeps:
  "q \<in> set acc \<Longrightarrow> pol_Id q \<notin> pol_Id ` set ps \<Longrightarrow> q \<in> set (fold add_policy ps acc)"
  by (induction ps arbitrary: acc) (auto simp: add_policy_def)

lemma guardrails_kept: "set guardrails \<subseteq> set (policy_set round4 a)"
proof
  fix q assume q: "q \<in> set guardrails"
  have "distinct (map pol_Id guardrails)" by (simp add: guardrails_def)
  then have "fold add_policy guardrails [] = guardrails"
    using fold_add_policy_distinct [of "[]" guardrails] by simp
  moreover have "pol_Id q \<notin> pol_Id ` set (fst (Compile round4 a))"
  proof -
    have "\<forall>i \<in> set (map pol_Id guardrails). take 6 i \<noteq> ''grant:''" by (simp add: guardrails_def)
    moreover have "\<forall>i \<in> pol_Id ` set (fst (Compile round4 a)). take 6 i = ''grant:''"
      by (auto simp: Compile_def grant_policy_def grant_id_def)
    ultimately show ?thesis using q by auto
  qed
  ultimately show "q \<in> set (policy_set round4 a)"
    using q fold_add_policy_keeps by (simp add: policy_set_def)
qed

lemma grant_policy_effect [simp]: "pol_Effect (grant_policy round4 g) = Permit"
  by (simp add: grant_policy_def)

context cedar_engine
begin

lemma dispute_decision:
  assumes "wf_access a" "df_ID f \<noteq> uuid_Nil" "in_cedar_range round4 f"
  shows "\<exists>pols. decide_with Authorize round4 (policy_set round4 a) t p a action (Some f) =
    Inr \<lparr>dec_Allowed = (if pr_Kind p = Analyst then analyst_may round4 p a action f
       else action \<notin> {''compose-email'', ''upload-attachment'', ''resend-notice'', ''reassign''}), dec_Policies = pols\<rparr>"
proof -
  define m where "m = dispute_entities round4 p a f (uid ''Tenant'' t)"
  define ps where "ps = policy_set round4 a"
  let ?r = "dispute_request p action f"
  note set_ps = set_policy_set [OF assms(1), of round4, folded ps_def]
  note grants = grant_policy_result [OF assms(1) m_def]
  note rails = set_guardrails guardrail_effects analyst_guardrail_results [OF m_def] key_guardrail_results [OF m_def]
  have "policy_result m ?r q \<noteq> Failed" if "q \<in> set ps" for q
    using that rails grants by (cases "pr_Kind p") (auto simp: set_ps split: if_splits)
  then have "pol_Id ` {q \<in> set ps. policy_result m ?r q = Failed} = {}" by blast
  then have "dg_Errors (Authorize ps m ?r) = []" using errors_law [of ps m ?r] by (metis set_empty)
  moreover
  have forbid: "satisfied_ids Forbid ps m ?r = {} \<longleftrightarrow>
      \<not> (\<exists>q \<in> set guardrails. pol_Effect q = Forbid \<and> policy_result m ?r q = Satisfied)"
  proof -
    have "pol_Effect q \<noteq> Forbid" if "q \<in> grant_policy round4 ` {g \<in> set (ac_Grants a). grant_ok g}" for q
      using that by auto
    then show ?thesis unfolding satisfied_ids_def set_ps by blast
  qed
  have "dg_Allow (Authorize ps m ?r) \<longleftrightarrow> (if pr_Kind p = Analyst then analyst_may round4 p a action f
       else action \<notin> {''compose-email'', ''upload-attachment'', ''resend-notice'', ''reassign''})"
  proof (cases "pr_Kind p")
    case Analyst
    have "satisfied_ids Permit ps m ?r \<noteq> {} \<longleftrightarrow>
        (\<exists>q \<in> set guardrails. pol_Effect q = Permit \<and> policy_result m ?r q = Satisfied) \<or>
        (\<exists>g \<in> set (ac_Grants a). grant_ok g \<and> policy_result m ?r (grant_policy round4 g) = Satisfied)"
      unfolding satisfied_ids_def set_ps using grant_policy_effect by blast
    also have "\<dots> \<longleftrightarrow> (\<exists>g \<in> set (ac_Grants a). grant_reaches round4 a action f g)"
    proof -
      have "grant_ok g \<and> policy_result m ?r (grant_policy round4 g) = Satisfied \<longleftrightarrow> grant_reaches round4 a action f g" for g
        using Analyst grants [of g action] by (cases "grant_ok g") (simp_all add: grant_reaches_def)
      moreover have "\<not> (\<exists>q \<in> set guardrails. pol_Effect q = Permit \<and> policy_result m ?r q = Satisfied)"
        using Analyst rails by simp
      ultimately show ?thesis by blast
    qed
    finally have "satisfied_ids Permit ps m ?r \<noteq> {} \<longleftrightarrow> (\<exists>g \<in> set (ac_Grants a). grant_reaches round4 a action f g)" .
    moreover have "satisfied_ids Forbid ps m ?r = {} \<longleftrightarrow>
        (action = ''ISSUE_FINAL_CREDIT'' \<longrightarrow> df_InvestigationOpenedBy f \<noteq> pr_ID p \<and> df_InvestigationOpenedBy f \<noteq> ''?unrecorded'') \<and>
        (action = ''reassign'' \<longrightarrow> is_lead_of a (df_Team f))"
      unfolding forbid using Analyst rails by simp
    ultimately show ?thesis using Analyst by (simp add: allow_law analyst_may_def)
  next
    case Key
    have "guardrails ! 4 \<in> set ps" unfolding set_ps set_guardrails by simp
    with key_guardrail_results(5) [OF m_def Key, of action] guardrail_effects(5)
    have "satisfied_ids Permit ps m ?r \<noteq> {}" unfolding satisfied_ids_def by blast
    moreover have "satisfied_ids Forbid ps m ?r = {} \<longleftrightarrow>
        action \<notin> {''compose-email'', ''upload-attachment'', ''resend-notice'', ''reassign''}"
      unfolding forbid using Key rails by simp
    ultimately show ?thesis using Key by (simp add: allow_law)
  qed
  ultimately show ?thesis
    using entities_dispute [OF assms(2,3), of p a "uid ''Tenant'' t"]
    by (simp add: decide_with_def m_def ps_def dispute_request_def Let_def)
qed

lemma separation_of_duties:
  assumes "pr_Kind p = Analyst" "df_ID f \<noteq> uuid_Nil" "df_InvestigationOpenedBy f = pr_ID p"
    "decide_with Authorize round4 (policy_set round4 a) t p a ''ISSUE_FINAL_CREDIT'' (Some f) = Inr d"
  shows "\<not> dec_Allowed d"
proof -
  define m where "m = dispute_entities round4 p a f (uid ''Tenant'' t)"
  from assms(2,4) have range: "in_cedar_range round4 f"
    by (auto simp: decide_with_def bindR_eq_Inr dest: entities_dispute_InrD)
  have "guardrails ! 0 \<in> set (policy_set round4 a)" using guardrails_kept set_guardrails by blast
  from forbid_overrides [OF this guardrail_effects(1), of m "dispute_request p ''ISSUE_FINAL_CREDIT'' f"]
  have "\<not> dg_Allow (Authorize (policy_set round4 a) m (dispute_request p ''ISSUE_FINAL_CREDIT'' f))"
    using analyst_guardrail_results(1) [OF m_def assms(1)] assms(3) by simp
  with assms(4) entities_dispute [OF assms(2) range, of p a "uid ''Tenant'' t"] show ?thesis
    by (auto simp: decide_with_def m_def dispute_request_def Let_def split: if_splits)
qed

end

text \<open>About the tenant itself the grants say nothing, and only a few guardrails do.\<close>

definition tenant_request :: "Principal \<Rightarrow> action \<Rightarrow> uuid \<Rightarrow> request" where
  "tenant_request p action t = \<lparr>rq_Principal = principalUID p, rq_Action = act action, rq_Resource = uid ''Tenant'' t\<rparr>"

definition administers :: "Principal \<Rightarrow> action \<Rightarrow> bool" where
  "administers p action \<longleftrightarrow> pr_Kind p = Analyst \<and> pr_TenantAdmin p \<and> action \<in> {''manage-keys'', ''manage-templates'', ''manage-branding''}"

lemma policy_set_sources: "set (policy_set round4 a) \<subseteq> set guardrails \<union> range (grant_policy round4)"
proof -
  have "set (fold add_policy qs ps) \<subseteq> set ps \<union> set qs" for qs ps :: "policy list"
    by (induction qs arbitrary: ps) (fastforce simp: add_policy_def)+
  from this [of "guardrails @ fst (Compile round4 a)" "[]"] show ?thesis
    unfolding policy_set_def by (auto simp: Compile_def)
qed

lemma tenant_guardrail_results:
  assumes "m = base_entities p a (uid ''Tenant'' t)"
  shows "policy_result m (tenant_request p action t) (guardrails ! 0) = Unsatisfied"
    and "policy_result m (tenant_request p action t) (guardrails ! 1) = Unsatisfied"
    and "policy_result m (tenant_request p action t) (guardrails ! 2) = Unsatisfied"
    and "policy_result m (tenant_request p action t) (guardrails ! 3) = (if administers p action then Satisfied else Unsatisfied)"
    and "policy_result m (tenant_request p action t) (guardrails ! 4) = Unsatisfied"
    and "policy_result m (tenant_request p action t) (guardrails ! 5) = Unsatisfied"
    and "policy_result m (tenant_request p action t) (guardrails ! 6) =
      (if pr_Kind p = Key \<and> action \<in> {''compose-email'', ''upload-attachment'', ''resend-notice'', ''reassign''} then Satisfied else Unsatisfied)"
proof -
  have admin: "attr_of m (principalUID p) ''tenantAdmin'' = Some (VBool (pr_TenantAdmin p))" if "pr_Kind p = Analyst"
    using that by (simp add: assms attr_of_def base_entities_def principalUID_def uid_def caller_entity_def)
  note simps = guardrails_def policy_eval tenant_request_def principalUID_def uid_def act_def
  show "policy_result m (tenant_request p action t) (guardrails ! 3) = (if administers p action then Satisfied else Unsatisfied)"
    using admin by (cases "pr_Kind p") (simp_all add: simps administers_def)
qed (simp_all add: guardrails_def policy_eval tenant_request_def principalUID_def uid_def act_def)

lemma tenant_grant_result: "policy_result (base_entities p a (uid ''Tenant'' t)) (tenant_request p action t) (grant_policy round4 g) = Unsatisfied"
  by (simp add: policy_eval grant_policy_def tenant_request_def entity_in_def base_entities_def uid_def)

context cedar_engine
begin

lemma administration_decision:
  "\<exists>pols. decide_with Authorize round4 (policy_set round4 a) t p a action None =
     Inr \<lparr>dec_Allowed = administers p action, dec_Policies = pols\<rparr>"
proof -
  define m where "m = base_entities p a (uid ''Tenant'' t)"
  define ps where "ps = policy_set round4 a"
  let ?r = "tenant_request p action t"
  note rails = tenant_guardrail_results [OF m_def, simplified] guardrail_effects [simplified]
  have sources: "q \<in> set guardrails \<or> policy_result m ?r q = Unsatisfied" if "q \<in> set ps" for q
    using that policy_set_sources [of round4 a] tenant_grant_result by (auto simp: ps_def m_def)
  have kept: "set guardrails \<subseteq> set ps" unfolding ps_def by (rule guardrails_kept)
  have sat: "satisfied_ids eff ps m ?r = pol_Id ` {q \<in> set guardrails. pol_Effect q = eff \<and> policy_result m ?r q = Satisfied}" for eff
    using sources kept unfolding satisfied_ids_def by (metis (no_types, lifting) policy_outcome.distinct(1) subsetD)
  have "policy_result m ?r q \<noteq> Failed" if "q \<in> set ps" for q
    using sources [OF that] by (auto simp: set_guardrails rails split: if_splits)
  then have "pol_Id ` {q \<in> set ps. policy_result m ?r q = Failed} = {}" by blast
  then have "dg_Errors (Authorize ps m ?r) = []" using errors_law [of ps m ?r] by (metis set_empty)
  moreover have "satisfied_ids Permit ps m ?r \<noteq> {} \<longleftrightarrow> administers p action"
    unfolding sat by (auto simp: set_guardrails rails split: if_splits intro!: exI [of _ "guardrails ! 3"])
  moreover have "satisfied_ids Forbid ps m ?r = {}" if "administers p action"
    unfolding sat using that by (auto simp: set_guardrails rails administers_def split: if_splits)
  ultimately have "dg_Allow (Authorize ps m ?r) = administers p action" by (auto simp: allow_law)
  with \<open>dg_Errors (Authorize ps m ?r) = []\<close> show ?thesis
    by (simp add: decide_with_def entities_def Let_def m_def ps_def tenant_request_def)
qed

end

text \<open>
  What the service relies on of its authorizer (\<open>application.Authorizer\<close>): whoever opened the investigation is
  not allowed its final credit.
\<close>

locale authorizer =
  fixes decide :: "uuid \<Rightarrow> Principal \<Rightarrow> Access \<Rightarrow> action \<Rightarrow> DisputeFacts option \<Rightarrow> Decision result"
  assumes sod_law: "pr_Kind p = Analyst \<Longrightarrow> df_ID f \<noteq> uuid_Nil \<Longrightarrow> df_InvestigationOpenedBy f = pr_ID p \<Longrightarrow>
      decide t p a ''ISSUE_FINAL_CREDIT'' (Some f) = Inr d \<Longrightarrow> \<not> dec_Allowed d"

text \<open>The engine of this package, without its cache, is one.\<close>

definition Engine :: "(decimal \<Rightarrow> decimal) \<Rightarrow> uuid \<Rightarrow> Principal \<Rightarrow> Access \<Rightarrow> action \<Rightarrow> DisputeFacts option \<Rightarrow> Decision result" where
  "Engine round4 t p a action d = decide_with Authorize_ref round4 (policy_set round4 a) t p a action d"

interpretation engine: authorizer "Engine round4"
  by unfold_locales (simp add: Engine_def cedar_ref.separation_of_duties)

text \<open>And only an administrator is allowed what concerns the tenant itself.\<close>

locale administrator = authorizer decide
  for decide :: "uuid \<Rightarrow> Principal \<Rightarrow> Access \<Rightarrow> action \<Rightarrow> DisputeFacts option \<Rightarrow> Decision result" +
  assumes admin_law: "decide t p a action None = Inr d \<Longrightarrow> dec_Allowed d \<Longrightarrow> administers p action"

interpretation admin_engine: administrator "Engine round4"
proof
  fix t p a action d
  show "Engine round4 t p a action None = Inr d \<Longrightarrow> dec_Allowed d \<Longrightarrow> administers p action"
    using cedar_ref.administration_decision [of round4 a t p action] by (auto simp: Engine_def)
qed

section \<open>Properties\<close>

text \<open>
  C28: who may act on a dispute, exactly. An analyst may when a grant row of the dispute's own team gives the action to
  a role they hold or exceed in that team, within the row's limit, and no guardrail forbids it: the final credit
  is refused to whoever opened the investigation (and to everyone when that is not recorded), a reassignment to
  whoever is not a lead of the team. A tenant key may do anything but what is kept for people. No grant can widen this.
\<close>

theorem decision_exact:
  assumes "cedar_engine Authorize" and "wf_access a" and "df_ID f \<noteq> uuid_Nil" and "in_cedar_range round4 f"
  shows "\<exists>pols. decide_with Authorize round4 (policy_set round4 a) t p a action (Some f) =
    Inr \<lparr>dec_Allowed = (if pr_Kind p = Analyst then analyst_may round4 p a action f
       else action \<notin> {''compose-email'', ''upload-attachment'', ''resend-notice'', ''reassign''}), dec_Policies = pols\<rparr>"
  using cedar_engine.dispute_decision [OF assms] .

theorem decision_exact_witness:
  "\<exists>pols. decide_with Authorize_ref id (policy_set id sample_access) ''t'' sample_analyst sample_access ''ISSUE_FINAL_CREDIT''
     (Some (sample_facts ''bob'')) = Inr \<lparr>dec_Allowed = True, dec_Policies = pols\<rparr>"
proof -
  have "wf_access sample_access" "df_ID (sample_facts ''bob'') \<noteq> uuid_Nil" "in_cedar_range id (sample_facts ''bob'')"
    "analyst_may id sample_analyst sample_access ''ISSUE_FINAL_CREDIT'' (sample_facts ''bob'')"
    by code_simp+
  from decision_exact [OF cedar_ref.cedar_engine_axioms this(1-3), of "''t''" sample_analyst "''ISSUE_FINAL_CREDIT''"] this(4)
  show ?thesis by (simp add: sample_analyst_def)
qed

text \<open>
  Separation of duties holds against every grant and routing a tenant may configure: the engine never allows the
  analyst who opened an investigation to issue its final credit.
\<close>

theorem final_credit_separated:
  assumes "cedar_engine Authorize" and "pr_Kind p = Analyst" and "df_ID f \<noteq> uuid_Nil"
    and "df_InvestigationOpenedBy f = pr_ID p"
    and "fst (Decide Authorize round4 Map.empty t p a ''ISSUE_FINAL_CREDIT'' (Some f)) = Inr d"
  shows "\<not> dec_Allowed d"
  using cedar_engine.separation_of_duties [OF assms(1-4)] assms(5) by (simp add: Decide_def engine_set_def)

theorem final_credit_separated_witness:
  "\<exists>d. fst (Decide Authorize_ref id Map.empty ''t'' sample_analyst sample_access ''ISSUE_FINAL_CREDIT'' (Some (sample_facts ''ann''))) = Inr d
     \<and> \<not> dec_Allowed d"
proof -
  have "isOk (fst (Decide Authorize_ref id Map.empty ''t'' sample_analyst sample_access ''ISSUE_FINAL_CREDIT'' (Some (sample_facts ''ann''))))"
    by code_simp
  then obtain d where d: "fst (Decide Authorize_ref id Map.empty ''t'' sample_analyst sample_access ''ISSUE_FINAL_CREDIT'' (Some (sample_facts ''ann''))) = Inr d"
    by (auto simp: isOk_iff)
  with final_credit_separated [OF cedar_ref.cedar_engine_axioms _ _ _ d] show ?thesis
    by (auto simp: sample_analyst_def sample_facts_def uuid_Nil_def)
qed

text \<open>
  C32: the engine's cache is invisible: as long as a tenant's grants change only with its policy version (the schema
  bumps it on every change), a decision on a warm cache is the decision on a cold one, and the cache stays sound.
\<close>

theorem cache_transparent:
  assumes "cache_ok round4 grants_at e" and "ac_Grants a = grants_at t (ac_Version a)"
  shows "fst (Decide Authorize round4 e t p a action d) = fst (Decide Authorize round4 Map.empty t p a action d) \<and>
    cache_ok round4 grants_at (snd (Decide Authorize round4 e t p a action d))"
proof -
  have same: "policy_set round4 b = policy_set round4 a" if "ac_Grants b = ac_Grants a" for b
    using that by (simp add: policy_set_def Compile_def)
  have "cache_ok round4 grants_at (e(t := Some (ac_Version a, policy_set round4 a)))"
    unfolding cache_ok_def
  proof (intro allI impI)
    fix u v ps and b :: Access
    assume "(e(t := Some (ac_Version a, policy_set round4 a))) u = Some (v, ps)" "ac_Grants b = grants_at u v"
    with assms same [of b] show "ps = policy_set round4 b"
      unfolding cache_ok_def by (cases "u = t") auto
  qed
  moreover have "ps = policy_set round4 a" if "e t = Some (ac_Version a, ps)" for ps
    using assms that by (auto simp: cache_ok_def)
  ultimately show ?thesis
    using assms(1) by (auto simp: Decide_def engine_set_def split: option.splits prod.splits)
qed

theorem cache_transparent_witness:
  "fst (Decide Authorize_ref id (Map.empty(''t'' \<mapsto> (1, policy_set id sample_access))) ''t'' sample_analyst sample_access ''CLOSE'' None) =
   fst (Decide Authorize_ref id Map.empty ''t'' sample_analyst sample_access ''CLOSE'' None)"
proof -
  have "cache_ok id (\<lambda>_ _. ac_Grants sample_access) (Map.empty(''t'' \<mapsto> (1, policy_set id sample_access)))"
    by (auto simp: cache_ok_def policy_set_def Compile_def split: if_splits)
  from cache_transparent [OF this] show ?thesis by simp
qed

end
