(* ===== verification/Payload.thy ===== *)
theory Payload
  imports Ports "HOL-Library.AList"
begin

text \<open>
  What the use cases read from and write to an event's JSON payload: \<open>eventFacts\<close> of
  \<^verbatim>\<open>application/service.go\<close>, \<open>withAuthorizedBy\<close> of \<^verbatim>\<open>application/authorize.go\<close> and \<open>openedPayload\<close> of
  \<^verbatim>\<open>application/suggestions.go\<close>, over \<open>encoding/json\<close>.

  A payload is a parsed JSON value; an absent one is \<open>None\<close>. \<open>num\<close> renders a number's text as \<open>json.Marshal\<close> does
  after it was read as a \<open>float64\<close>, \<open>None\<close> for one out of its range. Decoding into a struct follows
  \<open>json.Unmarshal\<close>: fields match by name up to case, the last of a repeated key wins, \<open>null\<close> leaves a field as it is
  (and empties a pointer or a map), and a value of another type is an error.
\<close>

section \<open>Values read as interfaces\<close>

type_synonym json_num = "string \<Rightarrow> string option"

text \<open>A \<open>map[string]any\<close> keeps the last of a repeated key, and is written with its keys sorted.\<close>

definition as_map :: "(string \<times> json) list \<Rightarrow> (string \<times> json) list" where
  "as_map kvs = sort_key fst (AList.clearjunk (rev kvs))"

fun as_any :: "json_num \<Rightarrow> json \<Rightarrow> json option"
  and as_any_list :: "json_num \<Rightarrow> json list \<Rightarrow> json list option"
  and as_any_obj :: "json_num \<Rightarrow> (string \<times> json) list \<Rightarrow> (string \<times> json) list option" where
  "as_any num JNull = Some JNull"
| "as_any num (JBool b) = Some (JBool b)"
| "as_any num (JNum n) = map_option JNum (num n)"
| "as_any num (JStr s) = Some (JStr s)"
| "as_any num (JArr xs) = map_option JArr (as_any_list num xs)"
| "as_any num (JObj kvs) = map_option (\<lambda>m. JObj (as_map m)) (as_any_obj num kvs)"
| "as_any_list num [] = Some []"
| "as_any_list num (x # xs) = Option.bind (as_any num x) (\<lambda>y. map_option (Cons y) (as_any_list num xs))"
| "as_any_obj num [] = Some []"
| "as_any_obj num ((k, v) # kvs) = Option.bind (as_any num v) (\<lambda>y. map_option (Cons (k, y)) (as_any_obj num kvs))"

text \<open>
  \<open>null\<close> decodes into a nil map, and writing to that panics; the panic is an unclassified error here.
\<close>

definition withAuthorizedBy :: "json_num \<Rightarrow> json \<Rightarrow> string list \<Rightarrow> json result" where
  "withAuthorizedBy num payload policies =
     (case payload of
        JObj kvs \<Rightarrow>
          (case as_any_obj num kvs of
             None \<Rightarrow> Inl (Opaque ''json: number out of range'')
           | Some m \<Rightarrow> Inr (JObj (as_map (as_map m @ [(''authorizedBy'', JArr (map JStr policies))]))))
      | JNull \<Rightarrow> Inl (Opaque ''panic: assignment to entry in nil map'')
      | _ \<Rightarrow> Inl (Opaque ''json: cannot unmarshal into Go value of type map[string]interface {}''))"

section \<open>Values read as a struct\<close>

text \<open>
  The case folding of field names: ASCII letters, and the two other characters that fold to one (the long s and the
  Kelvin sign).
\<close>

fun fold_name :: "string \<Rightarrow> string" where
  "fold_name [] = []"
| "fold_name (c # cs) =
     (if starts_with (map char_of [197, 191 :: nat]) (c # cs) then CHR ''s'' # fold_name (drop 1 cs)
      else if starts_with (map char_of [226, 132, 170 :: nat]) (c # cs) then CHR ''k'' # fold_name (drop 2 cs)
      else to_lower [c] @ fold_name cs)"

definition field_is :: "string \<Rightarrow> string \<Rightarrow> bool" where
  "field_is name key \<longleftrightarrow> key = name \<or> fold_name key = fold_name name"

record eventFacts =
  ef_Liability :: "string option"
  ef_Settlement :: string
  ef_Answers :: "answers option"
  ef_RiskOverride :: string

definition no_facts :: eventFacts where
  "no_facts = \<lparr>ef_Liability = None, ef_Settlement = [], ef_Answers = None, ef_RiskOverride = []\<rparr>"

fun decode_string :: "string \<Rightarrow> json \<Rightarrow> string option" where
  "decode_string old JNull = Some old"
| "decode_string old (JStr s) = Some s"
| "decode_string old _ = None"

fun decode_pointer :: "json \<Rightarrow> string option option" where
  "decode_pointer JNull = Some None"
| "decode_pointer (JStr s) = Some (Some s)"
| "decode_pointer _ = None"

fun decode_entries :: "answers \<Rightarrow> (string \<times> json) list \<Rightarrow> answers option" where
  "decode_entries m [] = Some m"
| "decode_entries m ((k, v) # kvs) =
     Option.bind (decode_string [] v) (\<lambda>s. decode_entries (AList.update k s m) kvs)"

definition decode_answers :: "answers option \<Rightarrow> json \<Rightarrow> answers option option" where
  "decode_answers old v =
     (case v of
        JNull \<Rightarrow> Some None
      | JObj kvs \<Rightarrow> map_option Some (decode_entries (case old of Some m \<Rightarrow> m | None \<Rightarrow> []) kvs)
      | _ \<Rightarrow> None)"

text \<open>
  The suggestions are read by the acceptance counter only; what matters of them here is whether they decode: a map
  of objects whose \<open>value\<close> is a string and whose \<open>probability\<close> is a number in range, or \<open>null\<close> in any of these places.
\<close>

definition proposal_decodes :: "json_num \<Rightarrow> json \<Rightarrow> bool" where
  "proposal_decodes num v =
     (case v of
        JNull \<Rightarrow> True
      | JObj kvs \<Rightarrow> (\<forall>(k, x) \<in> set kvs.
          if field_is ''value'' k then (case x of JNull \<Rightarrow> True | JStr _ \<Rightarrow> True | _ \<Rightarrow> False)
          else if field_is ''probability'' k then (case x of JNull \<Rightarrow> True | JNum n \<Rightarrow> num n \<noteq> None | _ \<Rightarrow> False)
          else True)
      | _ \<Rightarrow> False)"

definition suggestions_decode :: "json_num \<Rightarrow> json \<Rightarrow> bool" where
  "suggestions_decode num v =
     (case v of JNull \<Rightarrow> True | JObj kvs \<Rightarrow> (\<forall>(k, x) \<in> set kvs. proposal_decodes num x) | _ \<Rightarrow> False)"

definition decode_field :: "json_num \<Rightarrow> string \<Rightarrow> json \<Rightarrow> eventFacts \<Rightarrow> eventFacts option" where
  "decode_field num k v f =
     (if field_is ''liability'' k then map_option (\<lambda>x. f\<lparr>ef_Liability := x\<rparr>) (decode_pointer v)
      else if field_is ''settlement'' k then map_option (\<lambda>x. f\<lparr>ef_Settlement := x\<rparr>) (decode_string (ef_Settlement f) v)
      else if field_is ''answers'' k then map_option (\<lambda>x. f\<lparr>ef_Answers := x\<rparr>) (decode_answers (ef_Answers f) v)
      else if field_is ''riskOverride'' k then map_option (\<lambda>x. f\<lparr>ef_RiskOverride := x\<rparr>) (decode_string (ef_RiskOverride f) v)
      else if field_is ''suggestions'' k then (if suggestions_decode num v then Some f else None)
      else Some f)"

fun decode_fields :: "json_num \<Rightarrow> (string \<times> json) list \<Rightarrow> eventFacts \<Rightarrow> eventFacts option" where
  "decode_fields num [] f = Some f"
| "decode_fields num ((k, v) # kvs) f = Option.bind (decode_field num k v f) (decode_fields num kvs)"

definition decode_facts :: "json_num \<Rightarrow> json \<Rightarrow> eventFacts option" where
  "decode_facts num payload =
     (case payload of
        JNull \<Rightarrow> Some no_facts
      | JObj kvs \<Rightarrow> decode_fields num kvs no_facts
      | _ \<Rightarrow> None)"

text \<open>The refusal of a payload that does not decode; \<open>text\<close> is the message of the \<open>json\<close> package.\<close>

definition malformed_payload :: "string \<Rightarrow> error" where
  "malformed_payload text = Classified (WithFields
     (New Invalid ''malformed-request'' ''the event payload is not an object'')
     [\<lparr>fe_Field = ''body.payload'', fe_Message = text\<rparr>])"

section \<open>The payload of an opened dispute\<close>

text \<open>A probability is the text \<open>json.Marshal\<close> writes for it.\<close>

record ReasonProposal =
  rp_Reason :: reason
  rp_Probability :: string
  rp_Confident :: bool

definition openedPayload :: "ReasonProposal option \<Rightarrow> reason \<Rightarrow> json" where
  "openedPayload proposal chosen =
     (case proposal of
        None \<Rightarrow> JObj []
      | Some p \<Rightarrow>
          if \<not> rp_Confident p then JObj []
          else JObj [(''suggestion'', JObj [(''accepted'', JBool (rp_Reason p = chosen)), (''field'', JStr ''reason''),
            (''probability'', JNum (rp_Probability p)), (''proposed'', JStr (reason_str (rp_Reason p)))])])"

section \<open>Lemmas\<close>

lemma decode_entries_distinct: "decode_entries m kvs = Some m' \<Longrightarrow> distinct (map fst m) \<Longrightarrow> distinct (map fst m')"
  by (induction kvs arbitrary: m)
     (auto simp: bind_eq_Some_conv distinct_update)

definition answers_distinct :: "eventFacts \<Rightarrow> bool" where
  "answers_distinct f \<longleftrightarrow> (case ef_Answers f of Some m \<Rightarrow> distinct (map fst m) | None \<Rightarrow> True)"

lemma decode_field_distinct: "decode_field num k v f = Some f' \<Longrightarrow> answers_distinct f \<Longrightarrow> answers_distinct f'"
  by (auto simp: decode_field_def answers_distinct_def decode_answers_def decode_entries_distinct
      split: if_splits json.splits option.splits)

text \<open>The answers of a decoded payload are a map: no question twice.\<close>

lemma decode_facts_distinct:
  assumes "decode_facts num payload = Some f"
  shows "answers_distinct f"
proof -
  have "decode_fields num kvs g = Some f \<Longrightarrow> answers_distinct g \<Longrightarrow> answers_distinct f" for kvs g
    by (induction kvs arbitrary: g) (auto simp: bind_eq_Some_conv, metis decode_field_distinct)
  moreover have "answers_distinct no_facts" by (simp add: answers_distinct_def no_facts_def)
  ultimately show ?thesis using assms by (auto simp: decode_facts_def split: json.splits)
qed

end
