(* ===== verification/Service.thy ===== *)
theory Service
  imports Store Banking_Core Authz Payload
begin

text \<open>
  \<^verbatim>\<open>backend/internal/dispute/application/service.go\<close>, \<^verbatim>\<open>authorize.go\<close> and \<open>Reassign\<close> of \<^verbatim>\<open>routing.go\<close>: the use cases.

  An operation takes what it finds of the world (\<open>Env\<close>), the request's context and its input, and is a \<open>tx\<close> on the
  \<open>World\<close>: the store, and beside it the banking core, which a rollback of the store does not reach. Metrics, spans
  and the nudge of the dispatcher after a commit are not part of the state.
\<close>

section \<open>The world of a request\<close>

record 'c World = MemStore +
  w_Core :: 'c

text \<open>
  The clock when the operation reads it and when the view is built, the next id, the wall clock of the store, the
  location times are formatted in, the decimal package, the digest, the authorizer, the core, and \<open>encoding/json\<close>'s
  numbers and error texts.
\<close>

record 'c Env =
  sv_now :: time
  sv_view_now :: time
  sv_NewV7 :: "uuid result"
  sv_wall :: time
  sv_loc :: location
  sv_StringFixed :: string_fixed
  sv_NewFromString :: new_from_string
  sv_sha256 :: "string \<Rightarrow> string"
  sv_authz :: "uuid \<Rightarrow> Principal \<Rightarrow> Access \<Rightarrow> action \<Rightarrow> DisputeFacts option \<Rightarrow> Decision result"
  sv_core :: "'c adapter"
  sv_num :: json_num
  sv_json_error :: "json \<Rightarrow> string"

type_synonym ('c, 'a) svc = "('c World, error, 'a) tx"

definition ctx_tenant :: "Ctx \<Rightarrow> uuid" where
  "ctx_tenant ctx = (case tenant_IDFrom ctx of Some t \<Rightarrow> t | None \<Rightarrow> uuid_Nil)"

text \<open>\<open>AddDate(years, 0, 0)\<close>.\<close>

definition AddYears :: "location \<Rightarrow> int \<Rightarrow> time \<Rightarrow> time" where
  "AddYears loc years t =
     (let (y, m, d) = civil_of_day (local_day loc t)
      in Date (y + years) m d (local_seconds loc t mod day_seconds) (t mod second) loc)"

section \<open>Authorization\<close>

definition authorize :: "'c Env \<Rightarrow> Ctx \<Rightarrow> MemTx \<Rightarrow> action \<Rightarrow> DisputeFacts option \<Rightarrow> ('c, Decision) svc" where
  "authorize env ctx t action d =
     (case principal_From ctx of
        None \<Rightarrow> tx_fail (Classified ErrForbidden)
      | Some p \<Rightarrow> tx_bind (Tx_Access t (Some p)) (\<lambda>a.
          case sv_authz env (ctx_tenant ctx) p a action d of
            Inl _ \<Rightarrow> tx_fail (Classified ErrForbidden)
          | Inr dec \<Rightarrow> if \<not> dec_Allowed dec then tx_fail (Wrap (Classified ErrForbidden)) else tx_return dec))"

definition permitted :: "'c Env \<Rightarrow> Ctx \<Rightarrow> MemTx \<Rightarrow> event list \<Rightarrow> DisputeFacts \<Rightarrow> ('c, event list) svc" where
  "permitted env ctx t events f =
     (case principal_From ctx of
        None \<Rightarrow> tx_return []
      | Some p \<Rightarrow> tx_bind (Tx_Access t (Some p)) (\<lambda>a. tx_return (filter (\<lambda>e.
          case sv_authz env (ctx_tenant ctx) p a (EventAction e) (Some f) of Inr dec \<Rightarrow> dec_Allowed dec | Inl _ \<Rightarrow> False)
          events)))"

definition UnrecordedInvestigator :: string where
  "UnrecordedInvestigator = ''?unrecorded''"

fun opener_from :: "string \<Rightarrow> EventRecord list \<Rightarrow> string" where
  "opener_from opener [] = opener"
| "opener_from opener (e # es) =
     (if ev_Event e = EventOpenInvestigation
      then opener_from (if ev_ActorID e = [] then UnrecordedInvestigator else ev_ActorID e) es
      else opener_from opener es)"

definition dispute_facts :: "MemTx \<Rightarrow> DisputeRecord \<Rightarrow> ('c, DisputeFacts) svc" where
  "dispute_facts t rec =
     tx_bind (Tx_ListEvents (dr_ID rec)) (\<lambda>events.
     tx_bind (Tx_GetTransaction t (dr_TransactionID rec)) (\<lambda>txn.
     tx_return \<lparr>df_ID = dr_ID rec, df_Team = dr_Team rec, df_Amount = dr_DisputedAmount rec, df_Currency = dr_Currency rec,
       df_Rail = tr_Rail txn, df_State = dr_State rec, df_InvestigationOpenedBy = opener_from [] events\<rparr>))"

definition authorizeDispute :: "'c Env \<Rightarrow> Ctx \<Rightarrow> MemTx \<Rightarrow> action \<Rightarrow> uuid \<Rightarrow> ('c, unit) svc" where
  "authorizeDispute env ctx t action disputeID =
     tx_bind (Tx_GetDispute t disputeID) (\<lambda>rec.
     tx_bind (dispute_facts t rec) (\<lambda>f.
     tx_bind (authorize env ctx t action (Some f)) (\<lambda>_. tx_return ())))"

definition Authorize :: "'c Env \<Rightarrow> Ctx \<Rightarrow> action \<Rightarrow> ('c, unit) svc" where
  "Authorize env ctx action = WithTx (sv_wall env) ctx (\<lambda>t. tx_bind (authorize env ctx t action None) (\<lambda>_. tx_return ()))"

definition actorOf :: "Ctx \<Rightarrow> string \<times> string" where
  "actorOf ctx = (case principal_From ctx of Some p \<Rightarrow> (pr_Display p, pr_ID p) | None \<Rightarrow> ([], []))"

section \<open>Views\<close>

definition deadlineView :: "Deadline \<Rightarrow> time \<Rightarrow> DeadlineView" where
  "deadlineView d now = \<lparr>dv_Kind = dl_Kind d, dv_Cycle = dl_Cycle d, dv_StartedAt = dl_StartedAt d, dv_DueAt = dl_DueAt d,
     dv_MetAt = dl_MetAt d, dv_Status = Status d now, dv_Basis = dl_Basis d\<rparr>"

definition no_balances :: Balances where
  "no_balances = \<lparr>bl_Customer = 0, bl_Suspense = 0, bl_Recovery = 0, bl_Loss = 0\<rparr>"

definition Balances_add :: "account \<Rightarrow> decimal \<Rightarrow> Balances \<Rightarrow> Balances" where
  "Balances_add a debit b =
     (case a of
        AccountCustomer \<Rightarrow> b\<lparr>bl_Customer := bl_Customer b - debit\<rparr>
      | AccountSuspense \<Rightarrow> b\<lparr>bl_Suspense := bl_Suspense b + debit\<rparr>
      | AccountRecovery \<Rightarrow> b\<lparr>bl_Recovery := bl_Recovery b + debit\<rparr>
      | AccountLoss \<Rightarrow> b\<lparr>bl_Loss := bl_Loss b + debit\<rparr>)"

definition Balances_post :: "Balances \<Rightarrow> Posting \<Rightarrow> Balances" where
  "Balances_post b p = Balances_add (pst_Credit p) (- pst_Amount p) (Balances_add (pst_Debit p) (pst_Amount p) b)"

definition postingsOf :: "LedgerEntry list \<Rightarrow> Posting list" where
  "postingsOf entries = map le_Posting entries"

definition eventView :: "EventRecord \<Rightarrow> EventView" where
  "eventView e = \<lparr>evv_Seq = ev_Seq e, evv_Event = ev_Event e, evv_FromState = ev_FromState e, evv_ToState = ev_ToState e,
     evv_Actor = ev_Actor e, evv_Payload = ev_Payload e, evv_TraceID = ev_TraceID e, evv_OccurredAt = ev_OccurredAt e\<rparr>"

text \<open>\<open>Latency.Milliseconds()\<close>, truncated toward zero.\<close>

definition milliseconds :: "int \<Rightarrow> int" where
  "milliseconds d = (if 0 \<le> d then d div 1000000 else - ((- d) div 1000000))"

definition ledgerView :: "LedgerEntry \<Rightarrow> LedgerView" where
  "ledgerView e = (let p = le_Posting e in
     \<lparr>lv_Seq = le_Seq e, lv_Kind = pst_Kind p, lv_Debit = pst_Debit p, lv_Credit = pst_Credit p, lv_Amount = pst_Amount p,
      lv_Currency = pst_Currency p, lv_Reference = le_Reference e, lv_PostedAt = le_PostedAt e,
      lv_Core = map_option (\<lambda>r. \<lparr>crv_RRN = cr_RRN r, crv_ResponseCode = cr_ResponseCode r,
        crv_LatencyMs = milliseconds (cr_Latency r)\<rparr>) (le_Core e)\<rparr>)"

definition attachmentView :: "Attachment \<Rightarrow> AttachmentView" where
  "attachmentView a = \<lparr>av_ID = at_ID a, av_Filename = at_Filename a, av_ContentType = at_ContentType a, av_Size = at_Size a\<rparr>"

definition byNotice :: "Attachment list \<Rightarrow> int \<Rightarrow> AttachmentView list" where
  "byNotice files n = map attachmentView (filter (\<lambda>f. at_NoticeID f = Some n) files)"

definition noticeView :: "Attachment list \<Rightarrow> NoticeRecord \<Rightarrow> NoticeView" where
  "noticeView files n = \<lparr>nv_ID = nt_ID n, nv_Seq = nt_Seq n, nv_Kind = nt_Kind n, nv_Channel = nt_Channel n,
     nv_Recipient = nt_Recipient n, nv_Subject = nt_Subject n, nv_CreatedAt = nt_CreatedAt n, nv_SentAt = nt_SentAt n,
     nv_Error = nt_LastError n, nv_Actor = nt_Actor n, nv_ResendOf = nt_ResendOf n,
     nv_Attachments = byNotice files (case nt_ResendOf n of Some r \<Rightarrow> r | None \<Rightarrow> nt_ID n)\<rparr>"

definition riskView :: "RiskRecord list \<Rightarrow> RiskView option" where
  "riskView risk =
     (if risk = [] then None
      else let latest = last risk; a = rk_Assessment latest in
        Some \<lparr>rv_Score = as_Score a, rv_Tier = as_Tier a, rv_Signals = as_Signals a, rv_AssessedAt = rk_AssessedAt latest,
          rv_History = map (\<lambda>r. \<lparr>rh_Seq = rk_Seq r, rh_Score = as_Score (rk_Assessment r), rh_Tier = as_Tier (rk_Assessment r),
            rh_AssessedAt = rk_AssessedAt r\<rparr>) (butlast risk)\<rparr>)"

definition questionnaireView :: "Questionnaire \<Rightarrow> QuestionnaireView" where
  "questionnaireView q = \<lparr>qv_Reason = qn_Reason q, qv_Questions = qn_Questions q, qv_Answers = qn_Answers q,
     qv_Inconsistencies = Inconsistencies (qn_Reason q) (qn_Answers q), qv_SentAt = qn_SentAt q, qv_ReceivedAt = qn_ReceivedAt q\<rparr>"

text \<open>A missing row is an absence here; any other error ends the operation.\<close>

definition tx_optional :: "('s, error, 'a) tx \<Rightarrow> ('s, error, 'a option) tx" where
  "tx_optional m = tx_try m (\<lambda>x. tx_return (Some x))
     (\<lambda>e. if errors_Is e ErrNotFound then tx_return None else tx_fail e)"

definition viewWith :: "'c Env \<Rightarrow> Ctx \<Rightarrow> MemTx \<Rightarrow> DisputeRecord \<Rightarrow> DisputeFacts option \<Rightarrow> ('c, DisputeView) svc" where
  "viewWith env ctx t rec f =
     tx_bind (Tx_ListEvents (dr_ID rec)) (\<lambda>events.
     tx_bind (case f of Some x \<Rightarrow> tx_return x | None \<Rightarrow> dispute_facts t rec) (\<lambda>f.
     tx_bind (permitted env ctx t (Allowed (Lifecycle_of rec)) f) (\<lambda>allowed.
     tx_bind (Tx_ListDeadlines t (dr_ID rec)) (\<lambda>deadlines.
     tx_bind (Tx_ListLedger t (dr_ID rec)) (\<lambda>ledger.
     tx_bind (Tx_ListNotices t (dr_ID rec)) (\<lambda>notices.
     tx_bind (Tx_ListAttachmentMeta (dr_ID rec) (map nt_ID notices)) (\<lambda>files.
     tx_bind (Tx_ListRisk t (dr_ID rec)) (\<lambda>risk.
     tx_bind (tx_optional (Tx_GetQuestionnaire t (dr_ID rec))) (\<lambda>q.
     tx_return
       \<lparr>vw_ID = dr_ID rec, vw_Regime = dr_Regime rec, vw_Reason = dr_Reason rec, vw_State = dr_State rec,
        vw_Appeals = dr_Appeals rec, vw_Version = dr_Version rec, vw_TransactionID = dr_TransactionID rec,
        vw_AccountID = dr_AccountID rec, vw_DisputedAmount = dr_DisputedAmount rec, vw_Currency = dr_Currency rec,
        vw_OpenedAt = dr_OpenedAt rec, vw_UpdatedAt = dr_UpdatedAt rec, vw_AllowedEvents = allowed,
        vw_Events = map eventView events, vw_Deadlines = map (\<lambda>d. deadlineView d (sv_view_now env)) deadlines,
        vw_Ledger = map ledgerView ledger, vw_Balances = foldl Balances_post no_balances (postingsOf ledger),
        vw_Questionnaire = map_option questionnaireView q, vw_Notices = map (noticeView files) notices,
        vw_Risk = riskView risk\<rparr>)))))))))"

definition view :: "'c Env \<Rightarrow> Ctx \<Rightarrow> MemTx \<Rightarrow> DisputeRecord \<Rightarrow> ('c, DisputeView) svc" where
  "view env ctx t rec = viewWith env ctx t rec None"

section \<open>Notices\<close>

record noticeFacts =
  nf_Facts :: Facts
  nf_Email :: string
  nf_PostalAddress :: string

definition open_resolution :: "Deadline list \<Rightarrow> time option" where
  "open_resolution ds = foldl (\<lambda>due d. if dl_Kind d = DeadlineResolution \<and> dl_Open d then Some (dl_DueAt d) else due) None ds"

definition reversal_amount :: "Posting list \<Rightarrow> decimal" where
  "reversal_amount ps = foldl (\<lambda>a p. if pst_Kind p = PostingProvisionalCreditReversal then pst_Amount p else a) 0 ps"

definition notice_outcome :: "Posting list \<Rightarrow> outcome" where
  "notice_outcome ps =
     (let bal = foldl Balances_post no_balances ps in
      if 0 < reversal_amount ps then OutcomeReversed
      else if 0 < bl_Customer bal \<and> 0 < bl_Recovery bal then OutcomeRecovered
      else if 0 < bl_Customer bal then OutcomeCredited
      else OutcomeDenied)"

definition facts :: "MemTx \<Rightarrow> DisputeRecord \<Rightarrow> time \<Rightarrow> ('c, noticeFacts) svc" where
  "facts t rec now =
     tx_bind (Tx_TenantName t) (\<lambda>bank.
     tx_bind (Tx_GetAccount (dr_AccountID rec)) (\<lambda>account.
     tx_bind (Tx_GetTransaction t (dr_TransactionID rec)) (\<lambda>txn.
     tx_bind (Tx_ListDeadlines t (dr_ID rec)) (\<lambda>deadlines.
     tx_bind (Tx_ListLedger t (dr_ID rec)) (\<lambda>ledger.
     tx_bind (tx_optional (Tx_GetQuestionnaire t (dr_ID rec))) (\<lambda>q.
     tx_return
       \<lparr>nf_Facts =
          \<lparr>f_Bank = bank, f_Customer = ar_Holder account, f_DisputeID = dr_ID rec, f_Reason = dr_Reason rec,
           f_Regime = dr_Regime rec, f_Merchant = tr_Merchant txn, f_Amount = dr_DisputedAmount rec,
           f_Currency = dr_Currency rec, f_Credited = bl_Customer (foldl Balances_post no_balances (postingsOf ledger)),
           f_OccurredAt = tr_OccurredAt txn, f_OpenedAt = dr_OpenedAt rec, f_Now = now,
           f_ResolutionDue = open_resolution deadlines,
           f_Questions = (case q of Some x \<Rightarrow> qn_Questions x | None \<Rightarrow> []),
           f_Outcome = notice_outcome (postingsOf ledger), f_ReversalAmount = reversal_amount (postingsOf ledger)\<rparr>,
        nf_Email = ar_Email account, nf_PostalAddress = ar_PostalAddress account\<rparr>))))))"

definition new_notice :: "uuid \<Rightarrow> int \<Rightarrow> notice_kind \<Rightarrow> channel \<Rightarrow> string \<Rightarrow> Document \<Rightarrow> time \<Rightarrow> NoticeRecord" where
  "new_notice did sq kind ch recipient doc now =
     \<lparr>nt_ID = 0, nt_TenantID = uuid_Nil, nt_DisputeID = did, nt_Seq = sq, nt_Kind = kind, nt_Channel = ch,
      nt_Recipient = recipient, nt_Subject = doc_Subject doc, nt_Document = doc, nt_CreatedAt = now, nt_SentAt = None,
      nt_Attempts = 0, nt_LastError = None, nt_Actor = [], nt_ResendOf = None, nt_TraceContext = []\<rparr>"

text \<open>A letter exists the moment it is composed; a channel without an address is passed over.\<close>

definition notify_channel :: "MemTx \<Rightarrow> DisputeRecord \<Rightarrow> int \<Rightarrow> time \<Rightarrow> noticeFacts \<Rightarrow> notice_kind \<Rightarrow> Document \<Rightarrow> channel \<Rightarrow> ('c, unit) svc" where
  "notify_channel t rec sq now f kind doc ch =
     (let n = (case ch of
          ChannelEmail \<Rightarrow> new_notice (dr_ID rec) sq kind ch (nf_Email f) doc now
        | ChannelLetter \<Rightarrow> (new_notice (dr_ID rec) sq kind ch (nf_PostalAddress f) doc now)\<lparr>nt_SentAt := Some now\<rparr>)
      in if nt_Recipient n = [] then tx_return () else tx_bind (Tx_InsertNotice t n) (\<lambda>_. tx_return ()))"

definition notify_kind :: "'c Env \<Rightarrow> MemTx \<Rightarrow> Rules \<Rightarrow> DisputeRecord \<Rightarrow> int \<Rightarrow> time \<Rightarrow> noticeFacts \<Rightarrow> notice_kind \<Rightarrow> ('c, unit) svc" where
  "notify_kind env t r rec sq now f kind =
     (let doc = Compose (sv_StringFixed env) (sv_loc env) kind (nf_Facts f) in
      tx_then (tx_foreach (notify_channel t rec sq now f kind doc) (ChannelsFor r kind))
        (if kind = NoticeAcknowledgement then Tx_SettleDeadline t (dr_ID rec) DeadlineAcknowledge 0 True now
         else tx_return ()))"

definition notify :: "'c Env \<Rightarrow> MemTx \<Rightarrow> DisputeRecord \<Rightarrow> state \<Rightarrow> int \<Rightarrow> time \<Rightarrow> ('c, unit) svc" where
  "notify env t rec entered sq now =
     tx_bind (tx_lift (RulesFor (dr_Regime rec))) (\<lambda>r.
       if NoticesFor r entered = [] then tx_return ()
       else tx_bind (facts t rec now) (\<lambda>f.
         tx_foreach (notify_kind env t r rec sq now f) (NoticesFor r entered)))"

section \<open>Clocks, risk and the questionnaire\<close>

text \<open>A clock computation that does not return ends the request without an answer.\<close>

definition clocks :: "Deadline list option \<Rightarrow> Deadline list result" where
  "clocks ds = (case ds of Some x \<Rightarrow> Inr x | None \<Rightarrow> Inl (Opaque ''no answer''))"

definition settle_clock :: "MemTx \<Rightarrow> uuid \<Rightarrow> state \<Rightarrow> time \<Rightarrow> Deadline \<Rightarrow> ('c, unit) svc" where
  "settle_clock t did entered now d =
     (if \<not> dl_Open d then tx_return ()
      else case Settle (dl_Kind d) entered of
        Met \<Rightarrow> Tx_SettleDeadline t did (dl_Kind d) (dl_Cycle d) True now
      | Void \<Rightarrow> Tx_SettleDeadline t did (dl_Kind d) (dl_Cycle d) False now
      | Untouched \<Rightarrow> tx_return ())"

definition settleDeadlines :: "MemTx \<Rightarrow> DisputeRecord \<Rightarrow> Dispute \<Rightarrow> time \<Rightarrow> ('c, unit) svc" where
  "settleDeadlines t rec nxt now =
     tx_bind (Tx_ListDeadlines t (dr_ID rec)) (\<lambda>open.
     tx_then (tx_foreach (settle_clock t (dr_ID rec) (d_State nxt) now) open)
       (if dr_Appeals rec < d_Appeals nxt then
          tx_bind (tx_lift (RulesFor (dr_Regime rec))) (\<lambda>rules.
          tx_bind (Tx_TenantCalendar t) (\<lambda>cal.
          tx_bind (tx_lift (clocks (AppealDeadlines rules (d_Appeals nxt) now cal))) (\<lambda>ds.
            Tx_InsertDeadlines t (dr_ID rec) ds)))
        else tx_return ()))"

definition assess :: "'c Env \<Rightarrow> MemTx \<Rightarrow> DisputeRecord \<Rightarrow> TransactionRecord \<Rightarrow> int \<Rightarrow> time \<Rightarrow> ('c, unit) svc" where
  "assess env t rec txn sq now =
     tx_bind (Tx_AccountHistory t (dr_AccountID rec) (dr_ID rec) (AddYears (sv_loc env) (-1) now)) (\<lambda>(disputes, lost).
     tx_bind (tx_optional (Tx_GetQuestionnaire t (dr_ID rec))) (\<lambda>q.
       let received = (case q of Some x \<Rightarrow> qn_ReceivedAt x \<noteq> None | None \<Rightarrow> False);
           inp = \<lparr>ri_DisputesLast12Months = disputes, ri_LostChargebacks = lost,
             ri_TransactionAgeDays = DaysBetween (tr_OccurredAt txn) (dr_OpenedAt rec),
             ri_HighRiskMerchant = HighRiskMCC (tr_MCC txn) \<noteq> None, ri_Amount = dr_DisputedAmount rec,
             ri_AccountAgeDays = DaysBetween (tr_AccountOpenedAt txn) (dr_OpenedAt rec),
             ri_Inconsistencies = (case q of Some x \<Rightarrow> if received then int (length (Inconsistencies (qn_Reason x) (qn_Answers x))) else 0
               | None \<Rightarrow> 0),
             ri_QuestionnaireKnown = received\<rparr>
       in Tx_InsertRisk t (dr_ID rec) \<lparr>rk_Seq = sq, rk_Assessment = Assess inp, rk_AssessedAt = now\<rparr>))"

definition holdCheck :: "'c Env \<Rightarrow> MemTx \<Rightarrow> DisputeRecord \<Rightarrow> json option \<Rightarrow> ('c, unit) svc" where
  "holdCheck env t rec payload =
     tx_bind (Tx_ListRisk t (dr_ID rec)) (\<lambda>history.
       if history = [] then tx_return ()
       else case (case payload of None \<Rightarrow> Some no_facts | Some j \<Rightarrow> decode_facts (sv_num env) j) of
         None \<Rightarrow> tx_fail (malformed_payload (case payload of Some j \<Rightarrow> sv_json_error env j | None \<Rightarrow> []))
       | Some f \<Rightarrow> tx_lift (CreditAllowed (Some (rk_Assessment (last history))) (trim_space (ef_RiskOverride f))))"

definition decode_payload :: "'c Env \<Rightarrow> json \<Rightarrow> eventFacts result" where
  "decode_payload env payload =
     (case decode_facts (sv_num env) payload of
        None \<Rightarrow> Inl (malformed_payload (sv_json_error env payload))
      | Some f \<Rightarrow> Inr f)"

definition questionnaire :: "'c Env \<Rightarrow> MemTx \<Rightarrow> DisputeRecord \<Rightarrow> event \<Rightarrow> json \<Rightarrow> time \<Rightarrow> ('c, unit) svc" where
  "questionnaire env t rec event payload now =
     (case event of
        EventSendQuestionnaire \<Rightarrow> Tx_SendQuestionnaire t (dr_ID rec)
          \<lparr>qn_Reason = dr_Reason rec, qn_Questions = QuestionSet (dr_Reason rec), qn_Answers = [], qn_SentAt = now,
           qn_ReceivedAt = None\<rparr>
      | EventReceiveQuestionnaire \<Rightarrow>
          tx_bind (tx_lift (decode_payload env payload)) (\<lambda>f.
          tx_bind (Tx_GetQuestionnaire t (dr_ID rec)) (\<lambda>q.
          let answers = (case ef_Answers f of Some m \<Rightarrow> m | None \<Rightarrow> []) in
          tx_then (tx_lift (ValidateAnswers (sv_NewFromString env) (qn_Questions q) answers))
            (Tx_AnswerQuestionnaire t (dr_ID rec) answers now)))
      | _ \<Rightarrow> tx_return ())"

section \<open>Postings\<close>

text \<open>What runs on the core alone.\<close>

definition on_core :: "('c, error, 'a) tx \<Rightarrow> ('c, 'a) svc" where
  "on_core m = (\<lambda>w. case m (w_Core w) of (r, c) \<Rightarrow> (r, w\<lparr>w_Core := c\<rparr>))"

definition instructCore :: "'c Env \<Rightarrow> MemTx \<Rightarrow> DisputeRecord \<Rightarrow> LedgerEntry \<Rightarrow> ('c, CoreReceipt) svc" where
  "instructCore env t rec e =
     tx_bind (Tx_TenantCore t) (\<lambda>cfg.
     let ins = \<lparr>ci_Reference = le_Reference e, ci_DisputeID = dr_ID rec, ci_AccountID = dr_AccountID rec,
           ci_TransactionID = dr_TransactionID rec, ci_Kind = pst_Kind (le_Posting e),
           ci_CreditAccount = (pst_Credit (le_Posting e) = AccountCustomer), ci_Amount = pst_Amount (le_Posting e),
           ci_Currency = pst_Currency (le_Posting e), ci_RequestedAt = le_PostedAt e\<rparr>
     in tx_try (on_core (sv_core env cfg ins))
          (\<lambda>receipt. if \<not> cr_Approved receipt
             then tx_fail (Classified (WithDetail ErrCoreDeclined (cr_ResponseText receipt @ '' ('' @ cr_ResponseCode receipt @ '')'')))
             else tx_return receipt)
          (\<lambda>_. tx_fail (Wrap (Classified ErrUnavailable))))"

definition reference_of :: "uuid \<Rightarrow> int \<Rightarrow> posting_kind \<Rightarrow> string" where
  "reference_of did sq kind = ''dispute:'' @ did @ '':'' @ show_int sq @ '':'' @ posting_kind_str kind"

definition moves_customer :: "Posting \<Rightarrow> bool" where
  "moves_customer p \<longleftrightarrow> pst_Debit p = AccountCustomer \<or> pst_Credit p = AccountCustomer"

definition post_entry :: "'c Env \<Rightarrow> MemTx \<Rightarrow> DisputeRecord \<Rightarrow> int \<Rightarrow> time \<Rightarrow> Posting \<Rightarrow> ('c, LedgerEntry) svc" where
  "post_entry env t rec sq now p =
     (let entry = \<lparr>le_Seq = sq, le_Posting = p, le_Reference = reference_of (dr_ID rec) sq (pst_Kind p), le_PostedAt = now,
            le_Core = None\<rparr>
      in if moves_customer p
         then tx_bind (instructCore env t rec entry) (\<lambda>receipt. tx_return (entry\<lparr>le_Core := Some receipt\<rparr>))
         else tx_return entry)"

fun post_entries :: "'c Env \<Rightarrow> MemTx \<Rightarrow> DisputeRecord \<Rightarrow> int \<Rightarrow> time \<Rightarrow> Posting list \<Rightarrow> ('c, LedgerEntry list) svc" where
  "post_entries env t rec sq now [] = tx_return []"
| "post_entries env t rec sq now (p # ps) =
     tx_bind (post_entry env t rec sq now p) (\<lambda>e.
     tx_bind (post_entries env t rec sq now ps) (\<lambda>es. tx_return (e # es)))"

definition parse_liability :: "'c Env \<Rightarrow> Rules \<Rightarrow> decimal \<Rightarrow> string option \<Rightarrow> decimal result" where
  "parse_liability env r disputed raw =
     (case raw of
        None \<Rightarrow> Inr 0
      | Some s \<Rightarrow>
          (case sv_NewFromString env s of
             None \<Rightarrow> Inl (refuse_liability
               (''must be a decimal string such as '' @ [char_of (34 :: nat)] @ ''50.00'' @ [char_of (34 :: nat)]))
           | Some l \<Rightarrow> bindR (CreditAmount (sv_StringFixed env) r disputed l) (\<lambda>_. Inr l)))"

definition post_movements :: "'c Env \<Rightarrow> MemTx \<Rightarrow> DisputeRecord \<Rightarrow> int \<Rightarrow> time \<Rightarrow> Posting list \<Rightarrow> ('c, unit) svc" where
  "post_movements env t rec sq now movements =
     (if movements = [] then tx_return ()
      else tx_bind (post_entries env t rec sq now movements) (Tx_AppendLedger t (dr_ID rec)))"

definition post :: "'c Env \<Rightarrow> MemTx \<Rightarrow> DisputeRecord \<Rightarrow> Dispute \<Rightarrow> int \<Rightarrow> json \<Rightarrow> time \<Rightarrow> ('c, unit) svc" where
  "post env t rec nxt sq payload now =
     tx_bind (tx_lift (RulesFor (dr_Regime rec))) (\<lambda>rules.
     tx_bind (tx_lift (decode_payload env payload)) (\<lambda>f.
     tx_bind (tx_lift (parse_liability env rules (dr_DisputedAmount rec) (ef_Liability f))) (\<lambda>liability.
     tx_bind (tx_lift (ParseSettlement rules (ef_Settlement f))) (\<lambda>settlement.
     tx_bind (Tx_ListLedger t (dr_ID rec)) (\<lambda>have.
     post_movements env t rec sq now (Postings rules
       \<lparr>pin_Entered = d_State nxt, pin_Disputed = dr_DisputedAmount rec, pin_Currency = dr_Currency rec,
        pin_Liability = liability, pin_Outstanding = SuspenseBalance (postingsOf have), pin_Settlement = settlement\<rparr>))))))"

section \<open>Idempotency\<close>

record Idempotency =
  id_Key :: string
  id_RequestBody :: string

record Result =
  rs_View :: DisputeView
  rs_Replayed :: bool

definition keyPtr :: "Idempotency \<Rightarrow> string option" where
  "keyPtr i = (if id_Key i = [] then None else Some (id_Key i))"

fun principal_kind_str :: "principal_kind \<Rightarrow> string" where
  "principal_kind_str Analyst = ''analyst''"
| "principal_kind_str Key = ''key''"

definition store_scope :: "Ctx \<Rightarrow> string \<Rightarrow> string" where
  "store_scope ctx scope =
     (case principal_From ctx of
        Some p \<Rightarrow> scope @ ''@'' @ principal_kind_str (pr_Kind p) @ '':'' @ pr_ID p
      | None \<Rightarrow> scope)"

text \<open>A new request is run and its response stored under the key.\<close>

definition run_and_store :: "'c Env \<Rightarrow> MemTx \<Rightarrow> string \<Rightarrow> Idempotency \<Rightarrow> ('c, DisputeView) svc \<Rightarrow> ('c, Result) svc" where
  "run_and_store env t storeScope idem fn =
     tx_bind fn (\<lambda>v.
     tx_then (if id_Key idem \<noteq> []
        then Tx_PutIdempotent t storeScope (id_Key idem) \<lparr>sr_RequestHash = sv_sha256 env (id_RequestBody idem),
          sr_StatusCode = 0, sr_Body = v, sr_CreatedAt = zero_time\<rparr>
        else tx_return ())
       (tx_return \<lparr>rs_View = v, rs_Replayed = False\<rparr>))"

definition idempotent :: "'c Env \<Rightarrow> Ctx \<Rightarrow> string \<Rightarrow> Idempotency \<Rightarrow> (MemTx \<Rightarrow> ('c, DisputeView) svc) \<Rightarrow> ('c, Result) svc" where
  "idempotent env ctx scope idem fn =
     (let storeScope = store_scope ctx scope in
      WithTx (sv_wall env) ctx (\<lambda>t.
        if id_Key idem = [] then run_and_store env t storeScope idem (fn t)
        else tx_bind (tx_optional (Tx_GetIdempotent t storeScope (id_Key idem))) (\<lambda>stored.
          case stored of
            Some r \<Rightarrow>
              if sr_RequestHash r \<noteq> sv_sha256 env (id_RequestBody idem) then tx_fail (Classified ErrIdempotencyReuse)
              else tx_return \<lparr>rs_View = sr_Body r, rs_Replayed = True\<rparr>
          | None \<Rightarrow>
              if storeScope \<noteq> scope
              then tx_bind (tx_optional (Tx_GetIdempotent t scope (id_Key idem))) (\<lambda>legacy.
                case legacy of
                  Some _ \<Rightarrow> tx_fail (Classified ErrIdempotencyReuse)
                | None \<Rightarrow> run_and_store env t storeScope idem (fn t))
              else run_and_store env t storeScope idem (fn t))))"

section \<open>The operations\<close>

record CreateDisputeInput =
  cd_TransactionID :: uuid
  cd_Reason :: string
  cd_Idempotency :: Idempotency
  cd_Suggestion :: "ReasonProposal option"

record ApplyEventInput =
  ae_DisputeID :: uuid
  ae_Event :: event
  ae_Payload :: "json option"
  ae_Idempotency :: Idempotency

definition EventOpened :: event where
  "EventOpened = EventOther ''OPENED''"

definition new_dispute :: "uuid \<Rightarrow> string \<Rightarrow> regime \<Rightarrow> reason \<Rightarrow> TransactionRecord \<Rightarrow> time \<Rightarrow> DisputeRecord" where
  "new_dispute did team regime reason txn now =
     \<lparr>dr_ID = did, dr_TenantID = uuid_Nil, dr_Team = team, dr_Regime = regime, dr_State = StateInitiated,
      dr_Appeals = 0, dr_Version = 1, dr_TransactionID = tr_ID txn, dr_AccountID = tr_AccountID txn,
      dr_DisputedAmount = tr_Amount txn, dr_Currency = tr_Currency txn, dr_OpenedAt = now, dr_UpdatedAt = now,
      dr_Reason = reason\<rparr>"

definition opened_event :: "'c Env \<Rightarrow> Ctx \<Rightarrow> CreateDisputeInput \<Rightarrow> reason \<Rightarrow> EventRecord" where
  "opened_event env ctx inp reason =
     \<lparr>ev_Seq = 1, ev_Event = EventOpened, ev_FromState = StateOther [], ev_ToState = StateInitiated,
      ev_Actor = fst (actorOf ctx), ev_ActorID = snd (actorOf ctx), ev_Payload = openedPayload (cd_Suggestion inp) reason,
      ev_IdempotencyKey = keyPtr (cd_Idempotency inp), ev_TraceID = cx_TraceID ctx, ev_OccurredAt = sv_now env\<rparr>"

text \<open>The body of \<open>CreateDispute\<close>: the record and its first event, then what opening starts, then the view.\<close>

definition open_record :: "'c Env \<Rightarrow> Ctx \<Rightarrow> CreateDisputeInput \<Rightarrow> MemTx \<Rightarrow> ('c, DisputeRecord \<times> TransactionRecord) svc" where
  "open_record env ctx inp t =
     tx_bind (Tx_GetTransaction t (cd_TransactionID inp)) (\<lambda>txn.
     tx_bind (tx_lift (RegimeFor (tr_Rail txn) (tr_AccountCurrency txn))) (\<lambda>regime.
     tx_bind (tx_lift (ParseReason (cd_Reason inp))) (\<lambda>reason.
     tx_bind (tx_lift (sv_NewV7 env)) (\<lambda>did.
     case principal_From ctx of
       None \<Rightarrow> tx_fail (Classified ErrForbidden)
     | Some p \<Rightarrow>
       tx_bind (Tx_Access t (Some p)) (\<lambda>access.
       let team = Route access (tr_Rail txn) reason [] (tr_Amount txn);
           rec = new_dispute did team regime reason txn (sv_now env)
       in tx_bind (authorize env ctx t ActionCreate (Some \<lparr>df_ID = uuid_Nil, df_Team = team, df_Amount = 0, df_Currency = [],
            df_Rail = RailOther [], df_State = StateOther [], df_InvestigationOpenedBy = []\<rparr>)) (\<lambda>_.
          tx_then (Tx_InsertDispute t rec)
          (tx_then (Tx_AppendEvent did (opened_event env ctx inp reason))
          (tx_return (rec, txn)))))))))"

definition open_effects :: "'c Env \<Rightarrow> MemTx \<Rightarrow> DisputeRecord \<Rightarrow> TransactionRecord \<Rightarrow> ('c, unit) svc" where
  "open_effects env t rec txn =
     tx_bind (tx_lift (RulesFor (dr_Regime rec))) (\<lambda>rules.
     tx_bind (Tx_TenantCalendar t) (\<lambda>cal.
     tx_bind (tx_lift (clocks (OpeningDeadlines rules (sv_now env) cal))) (\<lambda>ds.
     tx_then (Tx_InsertDeadlines t (dr_ID rec) ds)
     (tx_then (notify env t rec StateInitiated 1 (sv_now env))
     (assess env t rec txn 1 (sv_now env))))))"

definition create_dispute :: "'c Env \<Rightarrow> Ctx \<Rightarrow> CreateDisputeInput \<Rightarrow> MemTx \<Rightarrow> ('c, DisputeView) svc" where
  "create_dispute env ctx inp t =
     tx_bind (open_record env ctx inp t) (\<lambda>(rec, txn).
     tx_then (open_effects env t rec txn) (view env ctx t rec))"

definition CreateDispute :: "'c Env \<Rightarrow> Ctx \<Rightarrow> CreateDisputeInput \<Rightarrow> ('c, Result) svc" where
  "CreateDispute env ctx inp = idempotent env ctx ''dispute.create'' (cd_Idempotency inp) (create_dispute env ctx inp)"

text \<open>
  The body of \<open>ApplyEvent\<close>: what is decided before anything is written, the new state and its event, what the
  event causes, then the view.
\<close>

definition decide_event :: "'c Env \<Rightarrow> Ctx \<Rightarrow> ApplyEventInput \<Rightarrow> MemTx \<Rightarrow> ('c, DisputeRecord \<times> DisputeFacts \<times> Decision \<times> Dispute) svc" where
  "decide_event env ctx inp t =
     tx_bind (Tx_GetDispute t (ae_DisputeID inp)) (\<lambda>rec.
     tx_bind (dispute_facts t rec) (\<lambda>f.
     tx_bind (authorize env ctx t (EventAction (ae_Event inp)) (Some f)) (\<lambda>dec.
     tx_bind (tx_lift (Apply (Lifecycle_of rec) (ae_Event inp))) (\<lambda>nxt.
     tx_then (if ae_Event inp = EventIssueRefund then holdCheck env t rec (ae_Payload inp) else tx_return ())
       (tx_return (rec, f, dec, nxt))))))"

definition applied_event :: "'c Env \<Rightarrow> Ctx \<Rightarrow> ApplyEventInput \<Rightarrow> DisputeRecord \<Rightarrow> Dispute \<Rightarrow> json \<Rightarrow> EventRecord" where
  "applied_event env ctx inp rec nxt payload =
     \<lparr>ev_Seq = dr_Version rec + 1, ev_Event = ae_Event inp, ev_FromState = dr_State rec, ev_ToState = d_State nxt,
      ev_Actor = fst (actorOf ctx), ev_ActorID = snd (actorOf ctx), ev_Payload = payload,
      ev_IdempotencyKey = keyPtr (ae_Idempotency inp), ev_TraceID = cx_TraceID ctx, ev_OccurredAt = sv_now env\<rparr>"

definition record_event :: "'c Env \<Rightarrow> Ctx \<Rightarrow> ApplyEventInput \<Rightarrow> MemTx \<Rightarrow> DisputeRecord \<Rightarrow> Decision \<Rightarrow> Dispute \<Rightarrow> ('c, json) svc" where
  "record_event env ctx inp t rec dec nxt =
     tx_then (Tx_UpdateDisputeState t (dr_ID rec) (dr_Version rec) (d_State nxt) (d_Appeals nxt) (sv_now env))
     (tx_bind (tx_lift (withAuthorizedBy (sv_num env) (case ae_Payload inp of None \<Rightarrow> JObj [] | Some j \<Rightarrow> j) (dec_Policies dec)))
       (\<lambda>payload. tx_then (Tx_AppendEvent (dr_ID rec) (applied_event env ctx inp rec nxt payload)) (tx_return payload)))"

definition event_effects :: "'c Env \<Rightarrow> MemTx \<Rightarrow> DisputeRecord \<Rightarrow> Dispute \<Rightarrow> event \<Rightarrow> json \<Rightarrow> ('c, unit) svc" where
  "event_effects env t rec nxt event payload =
     (let now = sv_now env; sq = dr_Version rec + 1 in
      tx_then (questionnaire env t rec event payload now)
      (tx_then (settleDeadlines t rec nxt now)
      (tx_then (post env t rec nxt sq payload now)
      (tx_then (notify env t rec (d_State nxt) sq now)
      (if event = EventReceiveQuestionnaire
       then tx_bind (Tx_GetTransaction t (dr_TransactionID rec)) (\<lambda>txn. assess env t rec txn sq now)
       else tx_return ())))))"

definition advanced :: "DisputeRecord \<Rightarrow> Dispute \<Rightarrow> time \<Rightarrow> DisputeRecord" where
  "advanced rec nxt now =
     rec\<lparr>dr_State := d_State nxt, dr_Appeals := d_Appeals nxt, dr_Version := dr_Version rec + 1, dr_UpdatedAt := now\<rparr>"

definition apply_event :: "'c Env \<Rightarrow> Ctx \<Rightarrow> ApplyEventInput \<Rightarrow> MemTx \<Rightarrow> ('c, DisputeView) svc" where
  "apply_event env ctx inp t =
     tx_bind (decide_event env ctx inp t) (\<lambda>(rec, f, dec, nxt).
     tx_bind (record_event env ctx inp t rec dec nxt) (\<lambda>payload.
     tx_then (event_effects env t rec nxt (ae_Event inp) payload)
     (viewWith env ctx t (advanced rec nxt (sv_now env))
       (Some (let g = f\<lparr>df_State := d_State nxt\<rparr>
              in if ae_Event inp = EventOpenInvestigation then g\<lparr>df_InvestigationOpenedBy := snd (actorOf ctx)\<rparr> else g)))))"

definition ApplyEvent :: "'c Env \<Rightarrow> Ctx \<Rightarrow> ApplyEventInput \<Rightarrow> ('c, Result) svc" where
  "ApplyEvent env ctx inp = idempotent env ctx ''dispute.apply_event'' (ae_Idempotency inp) (apply_event env ctx inp)"

definition EventReassigned :: event where
  "EventReassigned = EventOther ''REASSIGNED''"

definition ErrUnknownTeam :: Error where
  "ErrUnknownTeam = New Unprocessable ''unknown-team'' ''no such team in this tenant''"

definition reassigned_event :: "'c Env \<Rightarrow> Ctx \<Rightarrow> DisputeRecord \<Rightarrow> string \<Rightarrow> string list \<Rightarrow> EventRecord" where
  "reassigned_event env ctx rec team policies =
     \<lparr>ev_Seq = dr_Version rec + 1, ev_Event = EventReassigned, ev_FromState = dr_State rec, ev_ToState = dr_State rec,
      ev_Actor = fst (actorOf ctx), ev_ActorID = snd (actorOf ctx),
      ev_Payload = JObj [(''authorizedBy'', JArr (map JStr policies)), (''from'', JStr (dr_Team rec)), (''to'', JStr team)],
      ev_IdempotencyKey = None, ev_TraceID = cx_TraceID ctx, ev_OccurredAt = sv_now env\<rparr>"

definition reassign :: "'c Env \<Rightarrow> Ctx \<Rightarrow> uuid \<Rightarrow> string \<Rightarrow> MemTx \<Rightarrow> ('c, unit) svc" where
  "reassign env ctx disputeID team t =
     tx_bind (Tx_GetDispute t disputeID) (\<lambda>rec.
     tx_bind (dispute_facts t rec) (\<lambda>f.
     tx_bind (authorize env ctx t ActionReassign (Some f)) (\<lambda>dec.
     tx_bind (Tx_Access t (principal_From ctx)) (\<lambda>a.
     if team \<notin> set (ac_Teams a) then tx_fail (Classified ErrUnknownTeam)
     else if team = dr_Team rec then tx_return ()
     else tx_then (Tx_AppendEvent (dr_ID rec) (reassigned_event env ctx rec team (dec_Policies dec)))
          (Tx_UpdateDisputeTeam t (dr_ID rec) (dr_Version rec) team (sv_now env))))))"

definition Reassign :: "'c Env \<Rightarrow> Ctx \<Rightarrow> uuid \<Rightarrow> string \<Rightarrow> ('c, unit) svc" where
  "Reassign env ctx disputeID team = WithTx (sv_wall env) ctx (reassign env ctx disputeID team)"

section \<open>Reads\<close>

record Mail =
  ml_To :: string
  ml_Subject :: string
  ml_Text :: string
  ml_HTML :: string
  ml_Files :: "(string \<times> string \<times> string) list"

definition RenderMail :: "location \<Rightarrow> NoticeRecord \<Rightarrow> Mail" where
  "RenderMail loc n = (let doc = nt_Document n in
     \<lparr>ml_To = nt_Recipient n, ml_Subject = doc_Subject doc, ml_Text = Text doc, ml_HTML = HTML loc doc (nt_CreatedAt n),
      ml_Files = []\<rparr>)"

definition GetNotice :: "'c Env \<Rightarrow> Ctx \<Rightarrow> uuid \<Rightarrow> int \<Rightarrow> ('c, NoticeRecord \<times> Document) svc" where
  "GetNotice env ctx disputeID nid = WithTx (sv_wall env) ctx (\<lambda>t.
     tx_bind (Tx_GetNotice t disputeID nid) (\<lambda>rec. tx_return (rec, nt_Document rec)))"

definition GetDispute :: "'c Env \<Rightarrow> Ctx \<Rightarrow> uuid \<Rightarrow> ('c, DisputeView) svc" where
  "GetDispute env ctx did = WithTx (sv_wall env) ctx (\<lambda>t. tx_bind (Tx_GetDispute t did) (view env ctx t))"

record DisputeSummary =
  sm_ID :: uuid
  sm_Regime :: regime
  sm_Reason :: reason
  sm_State :: state
  sm_TransactionID :: uuid
  sm_DisputedAmount :: decimal
  sm_Currency :: string
  sm_OpenedAt :: time
  sm_UpdatedAt :: time
  sm_NextDeadline :: "DeadlineView option"
  sm_Risk :: "Assessment option"

record Page =
  pg_Items :: "DisputeSummary list"
  pg_Next :: "Cursor option"

definition summary :: "time \<Rightarrow> (uuid \<rightharpoonup> Deadline) \<Rightarrow> (uuid \<rightharpoonup> Assessment) \<Rightarrow> DisputeRecord \<Rightarrow> DisputeSummary" where
  "summary now nxt risk r = \<lparr>sm_ID = dr_ID r, sm_Regime = dr_Regime r, sm_Reason = dr_Reason r, sm_State = dr_State r,
     sm_TransactionID = dr_TransactionID r, sm_DisputedAmount = dr_DisputedAmount r, sm_Currency = dr_Currency r,
     sm_OpenedAt = dr_OpenedAt r, sm_UpdatedAt = dr_UpdatedAt r,
     sm_NextDeadline = map_option (\<lambda>d. deadlineView d now) (nxt (dr_ID r)), sm_Risk = risk (dr_ID r)\<rparr>"

definition ListDisputes :: "'c Env \<Rightarrow> Ctx \<Rightarrow> ListQuery \<Rightarrow> ('c, Page) svc" where
  "ListDisputes env ctx q =
     (let limit = (if lq_Limit q \<le> 0 \<or> 100 < lq_Limit q then 25 else lq_Limit q); now = sv_now env in
      WithTx (sv_wall env) ctx (\<lambda>t.
        tx_bind (Tx_ListDisputes t (q\<lparr>lq_Limit := limit + 1, lq_Now := now\<rparr>)) (\<lambda>recs.
        let more = limit < int (length recs);
            nextCursor = (if more then Some \<lparr>cu_OpenedAt = dr_OpenedAt (recs ! nat (limit - 1)), cu_ID = dr_ID (recs ! nat (limit - 1))\<rparr> else None);
            page = (if more then take (nat limit) recs else recs)
        in tx_bind (Tx_NextDeadlines t (map dr_ID page)) (\<lambda>nxt.
           tx_bind (Tx_LatestRisk t (map dr_ID page)) (\<lambda>risk.
           tx_return \<lparr>pg_Items = map (summary now nxt risk) page, pg_Next = nextCursor\<rparr>)))))"

section \<open>Lemmas\<close>

text \<open>What only reads, in every frame of the world.\<close>

locale service_frame = store_frame R for R :: "'c World \<Rightarrow> 'c World \<Rightarrow> bool"
begin

lemma stays_optional: "stays R m \<Longrightarrow> stays R (tx_optional m)"
  unfolding tx_optional_def by (intro stays_ops stays_if)

lemma stays_dispute_facts: "stays R (dispute_facts t rec)"
  unfolding dispute_facts_def by (intro stays_ops stays_tx_reads)

lemma stays_authorize: "stays R (authorize env ctx t action d)"
  unfolding authorize_def by (intro stays_ops stays_tx_reads frame_intros)

lemma stays_permitted: "stays R (permitted env ctx t es f)"
  unfolding permitted_def by (intro stays_ops stays_tx_reads frame_intros)

lemma stays_authorizeDispute: "stays R (authorizeDispute env ctx t action did)"
  unfolding authorizeDispute_def by (intro stays_ops stays_tx_reads stays_dispute_facts stays_authorize)

lemma stays_viewWith: "stays R (viewWith env ctx t rec f)"
  unfolding viewWith_def
  by (intro stays_ops stays_tx_reads stays_dispute_facts stays_permitted stays_optional stays_option)

lemma stays_view: "stays R (view env ctx t rec)"
  unfolding view_def by (rule stays_viewWith)

lemma stays_facts: "stays R (facts t rec now)"
  unfolding facts_def by (intro stays_ops stays_tx_reads stays_optional)

lemma stays_holdCheck: "stays R (holdCheck env t rec payload)"
  unfolding holdCheck_def by (intro stays_ops stays_tx_reads stays_option stays_if)

lemmas stays_service_reads = stays_optional stays_dispute_facts stays_authorize stays_permitted stays_authorizeDispute
  stays_viewWith stays_view stays_facts stays_holdCheck

end

interpretation still: service_frame "\<lambda>s s' :: 'c World. s' = s"
  by unfold_locales simp_all

interpretation one_case: service_frame "only did"
  by unfold_locales (auto simp: only_def)

end
