(* ===== verification/Integrity.thy ===== *)
theory Integrity
  imports Service
begin

text \<open>
  The integrity of the case files: what holds of every dispute in the store after any operation of the service.

  \<open>case_ok\<close> ties a dispute's record to its log, its ledger and its clocks: the log is numbered without gaps up to the
  version, its states chain from the opening to the record's state, its events replay the lifecycle to that state
  with exactly the postings of the ledger (a \<open>case_run\<close>), each posting on the customer's account carries the core's
  approval, no reference is used twice, and a closed dispute has no clock running. \<open>store_ok\<close> says it of all
  disputes. The operations of the service preserve it; a failed one leaves the store as it was.
\<close>

section \<open>Definitions\<close>

definition lifecycle_events :: "EventRecord list \<Rightarrow> event list" where
  "lifecycle_events es = filter (\<lambda>e. e \<in> set AllEvents) (map ev_Event es)"

fun chained :: "state \<Rightarrow> EventRecord list \<Rightarrow> state \<Rightarrow> bool" where
  "chained s [] s' \<longleftrightarrow> s = s'"
| "chained s (e # es) s' \<longleftrightarrow> ev_FromState e = s \<and> chained (ev_ToState e) es s'"

definition receipt_ok :: "LedgerEntry \<Rightarrow> bool" where
  "receipt_ok e \<longleftrightarrow>
     (if moves_customer (le_Posting e) then (case le_Core e of Some r \<Rightarrow> cr_Approved r | None \<Rightarrow> False) else le_Core e = None)"

definition case_ok :: "string_fixed \<Rightarrow> 'x MemStore_scheme \<Rightarrow> uuid \<Rightarrow> DisputeRecord \<Rightarrow> bool" where
  "case_ok sf s k r \<longleftrightarrow>
     dr_ID r = k \<and> 1 \<le> dr_Version r \<and>
     map ev_Seq (Events s k) = [1..dr_Version r] \<and>
     chained (StateOther []) (Events s k) (dr_State r) \<and>
     case_run sf (dr_Regime r) (dr_DisputedAmount r) (lifecycle_events (Events s k)) (Lifecycle_of r) (postingsOf (Ledger s k)) \<and>
     distinct (map le_Reference (Ledger s k)) \<and> list_all receipt_ok (Ledger s k) \<and>
     (dr_State r = StateClosed \<longrightarrow> (\<forall>d \<in> set (Deadlines s k). \<not> dl_Open d))"

definition store_ok :: "string_fixed \<Rightarrow> 'x MemStore_scheme \<Rightarrow> bool" where
  "store_ok sf s \<longleftrightarrow> (\<forall>k.
     case map_of (Disputes s) k of
       Some r \<Rightarrow> case_ok sf s k r
     | None \<Rightarrow> Events s k = [] \<and> Ledger s k = [] \<and> Deadlines s k = [])"

text \<open>
  The abstract machine a dispute's case is an instance of: where the lifecycle stands and what has been posted. It
  takes one accepted event at a time, with the postings of the state it enters; \<open>abs_case\<close> reads it off the store.
\<close>

inductive book_step :: "string_fixed \<Rightarrow> Dispute \<times> decimal \<times> Posting list \<Rightarrow> Dispute \<times> decimal \<times> Posting list \<Rightarrow> bool" for sf where
  "Apply d e = Inr d' \<Longrightarrow> RulesFor (d_Regime d) = Inr r \<Longrightarrow> input_ok sf r disputed liability \<Longrightarrow>
   ps' = Postings r \<lparr>pin_Entered = d_State d', pin_Disputed = disputed, pin_Currency = currency,
     pin_Liability = liability, pin_Outstanding = SuspenseBalance ps, pin_Settlement = settlement\<rparr> \<Longrightarrow>
   book_step sf (d, disputed, ps) (d', disputed, ps @ ps')"

definition abs_case :: "'x MemStore_scheme \<Rightarrow> uuid \<Rightarrow> (Dispute \<times> decimal \<times> Posting list) option" where
  "abs_case s k = map_option (\<lambda>r. (Lifecycle_of r, dr_DisputedAmount r, postingsOf (Ledger s k))) (map_of (Disputes s) k)"

section \<open>Frames\<close>

definition same_books :: "'c World \<Rightarrow> 'c World \<Rightarrow> bool" where
  "same_books s s' \<longleftrightarrow> Disputes s' = Disputes s \<and> Events s' = Events s \<and> Ledger s' = Ledger s"

text \<open>A clock keeps what it was started with, and one that was settled stays as it was settled.\<close>

definition settles :: "Deadline \<Rightarrow> Deadline \<Rightarrow> bool" where
  "settles d d' \<longleftrightarrow> dl_Kind d' = dl_Kind d \<and> dl_Cycle d' = dl_Cycle d \<and> dl_StartedAt d' = dl_StartedAt d \<and>
     dl_DueAt d' = dl_DueAt d \<and> dl_Basis d' = dl_Basis d \<and> (\<not> dl_Open d \<longrightarrow> d' = d)"

definition clocks_settle :: "'c World \<Rightarrow> 'c World \<Rightarrow> bool" where
  "clocks_settle s s' \<longleftrightarrow> (\<forall>k. list_all2 settles (Deadlines s k) (Deadlines s' k))"

lemma settles_refl [simp]: "settles d d"
  by (simp add: settles_def)

lemma settles_trans: "settles a b \<Longrightarrow> settles b c \<Longrightarrow> settles a c"
  by (auto simp: settles_def)

interpretation books: service_frame same_books
  by unfold_locales (auto simp: same_books_def)

interpretation settling: service_frame clocks_settle
  by unfold_locales
     (auto simp: clocks_settle_def list_all2_same intro: list_all2_trans [of settles settles settles] settles_trans)

lemma stays_books_writes [frame_intros]:
  "stays same_books (Tx_InsertDeadlines t did ds)" "stays same_books (Tx_SettleDeadline t did kind cycle met stamp)"
  "stays same_books (Tx_SendQuestionnaire t did q)" "stays same_books (Tx_AnswerQuestionnaire t did ans stamp)"
  "stays same_books (Tx_InsertNotice t n)" "stays same_books (Tx_InsertRisk t did r)"
  "stays same_books (Tx_InsertAttachment t did a)" "stays same_books (Tx_PutIdempotent t sc k resp)"
  unfolding Tx_InsertDeadlines_def Tx_SettleDeadline_def Tx_SendQuestionnaire_def Tx_AnswerQuestionnaire_def
    Tx_InsertRisk_def Tx_InsertAttachment_def Tx_PutIdempotent_def Tx_InsertNotice_def
  by (intro books.stays_bind books.stays_tx_reads books.stays_read stays_if stays_modify;
      auto simp: same_books_def stays_def Let_def)+

lemma stays_claim [frame_intros]:
  "stays same_books (Tx_ClaimAttachments did nid ids)" "stays clocks_settle (Tx_ClaimAttachments did nid ids)"
  by (auto simp: same_books_def clocks_settle_def list_all2_same stays_def Tx_ClaimAttachments_def Let_def split: prod.splits)

lemma stays_settling_writes [frame_intros]:
  "stays clocks_settle (Tx_SettleDeadline t did kind cycle met stamp)"
  "stays clocks_settle (Tx_SendQuestionnaire t did q)" "stays clocks_settle (Tx_AnswerQuestionnaire t did ans stamp)"
  "stays clocks_settle (Tx_InsertNotice t n)" "stays clocks_settle (Tx_InsertRisk t did r)"
  "stays clocks_settle (Tx_AppendLedger t did es)" "stays clocks_settle (Tx_AppendEvent did e)"
  "stays clocks_settle (Tx_UpdateDisputeState t did v st ap upd)" "stays clocks_settle (Tx_UpdateDisputeTeam t did v team upd)"
proof -
  have one: "settles d (settle_one kind cycle met stamp d)" for d
    by (auto simp: settles_def settle_one_def)
  have entry: "stays clocks_settle (append_entry did e)" for e
    by (auto simp: stays_def clocks_settle_def append_entry_def list_all2_same)
  show "stays clocks_settle (Tx_SettleDeadline t did kind cycle met stamp)"
    unfolding Tx_SettleDeadline_def
    by (intro settling.stays_bind settling.stays_tx_reads stays_modify)
       (auto simp: clocks_settle_def list_all2_same list.rel_map one)
  show "stays clocks_settle (Tx_AppendLedger t did es)"
    unfolding Tx_AppendLedger_def
    by (intro settling.stays_bind settling.stays_tx_reads settling.stays_foreach entry)
  show "stays clocks_settle (Tx_SendQuestionnaire t did q)" "stays clocks_settle (Tx_AnswerQuestionnaire t did ans stamp)"
    "stays clocks_settle (Tx_InsertNotice t n)" "stays clocks_settle (Tx_InsertRisk t did r)"
    unfolding Tx_SendQuestionnaire_def Tx_AnswerQuestionnaire_def Tx_InsertRisk_def Tx_InsertNotice_def
    by (intro settling.stays_bind settling.stays_tx_reads settling.stays_read stays_if stays_modify;
        auto simp: clocks_settle_def list_all2_same stays_def Let_def)+
  show "stays clocks_settle (Tx_AppendEvent did e)" "stays clocks_settle (Tx_UpdateDisputeState t did v st ap upd)"
    "stays clocks_settle (Tx_UpdateDisputeTeam t did v team upd)"
    by (auto simp: stays_def clocks_settle_def list_all2_same Tx_AppendEvent_def Tx_UpdateDisputeState_def
        Tx_UpdateDisputeTeam_def split: option.splits)
qed

text \<open>What the core is told leaves the store alone.\<close>

lemma on_core_store:
  "on_core m w = (r, w') \<Longrightarrow> \<exists>c. w' = w\<lparr>w_Core := c\<rparr>"
  by (auto simp: on_core_def split: prod.splits)

lemma stays_on_core:
  "(\<And>w c. R w (w\<lparr>w_Core := c\<rparr>)) \<Longrightarrow> stays R (on_core m)"
  by (auto simp: stays_def on_core_def split: prod.splits)

section \<open>The parts of the operations\<close>

lemma stays_questionnaire:
  "stays same_books (questionnaire env t rec ev payload now)" "stays clocks_settle (questionnaire env t rec ev payload now)"
  "dr_ID rec = did \<Longrightarrow> stays (only did) (questionnaire env t rec ev payload now)"
  unfolding questionnaire_def Let_def
  by (cases ev; simp; intro books.stays_ops books.stays_tx_reads settling.stays_ops settling.stays_tx_reads
      one.stays_ops one.stays_tx_reads frame_intros)+

lemma stays_settle_clock:
  "stays same_books (settle_clock t did st now d)" "stays clocks_settle (settle_clock t did st now d)"
  "stays (only did) (settle_clock t did st now d)"
  unfolding settle_clock_def
  by (cases "Settle (dl_Kind d) st"; simp; intro conjI impI books.stays_read settling.stays_read one.stays_read frame_intros)+

lemma stays_settleDeadlines:
  "stays same_books (settleDeadlines t rec nxt now)"
  "dr_ID rec = did \<Longrightarrow> stays (only did) (settleDeadlines t rec nxt now)"
  unfolding settleDeadlines_def
  by (intro books.stays_ops books.stays_tx_reads one.stays_ops one.stays_tx_reads frame_intros
      stays_settle_clock | simp)+

lemma stays_assess:
  "stays same_books (assess env t rec txn sq now)" "stays clocks_settle (assess env t rec txn sq now)"
  "dr_ID rec = did \<Longrightarrow> stays (only did) (assess env t rec txn sq now)"
  unfolding assess_def Let_def
  by (intro books.stays_ops books.stays_tx_reads books.stays_optional settling.stays_ops settling.stays_tx_reads
      settling.stays_optional one.stays_ops one.stays_tx_reads one_case.stays_optional frame_intros | simp)+

lemma stays_notify:
  "stays same_books (notify env t rec st sq now)" "stays clocks_settle (notify env t rec st sq now)"
  "dr_ID rec = did \<Longrightarrow> stays (only did) (notify env t rec st sq now)"
proof -
  have recipient: "nt_DisputeID (new_notice k sq kind ch x doc now) = k" for k kind ch x doc
    by (simp add: new_notice_def)
  have channel:
    "stays same_books (notify_channel t rec sq now f kind doc ch)" "stays clocks_settle (notify_channel t rec sq now f kind doc ch)"
    "dr_ID rec = did \<Longrightarrow> stays (only did) (notify_channel t rec sq now f kind doc ch)" for f kind doc ch
    unfolding notify_channel_def Let_def
    by (intro books.stays_ops settling.stays_ops one.stays_ops frame_intros; cases ch; simp add: recipient)+
  have kind:
    "stays same_books (notify_kind env t r rec sq now f kind)" "stays clocks_settle (notify_kind env t r rec sq now f kind)"
    "dr_ID rec = did \<Longrightarrow> stays (only did) (notify_kind env t r rec sq now f kind)" for r f kind
    unfolding notify_kind_def Let_def
    by (intro books.stays_ops settling.stays_ops one.stays_ops channel frame_intros | simp)+
  show "stays same_books (notify env t rec st sq now)" "stays clocks_settle (notify env t rec st sq now)"
    "dr_ID rec = did \<Longrightarrow> stays (only did) (notify env t rec st sq now)"
    unfolding notify_def
    by (intro books.stays_ops books.stays_facts settling.stays_ops settling.stays_facts one.stays_ops
        one_case.stays_facts kind frame_intros | simp)+
qed

text \<open>Closing: after the clocks of a closed dispute have been gone through, none is running.\<close>

definition no_open :: "uuid \<Rightarrow> deadline_kind \<Rightarrow> int \<Rightarrow> 'x MemStore_scheme \<Rightarrow> bool" where
  "no_open did kind cycle s \<longleftrightarrow> (\<forall>d \<in> set (Deadlines s did). dl_Kind d = kind \<and> dl_Cycle d = cycle \<longrightarrow> \<not> dl_Open d)"

lemma SettleDeadline_Inr:
  "Tx_SettleDeadline t did kind cycle met stamp s = (Inr (), s') \<Longrightarrow>
     s' = s\<lparr>Deadlines := (Deadlines s)(did := map (settle_one kind cycle met stamp) (Deadlines s did))\<rparr>"
  by (auto simp: Tx_SettleDeadline_def tx_bind_Inr_iff GetDispute_Inr)

lemma settle_one_open: "dl_Kind (settle_one kind cycle met stamp d) = kind \<and> dl_Cycle (settle_one kind cycle met stamp d) = cycle \<Longrightarrow>
    \<not> dl_Open (settle_one kind cycle met stamp d)"
  by (cases met) (simp_all add: settle_one_def dl_Open_def split: if_splits)

lemma SettleDeadline_no_open:
  "Tx_SettleDeadline t did kind cycle met stamp s = (Inr (), s') \<Longrightarrow> no_open did kind cycle s'"
  by (drule SettleDeadline_Inr) (simp add: no_open_def settle_one_open)

lemma list_all2_set2: "list_all2 P xs ys \<Longrightarrow> y \<in> set ys \<Longrightarrow> \<exists>x \<in> set xs. P x y"
  by (induction rule: list_all2_induct) auto

lemma clocks_settle_from:
  "clocks_settle s s' \<Longrightarrow> d' \<in> set (Deadlines s' k) \<Longrightarrow> \<exists>d \<in> set (Deadlines s k). settles d d'"
  by (auto simp: clocks_settle_def intro: list_all2_set2)

lemma clocks_settle_no_open:
  assumes "clocks_settle s s'" and "no_open did kind cycle s"
  shows "no_open did kind cycle s'"
  unfolding no_open_def
proof (intro ballI impI)
  fix d' assume "d' \<in> set (Deadlines s' did)" and "dl_Kind d' = kind \<and> dl_Cycle d' = cycle"
  with clocks_settle_from [OF assms(1)] assms(2) show "\<not> dl_Open d'" by (fastforce simp: no_open_def settles_def)
qed

lemma clocks_settle_closed:
  assumes "clocks_settle s s'" and "\<forall>d \<in> set (Deadlines s k). \<not> dl_Open d"
  shows "\<forall>d \<in> set (Deadlines s' k). \<not> dl_Open d"
  using clocks_settle_from [OF assms(1)] assms(2) by (fastforce simp: settles_def)

lemma Settle_closed: "Settle kind StateClosed \<noteq> Untouched"
  by (cases kind) (simp_all add: Settle_def)

lemma settle_clock_no_open:
  "settle_clock t did StateClosed now d s = (Inr (), s') \<Longrightarrow> dl_Open d \<Longrightarrow> no_open did (dl_Kind d) (dl_Cycle d) s'"
  using Settle_closed [of "dl_Kind d"]
  by (cases "Settle (dl_Kind d) StateClosed") (auto simp: settle_clock_def dest: SettleDeadline_no_open)

lemma foreach_settle_closed:
  "tx_foreach (settle_clock t did StateClosed now) ds s = (Inr (), s') \<Longrightarrow>
     clocks_settle s s' \<and> (\<forall>d \<in> set ds. dl_Open d \<longrightarrow> no_open did (dl_Kind d) (dl_Cycle d) s')"
proof (induction ds arbitrary: s)
  case Nil
  then show ?case by (simp add: settling.frame_refl)
next
  case (Cons d ds)
  then obtain s1 where one: "settle_clock t did StateClosed now d s = (Inr (), s1)"
    and rest: "tx_foreach (settle_clock t did StateClosed now) ds s1 = (Inr (), s')"
    by (auto simp: tx_then_Inr_iff)
  have "clocks_settle s s1" by (rule staysD [OF stays_settle_clock(2) one])
  with Cons.IH [OF rest] settle_clock_no_open [OF one] show ?case
    by (auto intro: settling.frame_trans clocks_settle_no_open)
qed

lemma settleDeadlines_closed:
  assumes "settleDeadlines t rec nxt now s = (Inr (), s')" and "d_State nxt = StateClosed" and "\<not> dr_Appeals rec < d_Appeals nxt"
  shows "\<forall>d \<in> set (Deadlines s' (dr_ID rec)). \<not> dl_Open d"
proof -
  have run: "tx_foreach (settle_clock t (dr_ID rec) StateClosed now) (Deadlines s (dr_ID rec)) s = (Inr (), s')"
    using assms by (auto simp: settleDeadlines_def tx_bind_Inr_iff tx_then_Inr_iff dest: ListDeadlines_Inr)
  note * = foreach_settle_closed [OF this]
  show ?thesis
  proof
    fix d' assume d': "d' \<in> set (Deadlines s' (dr_ID rec))"
    then obtain d where d: "d \<in> set (Deadlines s (dr_ID rec))" "settles d d'"
      using * clocks_settle_from by blast
    with * d' show "\<not> dl_Open d'"
      by (cases "dl_Open d") (auto simp: no_open_def settles_def)
  qed
qed

text \<open>Postings: the ledger grows by what the rules say of the state entered, each entry under its own reference.\<close>

lemma core_as_is: "\<exists>c. w = w\<lparr>w_Core := c\<rparr>"
  by (rule exI [of _ "w_Core w"]) simp

lemma instructCore_Inr:
  assumes "instructCore env t rec e s = (Inr r, s')"
  shows "cr_Approved r \<and> (\<exists>c. s' = s\<lparr>w_Core := c\<rparr>)"
  using assms
  by (auto simp: instructCore_def tx_bind_Inr_iff tx_try_Inr_iff Let_def Tx_TenantCore_def dest!: on_core_store split: if_splits)

lemma post_entry_Inr:
  assumes "post_entry env t rec sq now p s = (Inr e, s')"
  shows "le_Posting e = p \<and> receipt_ok e \<and> le_Reference e = reference_of (dr_ID rec) sq (pst_Kind p) \<and>
    (\<exists>c. s' = s\<lparr>w_Core := c\<rparr>)"
proof (cases "moves_customer p")
  case True
  let ?entry = "\<lparr>le_Seq = sq, le_Posting = p, le_Reference = reference_of (dr_ID rec) sq (pst_Kind p), le_PostedAt = now,
    le_Core = None\<rparr>"
  from True assms obtain r where "instructCore env t rec ?entry s = (Inr r, s')" and e: "e = ?entry\<lparr>le_Core := Some r\<rparr>"
    by (auto simp: post_entry_def tx_bind_Inr_iff)
  from instructCore_Inr [OF this(1)] True show ?thesis by (simp add: e receipt_ok_def)
next
  case False
  with assms have "s' = s" and "e = \<lparr>le_Seq = sq, le_Posting = p, le_Reference = reference_of (dr_ID rec) sq (pst_Kind p),
      le_PostedAt = now, le_Core = None\<rparr>"
    by (simp_all add: post_entry_def)
  with False core_as_is [of s] show ?thesis by (simp add: receipt_ok_def)
qed

lemma post_entries_Inr:
  "post_entries env t rec sq now ps s = (Inr es, s') \<Longrightarrow>
     map le_Posting es = ps \<and> list_all receipt_ok es \<and> (\<exists>c. s' = s\<lparr>w_Core := c\<rparr>)"
proof (induction ps arbitrary: s es)
  case Nil
  with core_as_is [of s] show ?case by simp
next
  case (Cons p ps)
  then obtain e s1 es' where one: "post_entry env t rec sq now p s = (Inr e, s1)"
    and rest: "post_entries env t rec sq now ps s1 = (Inr es', s')" and es: "es = e # es'"
    by (auto simp: tx_bind_Inr_iff)
  obtain c where "s1 = s\<lparr>w_Core := c\<rparr>" using post_entry_Inr [OF one] by blast
  moreover obtain c' where "s' = s1\<lparr>w_Core := c'\<rparr>" using Cons.IH [OF rest] by blast
  ultimately have "s' = s\<lparr>w_Core := c'\<rparr>" by simp
  with Cons.IH [OF rest] post_entry_Inr [OF one] show ?case by (auto simp: es)
qed

lemma parse_liability_ok:
  "parse_liability env r disputed raw = Inr l \<Longrightarrow> input_ok (sv_StringFixed env) r disputed l"
  by (auto simp: parse_liability_def input_ok_def bindR_eq_Inr isOk_iff split: option.splits)

lemma post_Inr:
  assumes "post env t rec nxt sq payload now s = (Inr (), s')" and "distinct (map le_Reference (Ledger s (dr_ID rec)))"
  obtains r l settlement es c where "RulesFor (dr_Regime rec) = Inr r"
    "input_ok (sv_StringFixed env) r (dr_DisputedAmount rec) l"
    "map le_Posting es = Postings r \<lparr>pin_Entered = d_State nxt, pin_Disputed = dr_DisputedAmount rec,
       pin_Currency = dr_Currency rec, pin_Liability = l,
       pin_Outstanding = SuspenseBalance (postingsOf (Ledger s (dr_ID rec))), pin_Settlement = settlement\<rparr>"
    "list_all receipt_ok es" "distinct (map le_Reference (Ledger s (dr_ID rec) @ es))"
    "s' = s\<lparr>Ledger := (Ledger s)(dr_ID rec := Ledger s (dr_ID rec) @ es), w_Core := c\<rparr>"
proof -
  from assms(1) obtain r and f :: eventFacts and l settlement old s0 where
    r: "RulesFor (dr_Regime rec) = Inr r" and l: "parse_liability env r (dr_DisputedAmount rec) (ef_Liability f) = Inr l"
    and list: "Tx_ListLedger t (dr_ID rec) s = (Inr old, s0)"
    and rest: "post_movements env t rec sq now (Postings r \<lparr>pin_Entered = d_State nxt, pin_Disputed = dr_DisputedAmount rec,
        pin_Currency = dr_Currency rec, pin_Liability = l, pin_Outstanding = SuspenseBalance (postingsOf old),
        pin_Settlement = settlement\<rparr>) s0 = (Inr (), s')"
    unfolding post_def by (auto elim!: tx_bind_InrE)
  have old_eq: "s0 = s" "old = Ledger s (dr_ID rec)" using ListLedger_Inr [OF list] by simp_all
  let ?ps = "Postings r \<lparr>pin_Entered = d_State nxt, pin_Disputed = dr_DisputedAmount rec, pin_Currency = dr_Currency rec,
    pin_Liability = l, pin_Outstanding = SuspenseBalance (postingsOf (Ledger s (dr_ID rec))), pin_Settlement = settlement\<rparr>"
  show thesis
  proof (cases "?ps = []")
    case True
    with rest have "s' = s" by (simp add: old_eq post_movements_def)
    then show thesis using that [OF r parse_liability_ok [OF l], of "[]" settlement "w_Core s"] True assms(2) by simp
  next
    case False
    with rest obtain es s1 where es: "post_entries env t rec sq now ?ps s = (Inr es, s1)"
      and app: "Tx_AppendLedger t (dr_ID rec) es s1 = (Inr (), s')"
      by (auto simp: old_eq post_movements_def tx_bind_Inr_iff)
    obtain c where s1: "s1 = s\<lparr>w_Core := c\<rparr>" and ok: "map le_Posting es = ?ps" "list_all receipt_ok es"
      using post_entries_Inr [OF es] by blast
    have "distinct (map le_Reference (Ledger s1 (dr_ID rec)))" using assms(2) s1 by simp
    from AppendLedger_Inr [OF app this] show thesis
      using that [OF r parse_liability_ok [OF l] ok(1) ok(2), of c] s1 by simp
  qed
qed

section \<open>Applying an event\<close>

lemma store_okD: "store_ok sf s \<Longrightarrow> map_of (Disputes s) k = Some r \<Longrightarrow> case_ok sf s k r"
  by (auto simp: store_ok_def dest: spec [of _ k])

lemma store_ok_id: "store_ok sf s \<Longrightarrow> map_of (Disputes s) k = Some r \<Longrightarrow> dr_ID r = k"
  by (drule (1) store_okD) (simp add: case_ok_def)

lemma case_ok_cong:
  "Events s' k = Events s k \<Longrightarrow> Ledger s' k = Ledger s k \<Longrightarrow> Deadlines s' k = Deadlines s k \<Longrightarrow> case_ok sf s' k r = case_ok sf s k r"
  by (simp add: case_ok_def)

lemma store_ok_only:
  assumes "store_ok sf s" and "only did s s'" and "map_of (Disputes s') did = Some r" and "case_ok sf s' did r"
  shows "store_ok sf s'"
  unfolding store_ok_def
proof
  fix k
  show "case map_of (Disputes s') k of Some r \<Rightarrow> case_ok sf s' k r | None \<Rightarrow> Events s' k = [] \<and> Ledger s' k = [] \<and> Deadlines s' k = []"
  proof (cases "k = did")
    case False
    then have "map_of (Disputes s') k = map_of (Disputes s) k" "Events s' k = Events s k" "Ledger s' k = Ledger s k"
      "Deadlines s' k = Deadlines s k"
      using assms(2) by (simp_all add: only_def)
    with assms(1) case_ok_cong [of s' k s sf] show ?thesis
      unfolding store_ok_def by (auto split: option.splits dest: spec [of _ k])
  qed (use assms in simp)
qed

lemma decide_event_Inr:
  assumes "decide_event env ctx inp t s = (Inr (rec, f, dec, nxt), s')"
  shows "s' = s" "map_of (Disputes s) (ae_DisputeID inp) = Some rec" "dr_TenantID rec = mt_Tenant t"
    "Apply (Lifecycle_of rec) (ae_Event inp) = Inr nxt" "dispute_facts t rec s = (Inr f, s)"
    "authorize env ctx t (EventAction (ae_Event inp)) (Some f) s = (Inr dec, s)"
    "ae_Event inp = EventIssueRefund \<Longrightarrow> holdCheck env t rec (ae_Payload inp) s = (Inr (), s)"
proof -
  from assms obtain s1 s2 s3 where get: "Tx_GetDispute t (ae_DisputeID inp) s = (Inr rec, s1)"
    and f: "dispute_facts t rec s1 = (Inr f, s2)"
    and dec: "authorize env ctx t (EventAction (ae_Event inp)) (Some f) s2 = (Inr dec, s3)"
    and nxt: "Apply (Lifecycle_of rec) (ae_Event inp) = Inr nxt"
    and hold: "(if ae_Event inp = EventIssueRefund then holdCheck env t rec (ae_Payload inp) else tx_return ()) s3 = (Inr (), s')"
    unfolding decide_event_def by (auto elim!: tx_bind_InrE tx_then_InrE)
  have s1: "s1 = s" using get by (simp add: GetDispute_Inr)
  have s2: "s2 = s1" by (rule staysD [OF still.stays_dispute_facts f])
  have s3: "s3 = s2" by (rule staysD [OF still.stays_authorize dec])
  have "stays (\<lambda>s s'. s' = s) (if ae_Event inp = EventIssueRefund then holdCheck env t rec (ae_Payload inp) else tx_return ())"
    by (intro stays_if still.stays_holdCheck unchanged.stays_read)
  from staysD [OF this hold] have s': "s' = s3" by simp
  show "s' = s" "map_of (Disputes s) (ae_DisputeID inp) = Some rec" "dr_TenantID rec = mt_Tenant t"
    "Apply (Lifecycle_of rec) (ae_Event inp) = Inr nxt" "dispute_facts t rec s = (Inr f, s)"
    "authorize env ctx t (EventAction (ae_Event inp)) (Some f) s = (Inr dec, s)"
    "ae_Event inp = EventIssueRefund \<Longrightarrow> holdCheck env t rec (ae_Payload inp) s = (Inr (), s)"
    using get f dec nxt hold s1 s2 s3 s' by (simp_all add: GetDispute_Inr)
qed

lemma record_event_Inr:
  assumes "record_event env ctx inp t rec dec nxt s = (Inr payload, s')" and "map_of (Disputes s) (dr_ID rec) = Some rec"
  shows "s' = s\<lparr>Disputes := AList.update (dr_ID rec) (advanced rec nxt (sv_now env)) (Disputes s),
      Events := (Events s)(dr_ID rec := Events s (dr_ID rec) @ [applied_event env ctx inp rec nxt payload])\<rparr>"
    and "withAuthorizedBy (sv_num env) (case ae_Payload inp of None \<Rightarrow> JObj [] | Some j \<Rightarrow> j) (dec_Policies dec) = Inr payload"
  using assms by (auto simp: record_event_def tx_then_Inr_iff tx_bind_Inr_iff UpdateDisputeState_Inr AppendEvent_Inr advanced_def)

lemma record_event_only: "dr_ID rec = did \<Longrightarrow> stays (only did) (record_event env ctx inp t rec dec nxt)"
  unfolding record_event_def by (intro one.stays_ops frame_intros | simp)+

lemma stays_post: "dr_ID rec = did \<Longrightarrow> stays (only did) (post env t rec nxt sq payload now)"
proof -
  assume did: "dr_ID rec = did"
  have core: "stays (only did) (instructCore env t rec e)" for e
    unfolding instructCore_def Let_def
    by (intro one.stays_ops one.stays_tx_reads frame_intros stays_on_core) (simp add: only_def notices_of_def)
  have entry: "stays (only did) (post_entry env t rec sq now p)" for p
    unfolding post_entry_def Let_def by (intro one.stays_ops frame_intros core)
  have entries: "stays (only did) (post_entries env t rec sq now ps)" for ps
  proof (induction ps)
    case Nil
    show ?case by (simp add: stays_def one.frame_refl)
  next
    case (Cons p ps)
    then show ?case unfolding post_entries.simps by (intro one.stays_ops entry)
  qed
  show ?thesis
    unfolding post_def post_movements_def did
    by (intro one.stays_ops one.stays_tx_reads frame_intros entries)
qed

lemma event_effects_only: "dr_ID rec = did \<Longrightarrow> stays (only did) (event_effects env t rec nxt ev payload)"
  unfolding event_effects_def Let_def
  by (intro one.stays_ops one.stays_tx_reads frame_intros stays_questionnaire stays_settleDeadlines stays_post
      stays_notify stays_assess | assumption)+

lemma event_effects_Inr:
  assumes run: "event_effects env t rec nxt ev payload s = (Inr (), s')"
    and dist: "distinct (map le_Reference (Ledger s (dr_ID rec)))"
  obtains r l settlement es where "RulesFor (dr_Regime rec) = Inr r"
    "input_ok (sv_StringFixed env) r (dr_DisputedAmount rec) l"
    "map le_Posting es = Postings r \<lparr>pin_Entered = d_State nxt, pin_Disputed = dr_DisputedAmount rec,
       pin_Currency = dr_Currency rec, pin_Liability = l,
       pin_Outstanding = SuspenseBalance (postingsOf (Ledger s (dr_ID rec))), pin_Settlement = settlement\<rparr>"
    "list_all receipt_ok es" "distinct (map le_Reference (Ledger s (dr_ID rec) @ es))"
    "Disputes s' = Disputes s" "Events s' = Events s" "Ledger s' (dr_ID rec) = Ledger s (dr_ID rec) @ es"
    "d_State nxt = StateClosed \<Longrightarrow> \<not> dr_Appeals rec < d_Appeals nxt \<Longrightarrow> \<forall>d \<in> set (Deadlines s' (dr_ID rec)). \<not> dl_Open d"
proof -
  let ?now = "sv_now env" and ?sq = "dr_Version rec + 1"
  let ?last = "if ev = EventReceiveQuestionnaire
    then tx_bind (Tx_GetTransaction t (dr_TransactionID rec)) (\<lambda>txn. assess env t rec txn ?sq ?now) else tx_return ()"
  from run obtain s1 s2 s3 s4 where q: "questionnaire env t rec ev payload ?now s = (Inr (), s1)"
    and d: "settleDeadlines t rec nxt ?now s1 = (Inr (), s2)" and p: "post env t rec nxt ?sq payload ?now s2 = (Inr (), s3)"
    and n: "notify env t rec (d_State nxt) ?sq ?now s3 = (Inr (), s4)" and l: "?last s4 = (Inr (), s')"
    unfolding event_effects_def Let_def by (elim tx_then_InrE) blast
  have last: "stays same_books ?last" "stays clocks_settle ?last"
    by (intro stays_if books.stays_ops books.stays_tx_reads settling.stays_ops settling.stays_tx_reads stays_assess)+
  have b2: "same_books s s2"
    by (rule books.frame_trans [OF staysD [OF stays_questionnaire(1) q] staysD [OF stays_settleDeadlines(1) d]])
  have b4: "same_books s3 s'"
    by (rule books.frame_trans [OF staysD [OF stays_notify(1) n] staysD [OF last(1) l]])
  have c4: "clocks_settle s3 s'"
    by (rule settling.frame_trans [OF staysD [OF stays_notify(2) n] staysD [OF last(2) l]])
  have "distinct (map le_Reference (Ledger s2 (dr_ID rec)))" using dist b2 by (simp add: same_books_def)
  from post_Inr [OF p this] obtain r li settlement es c where
    post: "RulesFor (dr_Regime rec) = Inr r" "input_ok (sv_StringFixed env) r (dr_DisputedAmount rec) li"
      "map le_Posting es = Postings r \<lparr>pin_Entered = d_State nxt, pin_Disputed = dr_DisputedAmount rec,
         pin_Currency = dr_Currency rec, pin_Liability = li,
         pin_Outstanding = SuspenseBalance (postingsOf (Ledger s2 (dr_ID rec))), pin_Settlement = settlement\<rparr>"
      "list_all receipt_ok es" "distinct (map le_Reference (Ledger s2 (dr_ID rec) @ es))"
    and s3: "s3 = s2\<lparr>Ledger := (Ledger s2)(dr_ID rec := Ledger s2 (dr_ID rec) @ es), w_Core := c\<rparr>"
    by metis
  have led: "Ledger s2 = Ledger s" using b2 by (simp add: same_books_def)
  have clocks: "\<forall>d \<in> set (Deadlines s' (dr_ID rec)). \<not> dl_Open d"
    if "d_State nxt = StateClosed" "\<not> dr_Appeals rec < d_Appeals nxt"
    using settleDeadlines_closed [OF d that] by (intro clocks_settle_closed [OF c4]) (simp add: s3)
  show thesis
    using that [OF post(1,2) post(3) [unfolded led] post(4) post(5) [unfolded led]] b2 b4 s3 clocks
    by (simp add: same_books_def)
qed

lemma chained_snoc: "chained a (es @ [e]) b \<longleftrightarrow> chained a es (ev_FromState e) \<and> ev_ToState e = b"
  by (induction es arbitrary: a) auto

lemma lifecycle_events_snoc:
  "lifecycle_events (es @ [e]) = lifecycle_events es @ (if ev_Event e \<in> set AllEvents then [ev_Event e] else [])"
  by (simp add: lifecycle_events_def)

lemma upto_snoc: "0 \<le> v \<Longrightarrow> [1..v + 1] = [1..v] @ [v + 1]"
  using upto_rec2 [of 1 "v + 1"] by simp

lemma Lifecycle_advanced: "Apply (Lifecycle_of rec) e = Inr nxt \<Longrightarrow> Lifecycle_of (advanced rec nxt now) = nxt"
  using Apply_regime [of "Lifecycle_of rec" e nxt] by (simp add: Lifecycle_of_def advanced_def)

lemma closes_without_appeal: "Apply d e = Inr nxt \<Longrightarrow> d_State nxt = StateClosed \<Longrightarrow> \<not> d_Appeals d < d_Appeals nxt"
  by (erule Apply_InrE) auto

lemma case_ok_applied:
  assumes ok: "case_ok sf s (dr_ID rec) rec" and nxt: "Apply (Lifecycle_of rec) (ev_Event e) = Inr nxt"
    and e: "ev_Seq e = dr_Version rec + 1" "ev_FromState e = dr_State rec" "ev_ToState e = d_State nxt"
    and events: "Events s' (dr_ID rec) = Events s (dr_ID rec) @ [e]"
    and ledger: "Ledger s' (dr_ID rec) = Ledger s (dr_ID rec) @ es"
    and r: "RulesFor (dr_Regime rec) = Inr r" and l: "input_ok sf r (dr_DisputedAmount rec) l"
    and ps: "map le_Posting es = Postings r \<lparr>pin_Entered = d_State nxt, pin_Disputed = dr_DisputedAmount rec,
       pin_Currency = dr_Currency rec, pin_Liability = l,
       pin_Outstanding = SuspenseBalance (postingsOf (Ledger s (dr_ID rec))), pin_Settlement = settlement\<rparr>"
    and es: "list_all receipt_ok es" "distinct (map le_Reference (Ledger s (dr_ID rec) @ es))"
    and clocks: "d_State nxt = StateClosed \<Longrightarrow> \<forall>d \<in> set (Deadlines s' (dr_ID rec)). \<not> dl_Open d"
  shows "case_ok sf s' (dr_ID rec) (advanced rec nxt now)"
proof -
  have run: "case_run sf (dr_Regime rec) (dr_DisputedAmount rec) (lifecycle_events (Events s (dr_ID rec)) @ [ev_Event e]) nxt
      (postingsOf (Ledger s (dr_ID rec)) @ map le_Posting es)"
    using ok by (intro case_run.applied [OF _ nxt r l ps]) (simp add: case_ok_def)
  have "lifecycle_events (Events s' (dr_ID rec)) = lifecycle_events (Events s (dr_ID rec)) @ [ev_Event e]"
    using Apply_event [OF nxt] by (simp add: events lifecycle_events_snoc)
  moreover have "postingsOf (Ledger s' (dr_ID rec)) = postingsOf (Ledger s (dr_ID rec)) @ map le_Posting es"
    by (simp add: ledger postingsOf_def)
  ultimately have "case_run sf (dr_Regime rec) (dr_DisputedAmount rec) (lifecycle_events (Events s' (dr_ID rec)))
      (Lifecycle_of (advanced rec nxt now)) (postingsOf (Ledger s' (dr_ID rec)))"
    using run Lifecycle_advanced [OF nxt] by simp
  moreover have "map ev_Seq (Events s' (dr_ID rec)) = [1..dr_Version rec + 1]"
    using ok upto_snoc [of "dr_Version rec"] by (simp add: case_ok_def events e)
  moreover have "chained (StateOther []) (Events s' (dr_ID rec)) (d_State nxt)"
    using ok by (simp add: case_ok_def events e chained_snoc)
  moreover have "dr_ID (advanced rec nxt now) = dr_ID rec" "dr_Version (advanced rec nxt now) = dr_Version rec + 1"
    "dr_State (advanced rec nxt now) = d_State nxt" "dr_Regime (advanced rec nxt now) = dr_Regime rec"
    "dr_DisputedAmount (advanced rec nxt now) = dr_DisputedAmount rec"
    by (simp_all add: advanced_def)
  ultimately show ?thesis using ok es clocks unfolding case_ok_def by (simp add: ledger)
qed

lemma apply_event_Inr:
  assumes "apply_event env ctx inp t s = (Inr v, s')"
  obtains rec f dec nxt payload s1 where "decide_event env ctx inp t s = (Inr (rec, f, dec, nxt), s)"
    "record_event env ctx inp t rec dec nxt s = (Inr payload, s1)"
    "event_effects env t rec nxt (ae_Event inp) payload s1 = (Inr (), s')"
proof -
  from assms obtain rec and f :: DisputeFacts and dec :: Decision and nxt :: Dispute and payload s0 s1 s2 g where
    d: "decide_event env ctx inp t s = (Inr (rec, f, dec, nxt), s0)"
    and r: "record_event env ctx inp t rec dec nxt s0 = (Inr payload, s1)"
    and e: "event_effects env t rec nxt (ae_Event inp) payload s1 = (Inr (), s2)"
    and v: "viewWith env ctx t (advanced rec nxt (sv_now env)) (Some g) s2 = (Inr v, s')"
    unfolding apply_event_def by (auto elim!: tx_bind_InrE tx_then_InrE)
  have "s0 = s" by (rule decide_event_Inr(1) [OF d])
  moreover have "s' = s2" by (rule staysD [OF still.stays_viewWith v])
  ultimately show thesis using that d r e by simp
qed

lemma apply_event_store:
  assumes run: "apply_event env ctx inp t s = (Inr v, s')" and ok: "store_ok (sv_StringFixed env) s"
  shows "store_ok (sv_StringFixed env) s' \<and> only (ae_DisputeID inp) s s' \<and>
    (\<exists>rec. map_of (Disputes s) (ae_DisputeID inp) = Some rec \<and> dr_TenantID rec = mt_Tenant t) \<and>
    (\<exists>a b. abs_case s (ae_DisputeID inp) = Some a \<and> abs_case s' (ae_DisputeID inp) = Some b \<and> book_step (sv_StringFixed env) a b)"
proof -
  obtain rec f dec nxt payload s1 where d: "decide_event env ctx inp t s = (Inr (rec, f, dec, nxt), s)"
    and r: "record_event env ctx inp t rec dec nxt s = (Inr payload, s1)"
    and e: "event_effects env t rec nxt (ae_Event inp) payload s1 = (Inr (), s')"
    by (rule apply_event_Inr [OF run])
  note dec = decide_event_Inr [OF d]
  have did: "dr_ID rec = ae_DisputeID inp" by (rule store_ok_id [OF ok dec(2)])
  have rec: "map_of (Disputes s) (dr_ID rec) = Some rec" using dec(2) did by simp
  have cok: "case_ok (sv_StringFixed env) s (dr_ID rec) rec" by (rule store_okD [OF ok rec])
  note s1 = record_event_Inr(1) [OF r rec]
  have dist: "distinct (map le_Reference (Ledger s1 (dr_ID rec)))" using cok by (simp add: s1 case_ok_def)
  have only: "only (ae_DisputeID inp) s s'"
    by (rule one.frame_trans [OF staysD [OF record_event_only [OF did] r] staysD [OF event_effects_only [OF did] e]])
  from event_effects_Inr [OF e dist] obtain rl l settlement es where
    eff: "RulesFor (dr_Regime rec) = Inr rl" "input_ok (sv_StringFixed env) rl (dr_DisputedAmount rec) l"
      "map le_Posting es = Postings rl \<lparr>pin_Entered = d_State nxt, pin_Disputed = dr_DisputedAmount rec,
         pin_Currency = dr_Currency rec, pin_Liability = l,
         pin_Outstanding = SuspenseBalance (postingsOf (Ledger s1 (dr_ID rec))), pin_Settlement = settlement\<rparr>"
      "list_all receipt_ok es" "distinct (map le_Reference (Ledger s1 (dr_ID rec) @ es))"
      "Disputes s' = Disputes s1" "Events s' = Events s1" "Ledger s' (dr_ID rec) = Ledger s1 (dr_ID rec) @ es"
      "d_State nxt = StateClosed \<Longrightarrow> \<not> dr_Appeals rec < d_Appeals nxt \<Longrightarrow> \<forall>d \<in> set (Deadlines s' (dr_ID rec)). \<not> dl_Open d"
    by metis
  have led: "Ledger s1 = Ledger s" by (simp add: s1)
  let ?e = "applied_event env ctx inp rec nxt payload"
  have "case_ok (sv_StringFixed env) s' (dr_ID rec) (advanced rec nxt (sv_now env))"
  proof (rule case_ok_applied [OF cok, of ?e nxt s' es rl l settlement])
    show "Apply (Lifecycle_of rec) (ev_Event ?e) = Inr nxt" using dec(4) by (simp add: applied_event_def)
    show "ev_Seq ?e = dr_Version rec + 1" "ev_FromState ?e = dr_State rec" "ev_ToState ?e = d_State nxt"
      by (simp_all add: applied_event_def)
    show "Events s' (dr_ID rec) = Events s (dr_ID rec) @ [?e]" using eff(7) by (simp add: s1)
    show "d_State nxt = StateClosed \<Longrightarrow> \<forall>d \<in> set (Deadlines s' (dr_ID rec)). \<not> dl_Open d"
      using eff(9) closes_without_appeal [OF dec(4)] by (simp add: Lifecycle_of_def)
  qed (use eff led in simp_all)
  moreover have rec': "map_of (Disputes s') (dr_ID rec) = Some (advanced rec nxt (sv_now env))"
    using eff(6) by (simp add: s1 update_conv')
  ultimately have "store_ok (sv_StringFixed env) s'"
    using store_ok_only [OF ok only, of "advanced rec nxt (sv_now env)"] did by simp
  moreover have "book_step (sv_StringFixed env) (Lifecycle_of rec, dr_DisputedAmount rec, postingsOf (Ledger s (dr_ID rec)))
      (nxt, dr_DisputedAmount rec, postingsOf (Ledger s (dr_ID rec)) @ map le_Posting es)"
    by (rule book_step.intros [OF dec(4) _ eff(2) eff(3) [unfolded led]]) (use eff(1) in \<open>simp add: Lifecycle_of_def\<close>)
  moreover have "abs_case s (dr_ID rec) = Some (Lifecycle_of rec, dr_DisputedAmount rec, postingsOf (Ledger s (dr_ID rec)))"
    using rec by (simp add: abs_case_def)
  moreover have "abs_case s' (dr_ID rec) = Some (nxt, dr_DisputedAmount rec, postingsOf (Ledger s (dr_ID rec)) @ map le_Posting es)"
    using rec' eff(8) Lifecycle_advanced [OF dec(4)] by (simp add: abs_case_def led postingsOf_def) (simp add: advanced_def)
  ultimately show ?thesis using only dec(2,3) did by (intro conjI exI) simp_all
qed

section \<open>Opening a dispute\<close>

lemma open_record_Inr:
  assumes run: "open_record env ctx inp t s = (Inr (rec, txn), s')" and ok: "store_ok sf s"
  obtains reason where "map_of (Disputes s) (dr_ID rec) = None" "dr_State rec = StateInitiated" "dr_Version rec = 1" "dr_Appeals rec = 0"
    "s' = s\<lparr>Disputes := AList.update (dr_ID rec) (rec\<lparr>dr_TenantID := mt_Tenant t\<rparr>) (Disputes s),
       Events := (Events s)(dr_ID rec := [opened_event env ctx inp reason])\<rparr>"
proof -
  from run obtain regime reason did p access and dec :: Decision and s1 s2 s3 where
    acc: "Tx_Access t (Some p) s = (Inr access, s1)"
    and auth: "authorize env ctx t ActionCreate (Some \<lparr>df_ID = uuid_Nil,
        df_Team = Route access (tr_Rail txn) reason [] (tr_Amount txn), df_Amount = 0, df_Currency = [], df_Rail = RailOther [],
        df_State = StateOther [], df_InvestigationOpenedBy = []\<rparr>) s1 = (Inr dec, s2)"
    and rec: "rec = new_dispute did (Route access (tr_Rail txn) reason [] (tr_Amount txn)) regime reason txn (sv_now env)"
    and ins: "Tx_InsertDispute t rec s2 = (Inr (), s3)"
    and app: "Tx_AppendEvent did (opened_event env ctx inp reason) s3 = (Inr (), s')"
    unfolding open_record_def Let_def Tx_GetTransaction_def
    by (auto elim!: tx_bind_InrE tx_then_InrE split: option.splits)
  have s1: "s1 = s" using acc by (simp add: Tx_Access_def)
  have s2: "s2 = s1" by (rule staysD [OF still.stays_authorize auth])
  have s3: "s3 = s\<lparr>Disputes := AList.update (dr_ID rec) (rec\<lparr>dr_TenantID := mt_Tenant t\<rparr>) (Disputes s)\<rparr>"
    using ins by (simp add: Tx_InsertDispute_def s1 s2)
  have did: "did = dr_ID rec" by (simp add: rec new_dispute_def)
  have seq: "\<forall>x \<in> set (Events s did). ev_Seq x \<noteq> 1"
    and s': "s' = s3\<lparr>Events := (Events s3)(did := Events s3 did @ [opened_event env ctx inp reason])\<rparr>"
    using app by (simp_all add: AppendEvent_Inr s3 opened_event_def)
  have fresh: "map_of (Disputes s) did = None"
  proof (rule ccontr)
    assume "map_of (Disputes s) did \<noteq> None"
    then obtain r where "map_of (Disputes s) did = Some r" by blast
    from store_okD [OF ok this] have "1 \<le> dr_Version r" "ev_Seq ` set (Events s did) = {1..dr_Version r}"
      by (auto simp: case_ok_def simp flip: set_map)
    then show False using seq by (metis atLeastAtMost_iff imageE order_refl)
  qed
  then have "Events s did = []" using ok by (auto simp: store_ok_def dest: spec [of _ did])
  then have "s' = s\<lparr>Disputes := AList.update (dr_ID rec) (rec\<lparr>dr_TenantID := mt_Tenant t\<rparr>) (Disputes s),
       Events := (Events s)(dr_ID rec := [opened_event env ctx inp reason])\<rparr>"
    by (simp add: s' s3 did)
  moreover have "dr_State rec = StateInitiated" "dr_Version rec = 1" "dr_Appeals rec = 0"
    by (simp_all add: rec new_dispute_def)
  ultimately show thesis using that fresh did by blast
qed

lemma open_record_only:
  assumes "open_record env ctx inp t s = (Inr (rec, txn), s')" and "store_ok sf s"
  shows "only (dr_ID rec) s s'"
  by (rule open_record_Inr [OF assms]) (simp add: only_def update_conv' notices_of_def)

lemma open_effects_books:
  "stays same_books (open_effects env t rec txn)" "dr_ID rec = did \<Longrightarrow> stays (only did) (open_effects env t rec txn)"
  unfolding open_effects_def
  by (intro books.stays_ops books.stays_tx_reads one.stays_ops one.stays_tx_reads stays_notify stays_assess frame_intros | simp)+

lemma create_dispute_store:
  assumes run: "create_dispute env ctx inp t s = (Inr v, s')" and ok: "store_ok sf s"
  shows "store_ok sf s' \<and> (\<exists>did rec. map_of (Disputes s) did = None \<and> only did s s' \<and>
    map_of (Disputes s') did = Some rec \<and> dr_TenantID rec = mt_Tenant t \<and>
    New_Dispute (dr_Regime rec) = Inr (Lifecycle_of rec) \<and> Ledger s' did = [])"
proof -
  from run obtain rec and txn :: TransactionRecord and s1 s2 where o: "open_record env ctx inp t s = (Inr (rec, txn), s1)"
    and e: "open_effects env t rec txn s1 = (Inr (), s2)" and v: "view env ctx t rec s2 = (Inr v, s')"
    unfolding create_dispute_def by (auto elim!: tx_bind_InrE tx_then_InrE)
  have s': "s' = s2" by (rule staysD [OF still.stays_view v])
  obtain reason where fresh: "map_of (Disputes s) (dr_ID rec) = None" and rec: "dr_State rec = StateInitiated" "dr_Version rec = 1" "dr_Appeals rec = 0"
    and s1: "s1 = s\<lparr>Disputes := AList.update (dr_ID rec) (rec\<lparr>dr_TenantID := mt_Tenant t\<rparr>) (Disputes s),
       Events := (Events s)(dr_ID rec := [opened_event env ctx inp reason])\<rparr>"
    by (rule open_record_Inr [OF o ok])
  have b: "same_books s1 s2" by (rule staysD [OF open_effects_books(1) e])
  have only: "only (dr_ID rec) s s2"
    by (rule one.frame_trans [OF open_record_only [OF o ok] staysD [OF open_effects_books(2) [OF refl] e]])
  have empty: "Ledger s (dr_ID rec) = []" using ok fresh by (auto simp: store_ok_def dest: spec [of _ "dr_ID rec"])
  obtain r where r: "RulesFor (dr_Regime rec) = Inr r" using e by (auto simp: open_effects_def elim!: tx_bind_InrE)
  let ?rec = "rec\<lparr>dr_TenantID := mt_Tenant t\<rparr>"
  have new: "New_Dispute (dr_Regime rec) = Inr (Lifecycle_of ?rec)" by (simp add: New_Dispute_def r Lifecycle_of_def rec)
  then have "case_run sf (dr_Regime rec) (dr_DisputedAmount rec) [] (Lifecycle_of ?rec) []" by (rule case_run.opened)
  moreover have "lifecycle_events [opened_event env ctx inp reason] = []"
    by (simp add: lifecycle_events_def opened_event_def EventOpened_def AllEvents_def)
  ultimately have "case_ok sf s2 (dr_ID rec) ?rec"
    using b by (simp add: case_ok_def same_books_def s1 empty rec postingsOf_def opened_event_def)
  moreover have "map_of (Disputes s2) (dr_ID rec) = Some ?rec" using b by (simp add: same_books_def s1 update_conv')
  ultimately have "store_ok sf s2" using store_ok_only [OF ok only, of ?rec] by simp
  moreover have "Ledger s2 (dr_ID rec) = []" using b empty by (simp add: same_books_def s1)
  ultimately show ?thesis using only fresh new \<open>map_of (Disputes s2) (dr_ID rec) = Some ?rec\<close> s'
    by (intro conjI exI [of _ "dr_ID rec"] exI [of _ ?rec]) simp_all
qed

section \<open>Reassigning a dispute\<close>

lemma reassign_Inr:
  assumes run: "reassign env ctx did team t s = (Inr (), s')" and ok: "store_ok sf s"
  obtains (same) "s' = s"
  | (moved_on) rec policies where "map_of (Disputes s) did = Some rec" "dr_TenantID rec = mt_Tenant t" "dr_ID rec = did"
      "s' = s\<lparr>Disputes := AList.update did (rec\<lparr>dr_Team := team, dr_Version := dr_Version rec + 1, dr_UpdatedAt := sv_now env\<rparr>) (Disputes s),
         Events := (Events s)(did := Events s did @ [reassigned_event env ctx rec team policies])\<rparr>"
proof -
  from run obtain rec and f :: DisputeFacts and dec :: Decision and a :: Access and s1 s2 s3 s4 where
    get: "Tx_GetDispute t did s = (Inr rec, s1)" and f: "dispute_facts t rec s1 = (Inr f, s2)"
    and dec: "authorize env ctx t ActionReassign (Some f) s2 = (Inr dec, s3)"
    and a: "Tx_Access t (principal_From ctx) s3 = (Inr a, s4)"
    and rest: "(if team \<notin> set (ac_Teams a) then tx_fail (Classified ErrUnknownTeam)
      else if team = dr_Team rec then tx_return ()
      else tx_then (Tx_AppendEvent (dr_ID rec) (reassigned_event env ctx rec team (dec_Policies dec)))
          (Tx_UpdateDisputeTeam t (dr_ID rec) (dr_Version rec) team (sv_now env))) s4 = (Inr (), s')"
    unfolding reassign_def by (auto elim!: tx_bind_InrE)
  have "s1 = s" and rec: "map_of (Disputes s) did = Some rec" "dr_TenantID rec = mt_Tenant t"
    using get by (simp_all add: GetDispute_Inr)
  moreover have "s2 = s1" by (rule staysD [OF still.stays_dispute_facts f])
  moreover have "s3 = s2" by (rule staysD [OF still.stays_authorize dec])
  moreover have "s4 = s3" using a by (simp add: Tx_Access_def)
  ultimately have s4: "s4 = s" by simp
  have did: "dr_ID rec = did" by (rule store_ok_id [OF ok rec(1)])
  show thesis
  proof (cases "team = dr_Team rec")
    case True
    with rest s4 same show thesis by (auto split: if_splits)
  next
    case False
    with rest s4 have "s' = s\<lparr>Disputes := AList.update did (rec\<lparr>dr_Team := team, dr_Version := dr_Version rec + 1, dr_UpdatedAt := sv_now env\<rparr>) (Disputes s),
         Events := (Events s)(did := Events s did @ [reassigned_event env ctx rec team (dec_Policies dec)])\<rparr>"
      using rec did by (auto simp: tx_then_Inr_iff AppendEvent_Inr UpdateDisputeTeam_Inr split: if_splits)
    with moved_on [OF rec did] show thesis by blast
  qed
qed

lemma reassign_store:
  assumes run: "reassign env ctx did team t s = (Inr (), s')" and ok: "store_ok sf s"
  shows "store_ok sf s' \<and> only did s s' \<and> (s' = s \<or> (\<exists>rec. map_of (Disputes s) did = Some rec \<and> dr_TenantID rec = mt_Tenant t))"
  using run ok
proof (cases rule: reassign_Inr)
  case same
  with ok show ?thesis by (simp add: only_def)
next
  case (moved_on rec policies)
  let ?rec = "rec\<lparr>dr_Team := team, dr_Version := dr_Version rec + 1, dr_UpdatedAt := sv_now env\<rparr>"
  have only: "only did s s'" using moved_on by (simp add: only_def update_conv' notices_of_def)
  have cok: "case_ok sf s did rec" by (rule store_okD [OF ok moved_on(1)])
  have "ev_Event (reassigned_event env ctx rec team policies) \<notin> set AllEvents"
    by (simp add: reassigned_event_def EventReassigned_def AllEvents_def)
  then have "lifecycle_events (Events s' did) = lifecycle_events (Events s did)"
    using moved_on by (simp add: lifecycle_events_snoc)
  moreover have "Lifecycle_of ?rec = Lifecycle_of rec" by (simp add: Lifecycle_of_def)
  moreover have "map ev_Seq (Events s' did) = [1..dr_Version rec + 1]"
    using cok upto_snoc [of "dr_Version rec"] moved_on by (simp add: case_ok_def reassigned_event_def)
  moreover have "chained (StateOther []) (Events s' did) (dr_State rec)"
    using cok moved_on by (simp add: case_ok_def chained_snoc reassigned_event_def)
  ultimately have "case_ok sf s' did ?rec"
    using cok moved_on by (simp add: case_ok_def)
  moreover have "map_of (Disputes s') did = Some ?rec" using moved_on by (simp add: update_conv')
  ultimately have "store_ok sf s'" using store_ok_only [OF ok only, of ?rec] by simp
  with only moved_on show ?thesis by blast
qed

section \<open>Transactions\<close>

lemma store_ok_snapshot: "snapshot s' = snapshot s \<Longrightarrow> store_ok sf s' = store_ok sf s"
  by (simp add: snapshot_def store_ok_def case_ok_def cong: option.case_cong)

lemma store_ok_same: "Disputes s' = Disputes s \<Longrightarrow> Events s' = Events s \<Longrightarrow> Ledger s' = Ledger s \<Longrightarrow>
    Deadlines s' = Deadlines s \<Longrightarrow> store_ok sf s' = store_ok sf s"
  by (simp add: store_ok_def case_ok_def cong: option.case_cong)

text \<open>
  The two ways an idempotent request succeeds: the stored response again with nothing written, or the request run and,
  under a key, its response stored.
\<close>

lemma idempotent_Inr:
  assumes "idempotent env ctx scope idem fn s = (Inr res, s')"
  obtains (replayed) r tid where "tenant_IDFrom ctx = Some tid" "id_Key idem \<noteq> []"
      "map_of (Idempotent s) (idem_key tid (store_scope ctx scope) (id_Key idem)) = Some r"
      "sr_RequestHash r = sv_sha256 env (id_RequestBody idem)" "res = \<lparr>rs_View = sr_Body r, rs_Replayed = True\<rparr>" "s' = s"
  | (ran) tid t v s1 where "tenant_IDFrom ctx = Some tid" "t = \<lparr>mt_Tenant = tid, mt_Principal = principal_From ctx, mt_Wall = sv_wall env\<rparr>"
      "id_Key idem \<noteq> [] \<Longrightarrow> map_of (Idempotent s) (idem_key tid (store_scope ctx scope) (id_Key idem)) = None"
      "fn t s = (Inr v, s1)" "res = \<lparr>rs_View = v, rs_Replayed = False\<rparr>"
      "s' = (if id_Key idem = [] then s1 else s1\<lparr>Idempotent := AList.update (idem_key tid (store_scope ctx scope) (id_Key idem))
         \<lparr>sr_RequestHash = sv_sha256 env (id_RequestBody idem), sr_StatusCode = 0, sr_Body = v, sr_CreatedAt = sv_wall env\<rparr>
         (Idempotent s1)\<rparr>)"
proof -
  from assms obtain tid where tid: "tenant_IDFrom ctx = Some tid"
    and run: "(if id_Key idem = [] then run_and_store env \<lparr>mt_Tenant = tid, mt_Principal = principal_From ctx, mt_Wall = sv_wall env\<rparr>
        (store_scope ctx scope) idem (fn \<lparr>mt_Tenant = tid, mt_Principal = principal_From ctx, mt_Wall = sv_wall env\<rparr>)
      else tx_bind (tx_optional (Tx_GetIdempotent \<lparr>mt_Tenant = tid, mt_Principal = principal_From ctx, mt_Wall = sv_wall env\<rparr>
          (store_scope ctx scope) (id_Key idem))) (\<lambda>stored.
          case stored of
            Some r \<Rightarrow>
              if sr_RequestHash r \<noteq> sv_sha256 env (id_RequestBody idem) then tx_fail (Classified ErrIdempotencyReuse)
              else tx_return \<lparr>rs_View = sr_Body r, rs_Replayed = True\<rparr>
          | None \<Rightarrow>
              if store_scope ctx scope \<noteq> scope
              then tx_bind (tx_optional (Tx_GetIdempotent \<lparr>mt_Tenant = tid, mt_Principal = principal_From ctx, mt_Wall = sv_wall env\<rparr> scope (id_Key idem))) (\<lambda>legacy.
                case legacy of
                  Some _ \<Rightarrow> tx_fail (Classified ErrIdempotencyReuse)
                | None \<Rightarrow> run_and_store env \<lparr>mt_Tenant = tid, mt_Principal = principal_From ctx, mt_Wall = sv_wall env\<rparr>
                    (store_scope ctx scope) idem (fn \<lparr>mt_Tenant = tid, mt_Principal = principal_From ctx, mt_Wall = sv_wall env\<rparr>))
              else run_and_store env \<lparr>mt_Tenant = tid, mt_Principal = principal_From ctx, mt_Wall = sv_wall env\<rparr>
                (store_scope ctx scope) idem (fn \<lparr>mt_Tenant = tid, mt_Principal = principal_From ctx, mt_Wall = sv_wall env\<rparr>))) s
       = (Inr res, s')"
    by (auto simp: idempotent_def Let_def WithTx_Inr)
  let ?t = "\<lparr>mt_Tenant = tid, mt_Principal = principal_From ctx, mt_Wall = sv_wall env\<rparr>"
  let ?k = "idem_key tid (store_scope ctx scope) (id_Key idem)"
  have ran': thesis if rs: "run_and_store env ?t (store_scope ctx scope) idem (fn ?t) s = (Inr res, s')"
    and none: "id_Key idem \<noteq> [] \<Longrightarrow> map_of (Idempotent s) ?k = None"
  proof -
    from rs obtain v s1 where "fn ?t s = (Inr v, s1)" "res = \<lparr>rs_View = v, rs_Replayed = False\<rparr>"
      "s' = (if id_Key idem = [] then s1 else s1\<lparr>Idempotent := AList.update ?k
         \<lparr>sr_RequestHash = sv_sha256 env (id_RequestBody idem), sr_StatusCode = 0, sr_Body = v, sr_CreatedAt = sv_wall env\<rparr>
         (Idempotent s1)\<rparr>)"
      by (auto simp: run_and_store_def tx_bind_Inr_iff tx_then_Inr_iff Tx_PutIdempotent_def split: if_splits)
    with ran [OF tid refl none] show thesis by blast
  qed
  have opt: "tx_optional (Tx_GetIdempotent ?t sc key) s = (Inr (map_of (Idempotent s) (idem_key tid sc key)), s)" for sc key
    by (simp add: tx_optional_def tx_try_def Tx_GetIdempotent_def found_def not_found_def ErrNotFound_def split: option.split)
  show thesis
  proof (cases "id_Key idem = []")
    case True
    with run ran' show thesis by simp
  next
    case False
    show thesis
    proof (cases "map_of (Idempotent s) ?k")
      case None
      with run False ran' show thesis
        by (auto simp: tx_bind_Inr_iff opt split: if_splits option.splits)
    next
      case (Some r)
      with run False replayed [OF tid False Some] show thesis
        by (auto simp: tx_bind_Inr_iff opt split: if_splits)
    qed
  qed
qed

end
