(* ===== verification/Correspondence.thy ===== *)
theory Correspondence
  imports Integrity
begin

text \<open>
  \<^verbatim>\<open>backend/internal/dispute/application/compose.go\<close>, \<^verbatim>\<open>attachments.go\<close> and \<^verbatim>\<open>identity.go\<close>: the emails an analyst
  composes or sends again, the files they carry, the tenant's wording of the templates, and the pictures of tenants
  and analysts.

  A stored override is the decoded wording, where the source keeps its JSON text and falls back to the base when that
  no longer decodes.
\<close>

section \<open>The tenant's templates\<close>

definition applyStored :: "Template \<Rightarrow> TenantTemplate option \<Rightarrow> Template" where
  "applyStored base stored =
     (case Option.bind stored tt_Override of
        None \<Rightarrow> base
      | Some ov \<Rightarrow> (case Apply_Override base ov of Inl _ \<Rightarrow> base | Inr t \<Rightarrow> t))"

text \<open>\<open>byKind\<close>: the last stored template of a kind.\<close>

definition byKind :: "TenantTemplate list \<Rightarrow> notice_kind \<Rightarrow> TenantTemplate option" where
  "byKind overrides kind = find (\<lambda>o'. tt_Kind o' = kind) (rev overrides)"

definition tenantTemplates :: "MemTx \<Rightarrow> ('c, Template list) svc" where
  "tenantTemplates t = tx_bind (Tx_TenantTemplates t) (\<lambda>overrides.
     tx_return (map (\<lambda>b. applyStored b (byKind overrides (tpl_Kind b))) Templates))"

definition unknown_template :: "notice_kind \<Rightarrow> error" where
  "unknown_template kind = Classified (WithDetail ErrUnknownTemplate (go_quote (notice_kind_str kind)))"

definition tenantTemplate :: "MemTx \<Rightarrow> notice_kind \<Rightarrow> ('c, Template) svc" where
  "tenantTemplate t kind = tx_bind (tenantTemplates t) (\<lambda>all.
     case find (\<lambda>x. tpl_Kind x = kind) all of Some x \<Rightarrow> tx_return x | None \<Rightarrow> tx_fail (unknown_template kind))"

record TemplateSetting =
  ts_Base :: Template
  ts_Override :: "Override option"
  ts_Effective :: Template
  ts_UpdatedBy :: string
  ts_UpdatedAt :: "time option"

definition template_setting :: "TenantTemplate list \<Rightarrow> Template \<Rightarrow> TemplateSetting" where
  "template_setting overrides base =
     (case byKind overrides (tpl_Kind base) of
        None \<Rightarrow> \<lparr>ts_Base = base, ts_Override = None, ts_Effective = base, ts_UpdatedBy = [], ts_UpdatedAt = None\<rparr>
      | Some stored \<Rightarrow> \<lparr>ts_Base = base, ts_Override = tt_Override stored, ts_Effective = applyStored base (Some stored),
          ts_UpdatedBy = tt_UpdatedBy stored, ts_UpdatedAt = Some (tt_UpdatedAt stored)\<rparr>)"

definition ListTemplateSettings :: "'c Env \<Rightarrow> Ctx \<Rightarrow> ('c, TemplateSetting list) svc" where
  "ListTemplateSettings env ctx = WithTx (sv_wall env) ctx (\<lambda>t.
     tx_bind (authorize env ctx t ActionManageTemplates None) (\<lambda>_.
     tx_bind (Tx_TenantTemplates t) (\<lambda>overrides. tx_return (map (template_setting overrides) Templates))))"

definition PutTemplateSetting :: "'c Env \<Rightarrow> Ctx \<Rightarrow> notice_kind \<Rightarrow> Override \<Rightarrow> string \<Rightarrow> ('c, TemplateSetting) svc" where
  "PutTemplateSetting env ctx kind ov actor =
     (case TemplateFor kind of
        None \<Rightarrow> tx_fail (unknown_template kind)
      | Some base \<Rightarrow>
          tx_bind (tx_lift (Apply_Override base ov)) (\<lambda>effective.
          tx_then (WithTx (sv_wall env) ctx (\<lambda>t.
             tx_bind (authorize env ctx t ActionManageTemplates None) (\<lambda>_.
             Tx_PutTenantTemplate t \<lparr>tt_Kind = kind, tt_Override = Some ov, tt_UpdatedBy = actor, tt_UpdatedAt = sv_now env\<rparr>)))
          (tx_return \<lparr>ts_Base = base, ts_Override = Some ov, ts_Effective = effective, ts_UpdatedBy = actor,
             ts_UpdatedAt = Some (sv_now env)\<rparr>)))"

definition DeleteTemplateSetting :: "'c Env \<Rightarrow> Ctx \<Rightarrow> notice_kind \<Rightarrow> ('c, unit) svc" where
  "DeleteTemplateSetting env ctx kind =
     (case TemplateFor kind of
        None \<Rightarrow> tx_fail (unknown_template kind)
      | Some _ \<Rightarrow> WithTx (sv_wall env) ctx (\<lambda>t.
          tx_bind (authorize env ctx t ActionManageTemplates None) (\<lambda>_.
          tx_bind (Tx_DeleteTenantTemplate t kind) (\<lambda>was.
          if \<not> was then tx_fail not_found else tx_return ()))))"

section \<open>Attachments\<close>

definition MaxAttachmentBytes :: nat where "MaxAttachmentBytes = 5 * 2 ^ 20"
definition MaxAttachments :: nat where "MaxAttachments = 3"
definition DraftAttachmentTTL :: int where "DraftAttachmentTTL = 24 * 3600 * second"

definition AllowedAttachmentTypes :: "string list" where
  "AllowedAttachmentTypes = [''application/pdf'', ''image/png'', ''image/jpeg'']"

definition ErrAttachmentRefused :: Error where
  "ErrAttachmentRefused = New Unprocessable ''attachment-refused'' ''the file cannot be attached''"

definition ErrAttachmentUnknown :: Error where
  "ErrAttachmentUnknown = New Unprocessable ''attachment-unknown'' ''an attachment is not a draft of this dispute''"

record UploadInput =
  up_DisputeID :: uuid
  up_Filename :: string
  up_ContentType :: string
  up_Content :: string
  up_Actor :: string

definition check_upload :: "UploadInput \<Rightarrow> unit result" where
  "check_upload inp =
     (let refuse = (\<lambda>d. Inl (Classified (WithDetail ErrAttachmentRefused d))) in
      if up_Content inp = [] then refuse ''the file is empty''
      else if MaxAttachmentBytes < length (up_Content inp) then refuse ''the file is larger than 5 MB''
      else if up_ContentType inp \<notin> set AllowedAttachmentTypes then refuse (up_ContentType inp @ '' is not a PDF, PNG or JPEG'')
      else if up_Filename inp = [] \<or> 200 < length (up_Filename inp) then refuse ''the file needs a name of at most 200 characters''
      else Inr ())"

definition Upload :: "'c Env \<Rightarrow> Ctx \<Rightarrow> UploadInput \<Rightarrow> ('c, Attachment) svc" where
  "Upload env ctx inp =
     tx_bind (tx_lift (check_upload inp)) (\<lambda>_.
     tx_bind (tx_lift (sv_NewV7 env)) (\<lambda>aid.
     let a = \<lparr>at_ID = aid, at_DisputeID = up_DisputeID inp, at_NoticeID = None, at_Filename = up_Filename inp,
           at_ContentType = up_ContentType inp, at_Size = length (up_Content inp), at_Content = up_Content inp,
           at_UploadedBy = up_Actor inp, at_UploadedAt = sv_now env\<rparr>
     in tx_then (WithTx (sv_wall env) ctx (\<lambda>t.
          tx_then (authorizeDispute env ctx t ActionUploadAttachment (up_DisputeID inp))
            (Tx_InsertAttachment t (up_DisputeID inp) a)))
        (tx_return (a\<lparr>at_Content := []\<rparr>))))"

definition GetAttachment :: "'c Env \<Rightarrow> Ctx \<Rightarrow> uuid \<Rightarrow> uuid \<Rightarrow> ('c, Attachment) svc" where
  "GetAttachment env ctx disputeID aid = WithTx (sv_wall env) ctx (\<lambda>t. Tx_GetAttachment disputeID aid)"

definition claimAttachments :: "uuid \<Rightarrow> int \<Rightarrow> uuid list \<Rightarrow> ('c, Attachment list) svc" where
  "claimAttachments disputeID noticeID ids =
     (if ids = [] then tx_return []
      else if MaxAttachments < length ids
      then tx_fail (Classified (WithDetail ErrAttachmentRefused ''at most 3 attachments per email''))
      else tx_bind (Tx_ClaimAttachments disputeID noticeID ids) (\<lambda>n.
        if n \<noteq> int (length ids) then tx_fail (Classified ErrAttachmentUnknown)
        else tx_bind (Tx_ListAttachmentMeta disputeID [noticeID]) (\<lambda>metas.
          tx_return (filter (\<lambda>m. at_NoticeID m = Some noticeID) metas))))"

definition enclosures :: "Attachment list \<Rightarrow> string" where
  "enclosures files = (if files = [] then [] else ''Enclosures:'' @ concat (map (\<lambda>f. newline @ ''- '' @ at_Filename f) files))"

section \<open>Composing and sending again\<close>

definition factValues :: "string_fixed \<Rightarrow> Facts \<Rightarrow> FactValues" where
  "factValues sf f = \<lparr>fv_Customer = f_Customer f, fv_Bank = f_Bank f, fv_Amount = sf (f_Amount f) 2 @ '' '' @ f_Currency f,
     fv_Merchant = f_Merchant f, fv_Dispute = f_DisputeID f, fv_Today = f_Now f\<rparr>"

definition ListEmailTemplates :: "'c Env \<Rightarrow> Ctx \<Rightarrow> uuid \<Rightarrow> ('c, Template list \<times> FactValues) svc" where
  "ListEmailTemplates env ctx disputeID = WithTx (sv_wall env) ctx (\<lambda>t.
     tx_bind (Tx_GetDispute t disputeID) (\<lambda>rec.
     tx_bind (facts t rec (sv_now env)) (\<lambda>f.
     tx_bind (tenantTemplates t) (\<lambda>resolved.
     let fv = factValues (sv_StringFixed env) (nf_Facts f)
     in tx_return (map (\<lambda>x. Placeholders (sv_loc env) x fv) resolved, fv)))))"

record ComposeEmailInput =
  ce_DisputeID :: uuid
  ce_Template :: notice_kind
  ce_Fields :: values_map
  ce_Attachments :: "uuid list"
  ce_Actor :: string

definition ErrNotResendable :: Error where
  "ErrNotResendable = New Conflict ''not-resendable'' ''only an email that has been sent can be sent again''"

definition no_address :: error where
  "no_address = Classified (WithDetail ErrNotResendable ''the account has no email address'')"

text \<open>The letter beside an email, where the template has one and the regime requires writing.\<close>

definition compose_letter :: "'c Env \<Rightarrow> MemTx \<Rightarrow> DisputeRecord \<Rightarrow> Rules \<Rightarrow> Template \<Rightarrow> noticeFacts \<Rightarrow> Document \<Rightarrow> Attachment list \<Rightarrow> string \<Rightarrow> ('c, unit) svc" where
  "compose_letter env t rec r tpl f doc files actor =
     (if tpl_Letter tpl \<and> r_WrittenNotices r \<and> nf_PostalAddress f \<noteq> [] then
        (let enc = enclosures files;
             letterDoc = (if enc \<noteq> [] then doc\<lparr>doc_Paragraphs := doc_Paragraphs doc @ [enc]\<rparr> else doc)
         in tx_bind (Tx_InsertNotice t ((new_notice (dr_ID rec) (dr_Version rec) (tpl_Kind tpl) ChannelLetter (nf_PostalAddress f) letterDoc
                (sv_now env))\<lparr>nt_SentAt := Some (sv_now env), nt_Actor := actor\<rparr>)) (\<lambda>_. tx_return ()))
      else tx_return ())"

definition compose_email :: "'c Env \<Rightarrow> Ctx \<Rightarrow> ComposeEmailInput \<Rightarrow> MemTx \<Rightarrow> ('c, DisputeView) svc" where
  "compose_email env ctx inp t =
     tx_bind (Tx_GetDispute t (ce_DisputeID inp)) (\<lambda>rec.
     tx_then (authorizeDispute env ctx t ActionComposeEmail (dr_ID rec))
     (tx_bind (tenantTemplate t (ce_Template inp)) (\<lambda>tpl.
     tx_bind (tx_lift (Validate tpl (ce_Fields inp))) (\<lambda>vals.
     tx_bind (facts t rec (sv_now env)) (\<lambda>f.
     tx_bind (tx_lift (RulesFor (dr_Regime rec))) (\<lambda>rules.
     let doc = Fill (sv_loc env) tpl (factValues (sv_StringFixed env) (nf_Facts f)) vals in
     if nf_Email f = [] then tx_fail no_address
     else tx_bind (Tx_InsertNotice t ((new_notice (dr_ID rec) (dr_Version rec) (tpl_Kind tpl) ChannelEmail (nf_Email f) doc (sv_now env))
            \<lparr>nt_Actor := ce_Actor inp\<rparr>)) (\<lambda>emailID.
          tx_bind (claimAttachments (dr_ID rec) emailID (ce_Attachments inp)) (\<lambda>files.
          tx_then (compose_letter env t rec rules tpl f doc files (ce_Actor inp))
          (view env ctx t rec)))))))))"

definition ComposeEmail :: "'c Env \<Rightarrow> Ctx \<Rightarrow> ComposeEmailInput \<Rightarrow> ('c, DisputeView) svc" where
  "ComposeEmail env ctx inp =
     (case TemplateFor (ce_Template inp) of
        None \<Rightarrow> tx_fail (unknown_template (ce_Template inp))
      | Some _ \<Rightarrow> WithTx (sv_wall env) ctx (compose_email env ctx inp))"

record ResendInput =
  ri_DisputeID :: uuid
  ri_NoticeID :: int
  ri_Actor :: string

definition resend :: "'c Env \<Rightarrow> Ctx \<Rightarrow> ResendInput \<Rightarrow> MemTx \<Rightarrow> ('c, DisputeView) svc" where
  "resend env ctx inp t =
     tx_bind (Tx_GetDispute t (ri_DisputeID inp)) (\<lambda>rec.
     tx_then (authorizeDispute env ctx t ActionResendNotice (dr_ID rec))
     (tx_bind (Tx_GetNotice t (dr_ID rec) (ri_NoticeID inp)) (\<lambda>orig.
     if nt_Channel orig \<noteq> ChannelEmail \<or> nt_SentAt orig = None then tx_fail (Classified ErrNotResendable)
     else tx_bind (Tx_GetAccount (dr_AccountID rec)) (\<lambda>account.
       if ar_Email account = [] then tx_fail no_address
       else let root = (case nt_ResendOf orig of Some r \<Rightarrow> r | None \<Rightarrow> nt_ID orig);
                n = (new_notice (dr_ID rec) (nt_Seq orig) (nt_Kind orig) ChannelEmail (ar_Email account) (nt_Document orig) (sv_now env))
                  \<lparr>nt_Subject := nt_Subject orig, nt_Actor := ri_Actor inp, nt_ResendOf := Some root\<rparr>
            in tx_bind (Tx_InsertNotice t n) (\<lambda>_. view env ctx t rec)))))"

definition Resend :: "'c Env \<Rightarrow> Ctx \<Rightarrow> ResendInput \<Rightarrow> ('c, DisputeView) svc" where
  "Resend env ctx inp = WithTx (sv_wall env) ctx (resend env ctx inp)"

section \<open>Pictures\<close>

definition MaxImageBytes :: nat where "MaxImageBytes = 256 * 2 ^ 10"

definition AllowedImageTypes :: "string list" where
  "AllowedImageTypes = [''image/png'', ''image/jpeg'', ''image/webp'']"

definition ErrImageRefused :: Error where
  "ErrImageRefused = New Unprocessable ''image-refused'' ''the image cannot be stored''"

definition checkImage :: "Image \<Rightarrow> unit result" where
  "checkImage img =
     (let refuse = (\<lambda>d. Inl (Classified (WithDetail ErrImageRefused d))) in
      if im_Content img = [] then refuse ''the file is empty''
      else if MaxImageBytes < length (im_Content img) then refuse ''the image is larger than 256 kB''
      else if im_ContentType img \<notin> set AllowedImageTypes then refuse (im_ContentType img @ '' is not a PNG, JPEG or WebP'')
      else Inr ())"

record TenantProfile =
  tp_Name :: string
  tp_HasLogo :: bool
  tp_LogoUpdatedAt :: "time option"

definition Tenant :: "'c Env \<Rightarrow> Ctx \<Rightarrow> ('c, TenantProfile) svc" where
  "Tenant env ctx = WithTx (sv_wall env) ctx (\<lambda>t.
     tx_bind (Tx_TenantName t) (\<lambda>name.
     tx_bind (Tx_GetTenantMetadata t) (\<lambda>meta.
     tx_return \<lparr>tp_Name = name, tp_HasLogo = tm_HasLogo meta, tp_LogoUpdatedAt = tm_LogoUpdatedAt meta\<rparr>)))"

definition TenantLogo :: "'c Env \<Rightarrow> Ctx \<Rightarrow> ('c, Image) svc" where
  "TenantLogo env ctx = WithTx (sv_wall env) ctx Tx_GetTenantLogo"

definition PutTenantLogo :: "'c Env \<Rightarrow> Ctx \<Rightarrow> Image \<Rightarrow> ('c, TenantProfile) svc" where
  "PutTenantLogo env ctx img =
     tx_bind (tx_lift (checkImage img)) (\<lambda>_.
     WithTx (sv_wall env) ctx (\<lambda>t.
       tx_bind (authorize env ctx t ActionManageBranding None) (\<lambda>_.
       tx_then (Tx_PutTenantLogo t img (sv_now env))
       (tx_bind (Tx_TenantName t) (\<lambda>name.
       tx_return \<lparr>tp_Name = name, tp_HasLogo = True, tp_LogoUpdatedAt = Some (sv_now env)\<rparr>)))))"

definition AnalystAvatar :: "'c Env \<Rightarrow> Ctx \<Rightarrow> string \<Rightarrow> ('c, Image) svc" where
  "AnalystAvatar env ctx subject = WithTx (sv_wall env) ctx (\<lambda>t. Tx_GetAnalystAvatar t subject)"

definition PutAnalystAvatar :: "'c Env \<Rightarrow> Ctx \<Rightarrow> string \<Rightarrow> Image \<Rightarrow> ('c, unit) svc" where
  "PutAnalystAvatar env ctx subject img =
     tx_bind (tx_lift (checkImage img)) (\<lambda>_. WithTx (sv_wall env) ctx (\<lambda>t. Tx_PutAnalystAvatar t subject img))"

end
