(* ===== verification/Shapes.thy ===== *)
theory Shapes
  imports Correspondence
begin

text \<open>
  The answers of the API: the shapes of \<^verbatim>\<open>ports/http/oapi\<close> that differ from the views of the use cases, and the functions
  of \<^verbatim>\<open>ports/http/handler.go\<close> that fill them. Amounts become text at the currency's minor unit, and what is empty is left
  out. A shape that only renames the fields of a view is the view itself. No answers of a customer and an empty set
  of answers are the same here.
\<close>

section \<open>A dispute\<close>

record ApiEvent =
  lg_Seq :: int
  lg_Event :: string
  lg_FromState :: string
  lg_ToState :: state
  lg_Actor :: string
  lg_Payload :: "(string \<times> json) list"
  lg_TraceId :: "string option"
  lg_OccurredAt :: time

record ApiLedgerEntry =
  al_Seq :: int
  al_Kind :: posting_kind
  al_Debit :: account
  al_Credit :: account
  al_Amount :: string
  al_Currency :: string
  al_Reference :: string
  al_PostedAt :: time
  al_Core :: "CoreReceiptView option"

record ApiBalances =
  ab_Customer :: string
  ab_Suspense :: string
  ab_Recovery :: string
  ab_Loss :: string

record ApiNotice =
  nc_ID :: int
  nc_Seq :: int
  nc_Kind :: notice_kind
  nc_Channel :: channel
  nc_Recipient :: string
  nc_Subject :: string
  nc_CreatedAt :: time
  nc_SentAt :: "time option"
  nc_Error :: "string option"
  nc_Actor :: "string option"
  nc_ResendOf :: "int option"
  nc_Attachments :: "AttachmentView list"

record ApiQuestionnaire =
  aq_Reason :: reason
  aq_Questions :: "Question list"
  aq_Answers :: "answers option"
  aq_Inconsistencies :: "string list"
  aq_SentAt :: time
  aq_ReceivedAt :: "time option"

record ApiDispute =
  ad_ID :: uuid
  ad_Regime :: regime
  ad_Reason :: reason
  ad_State :: state
  ad_Appeals :: int
  ad_Version :: int
  ad_TransactionId :: uuid
  ad_AccountId :: uuid
  ad_DisputedAmount :: string
  ad_Currency :: string
  ad_OpenedAt :: time
  ad_UpdatedAt :: time
  ad_AllowedEvents :: "event list"
  ad_Events :: "ApiEvent list"
  ad_Deadlines :: "DeadlineView list"
  ad_Ledger :: "ApiLedgerEntry list"
  ad_Balances :: ApiBalances
  ad_Notices :: "ApiNotice list"
  ad_Risk :: "RiskView option"
  ad_Questionnaire :: "ApiQuestionnaire option"

text \<open>
  A stored payload read as a map: an error is ignored, so a value of another type, or \<open>null\<close>, is an empty map, and a
  number that does not fit is nothing.
\<close>

fun any_or_nil :: "json_num \<Rightarrow> json \<Rightarrow> json"
  and any_or_nil_list :: "json_num \<Rightarrow> json list \<Rightarrow> json list"
  and any_or_nil_obj :: "json_num \<Rightarrow> (string \<times> json) list \<Rightarrow> (string \<times> json) list" where
  "any_or_nil num (JNum n) = (case num n of Some m \<Rightarrow> JNum m | None \<Rightarrow> JNull)"
| "any_or_nil num (JArr xs) = JArr (any_or_nil_list num xs)"
| "any_or_nil num (JObj kvs) = JObj (as_map (any_or_nil_obj num kvs))"
| "any_or_nil num JNull = JNull"
| "any_or_nil num (JBool b) = JBool b"
| "any_or_nil num (JStr s) = JStr s"
| "any_or_nil_list num [] = []"
| "any_or_nil_list num (x # xs) = any_or_nil num x # any_or_nil_list num xs"
| "any_or_nil_obj num [] = []"
| "any_or_nil_obj num ((k, v) # kvs) = (k, any_or_nil num v) # any_or_nil_obj num kvs"

definition payload_map :: "json_num \<Rightarrow> json \<Rightarrow> (string \<times> json) list" where
  "payload_map num j = (case j of JObj kvs \<Rightarrow> as_map (any_or_nil_obj num kvs) | _ \<Rightarrow> [])"

definition api_event :: "json_num \<Rightarrow> EventView \<Rightarrow> ApiEvent" where
  "api_event num e = \<lparr>lg_Seq = evv_Seq e, lg_Event = event_str (evv_Event e), lg_FromState = state_str (evv_FromState e),
     lg_ToState = evv_ToState e, lg_Actor = evv_Actor e, lg_Payload = payload_map num (evv_Payload e),
     lg_TraceId = evv_TraceID e, lg_OccurredAt = evv_OccurredAt e\<rparr>"

definition api_entry :: "string_fixed \<Rightarrow> LedgerView \<Rightarrow> ApiLedgerEntry" where
  "api_entry sf l = \<lparr>al_Seq = lv_Seq l, al_Kind = lv_Kind l, al_Debit = lv_Debit l, al_Credit = lv_Credit l,
     al_Amount = Format sf (lv_Amount l) (lv_Currency l), al_Currency = lv_Currency l, al_Reference = lv_Reference l,
     al_PostedAt = lv_PostedAt l, al_Core = lv_Core l\<rparr>"

definition nonempty :: "'a list \<Rightarrow> 'a list option" where
  "nonempty s = (if s = [] then None else Some s)"

definition api_notice :: "NoticeView \<Rightarrow> ApiNotice" where
  "api_notice n = \<lparr>nc_ID = nv_ID n, nc_Seq = nv_Seq n, nc_Kind = nv_Kind n, nc_Channel = nv_Channel n,
     nc_Recipient = nv_Recipient n, nc_Subject = nv_Subject n, nc_CreatedAt = nv_CreatedAt n, nc_SentAt = nv_SentAt n,
     nc_Error = nv_Error n, nc_Actor = nonempty (nv_Actor n), nc_ResendOf = nv_ResendOf n,
     nc_Attachments = nv_Attachments n\<rparr>"

definition api_questionnaire :: "QuestionnaireView \<Rightarrow> ApiQuestionnaire" where
  "api_questionnaire q = \<lparr>aq_Reason = qv_Reason q, aq_Questions = qv_Questions q, aq_Answers = nonempty (qv_Answers q),
     aq_Inconsistencies = qv_Inconsistencies q, aq_SentAt = qv_SentAt q, aq_ReceivedAt = qv_ReceivedAt q\<rparr>"

definition toAPI :: "string_fixed \<Rightarrow> json_num \<Rightarrow> DisputeView \<Rightarrow> ApiDispute" where
  "toAPI sf num v =
     (let money = (\<lambda>d. Format sf d (vw_Currency v)); b = vw_Balances v in
      \<lparr>ad_ID = vw_ID v, ad_Regime = vw_Regime v, ad_Reason = vw_Reason v, ad_State = vw_State v, ad_Appeals = vw_Appeals v,
       ad_Version = vw_Version v, ad_TransactionId = vw_TransactionID v, ad_AccountId = vw_AccountID v,
       ad_DisputedAmount = money (vw_DisputedAmount v), ad_Currency = vw_Currency v, ad_OpenedAt = vw_OpenedAt v,
       ad_UpdatedAt = vw_UpdatedAt v, ad_AllowedEvents = vw_AllowedEvents v, ad_Events = map (api_event num) (vw_Events v),
       ad_Deadlines = vw_Deadlines v, ad_Ledger = map (api_entry sf) (vw_Ledger v),
       ad_Balances = \<lparr>ab_Customer = money (bl_Customer b), ab_Suspense = money (bl_Suspense b),
         ab_Recovery = money (bl_Recovery b), ab_Loss = money (bl_Loss b)\<rparr>,
       ad_Notices = map api_notice (vw_Notices v), ad_Risk = vw_Risk v,
       ad_Questionnaire = map_option api_questionnaire (vw_Questionnaire v)\<rparr>)"

section \<open>A page of disputes\<close>

record ApiSummary =
  su_ID :: uuid
  su_Regime :: regime
  su_Reason :: reason
  su_State :: state
  su_TransactionId :: uuid
  su_DisputedAmount :: string
  su_Currency :: string
  su_OpenedAt :: time
  su_UpdatedAt :: time
  su_NextDeadline :: "DeadlineView option"
  su_RiskTier :: "risk_tier option"
  su_RiskScore :: "int option"

record ApiPage =
  pa_Items :: "ApiSummary list"
  pa_NextCursor :: "string option"

definition api_summary :: "string_fixed \<Rightarrow> DisputeSummary \<Rightarrow> ApiSummary" where
  "api_summary sf d = \<lparr>su_ID = sm_ID d, su_Regime = sm_Regime d, su_Reason = sm_Reason d, su_State = sm_State d,
     su_TransactionId = sm_TransactionID d, su_DisputedAmount = Format sf (sm_DisputedAmount d) (sm_Currency d),
     su_Currency = sm_Currency d, su_OpenedAt = sm_OpenedAt d, su_UpdatedAt = sm_UpdatedAt d,
     su_NextDeadline = sm_NextDeadline d, su_RiskTier = map_option as_Tier (sm_Risk d),
     su_RiskScore = map_option as_Score (sm_Risk d)\<rparr>"

section \<open>Templates and notices\<close>

record ApiField =
  tf_ID :: string
  tf_Label :: string
  tf_Type :: field_type
  tf_Required :: bool
  tf_Min :: "int option"
  tf_Max :: "int option"
  tf_List :: "bool option"
  tf_Default :: "string option"
  tf_Options :: "Option_rec list option"

record ApiTemplate =
  et_Kind :: notice_kind
  et_Label :: string
  et_Description :: string
  et_Letter :: bool
  et_Fields :: "ApiField list"
  et_Subject :: string
  et_Paragraphs :: "string list"

record ApiOverride =
  to_Label :: "string option"
  to_Description :: "string option"
  to_Subject :: "string option"
  to_Paragraphs :: "string list option"
  to_OptionTexts :: "(string \<times> string) list option"

record ApiSetting =
  st_Base :: ApiTemplate
  st_Effective :: ApiTemplate
  st_Override :: "ApiOverride option"
  st_UpdatedAt :: "time option"
  st_UpdatedBy :: "string option"

record ApiNoticeDocument =
  nd_ID :: int
  nd_Kind :: notice_kind
  nd_Channel :: channel
  nd_Recipient :: string
  nd_Bank :: string
  nd_Date :: time
  nd_Subject :: string
  nd_Greeting :: string
  nd_Paragraphs :: "string list"
  nd_Closing :: string
  nd_SentAt :: "time option"
  nd_Basis :: "string option"

definition templateOf :: "Template \<Rightarrow> ApiTemplate" where
  "templateOf t = \<lparr>et_Kind = tpl_Kind t, et_Label = tpl_Label t, et_Description = tpl_Description t, et_Letter = tpl_Letter t,
     et_Fields = map (\<lambda>f. \<lparr>tf_ID = fld_ID f, tf_Label = fld_Label f, tf_Type = fld_Type f, tf_Required = fld_Required f,
       tf_Min = fld_Min f, tf_Max = fld_Max f, tf_List = (if fld_List f then Some True else None),
       tf_Default = nonempty (fld_Default f), tf_Options = nonempty (fld_Options f)\<rparr>) (tpl_Fields t),
     et_Subject = tpl_Subject t, et_Paragraphs = tpl_Paragraphs t\<rparr>"

definition overrideOf :: "Override option \<Rightarrow> ApiOverride option" where
  "overrideOf ov = map_option (\<lambda>o'. \<lparr>to_Label = nonempty (ov_Label o'), to_Description = nonempty (ov_Description o'),
     to_Subject = nonempty (ov_Subject o'), to_Paragraphs = nonempty (ov_Paragraphs o'),
     to_OptionTexts = nonempty (ov_OptionTexts o')\<rparr>) ov"

definition settingOf :: "TemplateSetting \<Rightarrow> ApiSetting" where
  "settingOf s = \<lparr>st_Base = templateOf (ts_Base s), st_Effective = templateOf (ts_Effective s),
     st_Override = overrideOf (ts_Override s), st_UpdatedAt = ts_UpdatedAt s, st_UpdatedBy = nonempty (ts_UpdatedBy s)\<rparr>"

definition notice_document :: "NoticeRecord \<Rightarrow> Document \<Rightarrow> ApiNoticeDocument" where
  "notice_document rec doc = \<lparr>nd_ID = nt_ID rec, nd_Kind = nt_Kind rec, nd_Channel = nt_Channel rec,
     nd_Recipient = nt_Recipient rec, nd_Bank = doc_Bank doc, nd_Date = nt_CreatedAt rec, nd_Subject = doc_Subject doc,
     nd_Greeting = doc_Greeting doc, nd_Paragraphs = doc_Paragraphs doc, nd_Closing = doc_Closing doc,
     nd_SentAt = nt_SentAt rec, nd_Basis = nonempty (doc_Basis doc)\<rparr>"

text \<open>What a tenant sends as its wording; a field that is missing keeps the base's.\<close>

definition override_of_body :: "ApiOverride \<Rightarrow> Override" where
  "override_of_body b =
     (let text = (\<lambda>x. case x of Some s \<Rightarrow> s | None \<Rightarrow> []) in
      \<lparr>ov_Label = text (to_Label b), ov_Description = text (to_Description b), ov_Subject = text (to_Subject b),
       ov_Paragraphs = (case to_Paragraphs b of Some p \<Rightarrow> p | None \<Rightarrow> []),
       ov_OptionTexts = (case to_OptionTexts b of Some p \<Rightarrow> p | None \<Rightarrow> [])\<rparr>)"

text \<open>The wording shown is the wording sent, up to what is empty.\<close>

lemma override_round_trip: "override_of_body (the (overrideOf (Some ov))) = ov"
  by (simp add: override_of_body_def overrideOf_def nonempty_def)

end
