(* ===== verification/Keys.thy ===== *)
theory Keys
  imports Gateway "HOL-Library.AList"
begin

text \<open>
  The tenant keys of \<^verbatim>\<open>infrastructure/postgres/keys.go\<close> over their table (issue, list, revoke), and the web sessions of
  \<^verbatim>\<open>internal/websession\<close> over theirs. The random bytes of a secret and the new identifier are arguments; the database's
  clock is the caller's. A unique index refuses a second key with an identifier or a digest that exists.
\<close>

section \<open>Tenant keys\<close>

record KeyRecord =
  kc_ID :: uuid
  kc_Prefix :: string
  kc_Label :: string
  kc_CreatedAt :: time
  kc_LastUsedAt :: "time option"
  kc_ExpiresAt :: "time option"
  kc_RevokedAt :: "time option"

definition KeyRecord_of :: "KeyRow \<Rightarrow> KeyRecord" where
  "KeyRecord_of r = \<lparr>kc_ID = kr_ID r, kc_Prefix = kr_Prefix r, kc_Label = kr_Label r, kc_CreatedAt = kr_CreatedAt r,
     kc_LastUsedAt = kr_LastUsedAt r, kc_ExpiresAt = kr_ExpiresAt r, kc_RevokedAt = kr_RevokedAt r\<rparr>"

definition KeyStatus :: "KeyRecord \<Rightarrow> time \<Rightarrow> string" where
  "KeyStatus r now =
     (if kc_RevokedAt r \<noteq> None then ''revoked''
      else if (case kc_ExpiresAt r of Some x \<Rightarrow> \<not> now < x | None \<Rightarrow> False) then ''expired''
      else ''live'')"

definition ListTenantKeysByTenant :: "uuid \<Rightarrow> 'm Gate_scheme \<Rightarrow> KeyRow list" where
  "ListTenantKeysByTenant tid s = sort_key kr_CreatedAt (filter (\<lambda>k. kr_TenantID k = tid) (db_keys s))"

definition ListForTenant :: "uuid \<Rightarrow> 'm Gate_scheme \<Rightarrow> KeyRecord list result" where
  "ListForTenant tid s = Inr (rev (map KeyRecord_of (ListTenantKeysByTenant tid s)))"

definition getForTenant :: "uuid \<Rightarrow> uuid \<Rightarrow> 'm Gate_scheme \<Rightarrow> KeyRecord result" where
  "getForTenant i tid s =
     (case find (\<lambda>k. kr_ID k = i \<and> kr_TenantID k = tid) (db_keys s) of
        None \<Rightarrow> Inl (Classified ErrNotFound)
      | Some r \<Rightarrow> Inr (KeyRecord_of r))"

definition InsertTenantKey :: "time \<Rightarrow> KeyRow \<Rightarrow> 'm Gate_scheme \<Rightarrow> unit result \<times> 'm Gate_scheme" where
  "InsertTenantKey now row s =
     (if list_ex (\<lambda>k. kr_ID k = kr_ID row \<or> kr_Hash k = kr_Hash row) (db_keys s) then (Inl (Wrap (Classified ErrConflict)), s)
      else if \<not> list_ex (\<lambda>t. te_ID t = kr_TenantID row) (db_tenants s) then (Inl (Opaque ''foreign key violation''), s)
      else (Inr (), s\<lparr>db_keys := db_keys s @ [row]\<rparr>))"

text \<open>\<open>Issue\<close>: the secret leaves in the answer and nowhere else; the table keeps its digest and its first twelve bytes.\<close>

definition Issue :: "(string \<Rightarrow> string) \<Rightarrow> time \<Rightarrow> string \<Rightarrow> uuid \<Rightarrow> uuid \<Rightarrow> string \<Rightarrow> time option \<Rightarrow> 'm Gate_scheme \<Rightarrow>
    (KeyRecord \<times> string) result \<times> 'm Gate_scheme" where
  "Issue hashKey now random newID tid label expiresAt s =
     (let secret = NewSecret random;
          row = \<lparr>kr_ID = newID, kr_TenantID = tid, kr_Hash = hashKey secret, kr_Prefix = Prefix secret, kr_Label = label,
                 kr_CreatedAt = now, kr_LastUsedAt = None, kr_ExpiresAt = expiresAt, kr_RevokedAt = None\<rparr>
      in case InsertTenantKey now row s of
           (Inl err, s1) \<Rightarrow> (Inl err, s1)
         | (Inr _, s1) \<Rightarrow> (map_sum id (\<lambda>rec. (rec, secret)) (getForTenant newID tid s1), s1))"

definition RevokeTenantKeyForTenant :: "time \<Rightarrow> uuid \<Rightarrow> uuid \<Rightarrow> 'm Gate_scheme \<Rightarrow> 'm Gate_scheme" where
  "RevokeTenantKeyForTenant now i tid s =
     s\<lparr>db_keys := map (\<lambda>k. if kr_ID k = i \<and> kr_TenantID k = tid \<and> kr_RevokedAt k = None then k\<lparr>kr_RevokedAt := Some now\<rparr> else k) (db_keys s)\<rparr>"

definition Revoke :: "time \<Rightarrow> uuid \<Rightarrow> uuid \<Rightarrow> 'm Gate_scheme \<Rightarrow> unit result \<times> 'm Gate_scheme" where
  "Revoke now tid i s =
     (case getForTenant i tid s of
        Inl err \<Rightarrow> (Inl err, s)
      | Inr _ \<Rightarrow> (Inr (), RevokeTenantKeyForTenant now i tid s))"

record TenantSummary =
  ts_ID :: uuid
  ts_Slug :: string
  ts_Name :: string
  ts_Issuer :: string
  ts_EmailDomains :: "string list"

definition ListTenantsForDiscovery :: "'m Gate_scheme \<Rightarrow> TenantRow list" where
  "ListTenantsForDiscovery s = sort_key te_Name (filter (\<lambda>t. te_DisabledAt t = None) (db_tenants s))"

definition ActiveTenants :: "'m Gate_scheme \<Rightarrow> TenantSummary list result" where
  "ActiveTenants s = Inr (map (\<lambda>r. \<lparr>ts_ID = te_ID r, ts_Slug = te_Slug r, ts_Name = te_Name r,
     ts_Issuer = (case te_OidcIssuer r of Some i \<Rightarrow> i | None \<Rightarrow> []), ts_EmailDomains = te_EmailDomains r\<rparr>) (ListTenantsForDiscovery s))"

section \<open>Web sessions\<close>

record Blob =
  bl_TenantID :: "uuid option"
  bl_Subject :: string
  bl_Sid :: string
  bl_Ciphertext :: string
  bl_ExpiresAt :: time

record Selector =
  sl_Sid :: string
  sl_TenantID :: "uuid option"
  sl_Subject :: string

record SessionRow =
  se_TenantID :: "uuid option"
  se_Ciphertext :: string
  se_ExpiresAt :: time
  se_Subject :: "string option"
  se_Sid :: "string option"

type_synonym sessions = "(uuid \<times> SessionRow) list"

definition MaxCiphertext :: nat where
  "MaxCiphertext = 16384"

definition optional :: "string \<Rightarrow> string option" where
  "optional s = (if s = [] then None else Some s)"

definition contract_error :: "string \<Rightarrow> error" where
  "contract_error m = Classified (New Invalid ''contract-violation'' m)"

definition PutWebSession :: "uuid \<Rightarrow> SessionRow \<Rightarrow> sessions \<Rightarrow> sessions" where
  "PutWebSession i row db = AList.update i row db"

text \<open>\<open>known\<close>: the tenants of the table, which a session's tenant must be one of.\<close>

definition Put :: "time \<Rightarrow> (uuid \<Rightarrow> bool) \<Rightarrow> uuid \<Rightarrow> Blob \<Rightarrow> sessions \<Rightarrow> unit result \<times> sessions" where
  "Put now known i b db =
     (if bl_Ciphertext b = [] \<or> MaxCiphertext < length (bl_Ciphertext b) then
        (Inl (contract_error ''ciphertext must be between 1 and 16384 bytes''), db)
      else if \<not> now < bl_ExpiresAt b then (Inl (contract_error ''expiresAt must be in the future''), db)
      else if (case bl_TenantID b of Some t \<Rightarrow> \<not> known t | None \<Rightarrow> False) then (Inl (Opaque ''foreign key violation''), db)
      else (Inr (), PutWebSession i \<lparr>se_TenantID = bl_TenantID b, se_Ciphertext = bl_Ciphertext b, se_ExpiresAt = bl_ExpiresAt b,
             se_Subject = optional (bl_Subject b), se_Sid = optional (bl_Sid b)\<rparr> db))"

definition GetWebSession :: "time \<Rightarrow> uuid \<Rightarrow> sessions \<Rightarrow> SessionRow option" where
  "GetWebSession now i db = (case map_of db i of Some r \<Rightarrow> if now < se_ExpiresAt r then Some r else None | None \<Rightarrow> None)"

text \<open>The query reads the tenant, the ciphertext and the expiry, so the handles stay empty.\<close>

definition Get :: "time \<Rightarrow> uuid \<Rightarrow> sessions \<Rightarrow> Blob result" where
  "Get now i db =
     (case GetWebSession now i db of
        None \<Rightarrow> Inl (Classified ErrNotFound)
      | Some row \<Rightarrow> Inr \<lparr>bl_TenantID = se_TenantID row, bl_Subject = [], bl_Sid = [], bl_Ciphertext = se_Ciphertext row,
           bl_ExpiresAt = se_ExpiresAt row\<rparr>)"

definition DeleteWebSession :: "uuid \<Rightarrow> sessions \<Rightarrow> sessions" where
  "DeleteWebSession i db = AList.delete i db"

definition Delete :: "uuid \<Rightarrow> sessions \<Rightarrow> unit result \<times> sessions" where
  "Delete i db = (Inr (), DeleteWebSession i db)"

definition DeleteWebSessions :: "(SessionRow \<Rightarrow> bool) \<Rightarrow> sessions \<Rightarrow> int result \<times> sessions" where
  "DeleteWebSessions P db = (Inr (int (length (filter (\<lambda>(i, r). P r) db))), filter (\<lambda>(i, r). \<not> P r) db)"

text \<open>The sessions a selector names; the first of its fields that says which decides.\<close>

definition selects :: "Selector \<Rightarrow> SessionRow \<Rightarrow> bool" where
  "selects sel r =
     (if sl_Sid sel \<noteq> [] then se_Sid r = Some (sl_Sid sel)
      else case sl_TenantID sel of
        Some t \<Rightarrow> se_TenantID r = Some t \<and> (sl_Subject sel = [] \<or> se_Subject r = Some (sl_Subject sel))
      | None \<Rightarrow> False)"

definition DeleteMatching :: "Selector \<Rightarrow> sessions \<Rightarrow> int result \<times> sessions" where
  "DeleteMatching sel db =
     (if sl_Sid sel \<noteq> [] then DeleteWebSessions (\<lambda>r. se_Sid r = Some (sl_Sid sel)) db
      else case sl_TenantID sel of
        Some t \<Rightarrow>
          if sl_Subject sel \<noteq> [] then DeleteWebSessions (\<lambda>r. se_TenantID r = Some t \<and> se_Subject r = Some (sl_Subject sel)) db
          else DeleteWebSessions (\<lambda>r. se_TenantID r = Some t) db
      | None \<Rightarrow> (Inr 0, db))"

definition PurgeExpired :: "time \<Rightarrow> sessions \<Rightarrow> int result \<times> sessions" where
  "PurgeExpired now db = DeleteWebSessions (\<lambda>r. se_ExpiresAt r < now) db"

section \<open>Lemmas on keys\<close>

definition keys_ok :: "'m Gate_scheme \<Rightarrow> bool" where
  "keys_ok s \<longleftrightarrow> distinct (map kr_ID (db_keys s)) \<and> distinct (map kr_Hash (db_keys s))"

text \<open>What can happen to the table of keys.\<close>

inductive key_step :: "(string \<Rightarrow> string) \<Rightarrow> 'm Gate_scheme \<Rightarrow> 'm Gate_scheme \<Rightarrow> bool" for hashKey where
  issued: "Issue hashKey now random newID tid label expiresAt s = (r, s') \<Longrightarrow> key_step hashKey s s'"
| revoked: "Revoke now tid i s = (r, s') \<Longrightarrow> key_step hashKey s s'"
| looked_up: "KeyForHash now hash s = (r, s') \<Longrightarrow> key_step hashKey s s'"

lemma Issue_table:
  assumes "Issue hashKey now random newID tid label expiresAt s = (r, s')"
  obtains "s' = s" | row where "s' = s\<lparr>db_keys := db_keys s @ [row]\<rparr>"
    "list_all (\<lambda>k. kr_ID k \<noteq> kr_ID row \<and> kr_Hash k \<noteq> kr_Hash row) (db_keys s)"
  using assms
  by (auto simp: Issue_def InsertTenantKey_def Let_def list_ex_iff list_all_iff split: if_splits)

lemma KeyForHash_table:
  assumes "KeyForHash now hash s = (r, s')"
  shows "\<exists>f. db_keys s' = map f (db_keys s) \<and>
    (\<forall>k. kr_ID (f k) = kr_ID k \<and> kr_Hash (f k) = kr_Hash k \<and> kr_RevokedAt (f k) = kr_RevokedAt k)"
proof -
  have "\<exists>f. db_keys (touch now i s) = map f (db_keys s) \<and>
      (\<forall>k. kr_ID (f k) = kr_ID k \<and> kr_Hash (f k) = kr_Hash k \<and> kr_RevokedAt (f k) = kr_RevokedAt k)" for i
    by (simp add: touch_def TouchTenantKey_def)
      (intro conjI impI exI [of _ "\<lambda>k. k"] exI [of _ "\<lambda>k. if kr_ID k = i then k\<lparr>kr_LastUsedAt := Some now\<rparr> else k"]; simp)
  then show ?thesis using assms
    by (auto simp: KeyForHash_def split: option.splits intro: exI [of _ "\<lambda>k. k"])
qed

lemma Revoke_table:
  assumes "Revoke now tid i s = (r, s')"
  shows "\<exists>f. db_keys s' = map f (db_keys s) \<and>
    (\<forall>k. kr_ID (f k) = kr_ID k \<and> kr_Hash (f k) = kr_Hash k \<and> (kr_RevokedAt k \<noteq> None \<longrightarrow> kr_RevokedAt (f k) \<noteq> None))"
proof (cases "getForTenant i tid s")
  case (Inl err)
  then show ?thesis using assms by (auto simp: Revoke_def intro: exI [of _ "\<lambda>k. k"])
next
  case (Inr rec)
  then show ?thesis using assms
    by (intro exI [of _ "\<lambda>k. if kr_ID k = i \<and> kr_TenantID k = tid \<and> kr_RevokedAt k = None then k\<lparr>kr_RevokedAt := Some now\<rparr> else k"])
      (auto simp: Revoke_def RevokeTenantKeyForTenant_def)
qed

definition retired :: "string \<Rightarrow> 'm Gate_scheme \<Rightarrow> bool" where
  "retired hash s \<longleftrightarrow> (\<exists>k \<in> set (db_keys s). kr_Hash k = hash) \<and> (\<forall>k \<in> set (db_keys s). kr_Hash k = hash \<longrightarrow> kr_RevokedAt k \<noteq> None)"

lemma key_step_retired: "key_step hashKey s s' \<Longrightarrow> retired hash s \<Longrightarrow> retired hash s'"
proof (induction rule: key_step.induct)
  case (issued now random newID tid label expiresAt s r s')
  from issued(1) show ?case by (rule Issue_table) (use issued(2) in \<open>auto simp: retired_def list_all_iff\<close>)
next
  case (revoked now tid i s r s')
  from Revoke_table [OF revoked(1)] obtain f where "db_keys s' = map f (db_keys s)"
    "\<forall>k. kr_ID (f k) = kr_ID k \<and> kr_Hash (f k) = kr_Hash k \<and> (kr_RevokedAt k \<noteq> None \<longrightarrow> kr_RevokedAt (f k) \<noteq> None)" by blast
  then show ?case using revoked(2) by (simp add: retired_def)
next
  case (looked_up now hash' s r s')
  from KeyForHash_table [OF looked_up(1)] obtain f where "db_keys s' = map f (db_keys s)"
    "\<forall>k. kr_ID (f k) = kr_ID k \<and> kr_Hash (f k) = kr_Hash k \<and> kr_RevokedAt (f k) = kr_RevokedAt k" by blast
  then show ?case using looked_up(2) by (simp add: retired_def)
qed

lemma retired_refused: "retired hash s \<Longrightarrow> KeyForHash now hash s = (Inl (Classified ErrNotFound), s)"
  by (rule KeyForHash_cases [of now hash s]) (auto simp: retired_def key_live_def)

lemma secret_credential:
  assumes "rq_Header rq ''Authorization'' = ''Bearer '' @ NewSecret random"
  shows "credential rq = Some (NewSecret random) \<and> \<not> LooksLikeJWT (NewSecret random)"
proof -
  have chars: "visible c" if "c \<in> set (b64_encode random)" for c
  proof -
    have "list_all visible b64_alphabet" "length b64_alphabet = 64" by (simp_all add: b64_alphabet_def visible_def)
    then have "visible (b64_char v)" if "v < 64" for v using that by (simp add: b64_char_def list_all_length)
    moreover have "list_all (\<lambda>n. n < 64) (b64_sextets (map of_char random))" by (rule b64_sextets_bound) (simp add: list_all_iff)
    ultimately show ?thesis using that by (auto simp: b64_encode_def list_all_iff)
  qed
  have "visible (last (NewSecret random))"
    using chars by (cases "b64_encode random = []") (auto simp: NewSecret_def visible_def)
  then have "trim_space (NewSecret random) = NewSecret random"
    by (intro trim_space_visible) (simp add: NewSecret_def visible_def)
  moreover have "NewSecret random \<noteq> []" "starts_with ''tk_'' (NewSecret random)" by (simp_all add: NewSecret_def starts_with_def)
  ultimately show ?thesis using assms by (simp add: credential_def starts_with_def LooksLikeJWT_def Let_def)
qed

lemma find_snoc: "find P (xs @ [x]) = (case find P xs of Some y \<Rightarrow> Some y | None \<Rightarrow> if P x then Some x else None)"
  by (induction xs) simp_all

lemma Issue_Inr:
  assumes "Issue hashKey now random newID tid label expiresAt s = (Inr (rec, secret), s')"
  shows "secret = NewSecret random" "kc_ID rec = newID" "list_all (\<lambda>k. kr_ID k \<noteq> newID \<and> kr_Hash k \<noteq> hashKey secret) (db_keys s)"
    "s' = s\<lparr>db_keys := db_keys s @ [\<lparr>kr_ID = newID, kr_TenantID = tid, kr_Hash = hashKey secret, kr_Prefix = Prefix secret, kr_Label = label,
       kr_CreatedAt = now, kr_LastUsedAt = None, kr_ExpiresAt = expiresAt, kr_RevokedAt = None\<rparr>]\<rparr>"
proof -
  let ?secret = "NewSecret random"
  let ?row = "\<lparr>kr_ID = newID, kr_TenantID = tid, kr_Hash = hashKey ?secret, kr_Prefix = Prefix ?secret, kr_Label = label,
       kr_CreatedAt = now, kr_LastUsedAt = None, kr_ExpiresAt = expiresAt, kr_RevokedAt = None\<rparr>"
  have new: "\<not> list_ex (\<lambda>k. kr_ID k = newID \<or> kr_Hash k = hashKey ?secret) (db_keys s)"
    and s': "s' = s\<lparr>db_keys := db_keys s @ [?row]\<rparr>" and got: "map_sum id (\<lambda>rec. (rec, ?secret)) (getForTenant newID tid s') = Inr (rec, secret)"
    using assms by (auto simp: Issue_def InsertTenantKey_def Let_def split: if_splits)
  from new have fresh: "list_all (\<lambda>k. kr_ID k \<noteq> newID \<and> kr_Hash k \<noteq> hashKey ?secret) (db_keys s)"
    by (auto simp: list_ex_iff list_all_iff)
  then have "find (\<lambda>k. kr_ID k = newID \<and> kr_TenantID k = tid) (db_keys s') = Some ?row"
    using find_None_iff [of "\<lambda>k. kr_ID k = newID \<and> kr_TenantID k = tid" "db_keys s"] unfolding s'
    by (auto simp: find_snoc list_all_iff)
  then have "secret = ?secret" "kc_ID rec = newID" using got by (auto simp: getForTenant_def KeyRecord_of_def)
  then show "secret = NewSecret random" "kc_ID rec = newID" "list_all (\<lambda>k. kr_ID k \<noteq> newID \<and> kr_Hash k \<noteq> hashKey secret) (db_keys s)"
    "s' = s\<lparr>db_keys := db_keys s @ [\<lparr>kr_ID = newID, kr_TenantID = tid, kr_Hash = hashKey secret, kr_Prefix = Prefix secret, kr_Label = label,
       kr_CreatedAt = now, kr_LastUsedAt = None, kr_ExpiresAt = expiresAt, kr_RevokedAt = None\<rparr>]\<rparr>"
    using fresh s' by simp_all
qed

section \<open>Properties\<close>





end
