(* ===== verification/Dispatch.thy ===== *)
theory Dispatch
  imports Correspondence
begin

text \<open>
  \<^verbatim>\<open>backend/internal/dispute/application/mail.go\<close>: the dispatcher that drains the notice outbox, and the sweeps of
  \<^verbatim>\<open>purge.go\<close> and \<^verbatim>\<open>attachments.go\<close>.

  The mailer has a state of its own; \<open>send\<close> gives the failure text of an attempt, empty when the mail was accepted. A
  dispatcher works on the world and the mailer together. The loop of \<open>Run\<close> around a pass ends when a pass claims
  nothing; \<open>drain\<close> is that loop with fuel. Timers, kicks and instruments are not part of the state.
\<close>

section \<open>Definitions\<close>

type_synonym 'm mailer = "Mail \<Rightarrow> 'm \<Rightarrow> string \<times> 'm"

definition mail_source :: "NoticeRecord \<Rightarrow> int" where
  "mail_source n = (case nt_ResendOf n of Some r \<Rightarrow> r | None \<Rightarrow> nt_ID n)"

definition mail_files :: "Attachment list \<Rightarrow> (string \<times> string \<times> string) list" where
  "mail_files files = map (\<lambda>f. (at_Filename f, at_ContentType f, at_Content f)) files"

definition files_of :: "int \<Rightarrow> 'x MemStore_scheme \<Rightarrow> Attachment list" where
  "files_of nid s = sort_key at_UploadedAt (filter (\<lambda>a. at_NoticeID a = Some nid) (map snd (Attachments s)))"

text \<open>The mail of a notice: its words, and the files of the email it is or repeats.\<close>

definition mail_of :: "location \<Rightarrow> 'x MemStore_scheme \<Rightarrow> NoticeRecord \<Rightarrow> Mail" where
  "mail_of loc s n = (RenderMail loc n)\<lparr>ml_Files := mail_files (files_of (mail_source n) s)\<rparr>"

definition deliver :: "'m mailer \<Rightarrow> location \<Rightarrow> time \<Rightarrow> NoticeRecord \<Rightarrow> 'c World \<times> 'm \<Rightarrow> 'c World \<times> 'm" where
  "deliver send loc wall n = (\<lambda>(w, m).
     case NoticeAttachments (mail_source n) w of
       (Inl e, w1) \<Rightarrow> (snd (FinishNotice wall (nt_ID n) (''render: '' @ error_text e) w1), m)
     | (Inr files, w1) \<Rightarrow>
         (let (failure, m1) = send ((RenderMail loc n)\<lparr>ml_Files := mail_files files\<rparr>) m
          in (snd (FinishNotice wall (nt_ID n) failure w1), m1)))"

fun deliver_all :: "'m mailer \<Rightarrow> location \<Rightarrow> time \<Rightarrow> NoticeRecord list \<Rightarrow> 'c World \<times> 'm \<Rightarrow> 'c World \<times> 'm" where
  "deliver_all send loc wall [] wm = wm"
| "deliver_all send loc wall (n # ns) wm = deliver_all send loc wall ns (deliver send loc wall n wm)"

definition batch_size :: nat where "batch_size = 20"

definition pass :: "'m mailer \<Rightarrow> location \<Rightarrow> time \<Rightarrow> 'c World \<times> 'm \<Rightarrow> nat \<times> 'c World \<times> 'm" where
  "pass send loc wall = (\<lambda>(w, m).
     case ClaimNotices batch_size w of
       (Inl _, w1) \<Rightarrow> (0, w1, m)
     | (Inr batch, w1) \<Rightarrow> (length batch, deliver_all send loc wall batch (w1, m)))"

fun drain :: "nat \<Rightarrow> 'm mailer \<Rightarrow> location \<Rightarrow> time \<Rightarrow> 'c World \<times> 'm \<Rightarrow> ('c World \<times> 'm) option" where
  "drain 0 send loc wall wm = None"
| "drain (Suc fuel) send loc wall wm =
     (let (n, wm') = pass send loc wall wm in if n = 0 then Some wm' else drain fuel send loc wall wm')"

text \<open>The sweeps: what one tick of each purge deletes.\<close>

definition sweep_idempotency :: "int \<Rightarrow> time \<Rightarrow> ('c, int) svc" where
  "sweep_idempotency ttl wall = PurgeIdempotencyKeys (wall - ttl)"

definition sweep_drafts :: "time \<Rightarrow> ('c, int) svc" where
  "sweep_drafts wall = PurgeDraftAttachments (wall - DraftAttachmentTTL)"

text \<open>A mailer that accepts everything and keeps what it was given, to state what is delivered.\<close>

definition accepting :: "Mail list mailer" where
  "accepting mail sent = ([], sent @ [mail])"

section \<open>Lemmas\<close>

lemma deliver_eq:
  "deliver send loc wall n (w, m) =
     (let (failure, m1) = send (mail_of loc w n) m
      in (w\<lparr>Notices := map (finish_one wall (nt_ID n) failure) (Notices w)\<rparr>, m1))"
  by (simp add: deliver_def NoticeAttachments_def FinishNotice_def mail_of_def files_of_def split: prod.split)

lemma finish_one_id [simp]: "nt_ID (finish_one wall k f n) = nt_ID n"
  by (simp add: finish_one_def)

lemma mail_of_cong: "Attachments s' = Attachments s \<Longrightarrow> mail_of loc s' n = mail_of loc s n"
  by (simp add: mail_of_def files_of_def)

text \<open>What an accepting mailer makes of a batch.\<close>

definition mark_sent :: "time \<Rightarrow> int set \<Rightarrow> NoticeRecord \<Rightarrow> NoticeRecord" where
  "mark_sent wall ids x = (if nt_ID x \<in> ids then x\<lparr>nt_SentAt := Some wall, nt_LastError := None\<rparr> else x)"

lemma mark_sent_finish: "mark_sent wall ids (finish_one wall k [] x) = mark_sent wall (insert k ids) x"
  by (simp add: mark_sent_def finish_one_def)

lemma mark_sent_none: "mark_sent wall {} = (\<lambda>x. x)"
  by (simp add: mark_sent_def fun_eq_iff)

lemma deliver_all_accepting:
  "deliver_all accepting loc wall ns (w, sent) =
     (w\<lparr>Notices := map (mark_sent wall (nt_ID ` set ns)) (Notices w)\<rparr>, sent @ map (mail_of loc w) ns)"
proof (induction ns arbitrary: w sent)
  case Nil
  then show ?case by (simp add: mark_sent_none)
next
  case (Cons n ns)
  let ?w = "w\<lparr>Notices := map (finish_one wall (nt_ID n) []) (Notices w)\<rparr>"
  have "deliver_all accepting loc wall (n # ns) (w, sent) = deliver_all accepting loc wall ns (?w, sent @ [mail_of loc w n])"
    by (simp add: deliver_eq accepting_def)
  also have "\<dots> = (w\<lparr>Notices := map (mark_sent wall (nt_ID ` set (n # ns))) (Notices w)\<rparr>, sent @ map (mail_of loc w) (n # ns))"
  proof -
    have "mail_of loc ?w = mail_of loc w" by (rule ext) (rule mail_of_cong, simp)
    then show ?thesis unfolding Cons.IH by (simp add: comp_def mark_sent_finish)
  qed
  finally show ?case .
qed

lemma claim_notices_split:
  "claim_notices k ns = (out, ns') \<Longrightarrow>
     out = map (\<lambda>n. n\<lparr>nt_Attempts := nt_Attempts n + 1\<rparr>) (take k (filter unsent_email ns)) \<and> map nt_ID ns' = map nt_ID ns \<and>
     filter unsent_email ns' = out @ drop k (filter unsent_email ns)"
proof (induction ns arbitrary: k out ns')
  case (Cons n ns)
  show ?case
  proof (cases "unsent_email n \<and> 0 < k")
    case True
    obtain o1 n1 where rec: "claim_notices (k - 1) ns = (o1, n1)" by (cases "claim_notices (k - 1) ns")
    have up: "unsent_email (n\<lparr>nt_Attempts := nt_Attempts n + 1\<rparr>)" using True by (simp add: unsent_email_def)
    from True Cons.prems rec have "out = n\<lparr>nt_Attempts := nt_Attempts n + 1\<rparr> # o1" "ns' = n\<lparr>nt_Attempts := nt_Attempts n + 1\<rparr> # n1"
      by (auto simp: Let_def)
    with Cons.IH [OF rec] True up show ?thesis by (cases k) auto
  next
    case False
    obtain o1 n1 where rec: "claim_notices k ns = (o1, n1)" by (cases "claim_notices k ns")
    with False Cons.prems have eq: "out = o1" "ns' = n # n1" by auto
    show ?thesis
    proof (cases "unsent_email n")
      case True
      with False have "k = 0" by simp
      with Cons.IH [OF rec] eq True show ?thesis by simp
    next
      case not_unsent: False
      with Cons.IH [OF rec] eq show ?thesis by simp
    qed
  qed
qed simp

lemma mail_of_attempts [simp]: "mail_of loc s (n\<lparr>nt_Attempts := k\<rparr>) = mail_of loc s n"
  by (simp add: mail_of_def RenderMail_def mail_source_def Let_def split: option.split)

lemma mail_of_attempts_map [simp]: "map (mail_of loc s) (map (\<lambda>n. n\<lparr>nt_Attempts := nt_Attempts n + 1\<rparr>) ns) = map (mail_of loc s) ns"
  by simp

lemma unsent_mark_sent:
  assumes "distinct (map nt_ID ns)"
  shows "filter unsent_email (map (mark_sent wall (nt_ID ` set (take k (filter unsent_email ns)))) ns) = drop k (filter unsent_email ns)"
proof -
  let ?taken = "take k (filter unsent_email ns)"
  have "filter unsent_email (map (mark_sent wall I) ns) = filter (\<lambda>n. unsent_email n \<and> nt_ID n \<notin> I) ns" for I
    by (induction ns) (auto simp: mark_sent_def unsent_email_def)
  then have "filter unsent_email (map (mark_sent wall (nt_ID ` set ?taken)) ns) =
      filter (\<lambda>n. nt_ID n \<notin> nt_ID ` set ?taken) (filter unsent_email ns)"
    by (simp add: conj_commute)
  also have "\<dots> = filter (\<lambda>n. nt_ID n \<notin> nt_ID ` set ?taken) (?taken @ drop k (filter unsent_email ns))" by simp
  also have "\<dots> = drop k (filter unsent_email ns)"
  proof -
    have "distinct (map nt_ID (?taken @ drop k (filter unsent_email ns)))"
      using assms by (simp only: append_take_drop_id) (induction ns, auto)
    then have "nt_ID ` set ?taken \<inter> nt_ID ` set (drop k (filter unsent_email ns)) = {}"
      by (simp only: map_append distinct_append set_map)
    then have "\<forall>n \<in> set (drop k (filter unsent_email ns)). nt_ID n \<notin> nt_ID ` set ?taken" by blast
    then have "filter (\<lambda>n. nt_ID n \<notin> nt_ID ` set ?taken) (drop k (filter unsent_email ns)) = drop k (filter unsent_email ns)"
      by (simp only: filter_id_conv)
    moreover have "filter (\<lambda>n. nt_ID n \<notin> nt_ID ` set ?taken) ?taken = []" by (simp only: filter_empty_conv) blast
    ultimately show ?thesis by (simp only: filter_append append_Nil)
  qed
  finally show ?thesis .
qed

text \<open>One pass of the dispatcher over an accepting mailer: the oldest twenty of the outbox go out, in order.\<close>

lemma pass_accepting:
  assumes "distinct (map nt_ID (Notices w))" and "pass accepting loc wall (w, sent) = (n, w', sent')"
  shows "n = min batch_size (length (filter unsent_email (Notices w)))"
    and "sent' = sent @ map (mail_of loc w) (take batch_size (filter unsent_email (Notices w)))"
    and "filter unsent_email (Notices w') = drop batch_size (filter unsent_email (Notices w))"
    and "distinct (map nt_ID (Notices w'))" and "Attachments w' = Attachments w"
proof -
  obtain out ns where claim: "claim_notices batch_size (Notices w) = (out, ns)" by (cases "claim_notices batch_size (Notices w)")
  note split = claim_notices_split [OF claim]
  let ?w1 = "w\<lparr>Notices := ns\<rparr>"
  have eq: "(n, w', sent') = (length out, ?w1\<lparr>Notices := map (mark_sent wall (nt_ID ` set out)) ns\<rparr>, sent @ map (mail_of loc ?w1) out)"
    using assms(2) by (simp add: pass_def ClaimNotices_def claim deliver_all_accepting)
  have mail: "mail_of loc ?w1 = mail_of loc w" by (rule ext) (rule mail_of_cong, simp)
  show "n = min batch_size (length (filter unsent_email (Notices w)))" using eq split by (simp add: min_def)
  show "sent' = sent @ map (mail_of loc w) (take batch_size (filter unsent_email (Notices w)))"
    using eq split by (simp add: mail)
  have taken: "take (length out) (filter unsent_email ns) = out" using split by simp
  have "distinct (map nt_ID ns)" using split assms(1) by simp
  from unsent_mark_sent [OF this, of wall "length out"]
  have "filter unsent_email (map (mark_sent wall (nt_ID ` set out)) ns) = drop (length out) (filter unsent_email ns)"
    by (simp only: taken)
  also have "\<dots> = drop batch_size (filter unsent_email (Notices w))" using split by simp
  finally show "filter unsent_email (Notices w') = drop batch_size (filter unsent_email (Notices w))" using eq by simp
  have "map nt_ID (map (mark_sent wall I) ns) = map nt_ID ns" for I by (simp add: mark_sent_def)
  then show "distinct (map nt_ID (Notices w'))" using eq split assms(1) by simp
  show "Attachments w' = Attachments w" using eq by simp
qed

lemma drain_accepting:
  assumes "distinct (map nt_ID (Notices w))" and "length (filter unsent_email (Notices w)) \<le> fuel"
  shows "\<exists>w'. drain (Suc fuel) accepting loc wall (w, sent) = Some (w', sent @ map (mail_of loc w) (filter unsent_email (Notices w))) \<and>
    filter unsent_email (Notices w') = []"
  using assms
proof (induction fuel arbitrary: w sent)
  case 0
  obtain n w1 s1 where p: "pass accepting loc wall (w, sent) = (n, w1, s1)" by (cases "pass accepting loc wall (w, sent)")
  note * = pass_accepting [OF 0(1) p]
  from * 0 show ?case by (simp add: p)
next
  case (Suc fuel)
  obtain n w1 s1 where p: "pass accepting loc wall (w, sent) = (n, w1, s1)" by (cases "pass accepting loc wall (w, sent)")
  note * = pass_accepting [OF Suc.prems(1) p]
  show ?case
  proof (cases "filter unsent_email (Notices w) = []")
    case True
    with * show ?thesis by (simp add: p)
  next
    case False
    then have n: "n \<noteq> 0" using * by (simp add: batch_size_def)
    have "length (filter unsent_email (Notices w1)) \<le> fuel"
      using * False Suc.prems(2) by (cases "filter unsent_email (Notices w)") (simp_all add: batch_size_def)
    from Suc.IH [OF *(4) this, of s1] obtain w' where
      w': "drain (Suc fuel) accepting loc wall (w1, s1) = Some (w', s1 @ map (mail_of loc w1) (filter unsent_email (Notices w1)))"
      "filter unsent_email (Notices w') = []" by blast
    have "mail_of loc w1 = mail_of loc w" by (rule ext) (rule mail_of_cong, simp add: *)
    moreover have "take batch_size us @ drop batch_size us = us" for us :: "NoticeRecord list" by simp
    ultimately have "s1 @ map (mail_of loc w1) (filter unsent_email (Notices w1)) = sent @ map (mail_of loc w) (filter unsent_email (Notices w))"
      using * by (simp flip: map_append)
    with w' n show ?thesis by (simp add: p)
  qed
qed

end
