(* ===== verification/Frames.thy ===== *)
theory Frames
  imports Dispatch
begin

text \<open>
  What the operations leave alone, once for all of them. A frame is a relation between the world before and after an
  operation, whether it succeeds or fails. \<open>rollback_frame\<close> asks that a rollback respects it; then every request that
  only reads does. \<open>note_frame\<close> asks it of the writes of notices and settings too, for the tenants of its \<open>scope\<close>, and
  \<open>mail_frame\<close> of the writes of attachments; then every operation of \<^verbatim>\<open>compose.go\<close>, \<^verbatim>\<open>attachments.go\<close> and
  \<^verbatim>\<open>identity.go\<close> respects it. \<open>work_frame\<close> asks it of the writes of the cases, for the operations of \<^verbatim>\<open>service.go\<close>, and
  \<open>write_frame\<close> of all writes. The frames the system is studied with are interpreted below.
\<close>

section \<open>The contracts\<close>

text \<open>The request's tenant, when it has one, is in the scope.\<close>

definition serves :: "(uuid \<Rightarrow> bool) \<Rightarrow> Ctx \<Rightarrow> bool" where
  "serves scope ctx \<longleftrightarrow> (\<forall>tid. tenant_IDFrom ctx = Some tid \<longrightarrow> scope tid)"

locale rollback_frame = service_frame R for R :: "'c World \<Rightarrow> 'c World \<Rightarrow> bool" +
  fixes scope :: "uuid \<Rightarrow> bool"
  assumes rolled_back: "R s s' \<Longrightarrow> R s (restore (snapshot s) s')"
begin

lemma stays_WithTx:
  assumes "serves scope ctx" and "\<And>t. scope (mt_Tenant t) \<Longrightarrow> stays R (fn t)"
  shows "stays R (WithTx wall ctx fn)"
  unfolding stays_def
proof
  fix s
  show "R s (snd (WithTx wall ctx fn s))"
  proof (cases "tenant_IDFrom ctx")
    case None
    then show ?thesis by (simp add: WithTx_def frame_refl)
  next
    case (Some tid)
    let ?t = "\<lparr>mt_Tenant = tid, mt_Principal = principal_From ctx, mt_Wall = wall\<rparr>"
    obtain r s' where run: "fn ?t s = (r, s')" by (cases "fn ?t s")
    have "stays R (fn ?t)" using assms Some by (simp add: serves_def)
    from staysD [OF this run] have "R s s'" .
    with rolled_back [OF this] show ?thesis by (simp add: WithTx_def Some run Let_def split: sum.split)
  qed
qed

lemma stays_templates: "stays R (tenantTemplates t)" "stays R (tenantTemplate t kind)"
  unfolding tenantTemplates_def tenantTemplate_def by (intro stays_ops stays_tx_reads frame_intros)+

lemma stays_requests_that_read:
  assumes "serves scope ctx"
  shows "stays R (GetDispute env ctx did)" "stays R (ListDisputes env ctx q)" "stays R (GetNotice env ctx did nid)"
    "stays R (Authorize env ctx action)" "stays R (GetAttachment env ctx did aid)" "stays R (ListEmailTemplates env ctx did)"
    "stays R (ListTemplateSettings env ctx)" "stays R (Tenant env ctx)" "stays R (TenantLogo env ctx)"
    "stays R (AnalystAvatar env ctx subject)"
  unfolding GetDispute_def ListDisputes_def GetNotice_def Authorize_def GetAttachment_def ListEmailTemplates_def
    ListTemplateSettings_def Tenant_def TenantLogo_def AnalystAvatar_def Let_def
  using assms by (intro stays_WithTx stays_ops stays_tx_reads stays_service_reads stays_templates frame_intros; assumption?)+

end

locale note_frame = rollback_frame R scope for R :: "'c World \<Rightarrow> 'c World \<Rightarrow> bool" and scope :: "uuid \<Rightarrow> bool" +
  assumes insert_notice: "scope (mt_Tenant t) \<Longrightarrow> stays R (Tx_InsertNotice t n)"
    and put_template: "stays R (Tx_PutTenantTemplate t tt)"
    and delete_template: "stays R (Tx_DeleteTenantTemplate t kind)"
    and put_logo: "stays R (Tx_PutTenantLogo t img stamp)"
    and put_avatar: "stays R (Tx_PutAnalystAvatar t subject img)"
begin

lemmas stays_note_parts = stays_ops stays_tx_reads stays_service_reads insert_notice put_template delete_template put_logo
  put_avatar frame_intros

lemma stays_compose_letter: "scope (mt_Tenant t) \<Longrightarrow> stays R (compose_letter env t rec r tpl f doc files actor)"
  unfolding compose_letter_def by (intro stays_note_parts) (simp_all add: Let_def)

lemma stays_Resend: "serves scope ctx \<Longrightarrow> stays R (Resend env ctx inp)"
  unfolding Resend_def resend_def by (intro stays_WithTx stays_note_parts)

lemma stays_settings:
  assumes "serves scope ctx"
  shows "stays R (PutTemplateSetting env ctx kind ov actor)" "stays R (DeleteTemplateSetting env ctx kind)"
    "stays R (PutTenantLogo env ctx img)" "stays R (PutAnalystAvatar env ctx subject img)"
  unfolding PutTemplateSetting_def DeleteTemplateSetting_def PutTenantLogo_def PutAnalystAvatar_def
  using assms by (intro stays_note_parts stays_WithTx; assumption?)+

end

locale mail_frame = note_frame R scope for R :: "'c World \<Rightarrow> 'c World \<Rightarrow> bool" and scope :: "uuid \<Rightarrow> bool" +
  assumes insert_attachment: "scope (mt_Tenant t) \<Longrightarrow> stays R (Tx_InsertAttachment t did a)"
    and claim_attachments: "stays R (Tx_ClaimAttachments did nid ids)"
begin

lemmas stays_parts = stays_note_parts insert_attachment claim_attachments

lemma stays_claimAttachments: "stays R (claimAttachments did nid ids)"
  unfolding claimAttachments_def by (intro stays_parts)

lemma stays_compose_email: "scope (mt_Tenant t) \<Longrightarrow> stays R (compose_email env ctx inp t)"
  unfolding compose_email_def
  by (intro stays_parts stays_templates stays_claimAttachments stays_compose_letter)

lemma stays_ComposeEmail: "serves scope ctx \<Longrightarrow> stays R (ComposeEmail env ctx inp)"
  unfolding ComposeEmail_def by (intro stays_parts stays_WithTx stays_compose_email)

lemma stays_Upload: "serves scope ctx \<Longrightarrow> stays R (Upload env ctx inp)"
  unfolding Upload_def by (intro stays_parts stays_WithTx)

end

locale work_frame = note_frame R "\<lambda>_. True" for R :: "'c World \<Rightarrow> 'c World \<Rightarrow> bool" +
  assumes insert_dispute: "stays R (Tx_InsertDispute t d)"
    and update_state: "stays R (Tx_UpdateDisputeState t did v st ap upd)"
    and update_team: "stays R (Tx_UpdateDisputeTeam t did v team upd)"
    and append_event: "stays R (Tx_AppendEvent did e)"
    and insert_deadlines: "stays R (Tx_InsertDeadlines t did ds)"
    and settle_deadline: "stays R (Tx_SettleDeadline t did kind cycle met stamp)"
    and append_ledger: "stays R (Tx_AppendLedger t did es)"
    and send_questionnaire: "stays R (Tx_SendQuestionnaire t did q)"
    and answer_questionnaire: "stays R (Tx_AnswerQuestionnaire t did ans stamp)"
    and insert_risk: "stays R (Tx_InsertRisk t did r)"
    and put_idempotent: "stays R (Tx_PutIdempotent t sc k resp)"
    and core_moves: "R w (w\<lparr>w_Core := c\<rparr>)"
begin

lemma in_scope_always: "serves (\<lambda>_. True) ctx"
  by (simp add: serves_def)

lemmas stays_writes = insert_dispute update_state update_team append_event insert_deadlines settle_deadline append_ledger
  send_questionnaire answer_questionnaire insert_risk put_idempotent

lemmas stays_work = stays_note_parts stays_writes TrueI in_scope_always stays_WithTx

lemma stays_questionnaire_step: "stays R (questionnaire env t rec ev payload now)"
  unfolding questionnaire_def Let_def by (cases ev; simp; intro stays_work)

lemma stays_clocks_step: "stays R (settleDeadlines t rec nxt now)"
proof -
  have "stays R (settle_clock t did st now d)" for did st d
    unfolding settle_clock_def by (cases "Settle (dl_Kind d) st"; simp; intro conjI impI stays_work)
  then show ?thesis unfolding settleDeadlines_def by (intro stays_work)
qed

lemma stays_assess_step: "stays R (assess env t rec txn sq now)"
  unfolding assess_def Let_def by (intro stays_work)

lemma stays_notify_step: "stays R (notify env t rec st sq now)"
proof -
  have channel: "stays R (notify_channel t rec sq now f kind doc ch)" for f kind doc ch
    unfolding notify_channel_def Let_def by (intro stays_work)
  have "stays R (notify_kind env t r rec sq now f kind)" for r f kind
    unfolding notify_kind_def Let_def by (intro stays_work channel)
  then show ?thesis unfolding notify_def by (intro stays_work)
qed

lemma stays_post_step: "stays R (post env t rec nxt sq payload now)"
proof -
  have core: "stays R (instructCore env t rec e)" for e
    unfolding instructCore_def Let_def by (intro stays_work stays_on_core core_moves)
  have entry: "stays R (post_entry env t rec sq now p)" for p
    unfolding post_entry_def Let_def by (intro stays_work core)
  have entries: "stays R (post_entries env t rec sq now ps)" for ps
    by (induction ps) (unfold post_entries.simps, intro stays_work, intro stays_work entry)
  show ?thesis unfolding post_def post_movements_def by (intro stays_work entries)
qed

lemmas stays_steps = stays_questionnaire_step stays_clocks_step stays_assess_step stays_notify_step stays_post_step

lemma stays_create: "stays R (create_dispute env ctx inp t)"
  unfolding create_dispute_def open_record_def open_effects_def Let_def by (intro stays_work stays_steps)

lemma stays_apply: "stays R (apply_event env ctx inp t)"
  unfolding apply_event_def decide_event_def record_event_def event_effects_def Let_def by (intro stays_work stays_steps)

lemma stays_idempotent: "(\<And>t. stays R (fn t)) \<Longrightarrow> stays R (idempotent env ctx sc idem fn)"
  unfolding idempotent_def run_and_store_def Let_def by (intro stays_work)

lemma stays_cases:
  "stays R (CreateDispute env ctx inp)" "stays R (ApplyEvent env ctx inp')" "stays R (Reassign env ctx did team)"
  unfolding CreateDispute_def ApplyEvent_def Reassign_def reassign_def
  by (intro stays_idempotent stays_create stays_apply stays_work)+

end

locale write_frame = work_frame R for R :: "'c World \<Rightarrow> 'c World \<Rightarrow> bool" +
  assumes insert_attachment: "stays R (Tx_InsertAttachment t did a)"
    and claim_attachments: "stays R (Tx_ClaimAttachments did nid ids)"

sublocale write_frame \<subseteq> mail: mail_frame R "\<lambda>_. True"
  by unfold_locales (rule insert_attachment claim_attachments)+

section \<open>The frames\<close>

text \<open>Nothing changes at all: the frame of the requests that read.\<close>

interpretation reading: rollback_frame "\<lambda>s s' :: 'c World. s' = s" "\<lambda>_. True"
  by unfold_locales (simp add: restore_def snapshot_def)

text \<open>The case files are as they were.\<close>

definition same_cases :: "'c World \<Rightarrow> 'c World \<Rightarrow> bool" where
  "same_cases s s' \<longleftrightarrow> Disputes s' = Disputes s \<and> Events s' = Events s \<and> Ledger s' = Ledger s \<and> Deadlines s' = Deadlines s"

text \<open>
  Nothing that was recorded is lost or rewritten: logs, ledgers and risk histories only grow; a clock keeps its dates,
  and stays as it was settled; a notice keeps its words and its addressee, and stays sent.
\<close>

definition composed :: "NoticeRecord \<Rightarrow> NoticeRecord" where
  "composed n = n\<lparr>nt_SentAt := None, nt_Attempts := 0, nt_LastError := None\<rparr>"

definition notice_kept :: "NoticeRecord \<Rightarrow> NoticeRecord \<Rightarrow> bool" where
  "notice_kept n n' \<longleftrightarrow> composed n' = composed n \<and> (nt_SentAt n \<noteq> None \<longrightarrow> nt_SentAt n' \<noteq> None)"

definition grown :: "('a \<Rightarrow> 'a \<Rightarrow> bool) \<Rightarrow> 'a list \<Rightarrow> 'a list \<Rightarrow> bool" where
  "grown P xs ys \<longleftrightarrow> (\<exists>zs more. ys = zs @ more \<and> list_all2 P xs zs)"

definition history_kept :: "'c World \<Rightarrow> 'c World \<Rightarrow> bool" where
  "history_kept s s' \<longleftrightarrow>
     (\<forall>k. grown (=) (Events s k) (Events s' k) \<and> grown (=) (Ledger s k) (Ledger s' k) \<and> grown (=) (RiskLog s k) (RiskLog s' k) \<and>
        grown settles (Deadlines s k) (Deadlines s' k)) \<and>
     grown notice_kept (Notices s) (Notices s')"

text \<open>Notices are numbered apart, by a counter that never goes back.\<close>

definition outbox_ok :: "'x MemStore_scheme \<Rightarrow> bool" where
  "outbox_ok s \<longleftrightarrow> distinct (map nt_ID (Notices s)) \<and> (\<forall>n \<in> set (Notices s). nt_ID n \<le> nextNotice s)"

definition outbox_kept :: "'c World \<Rightarrow> 'c World \<Rightarrow> bool" where
  "outbox_kept s s' \<longleftrightarrow> nextNotice s \<le> nextNotice s' \<and> (outbox_ok s \<longrightarrow> outbox_ok s')"

text \<open>The disputes of every other tenant are as they were, with all that belongs to them.\<close>

definition same_case :: "uuid \<Rightarrow> 'x MemStore_scheme \<Rightarrow> 'x MemStore_scheme \<Rightarrow> bool" where
  "same_case k s s' \<longleftrightarrow> map_of (Disputes s') k = map_of (Disputes s) k \<and> Events s' k = Events s k \<and>
     Deadlines s' k = Deadlines s k \<and> Ledger s' k = Ledger s k \<and> Questions s' k = Questions s k \<and>
     RiskLog s' k = RiskLog s k \<and> notices_of k s' = notices_of k s"

definition others_kept :: "uuid \<Rightarrow> 'c World \<Rightarrow> 'c World \<Rightarrow> bool" where
  "others_kept tid s s' \<longleftrightarrow>
     (\<forall>k r. map_of (Disputes s) k = Some r \<longrightarrow> dr_TenantID r \<noteq> tid \<longrightarrow> same_case k s s')"

lemma grown_refl: "(\<And>x. P x x) \<Longrightarrow> grown P xs xs"
  unfolding grown_def by (intro exI [of _ xs] exI [of _ "[]"]) (simp add: list_all2_same)

lemma grown_trans:
  assumes "\<And>x y z. P x y \<Longrightarrow> P y z \<Longrightarrow> P x z" and "grown P xs ys" and "grown P ys zs"
  shows "grown P xs zs"
proof -
  from assms(2,3) obtain us m vs m' where "ys = us @ m" "list_all2 P xs us" "zs = vs @ m'" "list_all2 P ys vs"
    unfolding grown_def by blast
  moreover from this obtain v1 v2 where "vs = v1 @ v2" "list_all2 P us v1" by (auto simp: list_all2_append1)
  ultimately show ?thesis
    unfolding grown_def using list_all2_trans [of P P P] assms(1) by (metis append_assoc)
qed

lemma grown_append: "(\<And>x. P x x) \<Longrightarrow> grown P xs (xs @ ys)"
  unfolding grown_def by (intro exI [of _ xs] exI [of _ ys]) (simp add: list_all2_same)

lemma grown_map: "(\<And>x. P x (f x)) \<Longrightarrow> grown P xs (map f xs)"
  unfolding grown_def by (intro exI [of _ "map f xs"] exI [of _ "[]"]) (simp add: list_all2_conv_all_nth)

lemma notice_kept_refl [simp]: "notice_kept n n"
  by (simp add: notice_kept_def)

lemma notice_kept_trans: "notice_kept a b \<Longrightarrow> notice_kept b c \<Longrightarrow> notice_kept a c"
  by (simp add: notice_kept_def)

lemma grown_same [simp]: "grown (=) xs xs" "grown settles ds ds" "grown notice_kept ns ns"
  by (simp_all add: grown_refl)

lemma grown_steps:
  "grown (=) xs ys \<Longrightarrow> grown (=) ys zs \<Longrightarrow> grown (=) xs zs"
  "grown settles ds es \<Longrightarrow> grown settles es fs \<Longrightarrow> grown settles ds fs"
  "grown notice_kept ns ms \<Longrightarrow> grown notice_kept ms ks \<Longrightarrow> grown notice_kept ns ks"
  by (rule grown_trans; auto intro: settles_trans notice_kept_trans)+

lemma grown_more [simp]: "grown (=) xs (xs @ ys)" "grown settles ds (ds @ es)" "grown notice_kept ns (ns @ ms)"
  by (simp_all add: grown_append)

lemma settle_one_settles [simp]: "settles d (settle_one kind cycle met stamp d)"
  by (auto simp: settles_def settle_one_def)

text \<open>
  The writes, as what each does to the store: those that find their dispute first, and those that do not. The frames
  below are shown by going through them.
\<close>

lemmas found_writes = Tx_InsertNotice_def Tx_InsertAttachment_def Tx_InsertDeadlines_def Tx_SettleDeadline_def
  Tx_AppendLedger_def Tx_SendQuestionnaire_def Tx_AnswerQuestionnaire_def Tx_InsertRisk_def

lemmas bare_writes = Tx_ClaimAttachments_def Tx_PutTenantTemplate_def Tx_DeleteTenantTemplate_def Tx_PutTenantLogo_def
  Tx_PutAnalystAvatar_def Tx_InsertDispute_def Tx_UpdateDisputeState_def Tx_UpdateDisputeTeam_def Tx_AppendEvent_def
  Tx_PutIdempotent_def

interpretation case_frame: service_frame same_cases
  by unfold_locales (auto simp: same_cases_def)

interpretation cases: mail_frame same_cases "\<lambda>_. True"
proof unfold_locales
  fix s s' :: "'c World"
  show "same_cases s s' \<Longrightarrow> same_cases s (restore (snapshot s) s')" by (simp add: same_cases_def restore_def snapshot_def)
next
  fix t n and did :: uuid and a
  show "stays same_cases (Tx_InsertNotice t n :: ('c, int) svc)" "stays same_cases (Tx_InsertAttachment t did a :: ('c, unit) svc)"
    unfolding found_writes
    by (intro case_frame.stays_bind case_frame.stays_tx_reads stays_modify; simp add: stays_def same_cases_def Let_def)+
qed (auto simp: same_cases_def stays_def bare_writes Let_def split: prod.split)

interpretation history_frame: service_frame history_kept
proof unfold_locales
  fix s t u :: "'c World"
  show "history_kept s s" by (simp add: history_kept_def)
  assume "history_kept s t" "history_kept t u"
  then show "history_kept s u"
    unfolding history_kept_def by (intro conjI allI; elim conjE) (meson grown_steps)+
qed

interpretation history: write_frame history_kept
proof unfold_locales
  fix s s' :: "'c World"
  show "history_kept s s' \<Longrightarrow> history_kept s (restore (snapshot s) s')" by (simp add: history_kept_def restore_def snapshot_def)
next
  fix t n and did :: uuid and a ds kind cycle met stamp es q ans r
  have entry: "stays history_kept (append_entry did e :: ('c, unit) svc)" for e
    by (simp add: stays_def history_kept_def append_entry_def)
  show "stays history_kept (Tx_InsertNotice t n :: ('c, int) svc)" "stays history_kept (Tx_InsertAttachment t did a :: ('c, unit) svc)"
    "stays history_kept (Tx_InsertDeadlines t did ds :: ('c, unit) svc)"
    "stays history_kept (Tx_SettleDeadline t did kind cycle met stamp :: ('c, unit) svc)"
    "stays history_kept (Tx_AppendLedger t did es :: ('c, unit) svc)"
    "stays history_kept (Tx_SendQuestionnaire t did q :: ('c, unit) svc)"
    "stays history_kept (Tx_AnswerQuestionnaire t did ans stamp :: ('c, unit) svc)"
    "stays history_kept (Tx_InsertRisk t did r :: ('c, unit) svc)"
    unfolding found_writes
    by (intro history_frame.stays_bind history_frame.stays_tx_reads history_frame.stays_read history_frame.stays_foreach entry
        stays_if stays_modify; simp add: stays_def history_kept_def Let_def grown_map)+
qed (auto simp: history_kept_def stays_def bare_writes Let_def split: prod.split option.split)

interpretation outbox_frame: service_frame outbox_kept
  by unfold_locales (auto simp: outbox_kept_def)

interpretation outbox: write_frame outbox_kept
proof unfold_locales
  fix s s' :: "'c World"
  show "outbox_kept s s' \<Longrightarrow> outbox_kept s (restore (snapshot s) s')"
    by (auto simp: outbox_kept_def outbox_ok_def restore_def snapshot_def)
next
  fix t n
  show "stays outbox_kept (Tx_InsertNotice t n :: ('c, int) svc)"
    unfolding found_writes
    by (intro outbox_frame.stays_bind outbox_frame.stays_tx_reads) (force simp: stays_def outbox_kept_def outbox_ok_def Let_def)
next
  fix t and did :: uuid and a ds kind cycle met stamp es q ans r
  have entry: "stays outbox_kept (append_entry did e :: ('c, unit) svc)" for e
    by (simp add: stays_def outbox_kept_def outbox_ok_def append_entry_def)
  show "stays outbox_kept (Tx_InsertAttachment t did a :: ('c, unit) svc)"
    "stays outbox_kept (Tx_InsertDeadlines t did ds :: ('c, unit) svc)"
    "stays outbox_kept (Tx_SettleDeadline t did kind cycle met stamp :: ('c, unit) svc)"
    "stays outbox_kept (Tx_AppendLedger t did es :: ('c, unit) svc)"
    "stays outbox_kept (Tx_SendQuestionnaire t did q :: ('c, unit) svc)"
    "stays outbox_kept (Tx_AnswerQuestionnaire t did ans stamp :: ('c, unit) svc)"
    "stays outbox_kept (Tx_InsertRisk t did r :: ('c, unit) svc)"
    unfolding found_writes
    by (intro outbox_frame.stays_bind outbox_frame.stays_tx_reads outbox_frame.stays_read outbox_frame.stays_foreach entry
        stays_if stays_modify; simp add: outbox_kept_def outbox_ok_def)+
qed (auto simp: outbox_kept_def outbox_ok_def stays_def bare_writes Let_def split: prod.split option.split)

interpretation others_frame: service_frame "others_kept tid"
  by unfold_locales (auto simp: others_kept_def same_case_def)

interpretation others: mail_frame "others_kept tid" "\<lambda>x. x = tid"
proof unfold_locales
  fix s s' :: "'c World"
  show "others_kept tid s s' \<Longrightarrow> others_kept tid s (restore (snapshot s) s')"
    by (auto simp: others_kept_def same_case_def restore_def snapshot_def notices_of_def)
next
  fix t :: MemTx and n
  assume t: "mt_Tenant t = tid"
  show "stays (others_kept tid) (Tx_InsertNotice t n :: ('c, int) svc)"
    unfolding stays_def
  proof
    fix s :: "'c World"
    show "others_kept tid s (snd (Tx_InsertNotice t n s))"
    proof (cases "get_dispute t (nt_DisputeID n) s")
      case (Inl e)
      then show ?thesis by (simp add: found_writes Tx_GetDispute_def others_frame.frame_refl)
    next
      case (Inr rec)
      then have "map_of (Disputes s) (nt_DisputeID n) = Some rec" "dr_TenantID rec = tid"
        using t by (auto simp: get_dispute_def split: option.splits if_splits)
      with Inr show ?thesis
        by (auto simp: found_writes Tx_GetDispute_def others_kept_def same_case_def notices_of_def Let_def)
    qed
  qed
next
  fix t and did :: uuid and a
  show "stays (others_kept tid) (Tx_InsertAttachment t did a :: ('c, unit) svc)"
    unfolding found_writes
    by (intro others_frame.stays_bind others_frame.stays_tx_reads stays_modify) (simp add: others_kept_def same_case_def notices_of_def)
qed (auto simp: others_kept_def same_case_def notices_of_def stays_def bare_writes Let_def split: prod.split)

end
