(* ===== verification/System.thy ===== *)
theory System
  imports Frames
begin

text \<open>
  The system as a whole: every request of the API, the dispatcher, the sweeps and what changes from outside (the bank's
  transactions and accounts, calendars, teams and grants, the core) as steps of one transition system, with any
  interleaving of any number of them, each succeeding or failing. A request runs in a transaction of the store, so
  requests interleave as wholes. The properties of this theory hold in every reachable state of it.
\<close>

section \<open>Requests and steps\<close>

inductive request :: "string_fixed \<Rightarrow> Ctx \<Rightarrow> 'c World \<Rightarrow> 'c World \<Rightarrow> bool" for sf :: string_fixed and ctx :: Ctx where
  create: "sv_StringFixed env = sf \<Longrightarrow> CreateDispute env ctx inp w = (r, w') \<Longrightarrow> request sf ctx w w'"
| apply_to: "sv_StringFixed env = sf \<Longrightarrow> ApplyEvent env ctx inp w = (r, w') \<Longrightarrow> request sf ctx w w'"
| reassign: "sv_StringFixed env = sf \<Longrightarrow> Reassign env ctx did team w = (r, w') \<Longrightarrow> request sf ctx w w'"
| compose: "ComposeEmail env ctx inp w = (r, w') \<Longrightarrow> request sf ctx w w'"
| resend: "Resend env ctx inp w = (r, w') \<Longrightarrow> request sf ctx w w'"
| upload: "Upload env ctx inp w = (r, w') \<Longrightarrow> request sf ctx w w'"
| put_template: "PutTemplateSetting env ctx kind ov actor w = (r, w') \<Longrightarrow> request sf ctx w w'"
| delete_template: "DeleteTemplateSetting env ctx kind w = (r, w') \<Longrightarrow> request sf ctx w w'"
| put_logo: "PutTenantLogo env ctx img w = (r, w') \<Longrightarrow> request sf ctx w w'"
| put_avatar: "PutAnalystAvatar env ctx subject img w = (r, w') \<Longrightarrow> request sf ctx w w'"
| get_dispute: "GetDispute env ctx did w = (r, w') \<Longrightarrow> request sf ctx w w'"
| list_disputes: "ListDisputes env ctx q w = (r, w') \<Longrightarrow> request sf ctx w w'"
| get_notice: "GetNotice env ctx did nid w = (r, w') \<Longrightarrow> request sf ctx w w'"
| get_attachment: "GetAttachment env ctx did aid w = (r, w') \<Longrightarrow> request sf ctx w w'"
| list_templates: "ListEmailTemplates env ctx did w = (r, w') \<Longrightarrow> request sf ctx w w'"
| list_settings: "ListTemplateSettings env ctx w = (r, w') \<Longrightarrow> request sf ctx w w'"

inductive system_step :: "string_fixed \<Rightarrow> 'm mailer \<Rightarrow> 'c World \<times> 'm \<Rightarrow> 'c World \<times> 'm \<Rightarrow> bool"
  for sf :: string_fixed and send :: "'m mailer" where
  requested: "request sf ctx w w' \<Longrightarrow> system_step sf send (w, m) (w', m)"
| dispatched: "pass send loc wall (w, m) = (n, w', m') \<Longrightarrow> system_step sf send (w, m) (w', m')"
| swept_keys: "sweep_idempotency ttl wall w = (r, w') \<Longrightarrow> system_step sf send (w, m) (w', m)"
| swept_drafts: "sweep_drafts wall w = (r, w') \<Longrightarrow> system_step sf send (w, m) (w', m)"
| outside: "snapshot w' = snapshot w \<Longrightarrow> nextNotice w' = nextNotice w \<Longrightarrow> system_step sf send (w, m) (w', m)"

inductive reachable :: "string_fixed \<Rightarrow> 'm mailer \<Rightarrow> 'c World \<times> 'm \<Rightarrow> bool" for sf :: string_fixed and send :: "'m mailer" where
  started: "snapshot w = snapshot NewMemStore \<Longrightarrow> reachable sf send (w, m)"
| stepped: "reachable sf send a \<Longrightarrow> system_step sf send a b \<Longrightarrow> reachable sf send b"

section \<open>Lemmas\<close>

lemma serves_any: "serves (\<lambda>_. True) ctx"
  by (simp add: serves_def)

text \<open>Every request respects a frame that all writes respect; a frame of the correspondence covers all but three.\<close>

context write_frame
begin

lemma request_frame: "request sf ctx w w' \<Longrightarrow> R w w'"
  by (induction rule: request.induct; erule staysD [rotated])
     (intro stays_cases mail.stays_ComposeEmail stays_Resend mail.stays_Upload stays_settings stays_requests_that_read in_scope_always)+

end

context mail_frame
begin

lemma request_cases [consumes 2, case_names create apply_to reassign other]:
  assumes "request sf ctx w w'" and "serves scope ctx"
  obtains env inp r where "sv_StringFixed env = sf" "CreateDispute env ctx inp w = (r, w')"
  | env inp r where "sv_StringFixed env = sf" "ApplyEvent env ctx inp w = (r, w')"
  | env did team r where "sv_StringFixed env = sf" "Reassign env ctx did team w = (r, w')"
  | "R w w'"
proof -
  have "(\<exists>env inp r. sv_StringFixed env = sf \<and> CreateDispute env ctx inp w = (r, w')) \<or>
      (\<exists>env inp r. sv_StringFixed env = sf \<and> ApplyEvent env ctx inp w = (r, w')) \<or>
      (\<exists>env did team r. sv_StringFixed env = sf \<and> Reassign env ctx did team w = (r, w')) \<or> R w w'"
    using assms(1)
  proof (induction rule: request.induct)
    case create
    then show ?case by blast
  next
    case apply_to
    then show ?case by blast
  next
    case reassign
    then show ?case by blast
  qed (rule disjI2, rule disjI2, rule disjI2, erule staysD [rotated],
      rule stays_ComposeEmail stays_Resend stays_Upload stays_settings stays_requests_that_read, rule assms(2))+
  with that show thesis by blast
qed

end

text \<open>A pass of the dispatcher touches the notices alone, whatever the mailer does.\<close>

lemma notices_kept_trans:
  "list_all2 notice_kept as bs \<Longrightarrow> list_all2 notice_kept bs cs \<Longrightarrow> list_all2 notice_kept as cs"
  by (rule list_all2_trans) (rule notice_kept_trans)

lemma claim_notices_kept:
  "claim_notices k ns = (out, ns') \<Longrightarrow> list_all2 notice_kept ns ns' \<and> map nt_ID ns' = map nt_ID ns"
proof (induction ns arbitrary: k out ns')
  case (Cons n ns)
  have more: "notice_kept n (n\<lparr>nt_Attempts := nt_Attempts n + 1\<rparr>)" by (simp add: notice_kept_def composed_def)
  show ?case
  proof (cases "unsent_email n \<and> 0 < k")
    case True
    obtain o1 n1 where rec: "claim_notices (k - 1) ns = (o1, n1)" by (cases "claim_notices (k - 1) ns")
    from True Cons.prems rec have "ns' = n\<lparr>nt_Attempts := nt_Attempts n + 1\<rparr> # n1" by (auto simp: Let_def)
    with Cons.IH [OF rec] more show ?thesis by simp
  next
    case False
    obtain o1 n1 where rec: "claim_notices k ns = (o1, n1)" by (cases "claim_notices k ns")
    from False Cons.prems rec have "ns' = n # n1" by auto
    with Cons.IH [OF rec] show ?thesis by simp
  qed
qed simp

lemma finish_one_kept: "notice_kept n (finish_one wall k f n)"
  by (simp add: notice_kept_def finish_one_def composed_def)

lemma deliver_all_kept:
  "\<exists>ns'. fst (deliver_all send loc wall ns (w, m)) = w\<lparr>Notices := ns'\<rparr> \<and> list_all2 notice_kept (Notices w) ns' \<and>
     map nt_ID ns' = map nt_ID (Notices w)"
proof (induction ns arbitrary: w m)
  case Nil
  show ?case by (intro exI [of _ "Notices w"]) (simp add: list_all2_same)
next
  case (Cons n ns)
  obtain f m1 where send: "send (mail_of loc w n) m = (f, m1)" by (cases "send (mail_of loc w n) m")
  let ?ns = "map (finish_one wall (nt_ID n) f) (Notices w)"
  have kept: "list_all2 notice_kept (Notices w) ?ns" "map nt_ID ?ns = map nt_ID (Notices w)"
    by (simp_all add: list_all2_conv_all_nth finish_one_kept)
  from Cons.IH [of "w\<lparr>Notices := ?ns\<rparr>" m1] obtain ns' where
    "fst (deliver_all send loc wall ns (w\<lparr>Notices := ?ns\<rparr>, m1)) = w\<lparr>Notices := ns'\<rparr>" "list_all2 notice_kept ?ns ns'"
    "map nt_ID ns' = map nt_ID ?ns" by auto
  with kept notices_kept_trans [OF kept(1)] show ?case by (intro exI [of _ ns']) (simp add: deliver_eq send)
qed

lemma pass_kept:
  assumes "pass send loc wall (w, m) = (n, w', m')"
  obtains ns where "w' = w\<lparr>Notices := ns\<rparr>" "list_all2 notice_kept (Notices w) ns" "map nt_ID ns = map nt_ID (Notices w)"
proof -
  obtain out ns where claim: "claim_notices batch_size (Notices w) = (out, ns)" by (cases "claim_notices batch_size (Notices w)")
  have "w' = fst (deliver_all send loc wall out (w\<lparr>Notices := ns\<rparr>, m))"
    using assms by (auto simp: pass_def ClaimNotices_def claim)
  with deliver_all_kept [of send loc wall out "w\<lparr>Notices := ns\<rparr>" m] obtain ns' where
    "w' = w\<lparr>Notices := ns'\<rparr>" "list_all2 notice_kept ns ns'" "map nt_ID ns' = map nt_ID ns" by auto
  moreover have "list_all2 notice_kept (Notices w) ns" "map nt_ID ns = map nt_ID (Notices w)"
    using claim_notices_kept [OF claim] by simp_all
  ultimately show thesis using that [of ns'] notices_kept_trans by simp
qed

lemma step_history: "system_step sf send a b \<Longrightarrow> history_kept (fst a) (fst b)"
proof (induction rule: system_step.induct)
  case (requested ctx w w' m)
  then show ?case by (simp add: history.request_frame)
next
  case (dispatched loc wall w m n w' m')
  from dispatched obtain ns where "w' = w\<lparr>Notices := ns\<rparr>" "list_all2 notice_kept (Notices w) ns" by (rule pass_kept)
  moreover from this have "grown notice_kept (Notices w) ns" unfolding grown_def by (intro exI [of _ ns] exI [of _ "[]"]) simp
  ultimately show ?case by (simp add: history_kept_def)
qed (auto simp: sweep_idempotency_def sweep_drafts_def PurgeIdempotencyKeys_def PurgeDraftAttachments_def history_kept_def snapshot_def)

lemma step_outbox: "system_step sf send a b \<Longrightarrow> outbox_kept (fst a) (fst b)"
proof (induction rule: system_step.induct)
  case (requested ctx w w' m)
  then show ?case by (simp add: outbox.request_frame)
next
  case (dispatched loc wall w m n w' m')
  from dispatched obtain ns where "w' = w\<lparr>Notices := ns\<rparr>" and ids: "map nt_ID ns = map nt_ID (Notices w)" by (rule pass_kept)
  moreover have "\<exists>x \<in> set (Notices w). nt_ID x = nt_ID n" if "n \<in> set ns" for n
    using ids that by (metis imageE imageI set_map)
  ultimately show ?case by (fastforce simp: outbox_kept_def outbox_ok_def)
qed (auto simp: sweep_idempotency_def sweep_drafts_def PurgeIdempotencyKeys_def PurgeDraftAttachments_def outbox_kept_def
    outbox_ok_def snapshot_def)

text \<open>Every step keeps the integrity of the case files.\<close>

lemma idempotent_store:
  assumes run: "idempotent env ctx scope idem fn w = (r, w')" and ok: "store_ok sf w"
    and fn: "\<And>t v w1. fn t w = (Inr v, w1) \<Longrightarrow> store_ok sf w1"
  shows "store_ok sf w'"
proof (cases r)
  case (Inl e)
  have "snapshot w' = snapshot w" by (rule WithTx_Inl [OF run [unfolded Inl idempotent_def Let_def]])
  with ok store_ok_snapshot [of w' w sf] show ?thesis by blast
next
  case (Inr res)
  with run have "idempotent env ctx scope idem fn w = (Inr res, w')" by simp
  then show ?thesis
  proof (cases rule: idempotent_Inr)
    case replayed
    with ok show ?thesis by simp
  next
    case (ran tid t v w1)
    from fn [OF ran(4)] have "store_ok sf w1" .
    with store_ok_same [of w' w1 sf] ran(6) show ?thesis by simp
  qed
qed

lemma Reassign_store: "Reassign env ctx did team w = (r, w') \<Longrightarrow> store_ok sf w \<Longrightarrow> store_ok sf w'"
proof (cases r)
  case (Inl e)
  assume "Reassign env ctx did team w = (r, w')" "store_ok sf w"
  with Inl show ?thesis unfolding Reassign_def by (metis WithTx_Inl store_ok_snapshot)
next
  case (Inr u)
  assume "Reassign env ctx did team w = (r, w')" "store_ok sf w"
  with Inr show ?thesis unfolding Reassign_def by (auto simp: WithTx_Inr dest: reassign_store)
qed

lemma request_store:
  assumes "request sf ctx w w'" and ok: "store_ok sf w"
  shows "store_ok sf w'"
  using assms(1) serves_any
proof (cases rule: cases.request_cases)
  case (create env inp r)
  show ?thesis
    by (rule idempotent_store [OF create(2) [unfolded CreateDispute_def] ok]) (rule conjunct1 [OF create_dispute_store [OF _ ok]])
next
  case (apply_to env inp r)
  note ok' = ok [folded apply_to(1)]
  have "store_ok (sv_StringFixed env) w'"
    by (rule idempotent_store [OF apply_to(2) [unfolded ApplyEvent_def] ok']) (rule conjunct1 [OF apply_event_store [OF _ ok']])
  then show ?thesis by (simp add: apply_to(1))
next
  case (reassign env did team r)
  then show ?thesis using Reassign_store ok by blast
next
  case other
  with ok store_ok_same [of w' w sf] show ?thesis by (simp add: same_cases_def)
qed

lemma step_store: "system_step sf send a b \<Longrightarrow> store_ok sf (fst a) \<Longrightarrow> store_ok sf (fst b)"
proof (induction rule: system_step.induct)
  case (requested ctx w w' m)
  then show ?case using request_store by simp
next
  case (dispatched loc wall w m n w' m')
  from dispatched(1) obtain ns where "w' = w\<lparr>Notices := ns\<rparr>" by (rule pass_kept)
  with dispatched(2) store_ok_same [of w' w sf] show ?case by simp
next
  case (swept_keys ttl wall w r w' m)
  then show ?case by (auto simp: sweep_idempotency_def PurgeIdempotencyKeys_def store_ok_def case_ok_def cong: option.case_cong)
next
  case (swept_drafts wall w r w' m)
  then show ?case by (auto simp: sweep_drafts_def PurgeDraftAttachments_def store_ok_def case_ok_def cong: option.case_cong)
next
  case (outside w' w m)
  then show ?case using store_ok_snapshot [of w' w sf] by simp
qed

lemma started_ok: "snapshot w = snapshot NewMemStore \<Longrightarrow> store_ok sf w \<and> outbox_ok w"
  by (simp add: snapshot_def NewMemStore_def store_ok_def outbox_ok_def)

lemma reachable_ok: "reachable sf send a \<Longrightarrow> store_ok sf (fst a) \<and> outbox_ok (fst a)"
proof (induction rule: reachable.induct)
  case (started w m)
  then show ?case by (simp add: started_ok)
next
  case (stepped a b)
  then show ?case using step_store step_outbox unfolding outbox_kept_def by blast
qed

text \<open>What a request does to the disputes, each of them seen apart.\<close>

lemma same_case_snapshot: "snapshot w' = snapshot w \<Longrightarrow> same_case k w w'"
  by (simp add: snapshot_def same_case_def notices_of_def)

lemma only_same_case: "only did w w' \<Longrightarrow> k \<noteq> did \<Longrightarrow> same_case k w w'"
  by (simp add: only_def same_case_def)

lemma same_case_refl: "same_case k w w"
  by (simp add: same_case_def)

lemma same_case_trans: "same_case k a b \<Longrightarrow> same_case k b c \<Longrightarrow> same_case k a c"
  by (simp add: same_case_def)

lemma same_case_abs: "same_case k w w' \<Longrightarrow> abs_case w' k = abs_case w k"
  by (simp add: same_case_def abs_case_def)

text \<open>
  The outcomes of an idempotent request on the case files: nothing, or what its body did in a transaction of the
  request's tenant.
\<close>

lemma idempotent_outcome:
  assumes "idempotent env ctx scope idem fn w = (r, w')"
  obtains (kept) "\<forall>k. same_case k w w'" "snapshot w' = snapshot w"
  | (did) t v w1 where "tenant_IDFrom ctx = Some (mt_Tenant t)" "fn t w = (Inr v, w1)" "\<forall>k. same_case k w1 w'"
      "\<exists>stored. w' = w1\<lparr>Idempotent := stored\<rparr>"
proof (cases r)
  case (Inl e)
  have "snapshot w' = snapshot w" by (rule WithTx_Inl [OF assms [unfolded Inl idempotent_def Let_def]])
  with same_case_snapshot [OF this] show thesis by (intro kept allI)
next
  case (Inr res)
  with assms have "idempotent env ctx scope idem fn w = (Inr res, w')" by simp
  then show thesis
  proof (cases rule: idempotent_Inr)
    case replayed
    with kept show thesis by (simp add: same_case_snapshot)
  next
    case (ran tid t v w1)
    then have "w' = w1\<lparr>Idempotent := Idempotent w'\<rparr>" by simp
    then have "\<exists>stored. w' = w1\<lparr>Idempotent := stored\<rparr>" by blast
    moreover have "\<forall>k. same_case k w1 w'" using ran(6) by (simp add: same_case_def notices_of_def)
    ultimately show thesis using did [of t v w1] ran by simp
  qed
qed

lemma request_others:
  assumes req: "request sf ctx w w'" and ok: "store_ok sf w" and serves: "serves (\<lambda>x. x = tid) ctx"
  shows "others_kept tid w w'"
  using req serves
proof (cases rule: others.request_cases)
  case (create env inp r)
  from create(2) [unfolded CreateDispute_def] show ?thesis
  proof (cases rule: idempotent_outcome)
    case (did t v w1)
    from create_dispute_store [OF did(2) ok] obtain k where "map_of (Disputes w) k = None" "only k w w1" by blast
    with did(3) show ?thesis unfolding others_kept_def by (metis only_same_case option.distinct(1) same_case_trans)
  qed (simp add: others_kept_def)
next
  case (apply_to env inp r)
  from apply_to(2) [unfolded ApplyEvent_def] show ?thesis
  proof (cases rule: idempotent_outcome)
    case (did t v w1)
    have "mt_Tenant t = tid" using did(1) serves by (simp add: serves_def)
    moreover from apply_event_store [OF did(2) ok [folded apply_to(1)]] obtain rec where
      "only (ae_DisputeID inp) w w1" "map_of (Disputes w) (ae_DisputeID inp) = Some rec" "dr_TenantID rec = mt_Tenant t" by blast
    ultimately show ?thesis
      unfolding others_kept_def using did(3) by (metis only_same_case option.inject same_case_trans)
  qed (simp add: others_kept_def)
next
  case (reassign env did team r)
  show ?thesis
  proof (cases r)
    case (Inl e)
    have "snapshot w' = snapshot w" by (rule WithTx_Inl [OF reassign(2) [unfolded Inl Reassign_def]])
    then show ?thesis by (simp add: others_kept_def same_case_snapshot)
  next
    case (Inr u)
    with reassign(2) obtain x where "tenant_IDFrom ctx = Some x"
      and run: "reassign env ctx did team \<lparr>mt_Tenant = x, mt_Principal = principal_From ctx, mt_Wall = sv_wall env\<rparr> w = (Inr (), w')"
      (is "reassign _ _ _ _ ?t _ = _")
      unfolding Reassign_def by (auto simp: WithTx_Inr)
    then have "mt_Tenant ?t = tid" using serves by (simp add: serves_def)
    with reassign_store [OF run ok] show ?thesis
      unfolding others_kept_def by (metis only_same_case option.inject same_case_refl)
  qed
qed

lemma reachable_request:
  "reachable sf send (w, m) \<Longrightarrow> request sf ctx w w' \<Longrightarrow> reachable sf send (w', m)"
  by (erule reachable.stepped) (erule system_step.requested)

end
