(* ===== verification/Sample.thy ===== *)
theory Sample
  imports System
begin

text \<open>
  A small bank to try the service on: one tenant with the default team, an analyst and a second one, a card transaction of
  one account, the engine of the authorization package, and the simulated core. The witnesses of the service's
  properties evaluate requests on it.
\<close>

section \<open>Execution\<close>

text \<open>
  The operations in state-passing form, for evaluation by the simplifier: an operation is run on the state it is given,
  and the rest of a sequence is looked at once the state before it is known.
\<close>

lemma tx_apps:
  "tx_bind m1 f1 s = (case m1 s of (Inl e, s') \<Rightarrow> (Inl e, s') | (Inr x, s') \<Rightarrow> f1 x s')"
  "tx_then m2 k2 s = (case m2 s of (Inl e, s') \<Rightarrow> (Inl e, s') | (Inr _, s') \<Rightarrow> k2 s')"
  "tx_try m3 f3 g3 s = (case m3 s of (Inl e, s') \<Rightarrow> g3 e s' | (Inr x, s') \<Rightarrow> f3 x s')"
  "tx_return x4 s = (Inr x4, s)" "tx_fail e5 s = (Inl e5, s)" "tx_lift r6 s = (r6, s)" "tx_gets p7 s = (Inr (p7 s), s)"
  "tx_read q8 s = (q8 s, s)" "tx_modify u9 s = (Inr (), u9 s)"
  by (auto simp: tx_bind_def tx_then_def tx_try_def split: prod.split sum.split)

lemma case_apps:
  "(if c then m1 else m2) s = (if c then m1 s else m2 s)"
  "(case opt of None \<Rightarrow> m3 | Some y \<Rightarrow> n3 y) s = (case opt of None \<Rightarrow> m3 s | Some y \<Rightarrow> n3 y s)"
  "(case sm of Inl y \<Rightarrow> n1 y | Inr z \<Rightarrow> n2 z) s = (case sm of Inl y \<Rightarrow> n1 y s | Inr z \<Rightarrow> n2 z s)"
  "(case pr of (y, z) \<Rightarrow> n4 y z) s = (case pr of (y, z) \<Rightarrow> n4 y z s)"
  "(let y = v in n5 y) s = (case (v, ()) of (y, _) \<Rightarrow> n5 y s)"
  by (auto split: sum.split option.split prod.split)

lemmas operations =
    WithTx_def Tx_GetTransaction_def Tx_InsertDispute_def Tx_Access_def Tx_GetDispute_def Tx_UpdateDisputeState_def
    Tx_UpdateDisputeTeam_def Tx_AppendEvent_def Tx_ListEvents_def Tx_GetIdempotent_def Tx_PutIdempotent_def
    Tx_ListDisputes_def Tx_TenantCalendar_def Tx_InsertDeadlines_def Tx_ListDeadlines_def Tx_SettleDeadline_def
    Tx_NextDeadlines_def append_entry_def Tx_AppendLedger_def Tx_ListLedger_def Tx_TenantCore_def
    Tx_SendQuestionnaire_def Tx_GetQuestionnaire_def Tx_AnswerQuestionnaire_def Tx_GetAccount_def Tx_TenantName_def
    Tx_InsertNotice_def Tx_ListNotices_def Tx_GetNotice_def Tx_AccountHistory_def Tx_InsertRisk_def Tx_ListRisk_def
    Tx_LatestRisk_def Tx_InsertAttachment_def Tx_ClaimAttachments_def Tx_ListAttachmentMeta_def Tx_GetAttachment_def
    Tx_TenantTemplates_def Tx_PutTenantTemplate_def Tx_DeleteTenantTemplate_def Tx_GetTenantMetadata_def
    Tx_GetTenantLogo_def Tx_PutTenantLogo_def Tx_GetAnalystAvatar_def Tx_PutAnalystAvatar_def ClaimNotices_def
    OutboxBacklog_def FinishNotice_def NoticeAttachments_def PurgeIdempotencyKeys_def PurgeDraftAttachments_def
    authorize_def permitted_def dispute_facts_def authorizeDispute_def Authorize_def tx_optional_def viewWith_def
    view_def facts_def notify_channel_def notify_kind_def notify_def settle_clock_def settleDeadlines_def assess_def
    holdCheck_def questionnaire_def on_core_def instructCore_def post_entry_def post_movements_def post_def
    run_and_store_def idempotent_def open_record_def open_effects_def create_dispute_def CreateDispute_def
    decide_event_def record_event_def event_effects_def apply_event_def ApplyEvent_def reassign_def Reassign_def
    GetNotice_def GetDispute_def ListDisputes_def

lemmas run_code = operations [THEN fun_cong, unfolded tx_apps case_apps] tx_foreach.simps post_entries.simps tx_apps

lemmas run_values = Let_def get_dispute_def visible_rec_def access_of_def principal_From_def ctx_tenant_def tenant_IDFrom_def
  uuid_Nil_def Apply_def RulesFor_def Lifecycle_of_def EventAction_def found_def not_found_def ErrNotFound_def errors_Is_def
  Error_Is_def store_scope_def withAuthorizedBy_def as_map_def decode_payload_def parse_liability_def ParseSettlement_def
  Postings_def NoticesFor_def postingsOf_def SuspenseBalance_def applied_event_def actorOf_def notices_of_def keyPtr_def advanced_def

text \<open>A payload without facts of its own.\<close>

lemma folding_chars:
  "map char_of [197, 191 :: nat] = [CHR 0xC5, CHR 0xBF]" "map char_of [226, 132, 170 :: nat] = [CHR 0xE2, CHR 0x84, CHR 0xAA]"
  by code_simp+

lemma folded:
  "fold_name ''authorizedBy'' = ''authorizedby''" "fold_name ''liability'' = ''liability''" "fold_name ''settlement'' = ''settlement''"
  "fold_name ''answers'' = ''answers''" "fold_name ''riskOverride'' = ''riskoverride''" "fold_name ''suggestions'' = ''suggestions''"
  by (simp only: fold_name.simps folding_chars starts_with_def list.size length_Cons take_Suc_Cons list.inject char.inject
        simp_thms if_False, code_simp)+

lemma decode_authorized: "decode_facts num (JObj [(''authorizedBy'', v)]) = Some no_facts"
  by (simp add: decode_facts_def decode_field_def field_is_def folded del: fold_name.simps)

section \<open>The bank\<close>

definition sample_fixed :: string_fixed where
  "sample_fixed d n = show_int \<lfloor>d\<rfloor>"

definition sample_caller :: "string \<Rightarrow> Ctx" where
  "sample_caller who = \<lparr>cx_Tenant = Some ''bank'', cx_Principal = Some \<lparr>pr_Kind = Analyst, pr_ID = who, pr_Display = who,
     pr_TenantAdmin = False\<rparr>, cx_TraceID = None, cx_TraceContext = []\<rparr>"

definition sample_transaction :: TransactionRecord where
  "sample_transaction = \<lparr>tr_ID = ''txn'', tr_TenantID = ''bank'', tr_AccountID = ''acc'', tr_Rail = RailCard, tr_Amount = 100,
     tr_Currency = ''EUR'', tr_AccountCurrency = ''EUR'', tr_AccountOpenedAt = 0, tr_Merchant = ''Shop'', tr_MCC = ''5411'',
     tr_OccurredAt = 0\<rparr>"

definition sample_account :: AccountRecord where
  "sample_account = \<lparr>ar_ID = ''acc'', ar_Holder = ''Ada'', ar_Currency = ''EUR'', ar_Email = ''a@x'', ar_PostalAddress = ''Main St 1'',
     ar_OpenedAt = 0\<rparr>"

definition sample_teams :: MemAccess where
  "sample_teams = \<lparr>ma_Version = 1, ma_Teams = [''cards''], ma_Default = ''cards'',
     ma_Grants = [\<lparr>g_Team = ''cards'', g_Role = RoleJunior, g_Action = ''OPEN_INVESTIGATION'', g_AmountLimit = None\<rparr>],
     ma_Routing = [], ma_Members = (\<lambda>who. if who \<in> {''ann'', ''bob''} then [\<lparr>mb_Team = ''cards'', mb_Role = RoleSenior\<rparr>] else [])\<rparr>"

text \<open>Before the first dispute, and with one that was opened, in the bank and in another tenant.\<close>

definition empty_bank :: "Core World" where
  "empty_bank = \<lparr>Transactions = [''txn'' \<mapsto> sample_transaction],
     Disputes = [], Events = (\<lambda>_. []), Idempotent = [],
     Deadlines = (\<lambda>_. []), Ledger = (\<lambda>_. []), Questions = Map.empty, Notices = [], RiskLog = (\<lambda>_. []), Attachments = [],
     TenantWordings = (\<lambda>_. []), Accounts = [''acc'' \<mapsto> sample_account], Names = Map.empty, TenantLogos = Map.empty,
     TenantLogoAt = (\<lambda>_. 0), Avatars = (\<lambda>_ _. None), nextNotice = 0, Calendars = Map.empty, Cores = Map.empty,
     AccessOf = [''bank'' \<mapsto> sample_teams], w_Core = New_Core\<rparr>"

definition sample_dispute :: "uuid \<Rightarrow> uuid \<Rightarrow> DisputeRecord" where
  "sample_dispute did tenant = \<lparr>dr_ID = did, dr_TenantID = tenant, dr_Team = ''cards'', dr_Regime = RegimeEUPSD2Card,
     dr_State = StateInitiated, dr_Appeals = 0, dr_Version = 1, dr_TransactionID = ''txn'', dr_AccountID = ''acc'',
     dr_DisputedAmount = 100, dr_Currency = ''EUR'', dr_OpenedAt = 0, dr_UpdatedAt = 0, dr_Reason = ReasonUnauthorised\<rparr>"

definition sample_event :: "int \<Rightarrow> event \<Rightarrow> state \<Rightarrow> state \<Rightarrow> EventRecord" where
  "sample_event sq e from to = \<lparr>ev_Seq = sq, ev_Event = e, ev_FromState = from, ev_ToState = to,
     ev_Actor = ''bob'', ev_ActorID = ''bob'', ev_Payload = JObj [], ev_IdempotencyKey = None, ev_TraceID = None,
     ev_OccurredAt = 0\<rparr>"

definition sample_bank :: "Core World" where
  "sample_bank = empty_bank\<lparr>Disputes := [(''d1'', sample_dispute ''d1'' ''bank''), (''d9'', sample_dispute ''d9'' ''other'')],
     Events := (\<lambda>k. if k \<in> {''d1'', ''d9''} then [sample_event 1 EventOpened (StateOther []) StateInitiated] else [])\<rparr>"

definition allow_all :: "uuid \<Rightarrow> Principal \<Rightarrow> Access \<Rightarrow> action \<Rightarrow> DisputeFacts option \<Rightarrow> Decision result" where
  "allow_all t p a action d = Inr \<lparr>dec_Allowed = True, dec_Policies = []\<rparr>"

definition sample_env :: "Core Env" where
  "sample_env = \<lparr>sv_now = 1000, sv_view_now = 1000, sv_NewV7 = Inr ''d2'', sv_wall = 1000, sv_loc = UTC,
     sv_StringFixed = sample_fixed, sv_NewFromString = (\<lambda>s. None), sv_sha256 = id,
     sv_authz = allow_all, sv_core = Core_Post (sample_core_env False), sv_num = Some, sv_json_error = (\<lambda>_. [])\<rparr>"

definition sample_apply :: "event \<Rightarrow> json option \<Rightarrow> string \<Rightarrow> ApplyEventInput" where
  "sample_apply e payload key = \<lparr>ae_DisputeID = ''d1'', ae_Event = e, ae_Payload = payload,
     ae_Idempotency = \<lparr>id_Key = key, id_RequestBody = ''body''\<rparr>\<rparr>"

definition sample_open :: CreateDisputeInput where
  "sample_open = \<lparr>cd_TransactionID = ''txn'', cd_Reason = ''UNAUTHORISED'', cd_Idempotency = \<lparr>id_Key = [], id_RequestBody = []\<rparr>,
     cd_Suggestion = None\<rparr>"

lemmas sample_defs = sample_fixed_def sample_caller_def sample_transaction_def sample_account_def sample_teams_def empty_bank_def
  sample_dispute_def sample_event_def sample_bank_def allow_all_def sample_env_def sample_apply_def sample_open_def
  EventOpened_def no_facts_def

text \<open>The bank is in order, and an investigation can be opened in it.\<close>

lemma sample_bank_ok: "store_ok sf sample_bank"
proof -
  have "case_run sf RegimeEUPSD2Card 100 [] \<lparr>d_Regime = RegimeEUPSD2Card, d_State = StateInitiated, d_Appeals = 0\<rparr> []"
    by (rule case_run.opened) (simp add: New_Dispute_def RulesFor_def)
  then show ?thesis
    by (simp add: store_ok_def case_ok_def sample_defs lifecycle_events_def AllEvents_def Lifecycle_of_def postingsOf_def)
qed

lemma sample_investigation:
  "\<exists>v w'. ApplyEvent sample_env (sample_caller ''ann'') (sample_apply EventOpenInvestigation None key) sample_bank =
     (Inr \<lparr>rs_View = v, rs_Replayed = False\<rparr>, w') \<and>
     map (\<lambda>(k, r). (k, dr_State r)) (Disputes w') = [(''d1'', StateInvestigating), (''d9'', StateInitiated)] \<and>
     map ev_Event (Events w' ''d1'') = [EventOpened, EventOpenInvestigation]"
  by (simp add: run_code run_values decode_authorized sample_defs)

text \<open>Clocks are always computed in such a calendar, so a dispute can be opened in the empty bank.\<close>

lemma start_clocks_returns: "keeps_midnights (cal_loc c) \<Longrightarrow> \<exists>ds. start_clocks c cycle start cs = Some ds"
proof (induction cs)
  case (Cons clock cs)
  let ?D0 = "local_day (cal_loc c) start"
  have "counted_days c (clk_Unit clock) ?D0 ?D0 = {}" by (auto simp: counted_days_def)
  with due_loop_returns [OF Cons.prems order_refl, of clock ?D0 0] have "\<exists>t. Due c start clock = Some t"
    by (auto simp: Due_start)
  with Cons show ?case by auto
qed simp

lemma sample_opening_record:
  "\<exists>v w'. CreateDispute sample_env (sample_caller ''ann'') sample_open empty_bank = (Inr v, w') \<and>
     Disputes w' = [(''d2'', (sample_dispute ''d2'' ''bank'')\<lparr>dr_OpenedAt := 1000, dr_UpdatedAt := 1000\<rparr>)] \<and>
     AccessOf w' = AccessOf empty_bank"
proof -
  have "keeps_midnights (cal_loc DefaultCalendar)" by (simp add: DefaultCalendar_def cal_loc_def UTC_keeps_midnights)
  then have "\<forall>r. \<exists>ds. OpeningDeadlines r 1000 DefaultCalendar = Some ds"
    unfolding OpeningDeadlines_def by (intro allI start_clocks_returns)
  then obtain ds where ds: "\<forall>r. OpeningDeadlines r 1000 DefaultCalendar = Some (ds r)" by metis
  have reason: "ParseReason ''UNAUTHORISED'' = Inr ReasonUnauthorised" by code_simp
  show ?thesis
    by (simp add: run_code run_values decode_authorized sample_defs ds clocks_def reason RegimeFor_def Route_def new_dispute_def
        openedPayload_def update_conv' ChannelsFor_def new_notice_def)
qed

lemma sample_opening:
  "\<exists>v w'. CreateDispute sample_env (sample_caller ''ann'') sample_open empty_bank = (Inr v, w') \<and>
     map (\<lambda>(k, r). (k, dr_State r)) (Disputes w') = [(''d2'', StateInitiated)]"
  using sample_opening_record by (elim exE conjE) (simp add: sample_dispute_def)

lemma empty_bank_reachable: "reachable sf send (empty_bank, m)"
  by (rule reachable.started) (simp add: empty_bank_def snapshot_def NewMemStore_def)

lemma sample_sf [simp]: "sv_StringFixed sample_env = sample_fixed"
  by (simp add: sample_env_def)

end
