(* ===== verification/Suggestions.thy ===== *)
theory Suggestions
  imports Sample
begin

text \<open>
  \<^verbatim>\<open>application/decisions.go\<close>, \<^verbatim>\<open>application/suggestions.go\<close> and \<^verbatim>\<open>infrastructure/typedmodel\<close>: values a model of an outside
  service proposes for a form, shown only when it was confident. The service's answer to a request is a parameter
  (\<open>decisions\<close>, or the HTTP exchange of the client); probabilities are rationals. The counters of outcomes are not
  state.
\<close>

section \<open>The gate\<close>

definition MinConfidence :: rat where
  "MinConfidence = 75 / 100"

datatype question_kind = KindChoice | KindYesNo | KindOther string

record ModelQuestion =
  mq_Kind :: question_kind
  mq_Ask :: string
  mq_Options :: "(string \<times> string) list"

record Answer =
  an_Value :: string
  an_Probability :: rat

definition Confident :: "Answer \<Rightarrow> bool" where
  "Confident a \<longleftrightarrow> MinConfidence \<le> an_Probability a"

type_synonym questions = "(string \<times> ModelQuestion) list"
type_synonym decisions = "(string \<times> string) list \<Rightarrow> questions \<Rightarrow> (string \<Rightarrow> Answer option) result"

definition Propose :: "decisions option \<Rightarrow> (string \<times> string) list \<Rightarrow> string \<Rightarrow> ModelQuestion \<Rightarrow> Answer option" where
  "Propose d st i q =
     (case d of
        None \<Rightarrow> None
      | Some decide \<Rightarrow>
          (case decide st [(i, q)] of
             Inl err \<Rightarrow> None
           | Inr answers \<Rightarrow>
               (case answers i of
                  None \<Rightarrow> None
                | Some ans \<Rightarrow> if \<not> Confident ans then None else Some ans)))"

definition ProposeAll :: "decisions option \<Rightarrow> (string \<times> string) list \<Rightarrow> questions \<Rightarrow> (string \<Rightarrow> Answer option)" where
  "ProposeAll d st qs =
     (case d of
        None \<Rightarrow> Map.empty
      | Some decide \<Rightarrow>
          (case decide st qs of
             Inl err \<Rightarrow> Map.empty
           | Inr answers \<Rightarrow> (\<lambda>i. if i \<notin> fst ` set qs then None
               else case answers i of None \<Rightarrow> None | Some ans \<Rightarrow> if \<not> Confident ans then None else Some ans)))"

section \<open>The client of the model\<close>

definition ErrDecisionsUnavailable :: Error where
  "ErrDecisionsUnavailable = New Unavailable ''unavailable'' ''the suggestion service is temporarily unavailable''"

record wireQuestion =
  wq_Type :: string
  wq_Instructions :: string
  wq_Criteria :: "(string \<times> string) list"

record wireAnswer =
  wa_Type :: string
  wa_Choice :: string
  wa_Noul :: rat
  wa_Confidence :: rat

fun wire_question :: "string \<times> ModelQuestion \<Rightarrow> (string \<times> wireQuestion) result" where
  "wire_question (i, q) =
     (case mq_Kind q of
        KindChoice \<Rightarrow> Inr (i, \<lparr>wq_Type = ''choice'', wq_Instructions = mq_Ask q, wq_Criteria = mq_Options q\<rparr>)
      | KindYesNo \<Rightarrow> Inr (i, \<lparr>wq_Type = ''noul'', wq_Instructions = mq_Ask q, wq_Criteria = []\<rparr>)
      | KindOther _ \<Rightarrow> Inl (Opaque ''unknown question kind''))"

fun wire_questions :: "questions \<Rightarrow> (string \<times> wireQuestion) list result" where
  "wire_questions [] = Inr []"
| "wire_questions (q # qs) = bindR (wire_question q) (\<lambda>x. bindR (wire_questions qs) (\<lambda>xs. Inr (x # xs)))"

definition answer_of :: "wireAnswer \<Rightarrow> Answer option" where
  "answer_of a =
     (if wa_Type a = ''choice'' then Some \<lparr>an_Value = wa_Choice a, an_Probability = wa_Confidence a\<rparr>
      else if wa_Type a = ''noul'' then
        (if 1 / 2 \<le> wa_Noul a then Some \<lparr>an_Value = ''yes'', an_Probability = wa_Noul a\<rparr>
         else Some \<lparr>an_Value = ''no'', an_Probability = 1 - wa_Noul a\<rparr>)
      else None)"

text \<open>\<open>exchange\<close>: the answers of the endpoint, or nothing when the call, the status or the body fails.\<close>

definition Client_Decide :: "((string \<times> string) list \<Rightarrow> (string \<times> wireQuestion) list \<Rightarrow> (string \<Rightarrow> wireAnswer option) option) \<Rightarrow> decisions" where
  "Client_Decide send st qs =
     bindR (wire_questions qs) (\<lambda>asked.
       case send st asked of
         None \<Rightarrow> Inl (Wrap (Classified ErrDecisionsUnavailable))
       | Some decoded \<Rightarrow> Inr (\<lambda>i. case decoded i of None \<Rightarrow> None | Some a \<Rightarrow> answer_of a))"

section \<open>What is proposed\<close>

definition anyOption :: string where "anyOption = ''any''"
definition noneOption :: string where "noneOption = ''none''"

definition stateOptions :: "(string \<times> string) list" where
  "stateOptions = (anyOption, ''no particular state'') #
     map (\<lambda>s. (state_str s, to_lower (map (\<lambda>c. if c = CHR ''_'' then CHR '' '' else c) (state_str s)))) AllStates"

definition reasonOptions :: "(string \<times> string) list" where
  "reasonOptions = (anyOption, ''no particular reason'') # map (\<lambda>r. (reason_str r, ReasonMeaning r)) AllReasons"

definition intakeOptions :: "(string \<times> string) list" where
  "intakeOptions = (noneOption, ''the text does not describe a disputed payment at all'') # map (\<lambda>r. (reason_str r, ReasonMeaning r)) AllReasons"

text \<open>A reason with how sure the model was; nothing stands for a proposal without confidence.\<close>

definition SuggestDisputeReason :: "decisions option \<Rightarrow> string \<Rightarrow> (reason \<times> rat) option" where
  "SuggestDisputeReason d description =
     (case Propose d [(''complaint'', description)] ''reason''
          \<lparr>mq_Kind = KindChoice, mq_Ask = ''Why is the customer disputing this payment?'', mq_Options = intakeOptions\<rparr> of
        None \<Rightarrow> None
      | Some ans \<Rightarrow>
          if an_Value ans = noneOption then None
          else case ParseReason (an_Value ans) of
            Inl err \<Rightarrow> None
          | Inr reason \<Rightarrow> Some (reason, an_Probability ans))"

record SearchFilters =
  sf_State :: "state option"
  sf_Reason :: "reason option"
  sf_Overdue :: "bool option"

definition search_questions :: questions where
  "search_questions =
     [(''state'', \<lparr>mq_Kind = KindChoice, mq_Ask = ''Which dispute state is the analyst asking for?'', mq_Options = stateOptions\<rparr>),
      (''reason'', \<lparr>mq_Kind = KindChoice, mq_Ask = ''Which dispute reason is the analyst asking for?'', mq_Options = reasonOptions\<rparr>),
      (''overdue'', \<lparr>mq_Kind = KindYesNo, mq_Ask = ''Is the analyst asking only for disputes that are past a deadline?'', mq_Options = []\<rparr>)]"

definition SuggestSearchFilters :: "decisions option \<Rightarrow> string \<Rightarrow> SearchFilters" where
  "SuggestSearchFilters d query =
     (let answers = ProposeAll d [(''query'', query)] search_questions in
      \<lparr>sf_State = (case answers ''state'' of
           Some a \<Rightarrow> if an_Value a \<noteq> anyOption then (case ParseState (an_Value a) of Inr s \<Rightarrow> Some s | Inl _ \<Rightarrow> None) else None
         | None \<Rightarrow> None),
       sf_Reason = (case answers ''reason'' of
           Some a \<Rightarrow> if an_Value a \<noteq> anyOption then (case ParseReason (an_Value a) of Inr r \<Rightarrow> Some r | Inl _ \<Rightarrow> None) else None
         | None \<Rightarrow> None),
       sf_Overdue = (case answers ''overdue'' of Some a \<Rightarrow> if an_Value a = ''yes'' then Some True else None | None \<Rightarrow> None)\<rparr>)"

definition relevanceGate :: string where
  "relevanceGate = ''__is_about_this_dispute''"

definition gate_question :: ModelQuestion where
  "gate_question = \<lparr>mq_Kind = KindYesNo,
     mq_Ask = ''Is this message a customer answering questions about a disputed card payment?'', mq_Options = []\<rparr>"

definition asked_questions :: "Question list \<Rightarrow> questions" where
  "asked_questions qs = fold (\<lambda>q asked. AList.update (q_ID q) \<lparr>mq_Kind = KindYesNo, mq_Ask = q_Text q, mq_Options = []\<rparr> asked)
     (filter (\<lambda>q. q_Type q = AnswerYesNo) qs) []"

definition sent_questions :: "uuid \<Rightarrow> MemTx \<Rightarrow> ('c, Question list) svc" where
  "sent_questions did t =
     tx_bind (Tx_GetDispute t did) (\<lambda>rec.
     tx_try (Tx_GetQuestionnaire t did)
       (\<lambda>q. tx_return (if qn_Questions q \<noteq> [] then qn_Questions q else QuestionSet (dr_Reason rec)))
       (\<lambda>_. tx_return (QuestionSet (dr_Reason rec))))"

definition propose_answers :: "decisions option \<Rightarrow> string \<Rightarrow> Question list \<Rightarrow> (string \<Rightarrow> Answer option)" where
  "propose_answers d reply qs =
     (let asked = asked_questions qs in
      if asked = [] then Map.empty
      else let answers = ProposeAll d [(''reply'', reply)] (AList.update relevanceGate gate_question asked) in
        (case answers relevanceGate of
           None \<Rightarrow> Map.empty
         | Some gate \<Rightarrow> if an_Value gate \<noteq> ''yes'' then Map.empty else answers(relevanceGate := None)))"

definition SuggestQuestionnaireAnswers :: "'c Env \<Rightarrow> decisions option \<Rightarrow> Ctx \<Rightarrow> uuid \<Rightarrow> string \<Rightarrow> ('c, string \<Rightarrow> Answer option) svc" where
  "SuggestQuestionnaireAnswers env d ctx did reply =
     tx_bind (WithTx (sv_wall env) ctx (sent_questions did)) (\<lambda>qs. tx_return (propose_answers d reply qs))"

section \<open>Lemmas\<close>

lemma ProposeAll_Some: "ProposeAll d st qs i = Some a \<Longrightarrow> i \<in> fst ` set qs \<and> 3 / 4 \<le> an_Probability a"
  by (auto simp: ProposeAll_def Confident_def MinConfidence_def split: option.splits sum.splits if_splits)

lemma Propose_Some: "Propose d st i q = Some a \<Longrightarrow> 3 / 4 \<le> an_Probability a"
  by (auto simp: Propose_def Confident_def MinConfidence_def split: option.splits sum.splits if_splits)

lemma ParseReason_known: "ParseReason raw = Inr r \<Longrightarrow> r \<in> set AllReasons"
  using questionSets_keys [of "reason_of raw"] by (auto simp: ParseReason_def AllReasons_def split: if_splits)

lemma asked_questions_ids: "fst ` set (asked_questions qs) = q_ID ` {q \<in> set qs. q_Type q = AnswerYesNo}"
proof -
  have "fst ` set (fold (\<lambda>q asked. AList.update (q_ID q) (f q) asked) xs acc) = fst ` set acc \<union> q_ID ` set xs"
    for f :: "Question \<Rightarrow> ModelQuestion" and xs acc
    by (induction xs arbitrary: acc) (auto simp: dom_update image_iff)
  then show ?thesis by (simp add: asked_questions_def)
qed

lemma propose_answers_Some:
  assumes "propose_answers d reply qs i = Some a"
  shows "(\<exists>q \<in> set qs. q_ID q = i \<and> q_Type q = AnswerYesNo) \<and> 3 / 4 \<le> an_Probability a \<and>
    (\<exists>g. ProposeAll d [(''reply'', reply)] (AList.update relevanceGate gate_question (asked_questions qs)) relevanceGate = Some g \<and>
       an_Value g = ''yes'' \<and> 3 / 4 \<le> an_Probability g)"
proof -
  let ?asked = "AList.update relevanceGate gate_question (asked_questions qs)"
  from assms obtain g where "i \<noteq> relevanceGate" and ans: "ProposeAll d [(''reply'', reply)] ?asked i = Some a"
    and gate: "ProposeAll d [(''reply'', reply)] ?asked relevanceGate = Some g" "an_Value g = ''yes''"
    by (auto simp: propose_answers_def Let_def split: if_splits option.splits)
  with ProposeAll_Some [OF ans] have "i \<in> fst ` set (asked_questions qs)" by (auto simp: dom_update image_iff)
  then show ?thesis using gate ProposeAll_Some [OF ans] ProposeAll_Some [OF gate(1)] by (auto simp: asked_questions_ids)
qed

lemma SuggestQuestionnaireAnswers_still: "snd (SuggestQuestionnaireAnswers env d ctx did reply w) = w"
proof -
  have "stays (\<lambda>s s'. s' = s) (sent_questions did t)" for t
    unfolding sent_questions_def by (intro unchanged.stays_ops unchanged.stays_tx_reads)
  then have "stays (\<lambda>s s'. s' = s) (SuggestQuestionnaireAnswers env d ctx did reply)"
    unfolding SuggestQuestionnaireAnswers_def by (intro unchanged.stays_ops reading.stays_WithTx) (simp add: serves_def)
  then show ?thesis by (simp add: stays_def)
qed

section \<open>Properties\<close>


definition sample_model :: decisions where
  "sample_model st qs = Inr (\<lambda>i. Some \<lparr>an_Value = ''DUPLICATE'', an_Probability = 9 / 10\<rparr>)"


end
