(* ===== verification/Handlers.thy ===== *)
theory Handlers
  imports Shapes Keys Suggestions
begin

text \<open>
  \<^verbatim>\<open>ports/http/handler.go\<close>: every operation of the API over the use cases, the keys and the sessions. A handler answers with
  a response or gives up with an error, which the generated server hands to \<open>fail\<close>; \<open>serve\<close> is that server.

  What the generated code and the validator make of a request (the bound parameters and the decoded body, or an error
  text) is a parameter, as are \<open>uuid.Parse\<close>, the encoder of a request body for the idempotency hash, and the
  multipart reader, which gives the parts of a form and how it ended. The payload of an event is the JSON object it is
  encoded as.
\<close>

section \<open>The state and the environment of the handlers\<close>

record 'c Server = Gate +
  db_sessions :: sessions
  srv_world :: "'c World"

record AcceptedSuggestion =
  sg_Reason :: reason
  sg_Probability :: string

record CreateDisputeBody =
  cb_TransactionId :: uuid
  cb_Reason :: "string option"
  cb_Suggestion :: "AcceptedSuggestion option"

record ApplyEventBody =
  eb_Event :: event
  eb_Payload :: "json option"

text \<open>The clock, the readiness of the database, what is enabled, the classifier, the digest, and what is random.\<close>

record 'c Api =
  hd_svc :: "'c Env"
  hd_now :: time
  hd_ready :: bool
  hd_sessions :: bool
  hd_tenants :: bool
  hd_keys :: bool
  hd_decisions :: "decisions option"
  hd_HashKey :: "string \<Rightarrow> string"
  hd_random :: string
  hd_keyID :: uuid
  hd_ParseUUID :: "string \<Rightarrow> uuid option"
  hd_MarshalCreate :: "CreateDisputeBody \<Rightarrow> string"
  hd_MarshalEvent :: "ApplyEventBody \<Rightarrow> string"

definition on_world :: "('c, 'a) svc \<Rightarrow> ('c Server, error, 'a) tx" where
  "on_world m s = (case m (srv_world s) of (r, w) \<Rightarrow> (r, s\<lparr>srv_world := w\<rparr>))"

definition on_sessions :: "(sessions \<Rightarrow> 'a result \<times> sessions) \<Rightarrow> ('c Server, error, 'a) tx" where
  "on_sessions m s = (case m (db_sessions s) of (r, db) \<Rightarrow> (r, s\<lparr>db_sessions := db\<rparr>))"

section \<open>Answers\<close>

record ApiProblem = Problem +
  pb_AllowedEvents :: "event list option"

record Health =
  he_Status :: string
  he_Checks :: "(string \<times> string) list option"

record SessionBody =
  sb_TenantId :: "uuid option"
  sb_Ciphertext :: string
  sb_ExpiresAt :: time
  sb_Subject :: "string option"
  sb_Sid :: "string option"

record ApiTenant =
  tn_ID :: uuid
  tn_Slug :: string
  tn_Name :: string
  tn_Issuer :: "string option"
  tn_EmailDomains :: "string list"

record ApiKey = KeyRecord +
  kc_Status :: string

datatype content = HealthOf Health | DisputeOf ApiDispute | PageOf ApiPage | CatalogueOf "ApiTemplate list" FactValues
  | AttachmentOf AttachmentView | Bytes string | NoticeOf ApiNoticeDocument | SettingsOf "ApiSetting list" | SettingOf ApiSetting
  | ProfileOf TenantProfile | FiltersOf SearchFilters | ReasonOf "(reason \<times> rat) option" | AnswersOf "string \<Rightarrow> Answer option"
  | SessionOf SessionBody | DeletedOf int | TenantsOf "ApiTenant list" | KeysOf "ApiKey list" | IssuedOf ApiKey string
  | Refusal ApiProblem

type_synonym reply = "content Response"

definition json_reply :: "nat \<Rightarrow> content \<Rightarrow> reply" where
  "json_reply n c = \<lparr>rs_Status = n, rs_Header = [''Content-Type'' \<mapsto> ''application/json''], rs_Body = Content c\<rparr>"

definition no_content :: reply where
  "no_content = \<lparr>rs_Status = 204, rs_Header = Map.empty, rs_Body = NoBody\<rparr>"

definition refusal :: "nat \<Rightarrow> ApiProblem \<Rightarrow> reply" where
  "refusal n p = \<lparr>rs_Status = n, rs_Header = [''Content-Type'' \<mapsto> ''application/problem+json''], rs_Body = Content (Refusal p)\<rparr>"

section \<open>Problems\<close>

definition errMalformed :: Error where
  "errMalformed = New Invalid ''malformed-request'' ''the request could not be parsed''"

definition errContract :: Error where
  "errContract = New Invalid ''contract-violation'' ''the request does not match the API contract''"

definition detailed :: "Error \<Rightarrow> string \<Rightarrow> error" where
  "detailed base cause = Wrap (Classified \<lparr>err_Kind = err_Kind base, err_Code = err_Code base, err_Msg = cause, err_Fields = []\<rparr>)"

text \<open>
  The validator's error: about a request, with the parameter it is about if any, the chain of schema errors (the
  pointer and the reason of each, the outermost first) and its own reason; or another. Each comes with its text.
\<close>

record RequestError =
  re_Parameter :: "(string \<times> string) option"
  re_Schema :: "(string list \<times> string) list"
  re_Reason :: string

datatype validation = AboutRequest RequestError string | OtherError string

definition contractViolation :: "validation \<Rightarrow> error" where
  "contractViolation err =
     (let fields = (case err of
        OtherError _ \<Rightarrow> []
      | AboutRequest r _ \<Rightarrow>
          (let at_parameter = map_option (\<lambda>(loc, name). loc @ ''.'' @ name) (re_Parameter r) in
           if re_Schema r \<noteq> [] then
             map (\<lambda>(ptr, reason). \<lparr>fe_Field = (case at_parameter of Some p \<Rightarrow> p | None \<Rightarrow> ''/'' @ join_with ''/'' ptr),
               fe_Message = reason\<rparr>) (re_Schema r)
           else (case at_parameter of Some p \<Rightarrow> [\<lparr>fe_Field = p, fe_Message = re_Reason r\<rparr>] | None \<Rightarrow> [])))
      in if fields = [] then detailed errContract (case err of AboutRequest _ m \<Rightarrow> m | OtherError m \<Rightarrow> m)
         else Wrap (Classified (WithFields errContract fields)))"

text \<open>\<open>problem\<close>: on an invalid transition it adds what the dispute would accept.\<close>

definition problem :: "'c Api \<Rightarrow> ReqCtx \<Rightarrow> string \<Rightarrow> error \<Rightarrow> uuid \<Rightarrow> ('c Server, error, ApiProblem) tx" where
  "problem api ctx path err disputeID =
     (let p = Problem.extend (ProblemFrom (hx_RequestID ctx) path err) \<lparr>pb_AllowedEvents = None\<rparr> in
      if errors_Is err ErrInvalidTransition \<and> disputeID \<noteq> uuid_Nil then
        tx_try (on_world (GetDispute (hd_svc api) (Ctx.truncate ctx) disputeID))
          (\<lambda>v. tx_return (p\<lparr>pb_AllowedEvents := Some (vw_AllowedEvents v)\<rparr>)) (\<lambda>_. tx_return p)
      else tx_return p)"

text \<open>A typed refusal where the operation documents the status; any other error is handed on.\<close>

definition refused :: "'c Api \<Rightarrow> ReqCtx \<Rightarrow> string \<Rightarrow> uuid \<Rightarrow> nat list \<Rightarrow> error \<Rightarrow> ('c Server, error, reply) tx" where
  "refused api ctx path disputeID statuses err =
     tx_bind (problem api ctx path err disputeID) (\<lambda>p.
       if pb_Status p \<in> set statuses then tx_return (refusal (pb_Status p) p) else tx_fail err)"

definition missing :: "'c Api \<Rightarrow> ReqCtx \<Rightarrow> string \<Rightarrow> uuid \<Rightarrow> error \<Rightarrow> ('c Server, error, reply) tx" where
  "missing api ctx path disputeID err =
     (if errors_Is err ErrNotFound then tx_bind (problem api ctx path err disputeID) (\<lambda>p. tx_return (refusal 404 p))
      else tx_fail err)"

section \<open>Cursors\<close>

definition encodeCursor :: "Cursor \<Rightarrow> string" where
  "encodeCursor c = b64_encode (Format_RFC3339Nano (cu_OpenedAt c) @ ''|'' @ cu_ID c)"

definition decodeCursor :: "(string \<Rightarrow> uuid option) \<Rightarrow> string \<Rightarrow> Cursor option" where
  "decodeCursor parseUUID raw =
     (case b64_decode raw of
        None \<Rightarrow> None
      | Some b \<Rightarrow>
          if CHR ''|'' \<notin> set b then None
          else (case Parse_RFC3339Nano (takeWhile (\<lambda>c. c \<noteq> CHR ''|'') b) of
             None \<Rightarrow> None
           | Some t \<Rightarrow>
               (case parseUUID (tl (dropWhile (\<lambda>c. c \<noteq> CHR ''|'') b)) of
                  None \<Rightarrow> None
                | Some u \<Rightarrow> Some \<lparr>cu_OpenedAt = t, cu_ID = u\<rparr>)))"

section \<open>Forms\<close>

record Part =
  pt_FormName :: string
  pt_FileName :: string
  pt_ContentType :: string
  pt_Content :: string
  pt_ReadError :: "error option"

record Multipart =
  mp_Parts :: "Part list"
  mp_Error :: "string option"

text \<open>\<open>io.ReadAll(io.LimitReader(part, n))\<close>.\<close>

definition read_limited :: "nat \<Rightarrow> Part \<Rightarrow> string result" where
  "read_limited n p =
     (if n \<le> length (pt_Content p) then Inr (take n (pt_Content p))
      else case pt_ReadError p of Some e \<Rightarrow> Inl e | None \<Rightarrow> Inr (pt_Content p))"

definition malformed_form :: "string \<Rightarrow> error" where
  "malformed_form m = Classified (WithFields (New Invalid ''malformed-request'' ''the upload is not a valid multipart form'')
     [\<lparr>fe_Field = ''body'', fe_Message = m\<rparr>])"

text \<open>The last part named \<open>file\<close>: its name, type and content.\<close>

fun file_part :: "nat \<Rightarrow> string \<times> string \<times> string \<Rightarrow> Part list \<Rightarrow> string option \<Rightarrow> (string \<times> string \<times> string) result" where
  "file_part limit sofar [] ending = (case ending of None \<Rightarrow> Inr sofar | Some m \<Rightarrow> Inl (malformed_form m))"
| "file_part limit sofar (p # ps) ending =
     (if pt_FormName p \<noteq> ''file'' then file_part limit sofar ps ending
      else bindR (read_limited limit p) (\<lambda>content. file_part limit (pt_FileName p, pt_ContentType p, content) ps ending))"

definition readImagePart :: "Multipart \<Rightarrow> Image result" where
  "readImagePart body = bindR (file_part (MaxImageBytes + 1) ([], [], []) (mp_Parts body) (mp_Error body))
     (\<lambda>(_, ty, content). Inr \<lparr>im_Content = content, im_ContentType = ty\<rparr>)"

section \<open>Sessions and the directory\<close>

definition h_PutSession :: "'c Api \<Rightarrow> uuid \<Rightarrow> SessionBody \<Rightarrow> ('c Server, error, reply) tx" where
  "h_PutSession api sid body =
     (if \<not> hd_sessions api then tx_fail (Classified ErrNotFound)
      else let text = (\<lambda>x. case x of Some t \<Rightarrow> t | None \<Rightarrow> []);
               blob = \<lparr>bl_TenantID = sb_TenantId body, bl_Subject = text (sb_Subject body), bl_Sid = text (sb_Sid body),
                 bl_Ciphertext = sb_Ciphertext body, bl_ExpiresAt = sb_ExpiresAt body\<rparr>
           in tx_bind (tx_gets db_tenants) (\<lambda>tenants.
              tx_then (on_sessions (Put (hd_now api) (\<lambda>t. list_ex (\<lambda>r. te_ID r = t) tenants) sid blob)) (tx_return no_content)))"

definition h_GetSession :: "'c Api \<Rightarrow> uuid \<Rightarrow> ('c Server, error, reply) tx" where
  "h_GetSession api sid =
     (if \<not> hd_sessions api then tx_fail (Classified ErrNotFound)
      else tx_bind (on_sessions (\<lambda>db. (Get (hd_now api) sid db, db))) (\<lambda>b.
        tx_return (json_reply 200 (SessionOf \<lparr>sb_TenantId = bl_TenantID b, sb_Ciphertext = bl_Ciphertext b,
          sb_ExpiresAt = bl_ExpiresAt b, sb_Subject = nonempty (bl_Subject b), sb_Sid = nonempty (bl_Sid b)\<rparr>))))"

definition h_DeleteSessions :: "'c Api \<Rightarrow> string option \<Rightarrow> uuid option \<Rightarrow> string option \<Rightarrow> ('c Server, error, reply) tx" where
  "h_DeleteSessions api sid tenantId subject =
     (if \<not> hd_sessions api then tx_fail (Classified ErrNotFound)
      else let text = (\<lambda>x. case x of Some t \<Rightarrow> t | None \<Rightarrow> []);
               sel = \<lparr>sl_Sid = text sid, sl_TenantID = tenantId, sl_Subject = text subject\<rparr>
           in if sl_Sid sel = [] \<and> sl_TenantID sel = None
              then tx_fail (contract_error ''give sid, or tenantId with an optional subject'')
              else tx_bind (on_sessions (DeleteMatching sel)) (\<lambda>n. tx_return (json_reply 200 (DeletedOf n))))"

definition h_DeleteSession :: "'c Api \<Rightarrow> uuid \<Rightarrow> ('c Server, error, reply) tx" where
  "h_DeleteSession api sid =
     (if \<not> hd_sessions api then tx_fail (Classified ErrNotFound)
      else tx_then (on_sessions (Delete sid)) (tx_return no_content))"

definition h_ListTenants :: "'c Api \<Rightarrow> ('c Server, error, reply) tx" where
  "h_ListTenants api =
     (if \<not> hd_tenants api then tx_fail (Classified ErrNotFound)
      else tx_bind (tx_read ActiveTenants) (\<lambda>list.
        tx_return (json_reply 200 (TenantsOf (map (\<lambda>t. \<lparr>tn_ID = ts_ID t, tn_Slug = ts_Slug t, tn_Name = ts_Name t,
          tn_Issuer = nonempty (ts_Issuer t), tn_EmailDomains = ts_EmailDomains t\<rparr>) list)))))"

section \<open>Tenant keys\<close>

definition keyView :: "KeyRecord \<Rightarrow> time \<Rightarrow> ApiKey" where
  "keyView r now = KeyRecord.extend r \<lparr>kc_Status = KeyStatus r now\<rparr>"

definition tenantAdmin :: "'c Api \<Rightarrow> ReqCtx \<Rightarrow> ('c Server, error, uuid) tx" where
  "tenantAdmin api ctx =
     (if \<not> hd_keys api then tx_fail (Classified ErrNotFound)
      else tx_then (on_world (Authorize (hd_svc api) (Ctx.truncate ctx) ActionManageKeys))
        (case tenant_IDFrom (Ctx.truncate ctx) of None \<Rightarrow> tx_fail (Classified ErrMissing) | Some i \<Rightarrow> tx_return i))"

definition h_ListTenantKeys :: "'c Api \<Rightarrow> ReqCtx \<Rightarrow> ('c Server, error, reply) tx" where
  "h_ListTenantKeys api ctx =
     tx_bind (tenantAdmin api ctx) (\<lambda>tid.
     tx_bind (tx_read (ListForTenant tid)) (\<lambda>recs.
     tx_return (json_reply 200 (KeysOf (map (\<lambda>r. keyView r (hd_now api)) recs)))))"

definition h_CreateTenantKey :: "'c Api \<Rightarrow> ReqCtx \<Rightarrow> string \<Rightarrow> time option \<Rightarrow> ('c Server, error, reply) tx" where
  "h_CreateTenantKey api ctx label expiresAt =
     tx_bind (tenantAdmin api ctx) (\<lambda>tid.
     if (case expiresAt of Some x \<Rightarrow> \<not> hd_now api < x | None \<Rightarrow> False) then
       tx_fail (Classified (WithFields (New Invalid ''contract-violation'' ''expiresAt must be in the future'')
         [\<lparr>fe_Field = ''/expiresAt'', fe_Message = ''must be in the future''\<rparr>]))
     else tx_bind (Issue (hd_HashKey api) (hd_now api) (hd_random api) (hd_keyID api) tid (trim_space label) expiresAt)
       (\<lambda>(rec, secret). tx_return (json_reply 201 (IssuedOf (keyView rec (hd_now api)) secret))))"

definition h_RevokeTenantKey :: "'c Api \<Rightarrow> ReqCtx \<Rightarrow> uuid \<Rightarrow> ('c Server, error, reply) tx" where
  "h_RevokeTenantKey api ctx keyId =
     tx_bind (tenantAdmin api ctx) (\<lambda>tid.
     tx_then (Revoke (hd_now api) tid keyId) (tx_return no_content))"

section \<open>Health\<close>

definition h_GetHealthz :: "('c Server, error, reply) tx" where
  "h_GetHealthz = tx_return (json_reply 200 (HealthOf \<lparr>he_Status = ''ok'', he_Checks = None\<rparr>))"

definition h_GetReadyz :: "'c Api \<Rightarrow> ('c Server, error, reply) tx" where
  "h_GetReadyz api = tx_return
     (if \<not> hd_ready api then json_reply 503 (HealthOf \<lparr>he_Status = ''unavailable'', he_Checks = Some [(''postgres'', ''unavailable'')]\<rparr>)
      else json_reply 200 (HealthOf \<lparr>he_Status = ''ok'', he_Checks = Some [(''postgres'', ''ok'')]\<rparr>))"

section \<open>Disputes\<close>

definition dispute_path :: "uuid \<Rightarrow> string \<Rightarrow> string" where
  "dispute_path did rest = ''/disputes/'' @ did @ rest"

definition idempotency :: "string option \<Rightarrow> string \<Rightarrow> Idempotency" where
  "idempotency key body =
     (case key of
        None \<Rightarrow> \<lparr>id_Key = [], id_RequestBody = []\<rparr>
      | Some k \<Rightarrow> if k = [] then \<lparr>id_Key = [], id_RequestBody = []\<rparr> else \<lparr>id_Key = k, id_RequestBody = body\<rparr>)"

definition dispute_reply :: "'c Api \<Rightarrow> nat \<Rightarrow> DisputeView \<Rightarrow> reply" where
  "dispute_reply api n v = json_reply n (DisputeOf (toAPI (sv_StringFixed (hd_svc api)) (sv_num (hd_svc api)) v))"

definition h_CreateDispute :: "'c Api \<Rightarrow> ReqCtx \<Rightarrow> string option \<Rightarrow> CreateDisputeBody \<Rightarrow> ('c Server, error, reply) tx" where
  "h_CreateDispute api ctx key body =
     tx_try (on_world (CreateDispute (hd_svc api) (Ctx.truncate ctx)
         \<lparr>cd_TransactionID = cb_TransactionId body, cd_Reason = (case cb_Reason body of Some r \<Rightarrow> r | None \<Rightarrow> []),
          cd_Idempotency = idempotency key (hd_MarshalCreate api body),
          cd_Suggestion = map_option (\<lambda>s. \<lparr>rp_Reason = sg_Reason s, rp_Probability = sg_Probability s, rp_Confident = True\<rparr>)
            (cb_Suggestion body)\<rparr>))
       (\<lambda>res. tx_return (dispute_reply api 201 (rs_View res)))
       (refused api ctx ''/disputes'' uuid_Nil [404, 422, 400])"

definition h_GetDispute :: "'c Api \<Rightarrow> ReqCtx \<Rightarrow> uuid \<Rightarrow> ('c Server, error, reply) tx" where
  "h_GetDispute api ctx did =
     tx_try (on_world (GetDispute (hd_svc api) (Ctx.truncate ctx) did))
       (\<lambda>v. tx_return (dispute_reply api 200 v)) (missing api ctx (dispute_path did []) uuid_Nil)"

definition h_ListEmailTemplates :: "'c Api \<Rightarrow> ReqCtx \<Rightarrow> uuid \<Rightarrow> ('c Server, error, reply) tx" where
  "h_ListEmailTemplates api ctx did =
     tx_try (on_world (ListEmailTemplates (hd_svc api) (Ctx.truncate ctx) did))
       (\<lambda>(ts, fv). tx_return (json_reply 200 (CatalogueOf (map templateOf ts) fv)))
       (missing api ctx (dispute_path did ''/email-templates'') uuid_Nil)"

text \<open>The analyst who acts, where only an analyst may.\<close>

definition analyst_only :: "ReqCtx \<Rightarrow> string \<Rightarrow> (AuthPrincipal \<Rightarrow> ('c Server, error, reply) tx) \<Rightarrow> ('c Server, error, reply) tx" where
  "analyst_only ctx detail f =
     (case hx_Analyst ctx of None \<Rightarrow> tx_fail (Classified (WithDetail auth_ErrForbidden detail)) | Some p \<Rightarrow> f p)"

definition actor_of :: "AuthPrincipal \<Rightarrow> string" where
  "actor_of p = (if ap_Email p = [] then ap_Subject p else ap_Email p)"

definition h_ComposeEmail :: "'c Api \<Rightarrow> ReqCtx \<Rightarrow> uuid \<Rightarrow> notice_kind \<Rightarrow> values_map \<Rightarrow> uuid list option \<Rightarrow> ('c Server, error, reply) tx" where
  "h_ComposeEmail api ctx did kind form attachments =
     analyst_only ctx ''emails to customers are written by analysts, not by tenant keys'' (\<lambda>p.
     tx_try (on_world (ComposeEmail (hd_svc api) (Ctx.truncate ctx)
         \<lparr>ce_DisputeID = did, ce_Template = kind, ce_Fields = form,
          ce_Attachments = (case attachments of Some as \<Rightarrow> as | None \<Rightarrow> []), ce_Actor = actor_of p\<rparr>))
       (\<lambda>v. tx_return (dispute_reply api 201 v))
       (refused api ctx (dispute_path did ''/notices'') did [404, 422, 400]))"

definition h_UploadAttachment :: "'c Api \<Rightarrow> ReqCtx \<Rightarrow> uuid \<Rightarrow> Multipart \<Rightarrow> ('c Server, error, reply) tx" where
  "h_UploadAttachment api ctx did body =
     analyst_only ctx ''attachments are added by analysts, not by tenant keys'' (\<lambda>p.
     tx_bind (tx_lift (file_part (MaxAttachmentBytes + 1) ([], [], []) (mp_Parts body) (mp_Error body))) (\<lambda>(name, ty, content).
     tx_try (on_world (Upload (hd_svc api) (Ctx.truncate ctx)
         \<lparr>up_DisputeID = did, up_Filename = name, up_ContentType = ty, up_Content = content, up_Actor = ap_Email p\<rparr>))
       (\<lambda>a. tx_return (json_reply 201 (AttachmentOf (attachmentView a))))
       (refused api ctx (dispute_path did ''/attachments'') did [404, 422, 400])))"

definition fileResponse :: "Attachment \<Rightarrow> reply" where
  "fileResponse a = \<lparr>rs_Status = 200,
     rs_Header = [''Content-Type'' \<mapsto> at_ContentType a, ''Content-Length'' \<mapsto> show_nat (length (at_Content a)),
       ''Content-Disposition'' \<mapsto> FormatMediaType ''inline'' ''filename'' (at_Filename a), ''X-Content-Type-Options'' \<mapsto> ''nosniff''],
     rs_Body = Content (Bytes (at_Content a))\<rparr>"

definition h_GetAttachment :: "'c Api \<Rightarrow> ReqCtx \<Rightarrow> uuid \<Rightarrow> uuid \<Rightarrow> ('c Server, error, reply) tx" where
  "h_GetAttachment api ctx did aid =
     tx_try (on_world (GetAttachment (hd_svc api) (Ctx.truncate ctx) did aid))
       (\<lambda>a. tx_return (fileResponse a)) (missing api ctx (dispute_path did (''/attachments/'' @ aid)) uuid_Nil)"

definition h_ResendNotice :: "'c Api \<Rightarrow> ReqCtx \<Rightarrow> uuid \<Rightarrow> int \<Rightarrow> ('c Server, error, reply) tx" where
  "h_ResendNotice api ctx did nid =
     analyst_only ctx ''emails to customers are sent by analysts, not by tenant keys'' (\<lambda>p.
     tx_try (on_world (Resend (hd_svc api) (Ctx.truncate ctx) \<lparr>ri_DisputeID = did, ri_NoticeID = nid, ri_Actor = actor_of p\<rparr>))
       (\<lambda>v. tx_return (dispute_reply api 201 v))
       (refused api ctx (dispute_path did (''/notices/'' @ show_int nid @ ''/resend'')) did [404, 409]))"

definition h_GetNotice :: "'c Api \<Rightarrow> ReqCtx \<Rightarrow> uuid \<Rightarrow> int \<Rightarrow> ('c Server, error, reply) tx" where
  "h_GetNotice api ctx did nid =
     tx_try (on_world (GetNotice (hd_svc api) (Ctx.truncate ctx) did nid))
       (\<lambda>(rec, doc). tx_return (json_reply 200 (NoticeOf (notice_document rec doc))))
       (missing api ctx (dispute_path did (''/notices/'' @ show_int nid)) uuid_Nil)"

record ListParams =
  lp_Limit :: "int option"
  lp_State :: "state option"
  lp_Reason :: "reason option"
  lp_Overdue :: "bool option"
  lp_Cursor :: "string option"

definition bad_cursor :: error where
  "bad_cursor = Classified (WithFields (New Invalid ''contract-violation'' ''cursor is not one this API issued'')
     [\<lparr>fe_Field = ''query.cursor'', fe_Message = ''invalid cursor''\<rparr>])"

definition list_cursor :: "'c Api \<Rightarrow> ListParams \<Rightarrow> Cursor option result" where
  "list_cursor api ps =
     (case lp_Cursor ps of
        None \<Rightarrow> Inr None
      | Some raw \<Rightarrow> if raw = [] then Inr None
          else (case decodeCursor (hd_ParseUUID api) raw of None \<Rightarrow> Inl bad_cursor | Some c \<Rightarrow> Inr (Some c)))"

definition h_ListDisputes :: "'c Api \<Rightarrow> ReqCtx \<Rightarrow> ListParams \<Rightarrow> ('c Server, error, reply) tx" where
  "h_ListDisputes api ctx ps =
     tx_bind (tx_lift (list_cursor api ps)) (\<lambda>after.
     tx_bind (on_world (ListDisputes (hd_svc api) (Ctx.truncate ctx)
         \<lparr>lq_State = lp_State ps, lq_Reason = lp_Reason ps, lq_After = after,
          lq_Limit = (case lp_Limit ps of Some n \<Rightarrow> n | None \<Rightarrow> 25),
          lq_Overdue = (case lp_Overdue ps of Some b \<Rightarrow> b | None \<Rightarrow> False), lq_Now = zero_time\<rparr>)) (\<lambda>page.
     tx_return (json_reply 200 (PageOf \<lparr>pa_Items = map (api_summary (sv_StringFixed (hd_svc api))) (pg_Items page),
       pa_NextCursor = map_option encodeCursor (pg_Next page)\<rparr>))))"

definition h_ReassignDispute :: "'c Api \<Rightarrow> ReqCtx \<Rightarrow> uuid \<Rightarrow> string \<Rightarrow> ('c Server, error, reply) tx" where
  "h_ReassignDispute api ctx did team =
     tx_then (on_world (Reassign (hd_svc api) (Ctx.truncate ctx) did team)) (tx_return no_content)"

definition h_ApplyDisputeEvent :: "'c Api \<Rightarrow> ReqCtx \<Rightarrow> uuid \<Rightarrow> string option \<Rightarrow> ApplyEventBody \<Rightarrow> ('c Server, error, reply) tx" where
  "h_ApplyDisputeEvent api ctx did key body =
     tx_try (on_world (ApplyEvent (hd_svc api) (Ctx.truncate ctx)
         \<lparr>ae_DisputeID = did, ae_Event = eb_Event body, ae_Payload = eb_Payload body,
          ae_Idempotency = idempotency key (hd_MarshalEvent api body)\<rparr>))
       (\<lambda>res. tx_return (dispute_reply api 200 (rs_View res)))
       (refused api ctx (dispute_path did ''/events'') did [404, 409, 422, 400])"

section \<open>Templates, pictures and suggestions\<close>

definition h_ListTenantTemplates :: "'c Api \<Rightarrow> ReqCtx \<Rightarrow> ('c Server, error, reply) tx" where
  "h_ListTenantTemplates api ctx =
     tx_bind (on_world (ListTemplateSettings (hd_svc api) (Ctx.truncate ctx)))
       (\<lambda>ss. tx_return (json_reply 200 (SettingsOf (map settingOf ss))))"

definition h_PutTenantTemplate :: "'c Api \<Rightarrow> ReqCtx \<Rightarrow> notice_kind \<Rightarrow> ApiOverride \<Rightarrow> ('c Server, error, reply) tx" where
  "h_PutTenantTemplate api ctx kind body =
     tx_try (on_world (PutTemplateSetting (hd_svc api) (Ctx.truncate ctx) kind (override_of_body body)
         (case hx_Analyst ctx of Some p \<Rightarrow> actor_of p | None \<Rightarrow> [])))
       (\<lambda>setting. tx_return (json_reply 200 (SettingOf (settingOf setting))))
       (refused api ctx (''/tenant-templates/'' @ notice_kind_str kind) uuid_Nil [422, 400])"

definition h_DeleteTenantTemplate :: "'c Api \<Rightarrow> ReqCtx \<Rightarrow> notice_kind \<Rightarrow> ('c Server, error, reply) tx" where
  "h_DeleteTenantTemplate api ctx kind =
     tx_try (on_world (DeleteTemplateSetting (hd_svc api) (Ctx.truncate ctx) kind)) (\<lambda>_. tx_return no_content)
       (missing api ctx (''/tenant-templates/'' @ notice_kind_str kind) uuid_Nil)"

definition imageResponse :: "Image \<Rightarrow> reply" where
  "imageResponse img = \<lparr>rs_Status = 200,
     rs_Header = [''Content-Type'' \<mapsto> im_ContentType img, ''Content-Length'' \<mapsto> show_nat (length (im_Content img)),
       ''X-Content-Type-Options'' \<mapsto> ''nosniff'', ''Cache-Control'' \<mapsto> ''private, no-cache''],
     rs_Body = Content (Bytes (im_Content img))\<rparr>"

definition h_GetTenant :: "'c Api \<Rightarrow> ReqCtx \<Rightarrow> ('c Server, error, reply) tx" where
  "h_GetTenant api ctx = tx_bind (on_world (Tenant (hd_svc api) (Ctx.truncate ctx))) (\<lambda>t. tx_return (json_reply 200 (ProfileOf t)))"

definition h_GetTenantLogo :: "'c Api \<Rightarrow> ReqCtx \<Rightarrow> ('c Server, error, reply) tx" where
  "h_GetTenantLogo api ctx =
     tx_try (on_world (TenantLogo (hd_svc api) (Ctx.truncate ctx))) (\<lambda>img. tx_return (imageResponse img))
       (missing api ctx ''/tenant/logo'' uuid_Nil)"

definition h_PutTenantLogo :: "'c Api \<Rightarrow> ReqCtx \<Rightarrow> Multipart \<Rightarrow> ('c Server, error, reply) tx" where
  "h_PutTenantLogo api ctx body =
     tx_bind (tx_lift (readImagePart body)) (\<lambda>img.
     tx_try (on_world (PutTenantLogo (hd_svc api) (Ctx.truncate ctx) img)) (\<lambda>t. tx_return (json_reply 200 (ProfileOf t)))
       (refused api ctx ''/tenant/logo'' uuid_Nil [422]))"

definition h_GetMyAvatar :: "'c Api \<Rightarrow> ReqCtx \<Rightarrow> ('c Server, error, reply) tx" where
  "h_GetMyAvatar api ctx =
     analyst_only ctx ''a picture belongs to an analyst, not to a tenant key'' (\<lambda>p.
     tx_try (on_world (AnalystAvatar (hd_svc api) (Ctx.truncate ctx) (ap_Subject p))) (\<lambda>img. tx_return (imageResponse img))
       (missing api ctx ''/me/avatar'' uuid_Nil))"

definition h_PutMyAvatar :: "'c Api \<Rightarrow> ReqCtx \<Rightarrow> Multipart \<Rightarrow> ('c Server, error, reply) tx" where
  "h_PutMyAvatar api ctx body =
     analyst_only ctx ''a picture belongs to an analyst, not to a tenant key'' (\<lambda>p.
     tx_bind (tx_lift (readImagePart body)) (\<lambda>img.
     tx_try (on_world (PutAnalystAvatar (hd_svc api) (Ctx.truncate ctx) (ap_Subject p) img)) (\<lambda>_. tx_return no_content)
       (refused api ctx ''/me/avatar'' uuid_Nil [422])))"

definition h_SuggestSearchFilters :: "'c Api \<Rightarrow> string \<Rightarrow> ('c Server, error, reply) tx" where
  "h_SuggestSearchFilters api query = tx_return (json_reply 200 (FiltersOf (SuggestSearchFilters (hd_decisions api) query)))"

definition h_SuggestDisputeReason :: "'c Api \<Rightarrow> string \<Rightarrow> ('c Server, error, reply) tx" where
  "h_SuggestDisputeReason api description = tx_return (json_reply 200 (ReasonOf (SuggestDisputeReason (hd_decisions api) description)))"

definition h_SuggestQuestionnaireAnswers :: "'c Api \<Rightarrow> ReqCtx \<Rightarrow> uuid \<Rightarrow> string \<Rightarrow> ('c Server, error, reply) tx" where
  "h_SuggestQuestionnaireAnswers api ctx did txt =
     tx_try (on_world (SuggestQuestionnaireAnswers (hd_svc api) (hd_decisions api) (Ctx.truncate ctx) did txt))
       (\<lambda>out. tx_return (json_reply 200 (AnswersOf out)))
       (missing api ctx (dispute_path did ''/suggestions/questionnaire'') did)"

section \<open>The server of the operations\<close>

text \<open>The request of each operation: its path and query parameters, headers and decoded body.\<close>

datatype call = CallGetHealthz | CallGetReadyz | CallListDisputes ListParams | CallGetDispute uuid | CallGetAttachment uuid uuid
  | CallGetNotice uuid int | CallListEmailTemplates uuid | CallGetTenant | CallGetTenantLogo | CallGetMyAvatar
  | CallPutMyAvatar Multipart | CallSuggestQuestionnaireAnswers uuid string | CallSuggestSearchFilters string
  | CallSuggestDisputeReason string | CallCreateDispute "string option" CreateDisputeBody
  | CallApplyDisputeEvent uuid "string option" ApplyEventBody | CallComposeEmail uuid notice_kind values_map "uuid list option"
  | CallUploadAttachment uuid Multipart | CallResendNotice uuid int | CallReassignDispute uuid string | CallListTenantTemplates
  | CallPutTenantTemplate notice_kind ApiOverride | CallDeleteTenantTemplate notice_kind | CallPutTenantLogo Multipart
  | CallListTenantKeys | CallCreateTenantKey string "time option" | CallRevokeTenantKey uuid | CallPutSession uuid SessionBody
  | CallGetSession uuid | CallDeleteSession uuid | CallDeleteSessions "string option" "uuid option" "string option"
  | CallListTenants

fun operation_of :: "call \<Rightarrow> operation" where
  "operation_of CallGetHealthz = GetHealthz"
| "operation_of CallGetReadyz = GetReadyz"
| "operation_of (CallListDisputes _) = ListDisputes_op"
| "operation_of (CallGetDispute _) = GetDispute_op"
| "operation_of (CallGetAttachment _ _) = GetAttachment_op"
| "operation_of (CallGetNotice _ _) = GetNotice_op"
| "operation_of (CallListEmailTemplates _) = ListEmailTemplates_op"
| "operation_of CallGetTenant = GetTenant_op"
| "operation_of CallGetTenantLogo = GetTenantLogo_op"
| "operation_of CallGetMyAvatar = GetMyAvatar"
| "operation_of (CallPutMyAvatar _) = PutMyAvatar"
| "operation_of (CallSuggestQuestionnaireAnswers _ _) = SuggestQuestionnaireAnswers_op"
| "operation_of (CallSuggestSearchFilters _) = SuggestSearchFilters_op"
| "operation_of (CallSuggestDisputeReason _) = SuggestDisputeReason_op"
| "operation_of (CallCreateDispute _ _) = CreateDispute_op"
| "operation_of (CallApplyDisputeEvent _ _ _) = ApplyDisputeEvent"
| "operation_of (CallComposeEmail _ _ _ _) = ComposeEmail_op"
| "operation_of (CallUploadAttachment _ _) = UploadAttachment"
| "operation_of (CallResendNotice _ _) = ResendNotice"
| "operation_of (CallReassignDispute _ _) = ReassignDispute"
| "operation_of CallListTenantTemplates = ListTenantTemplates"
| "operation_of (CallPutTenantTemplate _ _) = PutTenantTemplate_op"
| "operation_of (CallDeleteTenantTemplate _) = DeleteTenantTemplate_op"
| "operation_of (CallPutTenantLogo _) = PutTenantLogo_op"
| "operation_of CallListTenantKeys = ListTenantKeys"
| "operation_of (CallCreateTenantKey _ _) = CreateTenantKey"
| "operation_of (CallRevokeTenantKey _) = RevokeTenantKey"
| "operation_of (CallPutSession _ _) = PutSession"
| "operation_of (CallGetSession _) = GetSession"
| "operation_of (CallDeleteSession _) = DeleteSession"
| "operation_of (CallDeleteSessions _ _ _) = DeleteSessions"
| "operation_of CallListTenants = ListTenants"

fun run_call :: "'c Api \<Rightarrow> ReqCtx \<Rightarrow> call \<Rightarrow> ('c Server, error, reply) tx" where
  "run_call api ctx CallGetHealthz = h_GetHealthz"
| "run_call api ctx CallGetReadyz = h_GetReadyz api"
| "run_call api ctx (CallListDisputes ps) = h_ListDisputes api ctx ps"
| "run_call api ctx (CallGetDispute did) = h_GetDispute api ctx did"
| "run_call api ctx (CallGetAttachment did aid) = h_GetAttachment api ctx did aid"
| "run_call api ctx (CallGetNotice did nid) = h_GetNotice api ctx did nid"
| "run_call api ctx (CallListEmailTemplates did) = h_ListEmailTemplates api ctx did"
| "run_call api ctx CallGetTenant = h_GetTenant api ctx"
| "run_call api ctx CallGetTenantLogo = h_GetTenantLogo api ctx"
| "run_call api ctx CallGetMyAvatar = h_GetMyAvatar api ctx"
| "run_call api ctx (CallPutMyAvatar body) = h_PutMyAvatar api ctx body"
| "run_call api ctx (CallSuggestQuestionnaireAnswers did txt) = h_SuggestQuestionnaireAnswers api ctx did txt"
| "run_call api ctx (CallSuggestSearchFilters query) = h_SuggestSearchFilters api query"
| "run_call api ctx (CallSuggestDisputeReason d) = h_SuggestDisputeReason api d"
| "run_call api ctx (CallCreateDispute key body) = h_CreateDispute api ctx key body"
| "run_call api ctx (CallApplyDisputeEvent did key body) = h_ApplyDisputeEvent api ctx did key body"
| "run_call api ctx (CallComposeEmail did kind form as) = h_ComposeEmail api ctx did kind form as"
| "run_call api ctx (CallUploadAttachment did body) = h_UploadAttachment api ctx did body"
| "run_call api ctx (CallResendNotice did nid) = h_ResendNotice api ctx did nid"
| "run_call api ctx (CallReassignDispute did team) = h_ReassignDispute api ctx did team"
| "run_call api ctx CallListTenantTemplates = h_ListTenantTemplates api ctx"
| "run_call api ctx (CallPutTenantTemplate kind body) = h_PutTenantTemplate api ctx kind body"
| "run_call api ctx (CallDeleteTenantTemplate kind) = h_DeleteTenantTemplate api ctx kind"
| "run_call api ctx (CallPutTenantLogo body) = h_PutTenantLogo api ctx body"
| "run_call api ctx CallListTenantKeys = h_ListTenantKeys api ctx"
| "run_call api ctx (CallCreateTenantKey label x) = h_CreateTenantKey api ctx label x"
| "run_call api ctx (CallRevokeTenantKey kid) = h_RevokeTenantKey api ctx kid"
| "run_call api ctx (CallPutSession sid body) = h_PutSession api sid body"
| "run_call api ctx (CallGetSession sid) = h_GetSession api sid"
| "run_call api ctx (CallDeleteSession sid) = h_DeleteSession api sid"
| "run_call api ctx (CallDeleteSessions sid t subject) = h_DeleteSessions api sid t subject"
| "run_call api ctx CallListTenants = h_ListTenants api"

text \<open>The generated server: bind the request, run the operation, and answer an error as a problem.\<close>

definition serve :: "'c Api \<Rightarrow> (operation \<Rightarrow> Request \<Rightarrow> string + call) \<Rightarrow> operation \<Rightarrow> ('c Server, content) handler" where
  "serve api bound op ctx rq s =
     (case bound op rq of
        Inl cause \<Rightarrow> (fail ctx rq (detailed errMalformed cause), s)
      | Inr c \<Rightarrow>
          (case run_call api ctx c s of
             (Inl err, s1) \<Rightarrow> (fail ctx rq err, s1)
           | (Inr resp, s1) \<Rightarrow> (resp, s1)))"

text \<open>The whole API: the middleware, the routes with their contract, and the operations.\<close>

definition API :: "Config \<Rightarrow> string \<Rightarrow> (Request \<Rightarrow> reply + operation) \<Rightarrow> (operation \<Rightarrow> Request \<Rightarrow> validation option) \<Rightarrow>
    (operation \<Rightarrow> Request \<Rightarrow> string + call) \<Rightarrow> 'c Api \<Rightarrow> ('c Server, content) handler" where
  "API cfg rid route validate bound api =
     server cfg (hd_now api) rid
       (Mount route (\<lambda>op rq. case validate op rq of None \<Rightarrow> Inr () | Some v \<Rightarrow> Inl (contractViolation v)) (serve api bound))"

end
