(* ===== verification/Listing.thy ===== *)
theory Listing
  imports Sample
begin

text \<open>
  The list of disputes (\<open>ListDisputes\<close> of \<^verbatim>\<open>application/service.go\<close> over the store's): what a client sees that follows
  the cursor from page to page.
\<close>

section \<open>Definitions\<close>

text \<open>The workbench's loop: ask for a page, and for the next one from the cursor it carries, until there is none.\<close>

fun follow :: "nat \<Rightarrow> 'c Env \<Rightarrow> Ctx \<Rightarrow> ListQuery \<Rightarrow> 'c World \<Rightarrow> DisputeSummary list option" where
  "follow 0 env ctx q w = None"
| "follow (Suc fuel) env ctx q w =
     (case ListDisputes env ctx q w of
        (Inl e, w') \<Rightarrow> None
      | (Inr page, w') \<Rightarrow>
          (case pg_Next page of
             None \<Rightarrow> Some (pg_Items page)
           | Some c \<Rightarrow> map_option (append (pg_Items page)) (follow fuel env ctx (q\<lparr>lq_After := Some c\<rparr>) w')))"

text \<open>The disputes a query asks for, all of them, newest first.\<close>

definition listed :: "MemTx \<Rightarrow> ListQuery \<Rightarrow> 'x MemStore_scheme \<Rightarrow> DisputeRecord list" where
  "listed t q s = rev (sort_key list_key (filter (list_matches t s q) (map snd (Disputes s))))"

definition page_limit :: "ListQuery \<Rightarrow> nat" where
  "page_limit q = nat (if lq_Limit q \<le> 0 \<or> 100 < lq_Limit q then 25 else lq_Limit q)"

definition cursor_of :: "DisputeRecord \<Rightarrow> Cursor" where
  "cursor_of r = \<lparr>cu_OpenedAt = dr_OpenedAt r, cu_ID = dr_ID r\<rparr>"

definition newer :: "DisputeRecord \<Rightarrow> DisputeRecord \<Rightarrow> bool" where
  "newer a b \<longleftrightarrow> list_key b < list_key a"

text \<open>What a row says of its dispute: the open clock that runs out first, and the latest assessment.\<close>

definition row_of :: "time \<Rightarrow> 'x MemStore_scheme \<Rightarrow> DisputeRecord \<Rightarrow> DisputeSummary" where
  "row_of now s = summary now (\<lambda>k. earliest None (Deadlines s k))
     (\<lambda>k. if RiskLog s k = [] then None else Some (rk_Assessment (last (RiskLog s k))))"

section \<open>The index of the disputes\<close>

text \<open>Each dispute has one row in the table.\<close>

definition index_kept :: "'c World \<Rightarrow> 'c World \<Rightarrow> bool" where
  "index_kept s s' \<longleftrightarrow> (distinct (map fst (Disputes s)) \<longrightarrow> distinct (map fst (Disputes s')))"

interpretation index_frame: service_frame index_kept
  by unfold_locales (auto simp: index_kept_def)

interpretation index: write_frame index_kept
proof unfold_locales
  fix s s' :: "'c World"
  show "index_kept s s' \<Longrightarrow> index_kept s (restore (snapshot s) s')" by (simp add: index_kept_def restore_def snapshot_def)
next
  fix t n and did :: uuid and a ds kind cycle met stamp es q ans r
  have entry: "stays index_kept (append_entry did e :: ('c, unit) svc)" for e
    by (simp add: stays_def index_kept_def append_entry_def)
  show "stays index_kept (Tx_InsertNotice t n :: ('c, int) svc)" "stays index_kept (Tx_InsertAttachment t did a :: ('c, unit) svc)"
    "stays index_kept (Tx_InsertDeadlines t did ds :: ('c, unit) svc)"
    "stays index_kept (Tx_SettleDeadline t did kind cycle met stamp :: ('c, unit) svc)"
    "stays index_kept (Tx_AppendLedger t did es :: ('c, unit) svc)"
    "stays index_kept (Tx_SendQuestionnaire t did q :: ('c, unit) svc)"
    "stays index_kept (Tx_AnswerQuestionnaire t did ans stamp :: ('c, unit) svc)"
    "stays index_kept (Tx_InsertRisk t did r :: ('c, unit) svc)"
    unfolding found_writes
    by (intro index_frame.stays_bind index_frame.stays_tx_reads index_frame.stays_read index_frame.stays_foreach entry
        stays_if stays_modify; simp add: stays_def index_kept_def Let_def)+
qed (auto simp: index_kept_def stays_def bare_writes Let_def distinct_update split: prod.split option.split)

lemma step_index: "system_step sf send a b \<Longrightarrow> index_kept (fst a) (fst b)"
proof (induction rule: system_step.induct)
  case (requested ctx w w' m)
  then show ?case by (simp add: index.request_frame)
next
  case (dispatched loc wall w m n w' m')
  from dispatched obtain ns where "w' = w\<lparr>Notices := ns\<rparr>" by (rule pass_kept)
  then show ?case by (simp add: index_kept_def)
qed (auto simp: sweep_idempotency_def sweep_drafts_def PurgeIdempotencyKeys_def PurgeDraftAttachments_def index_kept_def snapshot_def)

lemma reachable_index: "reachable sf send a \<Longrightarrow> distinct (map fst (Disputes (fst a)))"
proof (induction rule: reachable.induct)
  case (started w m)
  then show ?case by (simp add: snapshot_def NewMemStore_def)
next
  case (stepped a b)
  then show ?case using step_index unfolding index_kept_def by blast
qed

lemma reachable_keys:
  assumes "reachable sf send (w, m)"
  shows "map dr_ID (map snd (Disputes w)) = map fst (Disputes w)"
proof -
  have "dr_ID r = k" if "(k, r) \<in> set (Disputes w)" for k r
  proof -
    from that reachable_index [OF assms] have "map_of (Disputes w) k = Some r" by simp
    moreover from reachable_ok [OF assms] have "store_ok sf w" by simp
    ultimately show ?thesis by (rule store_ok_id [rotated])
  qed
  then show ?thesis by auto
qed

section \<open>Pages\<close>

lemma sorted_newer:
  assumes "distinct (map dr_ID rs)"
  shows "sorted_wrt newer (rev (sort_key list_key rs))"
proof -
  have "distinct (map list_key (sort_key list_key rs))"
    using assms by (auto simp: distinct_map list_key_def inj_on_def)
  then have "sorted_wrt (<) (map list_key (sort_key list_key rs))"
    by (simp add: strict_sorted_iff sorted_sort_key)
  then show ?thesis by (simp add: sorted_wrt_rev sorted_wrt_map newer_def)
qed

lemma sorted_listed: "distinct (map dr_ID (map snd (Disputes s))) \<Longrightarrow> sorted_wrt newer (listed t q s)"
  unfolding listed_def by (rule sorted_newer) (simp add: distinct_map_filter)

lemma filter_listing: "filter P (rev (sort_key f (filter Q xs))) = rev (sort_key f (filter (\<lambda>x. Q x \<and> P x) xs))"
  by (simp add: rev_filter [symmetric] filter_sort)

text \<open>What lies behind a cursor is what follows its dispute in the list.\<close>

lemma behind:
  assumes "sorted_wrt newer rs" and "i < length rs"
  shows "filter (\<lambda>r. list_key r < list_key (rs ! i)) rs = drop (Suc i) rs"
  using assms
proof (induction rs arbitrary: i)
  case (Cons r rs)
  show ?case
  proof (cases i)
    case 0
    have "filter (\<lambda>x. list_key x < list_key r) rs = rs"
      using Cons.prems(1) by (auto simp: newer_def intro: filter_True)
    then show ?thesis by (simp add: 0)
  next
    case (Suc j)
    then have "rs ! j \<in> set rs" using Cons.prems(2) by simp
    with Cons.prems(1) have "\<not> list_key r < list_key (rs ! j)" by (auto simp: newer_def)
    then show ?thesis using Cons.IH [of j] Cons.prems Suc by simp
  qed
qed simp

lemma list_matches_after:
  "list_matches t s (q\<lparr>lq_After := Some (cursor_of c)\<rparr>) = (\<lambda>r. list_matches t s (q\<lparr>lq_After := None\<rparr>) r \<and> list_key r < list_key c)"
  by (auto simp: fun_eq_iff list_matches_def overdue_def cursor_of_def list_key_def less_prod_def less_prod_def')

lemma listed_after:
  assumes "sorted_wrt newer (listed t (q\<lparr>lq_After := None\<rparr>) s)" and "i < length (listed t (q\<lparr>lq_After := None\<rparr>) s)"
  shows "listed t (q\<lparr>lq_After := Some (cursor_of (listed t (q\<lparr>lq_After := None\<rparr>) s ! i))\<rparr>) s =
    drop (Suc i) (listed t (q\<lparr>lq_After := None\<rparr>) s)"
proof -
  let ?c = "listed t (q\<lparr>lq_After := None\<rparr>) s ! i"
  have "listed t (q\<lparr>lq_After := Some (cursor_of ?c)\<rparr>) s =
      filter (\<lambda>r. list_key r < list_key ?c) (listed t (q\<lparr>lq_After := None\<rparr>) s)"
    unfolding list_matches_after listed_def filter_listing ..
  with behind [OF assms] show ?thesis by simp
qed


text \<open>One page: the next rows of the list, and a cursor when more are left.\<close>

lemma listed_rows:
  assumes "map dr_ID (map snd (Disputes s)) = map fst (Disputes s)" and "distinct (map fst (Disputes s))"
    and "r \<in> set (listed t q s)"
  shows "map_of (Disputes s) (dr_ID r) = Some r" and "owned t s (dr_ID r)"
proof -
  from assms(3) have match: "list_matches t s q r" and "r \<in> set (map snd (Disputes s))" by (auto simp: listed_def)
  then obtain i where "i < length (Disputes s)" "r = snd (Disputes s ! i)" by (auto simp: set_conv_nth)
  moreover from this assms(1) have "dr_ID r = fst (Disputes s ! i)" by (metis length_map nth_map)
  ultimately have "(dr_ID r, r) \<in> set (Disputes s)" by (metis nth_mem prod.collapse)
  with assms(2) show found: "map_of (Disputes s) (dr_ID r) = Some r" by simp
  from match show "owned t s (dr_ID r)" by (simp add: owned_def found list_matches_def)
qed

lemma list_disputes_take:
  "0 \<le> lq_Limit q \<Longrightarrow> list_disputes t q s = take (nat (lq_Limit q)) (listed t q s)"
  by (auto simp: list_disputes_def listed_def Let_def)

lemma query_commute: "q\<lparr>lq_Now := now, lq_After := a\<rparr> = q\<lparr>lq_After := a, lq_Now := now\<rparr>"
  by simp

lemma listed_limit: "listed t (q\<lparr>lq_Limit := l, lq_Now := now\<rparr>) s = listed t (q\<lparr>lq_Now := now\<rparr>) s"
proof -
  have "list_matches t s (q\<lparr>lq_Limit := l, lq_Now := now\<rparr>) = list_matches t s (q\<lparr>lq_Now := now\<rparr>)"
    by (simp add: fun_eq_iff list_matches_def)
  then show ?thesis by (simp add: listed_def)
qed

lemma ListDisputes_page:
  fixes env :: "'c Env" and q :: ListQuery
  assumes "tenant_IDFrom ctx = Some tid"
    and index: "map dr_ID (map snd (Disputes w)) = map fst (Disputes w)" "distinct (map fst (Disputes w))"
  defines "rs \<equiv> listed \<lparr>mt_Tenant = tid, mt_Principal = principal_From ctx, mt_Wall = sv_wall env\<rparr> (q\<lparr>lq_Now := sv_now env\<rparr>) w"
  shows "ListDisputes env ctx q w =
    (Inr \<lparr>pg_Items = map (row_of (sv_now env) w) (take (page_limit q) rs),
      pg_Next = (if page_limit q < length rs then Some (cursor_of (rs ! (page_limit q - 1))) else None)\<rparr>, w)"
proof -
  let ?t = "\<lparr>mt_Tenant = tid, mt_Principal = principal_From ctx, mt_Wall = sv_wall env\<rparr>"
  let ?l = "if lq_Limit q \<le> 0 \<or> 100 < lq_Limit q then 25 else lq_Limit q"
  have pos: "0 < page_limit q" "?l = int (page_limit q)" by (auto simp: page_limit_def)
  have recs: "list_disputes ?t (q\<lparr>lq_Limit := int (page_limit q) + 1, lq_Now := sv_now env\<rparr>) w = take (Suc (page_limit q)) rs"
    by (subst list_disputes_take) (auto simp: rs_def nat_add_distrib listed_limit)
  have row: "summary (sv_now env) (\<lambda>did. if did \<in> dr_ID ` R \<and> owned ?t w did then earliest None (Deadlines w did) else None)
       (\<lambda>did. if did \<in> dr_ID ` R \<and> owned ?t w did \<and> RiskLog w did \<noteq> [] then Some (rk_Assessment (last (RiskLog w did))) else None) r =
      row_of (sv_now env) w r" if "r \<in> R" "R \<subseteq> set rs" for R r
  proof -
    from that have "owned ?t w (dr_ID r)" using listed_rows(2) [OF index] unfolding rs_def by blast
    with that(1) show ?thesis by (simp add: row_of_def summary_def)
  qed
  have pred: "nat (int (page_limit q) - 1) = page_limit q - 1" by simp
  show ?thesis
    using pos(1) unfolding ListDisputes_def pos(2) Let_def pred
    by (cases "page_limit q < length rs")
       (simp_all add: WithTx_def assms(1) Let_def Tx_ListDisputes_def recs Tx_NextDeadlines_def Tx_LatestRisk_def
        cursor_of_def min_def row set_take_subset)
qed

text \<open>Following the cursor from any place gives what lies behind it.\<close>

lemma follow_from:
  fixes env :: "'c Env" and q :: ListQuery
  assumes "tenant_IDFrom ctx = Some tid"
    and index: "map dr_ID (map snd (Disputes w)) = map fst (Disputes w)" "distinct (map fst (Disputes w))"
  defines "t \<equiv> \<lparr>mt_Tenant = tid, mt_Principal = principal_From ctx, mt_Wall = sv_wall env\<rparr>"
  defines "rs \<equiv> listed t (q\<lparr>lq_After := None, lq_Now := sv_now env\<rparr>) w"
  shows "i \<le> length rs \<Longrightarrow> after = (if i = 0 then None else Some (cursor_of (rs ! (i - 1)))) \<Longrightarrow> length rs - i < fuel \<Longrightarrow>
    follow fuel env ctx (q\<lparr>lq_After := after\<rparr>) w = Some (map (row_of (sv_now env) w) (drop i rs))"
proof (induction fuel arbitrary: i after)
  case (Suc fuel)
  let ?n = "page_limit q" and ?q = "q\<lparr>lq_After := after\<rparr>"
  have n: "0 < ?n" "page_limit ?q = ?n" by (auto simp: page_limit_def)
  have sorted: "sorted_wrt newer rs" unfolding rs_def by (rule sorted_listed) (simp only: index)
  have rest: "listed t (?q\<lparr>lq_Now := sv_now env\<rparr>) w = drop i rs"
  proof (cases i)
    case 0
    then show ?thesis by (simp add: Suc.prems(2) rs_def)
  next
    case (Suc j)
    have "listed t (q\<lparr>lq_Now := sv_now env\<rparr>\<lparr>lq_After := Some (cursor_of (rs ! j))\<rparr>) w = drop (Suc j) rs"
      using listed_after [of t "q\<lparr>lq_Now := sv_now env\<rparr>" w j] sorted Suc.prems(1) Suc by (simp add: rs_def query_commute)
    then show ?thesis by (simp add: Suc.prems(2) Suc query_commute)
  qed
  note page = ListDisputes_page [OF assms(1) index, of env ?q, folded t_def, unfolded rest n(2)]
  show ?case
  proof (cases "?n < length (drop i rs)")
    case False
    then show ?thesis by (simp add: page)
  next
    case True
    have "follow fuel env ctx (q\<lparr>lq_After := Some (cursor_of (rs ! (i + ?n - 1)))\<rparr>) w =
        Some (map (row_of (sv_now env) w) (drop (i + ?n) rs))"
      using True n(1) Suc.prems(3) by (intro Suc.IH) auto
    moreover have "drop i rs ! (?n - 1) = rs ! (i + ?n - 1)" using True n(1) by simp
    moreover have "take ?n (drop i rs) @ drop (i + ?n) rs = drop i rs" by (metis add.commute append_take_drop_id drop_drop)
    ultimately show ?thesis using True by (simp add: page flip: map_append)
  qed
qed simp

text \<open>
  Paging loses nothing and repeats nothing: a client that follows the cursor from page to page, on a store that does not
  change meanwhile, reaches the end after at most as many pages as there are disputes and one, and has then seen every
  dispute the query asks for exactly once, newest first.
\<close>

lemma pages_complete:
  assumes "reachable sf send (w, m)" and "tenant_IDFrom ctx = Some tid"
  shows "\<exists>rows. follow (Suc (length (Disputes w))) env ctx (q\<lparr>lq_After := None\<rparr>) w = Some rows \<and>
    sorted_wrt (\<lambda>a b. (sm_OpenedAt b, sm_ID b) < (sm_OpenedAt a, sm_ID a)) rows \<and>
    set rows = row_of (sv_now env) w ` {r. map_of (Disputes w) (dr_ID r) = Some r \<and>
      list_matches \<lparr>mt_Tenant = tid, mt_Principal = principal_From ctx, mt_Wall = sv_wall env\<rparr> w
        (q\<lparr>lq_After := None, lq_Now := sv_now env\<rparr>) r}"
proof -
  note index = reachable_keys [OF assms(1)] reachable_index [OF assms(1), simplified]
  let ?t = "\<lparr>mt_Tenant = tid, mt_Principal = principal_From ctx, mt_Wall = sv_wall env\<rparr>"
  let ?q = "q\<lparr>lq_After := None, lq_Now := sv_now env\<rparr>"
  let ?rs = "listed ?t ?q w"
  have "length ?rs \<le> length (Disputes w)" by (simp add: listed_def)
  then have "follow (Suc (length (Disputes w))) env ctx (q\<lparr>lq_After := None\<rparr>) w = Some (map (row_of (sv_now env) w) ?rs)"
    using follow_from [OF assms(2) index, of 0 env q None] by (simp del: follow.simps)
  moreover have "sorted_wrt newer ?rs" by (rule sorted_listed) (simp only: index)
  then have "sorted_wrt (\<lambda>a b. (sm_OpenedAt b, sm_ID b) < (sm_OpenedAt a, sm_ID a)) (map (row_of (sv_now env) w) ?rs)"
    by (simp add: sorted_wrt_map newer_def [abs_def] list_key_def row_of_def summary_def)
  moreover have "set ?rs = {r. map_of (Disputes w) (dr_ID r) = Some r \<and> list_matches ?t w ?q r}"
    using listed_rows(1) [OF index] by (force simp: listed_def dest: map_of_SomeD)
  ultimately show ?thesis by simp
qed

end
