(* ===== verification/Delivery.thy ===== *)
theory Delivery
  imports Listing
begin

text \<open>
  What reaches the customer: an email with its attachments, from the upload of a draft through the composed notice and the
  outbox to the mail that is sent (\<^verbatim>\<open>attachments.go\<close>, \<^verbatim>\<open>compose.go\<close>, \<^verbatim>\<open>mail.go\<close> of \<^verbatim>\<open>application\<close>).
\<close>

section \<open>Attachments and the notices they belong to\<close>

text \<open>Each file has one row, and belongs to no notice that is yet to be written.\<close>

definition files_ok :: "'x MemStore_scheme \<Rightarrow> bool" where
  "files_ok s \<longleftrightarrow> distinct (map fst (Attachments s)) \<and>
     (\<forall>k a n. map_of (Attachments s) k = Some a \<longrightarrow> at_NoticeID a = Some n \<longrightarrow> n \<le> nextNotice s)"

definition same_files :: "'c World \<Rightarrow> 'c World \<Rightarrow> bool" where
  "same_files s s' \<longleftrightarrow> Attachments s' = Attachments s \<and> nextNotice s \<le> nextNotice s'"

interpretation files_frame: service_frame same_files
  by unfold_locales (auto simp: same_files_def)

text \<open>Only uploads and composed emails touch the files.\<close>

interpretation files: work_frame same_files
proof unfold_locales
  fix s s' :: "'c World"
  show "same_files s s' \<Longrightarrow> same_files s (restore (snapshot s) s')" by (simp add: same_files_def restore_def snapshot_def)
next
  fix t n and did :: uuid and ds kind cycle met stamp es q ans r
  have entry: "stays same_files (append_entry did e :: ('c, unit) svc)" for e
    by (simp add: stays_def same_files_def append_entry_def)
  show "stays same_files (Tx_InsertNotice t n :: ('c, int) svc)"
    "stays same_files (Tx_InsertDeadlines t did ds :: ('c, unit) svc)"
    "stays same_files (Tx_SettleDeadline t did kind cycle met stamp :: ('c, unit) svc)"
    "stays same_files (Tx_AppendLedger t did es :: ('c, unit) svc)"
    "stays same_files (Tx_SendQuestionnaire t did q :: ('c, unit) svc)"
    "stays same_files (Tx_AnswerQuestionnaire t did ans stamp :: ('c, unit) svc)"
    "stays same_files (Tx_InsertRisk t did r :: ('c, unit) svc)"
    unfolding found_writes
    by (intro files_frame.stays_bind files_frame.stays_tx_reads files_frame.stays_read files_frame.stays_foreach entry
        stays_if stays_modify; simp add: stays_def same_files_def Let_def)+
qed (auto simp: same_files_def stays_def bare_writes Let_def split: prod.split option.split)

context work_frame
begin

lemma request_but_files:
  assumes "request sf ctx w w'"
  shows "R w w' \<or> (\<exists>env inp r. ComposeEmail env ctx inp w = (r, w')) \<or> (\<exists>env inp r. Upload env ctx inp w = (r, w'))"
  using assms
proof (induction rule: request.induct)
  case compose
  then show ?case by blast
next
  case upload
  then show ?case by blast
qed (rule disjI1, erule staysD [rotated], intro stays_cases stays_Resend stays_settings stays_requests_that_read in_scope_always)+

end

text \<open>A claim takes the drafts of the dispute among the files it is asked for, one after the other.\<close>

definition draft_of :: "uuid \<Rightarrow> (uuid \<times> Attachment) list \<Rightarrow> uuid \<Rightarrow> Attachment \<Rightarrow> bool" where
  "draft_of did fs i a \<longleftrightarrow> map_of fs i = Some a \<and> at_NoticeID a = None \<and> at_DisputeID a = did"

lemma claim_files_Cons [case_names skipped taken]:
  assumes "claim_files did nid (i # ids) fs = (n, fs')"
  obtains "\<nexists>a. draft_of did fs i a" "claim_files did nid ids fs = (n, fs')"
  | a where "draft_of did fs i a" "claim_files did nid ids (AList.update i (a\<lparr>at_NoticeID := Some nid\<rparr>) fs) = (n - 1, fs')"
proof (cases "\<exists>a. draft_of did fs i a")
  case False
  with assms that(1) show thesis by (auto simp: draft_of_def split: option.splits if_splits)
next
  case True
  then obtain a where a: "draft_of did fs i a" by blast
  obtain m fs1 where "claim_files did nid ids (AList.update i (a\<lparr>at_NoticeID := Some nid\<rparr>) fs) = (m, fs1)" by fastforce
  with a assms that(2) [of a] show thesis by (simp add: draft_of_def Let_def)
qed

lemma claim_files_kept:
  "claim_files did nid ids fs = (n, fs') \<Longrightarrow>
   map fst fs' = map fst fs \<and> n \<le> int (length ids) \<and>
   (\<forall>k a. map_of fs' k = Some a \<longrightarrow> at_NoticeID a = Some nid \<or> map_of fs k = Some a)"
proof (induction ids arbitrary: fs n)
  case (Cons i ids)
  from Cons.prems show ?case
  proof (cases rule: claim_files_Cons)
    case skipped
    from Cons.IH [OF skipped(2)] show ?thesis by simp
  next
    case (taken a)
    have "i \<in> set (map fst fs)" using taken(1) by (force simp: draft_of_def dest: map_of_SomeD)
    then have keys: "map fst (AList.update i (a\<lparr>at_NoticeID := Some nid\<rparr>) fs) = map fst fs" by (simp add: update_keys)
    have "map_of (AList.update i (a\<lparr>at_NoticeID := Some nid\<rparr>) fs) k = Some b \<Longrightarrow> at_NoticeID b = Some nid \<or> map_of fs k = Some b" for k b
      by (auto simp: update_conv split: if_splits)
    with Cons.IH [OF taken(2)] keys show ?thesis by (intro conjI; simp) blast
  qed
qed simp

text \<open>A claim that counts every file it was asked for has taken exactly those, each once, each a draft of the dispute.\<close>

lemma claim_files_all:
  "claim_files did nid ids fs = (int (length ids), fs') \<Longrightarrow>
   distinct ids \<and> (\<forall>i \<in> set ids. \<exists>a. draft_of did fs i a) \<and>
   (\<forall>k. map_of fs' k = (if k \<in> set ids then map_option (\<lambda>a. a\<lparr>at_NoticeID := Some nid\<rparr>) (map_of fs k) else map_of fs k))"
proof (induction ids arbitrary: fs)
  case (Cons i ids)
  from Cons.prems show ?case
  proof (cases rule: claim_files_Cons)
    case skipped
    with claim_files_kept [OF skipped(2)] show ?thesis by simp
  next
    case (taken a)
    let ?fs = "AList.update i (a\<lparr>at_NoticeID := Some nid\<rparr>) fs"
    have IH: "distinct ids" "\<forall>j \<in> set ids. \<exists>b. draft_of did ?fs j b"
      "\<forall>k. map_of fs' k = (if k \<in> set ids then map_option (\<lambda>a. a\<lparr>at_NoticeID := Some nid\<rparr>) (map_of ?fs k) else map_of ?fs k)"
      using Cons.IH [of ?fs] taken(2) by simp_all
    have "\<nexists>b. draft_of did ?fs i b" by (simp add: draft_of_def update_conv)
    with IH(2) have fresh: "i \<notin> set ids" by blast
    moreover have "draft_of did fs j b \<longleftrightarrow> draft_of did ?fs j b" if "j \<noteq> i" for j b
      using that by (simp add: draft_of_def update_conv)
    ultimately have "\<forall>j \<in> set (i # ids). \<exists>b. draft_of did fs j b" using IH(2) taken(1) by (metis set_ConsD)
    with IH fresh taken(1) show ?thesis by (auto simp: update_conv draft_of_def)
  qed
qed simp


section \<open>Composing\<close>

text \<open>A composed email: its row, its files, and the letter beside it.\<close>

lemma compose_email_Inr:
  assumes "compose_email env ctx inp t w = (Inr v, w')"
  obtains rec r tpl f doc files w1 w2 where "map_of (Disputes w) (ce_DisputeID inp) = Some rec"
    "Tx_InsertNotice t ((new_notice (dr_ID rec) (dr_Version rec) (tpl_Kind tpl) ChannelEmail (nf_Email f) doc (sv_now env))
       \<lparr>nt_Actor := ce_Actor inp\<rparr>) w = (Inr (nextNotice w + 1), w1)"
    "claimAttachments (dr_ID rec) (nextNotice w + 1) (ce_Attachments inp) w1 = (Inr files, w2)"
    "compose_letter env t rec r tpl f doc files (ce_Actor inp) w2 = (Inr (), w')"
proof -
  from assms obtain rec tpl f r doc nid files s1 s2 s3 s4 s5 w1 w2 w3 where
    rec: "Tx_GetDispute t (ce_DisputeID inp) w = (Inr rec, s1)"
    and auth: "authorizeDispute env ctx t ActionComposeEmail (dr_ID rec) s1 = (Inr (), s2)"
    and tpl: "tenantTemplate t (ce_Template inp) s2 = (Inr tpl, s3)"
    and f: "facts t rec (sv_now env) s3 = (Inr f, s4)"
    and ins: "Tx_InsertNotice t ((new_notice (dr_ID rec) (dr_Version rec) (tpl_Kind tpl) ChannelEmail (nf_Email f) doc (sv_now env))
            \<lparr>nt_Actor := ce_Actor inp\<rparr>) s4 = (Inr nid, w1)"
    and claim: "claimAttachments (dr_ID rec) nid (ce_Attachments inp) w1 = (Inr files, w2)"
    and letter: "compose_letter env t rec r tpl f doc files (ce_Actor inp) w2 = (Inr (), w3)"
    and view: "view env ctx t rec w3 = (Inr v, w')"
    unfolding compose_email_def Let_def
    by (elim tx_bind_InrE tx_then_InrE) (auto split: if_splits elim!: tx_bind_InrE tx_then_InrE)
  have "s1 = w" "map_of (Disputes w) (ce_DisputeID inp) = Some rec" using rec by (simp_all add: GetDispute_Inr)
  moreover have "s2 = s1" by (rule staysD [OF still.stays_authorizeDispute auth])
  moreover have "s3 = s2" by (rule staysD [OF reading.stays_templates(2) tpl])
  moreover have "s4 = s3" by (rule staysD [OF still.stays_facts f])
  moreover have "w' = w3" by (rule staysD [OF still.stays_view view])
  moreover have "nid = nextNotice s4 + 1" using ins by (auto simp: Tx_InsertNotice_def tx_bind_Inr_iff Let_def GetDispute_Inr)
  ultimately show thesis using that ins claim letter by simp
qed


lemma claimAttachments_Inr:
  assumes "claimAttachments did nid ids w = (Inr files, w')"
  obtains fs where "claim_files did nid ids (Attachments w) = (int (length ids), fs)" "w' = w\<lparr>Attachments := fs\<rparr>"
    "length ids \<le> MaxAttachments"
proof (cases "ids = []")
  case True
  with assms show thesis by (intro that [of "Attachments w"]) (simp_all add: claimAttachments_def)
next
  case False
  obtain n fs where claim: "claim_files did nid ids (Attachments w) = (n, fs)" by fastforce
  then have run: "Tx_ClaimAttachments did nid ids w = (Inr n, w\<lparr>Attachments := fs\<rparr>)" by (simp add: Tx_ClaimAttachments_def)
  have few: "\<not> MaxAttachments < length ids" using assms False by (cases "MaxAttachments < length ids") (simp_all add: claimAttachments_def)
  have n: "n = int (length ids)"
    using assms False few by (cases "n = int (length ids)") (simp_all add: claimAttachments_def run)
  then have "w' = w\<lparr>Attachments := fs\<rparr>"
    using assms False few by (simp add: claimAttachments_def run Tx_ListAttachmentMeta_def)
  with claim n few show thesis by (intro that [of fs]) simp_all
qed

lemma InsertNotice_Inr:
  "Tx_InsertNotice t n w = (Inr nid, w') \<Longrightarrow> nid = nextNotice w + 1 \<and>
     w' = w\<lparr>nextNotice := nid, Notices := Notices w @ [n\<lparr>nt_ID := nid, nt_TenantID := mt_Tenant t\<rparr>]\<rparr>"
  by (auto simp: Tx_InsertNotice_def tx_bind_Inr_iff Let_def GetDispute_Inr)

lemma compose_letter_Inr:
  assumes "compose_letter env t rec r tpl f doc files actor w = (Inr (), w')"
  shows "Attachments w' = Attachments w \<and> nextNotice w \<le> nextNotice w' \<and> (\<exists>more. Notices w' = Notices w @ more)"
proof (cases "tpl_Letter tpl \<and> r_WrittenNotices r \<and> nf_PostalAddress f \<noteq> []")
  case True
  with assms show ?thesis by (auto simp: compose_letter_def Let_def tx_bind_Inr_iff dest!: InsertNotice_Inr)
next
  case False
  with assms show ?thesis by (simp add: compose_letter_def)
qed

text \<open>The files of a new email are the drafts it names.\<close>

lemma claimed_files:
  assumes "distinct (map fst fs)" and claim: "claim_files did nid ids fs = (int (length ids), fs')"
    and fresh: "\<And>k a. map_of fs k = Some a \<Longrightarrow> at_NoticeID a \<noteq> Some nid"
  shows "mset (filter (\<lambda>a. at_NoticeID a = Some nid) (map snd fs')) =
    image_mset (\<lambda>i. (the (map_of fs i))\<lparr>at_NoticeID := Some nid\<rparr>) (mset ids)"
proof -
  note all = claim_files_all [OF claim]
  let ?g = "\<lambda>k. the (map_of fs' k)"
  have keys: "map fst fs' = map fst fs" using claim_files_kept [OF claim] by simp
  have "distinct (map fst fs')" using assms(1) by (simp only: keys)
  then have "map snd fs' = map ?g (map fst fs')" by (auto simp: map_of_is_SomeI)
  moreover have "at_NoticeID (?g k) = Some nid \<longleftrightarrow> k \<in> set ids" if "k \<in> set (map fst fs)" for k
  proof -
    from that obtain a where "map_of fs k = Some a" by (metis map_of_eq_None_iff not_Some_eq set_map)
    with all fresh [of k a] show ?thesis by simp
  qed
  ultimately have "filter (\<lambda>a. at_NoticeID a = Some nid) (map snd fs') = map ?g (filter (\<lambda>k. k \<in> set ids) (map fst fs))"
    unfolding keys by (simp add: filter_map comp_def cong: filter_cong)
  moreover have "mset (filter (\<lambda>k. k \<in> set ids) (map fst fs)) = mset ids"
  proof (subst set_eq_iff_mset_eq_distinct [symmetric])
    show "set (filter (\<lambda>k. k \<in> set ids) (map fst fs)) = set ids"
      using all by (force simp: draft_of_def dest: map_of_SomeD)
  qed (use assms(1) all in simp_all)
  moreover have "image_mset ?g (mset ids) = image_mset (\<lambda>i. (the (map_of fs i))\<lparr>at_NoticeID := Some nid\<rparr>) (mset ids)"
    using all by (intro image_mset_cong) (auto simp: draft_of_def)
  ultimately show ?thesis by simp
qed


section \<open>The invariant\<close>

lemma files_ok_same: "Attachments w' = Attachments w \<Longrightarrow> nextNotice w \<le> nextNotice w' \<Longrightarrow> files_ok w \<Longrightarrow> files_ok w'"
  unfolding files_ok_def by (metis order_trans)

lemma files_ok_insert:
  "files_ok w \<Longrightarrow> at_NoticeID a = None \<Longrightarrow> files_ok (w\<lparr>Attachments := AList.update k a (Attachments w)\<rparr>)"
  by (auto simp: files_ok_def distinct_update update_conv split: if_splits)

lemma files_ok_claim:
  assumes "files_ok w" and "claim_files did (nextNotice w + 1) ids (Attachments w) = (n, fs)"
  shows "files_ok (w\<lparr>nextNotice := nextNotice w + 1, Notices := ns, Attachments := fs\<rparr>)"
proof -
  note kept = claim_files_kept [OF assms(2)]
  have "m \<le> nextNotice w + 1" if "map_of fs k = Some a" "at_NoticeID a = Some m" for k a m
    using kept that assms(1) unfolding files_ok_def by (metis add_increasing2 option.inject order_refl zero_le_one)
  with kept assms(1) show ?thesis by (simp add: files_ok_def)
qed

lemma ComposeEmail_files:
  assumes "ComposeEmail env ctx inp w = (Inr v, w')" and "files_ok w"
  shows "files_ok w'"
proof -
  from assms(1) obtain t where "compose_email env ctx inp t w = (Inr v, w')"
    unfolding ComposeEmail_def by (auto simp: WithTx_Inr split: option.splits)
  then obtain rec r tpl f doc files w1 w2 where "Tx_InsertNotice t ((new_notice (dr_ID rec) (dr_Version rec) (tpl_Kind tpl)
       ChannelEmail (nf_Email f) doc (sv_now env))\<lparr>nt_Actor := ce_Actor inp\<rparr>) w = (Inr (nextNotice w + 1), w1)"
    and claim: "claimAttachments (dr_ID rec) (nextNotice w + 1) (ce_Attachments inp) w1 = (Inr files, w2)"
    and letter: "compose_letter env t rec r tpl f doc files (ce_Actor inp) w2 = (Inr (), w')"
    by (rule compose_email_Inr)
  then obtain ns where w1: "w1 = w\<lparr>nextNotice := nextNotice w + 1, Notices := ns\<rparr>" by (blast dest: InsertNotice_Inr)
  from claim obtain fs where "claim_files (dr_ID rec) (nextNotice w + 1) (ce_Attachments inp) (Attachments w) =
      (int (length (ce_Attachments inp)), fs)" and w2: "w2 = w1\<lparr>Attachments := fs\<rparr>"
    by (rule claimAttachments_Inr) (simp add: w1)
  from files_ok_claim [OF assms(2) this(1), of ns] have "files_ok w2" by (simp add: w1 w2)
  with compose_letter_Inr [OF letter] show ?thesis by (blast intro: files_ok_same)
qed

lemma Upload_Inr:
  assumes "Upload env ctx inp w = (Inr a, w')"
  obtains aid where "sv_NewV7 env = Inr aid" "check_upload inp = Inr ()" "tenant_IDFrom ctx \<noteq> None"
    "a = \<lparr>at_ID = aid, at_DisputeID = up_DisputeID inp, at_NoticeID = None, at_Filename = up_Filename inp,
           at_ContentType = up_ContentType inp, at_Size = length (up_Content inp), at_Content = [],
           at_UploadedBy = up_Actor inp, at_UploadedAt = sv_now env\<rparr>"
    "w' = w\<lparr>Attachments := AList.update aid (a\<lparr>at_Content := up_Content inp\<rparr>) (Attachments w)\<rparr>"
proof -
  from assms obtain aid t s1 s2 where checked: "check_upload inp = Inr ()" "sv_NewV7 env = Inr aid" "tenant_IDFrom ctx \<noteq> None"
    and auth: "authorizeDispute env ctx t ActionUploadAttachment (up_DisputeID inp) w = (Inr (), s1)"
    and ins: "Tx_InsertAttachment t (up_DisputeID inp) \<lparr>at_ID = aid, at_DisputeID = up_DisputeID inp, at_NoticeID = None,
        at_Filename = up_Filename inp, at_ContentType = up_ContentType inp, at_Size = length (up_Content inp),
        at_Content = up_Content inp, at_UploadedBy = up_Actor inp, at_UploadedAt = sv_now env\<rparr> s1 = (Inr (), s2)"
    and a: "a = \<lparr>at_ID = aid, at_DisputeID = up_DisputeID inp, at_NoticeID = None, at_Filename = up_Filename inp,
           at_ContentType = up_ContentType inp, at_Size = length (up_Content inp), at_Content = [],
           at_UploadedBy = up_Actor inp, at_UploadedAt = sv_now env\<rparr>" "w' = s2"
    unfolding Upload_def Let_def by (elim tx_bind_InrE tx_then_InrE) (auto simp: WithTx_Inr elim!: tx_then_InrE)
  have "s1 = w" by (rule staysD [OF still.stays_authorizeDispute auth])
  with ins a checked show thesis by (intro that) (auto simp: Tx_InsertAttachment_def tx_bind_Inr_iff GetDispute_Inr)
qed

lemma Upload_Inl: "Upload env ctx inp w = (Inl e, w') \<Longrightarrow> snapshot w' = snapshot w"
  by (cases "check_upload inp"; cases "sv_NewV7 env")
     (auto simp: Upload_def Let_def tx_then_def tx_bind_def split: prod.splits sum.splits dest: WithTx_Inl)

lemma request_files:
  assumes "request sf ctx w w'" and ok: "files_ok w"
  shows "files_ok w'"
  using files.request_but_files [OF assms(1)]
proof (elim disjE exE)
  assume "same_files w w'"
  with ok show ?thesis by (simp add: same_files_def files_ok_same)
next
  fix env inp r assume run: "ComposeEmail env ctx inp w = (r, w')"
  show ?thesis
  proof (cases r)
    case (Inl e)
    have "nextNotice w \<le> nextNotice w'" using outbox.request_frame [OF assms(1)] by (simp add: outbox_kept_def)
    moreover have "snapshot w' = snapshot w"
      using run Inl unfolding ComposeEmail_def by (cases "TemplateFor (ce_Template inp)") (auto dest: WithTx_Inl)
    ultimately show ?thesis using ok by (simp add: snapshot_def files_ok_same)
  qed (use run ok ComposeEmail_files in blast)
next
  fix env inp r assume run: "Upload env ctx inp w = (r, w')"
  show ?thesis
  proof (cases r)
    case (Inl e)
    have "nextNotice w \<le> nextNotice w'" using outbox.request_frame [OF assms(1)] by (simp add: outbox_kept_def)
    moreover have "snapshot w' = snapshot w" using run Inl by (auto dest: Upload_Inl)
    ultimately show ?thesis using ok by (simp add: snapshot_def files_ok_same)
  next
    case (Inr a)
    with run obtain aid b where "w' = w\<lparr>Attachments := AList.update aid b (Attachments w)\<rparr>" "at_NoticeID b = None"
      by (auto elim!: Upload_Inr)
    with ok show ?thesis by (simp add: files_ok_insert)
  qed
qed


lemma step_files: "system_step sf send a b \<Longrightarrow> files_ok (fst a) \<Longrightarrow> files_ok (fst b)"
proof (induction rule: system_step.induct)
  case (requested ctx w w' m)
  then show ?case using request_files by simp
next
  case (dispatched loc wall w m n w' m')
  from dispatched(1) obtain ns where "w' = w\<lparr>Notices := ns\<rparr>" by (rule pass_kept)
  with dispatched(2) show ?case by (simp add: files_ok_def)
next
  case (swept_drafts wall w r w' m)
  then obtain P where w': "w' = w\<lparr>Attachments := filter P (Attachments w)\<rparr>"
    by (auto simp: sweep_drafts_def PurgeDraftAttachments_def)
  have "map_of (Attachments w) k = Some a" if "map_of (filter P (Attachments w)) k = Some a" for k a
    using that swept_drafts(2) unfolding files_ok_def by (auto dest!: map_of_SomeD)
  then show ?case using swept_drafts(2) by (auto simp: w' files_ok_def distinct_map_filter)
qed (auto simp: sweep_idempotency_def PurgeIdempotencyKeys_def snapshot_def files_ok_def)

lemma reachable_files: "reachable sf send a \<Longrightarrow> files_ok (fst a)"
proof (induction rule: reachable.induct)
  case (started w m)
  then show ?case by (simp add: snapshot_def NewMemStore_def files_ok_def)
next
  case (stepped a b)
  then show ?case using step_files by blast
qed

lemma claim_notices_none: "filter unsent_email ns = [] \<Longrightarrow> claim_notices k ns = ([], ns)"
  by (induction ns) (auto split: if_splits)

lemma find_member: "find P xs = Some x \<Longrightarrow> x \<in> set xs \<and> P x"
  by (induction xs) (auto split: if_splits)

lemma GetNotice_Inr:
  assumes "Tx_GetNotice t did nid w = (Inr n, w')"
  shows "w' = w" "n \<in> set (Notices w)" "nt_ID n = nid" "nt_DisputeID n = did"
proof -
  from assms obtain r where r: "Tx_GetDispute t did w = (Inr r, w)" "w' = w" "found (find (\<lambda>n. nt_ID n = nid) (notices_of did w)) = Inr n"
    by (auto simp: Tx_GetNotice_def Tx_ListNotices_def tx_bind_Inr_iff GetDispute_Inr)
  then have "find (\<lambda>n. nt_ID n = nid) (notices_of did w) = Some n" by (simp add: found_def split: option.splits)
  from find_member [OF this] r(2) show "w' = w" "n \<in> set (Notices w)" "nt_ID n = nid" "nt_DisputeID n = did"
    by (simp_all add: notices_of_def)
qed

lemma Resend_Inr:
  assumes "Resend env ctx inp w = (Inr v, w')"
  obtains rec orig account nid tid where "map_of (Disputes w) (ri_DisputeID inp) = Some rec" "orig \<in> set (Notices w)"
    "nt_ID orig = ri_NoticeID inp" "nt_Channel orig = ChannelEmail" "nt_SentAt orig \<noteq> None" "Accounts w (dr_AccountID rec) = Some account"
    "w' = w\<lparr>nextNotice := nextNotice w + 1, Notices := Notices w @ [(new_notice (dr_ID rec) (nt_Seq orig) (nt_Kind orig) ChannelEmail (ar_Email account) (nt_Document orig) (sv_now env))
       \<lparr>nt_Subject := nt_Subject orig, nt_Actor := ri_Actor inp, nt_ResendOf := Some (mail_source orig), nt_ID := nid, nt_TenantID := tid\<rparr>]\<rparr>"
proof -
  from assms obtain t where run: "resend env ctx inp t w = (Inr v, w')" by (auto simp: Resend_def WithTx_Inr)
  then obtain rec orig account s1 s2 s3 s4 s5 nid where
    rec: "Tx_GetDispute t (ri_DisputeID inp) w = (Inr rec, s1)"
    and auth: "authorizeDispute env ctx t ActionResendNotice (dr_ID rec) s1 = (Inr (), s2)"
    and orig: "Tx_GetNotice t (dr_ID rec) (ri_NoticeID inp) s2 = (Inr orig, s3)"
    and sent: "nt_Channel orig = ChannelEmail" "nt_SentAt orig \<noteq> None"
    and account: "Tx_GetAccount (dr_AccountID rec) s3 = (Inr account, s4)"
    and ins: "Tx_InsertNotice t ((new_notice (dr_ID rec) (nt_Seq orig) (nt_Kind orig) ChannelEmail (ar_Email account) (nt_Document orig) (sv_now env))
        \<lparr>nt_Subject := nt_Subject orig, nt_Actor := ri_Actor inp, nt_ResendOf := Some (mail_source orig)\<rparr>) s4 = (Inr nid, s5)"
    and view: "view env ctx t rec s5 = (Inr v, w')"
    unfolding resend_def Let_def mail_source_def
    by (elim tx_bind_InrE tx_then_InrE) (auto split: if_splits elim!: tx_bind_InrE)
  have s: "s1 = w" "map_of (Disputes w) (ri_DisputeID inp) = Some rec" using rec by (simp_all add: GetDispute_Inr)
  have "s2 = s1" by (rule staysD [OF still.stays_authorizeDispute auth])
  moreover note GetNotice_Inr [OF orig]
  moreover from account have "s4 = s3" "Accounts s3 (dr_AccountID rec) = Some account"
    by (auto simp: Tx_GetAccount_def found_def split: option.splits)
  moreover have "w' = s5" by (rule staysD [OF still.stays_view view])
  ultimately have here: "s4 = w" "w' = s5" "orig \<in> set (Notices w)" "nt_ID orig = ri_NoticeID inp" "Accounts w (dr_AccountID rec) = Some account"
    using s by simp_all
  have "w' = w\<lparr>nextNotice := nextNotice w + 1, Notices := Notices w @ [(new_notice (dr_ID rec) (nt_Seq orig) (nt_Kind orig) ChannelEmail (ar_Email account) (nt_Document orig) (sv_now env))
       \<lparr>nt_Subject := nt_Subject orig, nt_Actor := ri_Actor inp, nt_ResendOf := Some (mail_source orig), nt_ID := nid, nt_TenantID := mt_Tenant t\<rparr>]\<rparr>"
    using InsertNotice_Inr [OF ins] here(1,2) by simp
  from that [OF s(2) here(3,4) sent here(5) this] show thesis .
qed

section \<open>Samples\<close>

text \<open>The bank of the samples with a draft of its dispute, an email that was sent with a file, and one that waits.\<close>

definition sample_file :: "uuid \<Rightarrow> int option \<Rightarrow> Attachment" where
  "sample_file i n = \<lparr>at_ID = i, at_DisputeID = ''d1'', at_NoticeID = n, at_Filename = ''receipt.pdf'', at_ContentType = ''application/pdf'',
     at_Size = 2, at_Content = ''%P'', at_UploadedBy = ''ann'', at_UploadedAt = 5\<rparr>"

definition sample_mail :: "int \<Rightarrow> time option \<Rightarrow> NoticeRecord" where
  "sample_mail n sent = (new_notice ''d1'' 1 NoticeAcknowledgement ChannelEmail ''a@x'' \<lparr>doc_Bank = ''Bank'', doc_Subject = ''Hello'',
     doc_Greeting = ''Dear Ada,'', doc_Paragraphs = [], doc_Closing = ''Yours'', doc_Basis = []\<rparr> 0)\<lparr>nt_ID := n, nt_SentAt := sent\<rparr>"

definition mail_bank :: "Core World" where
  "mail_bank = sample_bank\<lparr>Attachments := [(''f1'', sample_file ''f1'' None), (''f2'', sample_file ''f2'' (Some 1))],
     Notices := [sample_mail 1 (Some 7), sample_mail 2 None], nextNotice := 2\<rparr>"

lemmas mail_bank_defs = mail_bank_def sample_file_def sample_mail_def new_notice_def

lemma mail_bank_ok: "files_ok mail_bank" "store_ok sf mail_bank" "outbox_ok mail_bank"
proof -
  show "store_ok sf mail_bank" using sample_bank_ok [of sf] store_ok_same [of mail_bank sample_bank sf] by (simp add: mail_bank_def)
  show "files_ok mail_bank" "outbox_ok mail_bank" by (auto simp: files_ok_def outbox_ok_def mail_bank_defs split: if_splits)
qed

lemma sample_template:
  "TenantWordings w = (\<lambda>_. []) \<Longrightarrow> tenantTemplate t NoticeCustom w = (Inr template_CUSTOM, w)"
  by (simp add: tenantTemplate_def tenantTemplates_def Tx_TenantTemplates_def Templates_eq applyStored_def byKind_def)

definition sample_compose :: "uuid list \<Rightarrow> ComposeEmailInput" where
  "sample_compose ids = \<lparr>ce_DisputeID = ''d1'', ce_Template = NoticeCustom, ce_Fields = [(''subject'', ''Hello''), (''body'', ''One line'')],
     ce_Attachments = ids, ce_Actor = ''ann''\<rparr>"


lemma sample_form:
  "Validate template_CUSTOM [(''subject'', ''Hello''), (''body'', ''One line'')] = Inr [(''body'', ''One line''), (''subject'', ''Hello'')]"
  by (simp add: Validate_def validate_field_def validate_unknown_def displayValue_def lookup_def
      trim_space_visible visible_def template_CUSTOM_def form_input_def)

lemmas run_mail_code = run_code
  compose_letter_def [THEN fun_cong, unfolded tx_apps case_apps] compose_email_def [THEN fun_cong, unfolded tx_apps case_apps]
  claimAttachments_def [THEN fun_cong, unfolded tx_apps case_apps] resend_def [THEN fun_cong, unfolded tx_apps case_apps]
  Upload_def [THEN fun_cong, unfolded tx_apps case_apps]

lemma sample_compose_runs: "\<exists>v w'. ComposeEmail sample_env (sample_caller ''ann'') (sample_compose [''f1'']) mail_bank = (Inr v, w')"
proof -
  have "TemplateFor NoticeCustom = Some template_CUSTOM" by (simp add: TemplateFor_def templates_def embedded_templates)
  then show ?thesis
    by (simp add: ComposeEmail_def sample_compose_def run_mail_code sample_template run_values sample_defs sample_form mail_bank_defs
        MaxAttachments_def update_conv')
qed

section \<open>Properties\<close>

text \<open>
  C20: a composed email carries exactly the files it names. When the request succeeds the outbox holds a new email to the
  dispute's customer, not yet sent, and the mail the dispatcher makes of it has as attachments the named uploads
  (at most three), each once, with the names, types and contents they were uploaded with; each of them was a draft of this
  very dispute, attached to nothing before.
\<close>

theorem email_carries_files:
  assumes "ComposeEmail env ctx inp w = (Inr v, w')" and ok: "files_ok w" "store_ok sf w" "outbox_ok w"
  shows "\<exists>n. n \<in> set (Notices w') \<and> nt_ID n \<notin> nt_ID ` set (Notices w) \<and> unsent_email n \<and> nt_DisputeID n = ce_DisputeID inp \<and>
    mset (ml_Files (mail_of loc w' n)) =
      image_mset (\<lambda>i. case the (map_of (Attachments w) i) of a \<Rightarrow> (at_Filename a, at_ContentType a, at_Content a)) (mset (ce_Attachments inp)) \<and>
    length (ce_Attachments inp) \<le> 3 \<and> distinct (ce_Attachments inp) \<and>
    list_all (\<lambda>i. \<exists>a. draft_of (ce_DisputeID inp) (Attachments w) i a) (ce_Attachments inp)"
proof -
  let ?nid = "nextNotice w + 1" and ?ids = "ce_Attachments inp"
  from assms(1) obtain t where "compose_email env ctx inp t w = (Inr v, w')"
    unfolding ComposeEmail_def by (auto simp: WithTx_Inr split: option.splits)
  then obtain rec r tpl f doc files w1 w2 where rec: "map_of (Disputes w) (ce_DisputeID inp) = Some rec"
    and ins: "Tx_InsertNotice t ((new_notice (dr_ID rec) (dr_Version rec) (tpl_Kind tpl) ChannelEmail (nf_Email f) doc (sv_now env))
       \<lparr>nt_Actor := ce_Actor inp\<rparr>) w = (Inr ?nid, w1)"
    and claim: "claimAttachments (dr_ID rec) ?nid ?ids w1 = (Inr files, w2)"
    and letter: "compose_letter env t rec r tpl f doc files (ce_Actor inp) w2 = (Inr (), w')"
    by (rule compose_email_Inr)
  have did: "dr_ID rec = ce_DisputeID inp" by (rule store_ok_id [OF ok(2) rec])
  let ?n = "(new_notice (dr_ID rec) (dr_Version rec) (tpl_Kind tpl) ChannelEmail (nf_Email f) doc (sv_now env))
       \<lparr>nt_Actor := ce_Actor inp, nt_ID := ?nid, nt_TenantID := mt_Tenant t\<rparr>"
  have w1: "w1 = w\<lparr>nextNotice := ?nid, Notices := Notices w @ [?n]\<rparr>" using InsertNotice_Inr [OF ins] by simp
  from claim obtain fs where all: "claim_files (ce_DisputeID inp) ?nid ?ids (Attachments w) = (int (length ?ids), fs)"
    and w2: "w2 = w1\<lparr>Attachments := fs\<rparr>" and few: "length ?ids \<le> MaxAttachments"
    by (rule claimAttachments_Inr) (simp add: w1 did)
  note letter = compose_letter_Inr [OF letter]
  have "?n \<in> set (Notices w')" using letter by (auto simp: w2 w1)
  moreover have "?nid \<notin> nt_ID ` set (Notices w)" using ok(3) by (force simp: outbox_ok_def)
  moreover have "mset (ml_Files (mail_of loc w' ?n)) =
      image_mset (\<lambda>i. case the (map_of (Attachments w) i) of a \<Rightarrow> (at_Filename a, at_ContentType a, at_Content a)) (mset ?ids)"
  proof -
    have "mset (files_of ?nid w') = image_mset (\<lambda>i. (the (map_of (Attachments w) i))\<lparr>at_NoticeID := Some ?nid\<rparr>) (mset ?ids)"
      using claimed_files [OF _ all] ok(1) letter by (force simp: files_of_def files_ok_def w2)
    then show ?thesis by (simp add: mail_of_def mail_files_def mail_source_def new_notice_def image_mset.compositionality comp_def)
  qed
  moreover have "distinct ?ids \<and> list_all (\<lambda>i. \<exists>a. draft_of (ce_DisputeID inp) (Attachments w) i a) ?ids"
    using claim_files_all [OF all] by (simp add: list_all_iff)
  ultimately show ?thesis
    using few by (intro exI [of _ ?n]) (simp add: did MaxAttachments_def unsent_email_def new_notice_def)
qed


theorem email_carries_files_witness:
  "\<exists>v w' n. ComposeEmail sample_env (sample_caller ''ann'') (sample_compose [''f1'']) mail_bank = (Inr v, w') \<and>
     n \<in> set (Notices w') \<and> ml_Files (mail_of UTC w' n) = [(''receipt.pdf'', ''application/pdf'', ''%P'')]"
proof -
  from sample_compose_runs obtain v w' where run: "ComposeEmail sample_env (sample_caller ''ann'') (sample_compose [''f1'']) mail_bank = (Inr v, w')"
    by (elim exE)
  from email_carries_files [OF run mail_bank_ok, of UTC] obtain n where "n \<in> set (Notices w')"
    "mset (ml_Files (mail_of UTC w' n)) = {#(''receipt.pdf'', ''application/pdf'', ''%P'')#}"
    by (auto simp: sample_compose_def mail_bank_def sample_file_def)
  with run show ?thesis by auto
qed

text \<open>
  C27: an upload can be opened as it was. After a file has been uploaded for a dispute, reading it back gives the bytes, name
  and type that were sent, marked with who uploaded it and when, attached to no notice yet; and only a PDF, PNG or JPEG of
  at most five megabytes, not empty, with a name of one to 200 bytes, was accepted.
\<close>

theorem upload_round_trip:
  assumes "Upload env ctx inp w = (Inr a, w')"
  shows "GetAttachment env' ctx (up_DisputeID inp) (at_ID a) w' = (Inr (a\<lparr>at_Content := up_Content inp\<rparr>), w') \<and>
    at_Filename a = up_Filename inp \<and> at_ContentType a = up_ContentType inp \<and> at_Size a = length (up_Content inp) \<and>
    at_NoticeID a = None \<and> at_UploadedBy a = up_Actor inp \<and> at_UploadedAt a = sv_now env \<and>
    up_ContentType inp \<in> {''application/pdf'', ''image/png'', ''image/jpeg''} \<and>
    0 < length (up_Content inp) \<and> length (up_Content inp) \<le> 5242880 \<and> 0 < length (up_Filename inp) \<and> length (up_Filename inp) \<le> 200"
proof -
  from assms obtain aid where ok: "check_upload inp = Inr ()" "tenant_IDFrom ctx \<noteq> None"
    and a: "a = \<lparr>at_ID = aid, at_DisputeID = up_DisputeID inp, at_NoticeID = None, at_Filename = up_Filename inp,
           at_ContentType = up_ContentType inp, at_Size = length (up_Content inp), at_Content = [],
           at_UploadedBy = up_Actor inp, at_UploadedAt = sv_now env\<rparr>"
    and w': "w' = w\<lparr>Attachments := AList.update aid (a\<lparr>at_Content := up_Content inp\<rparr>) (Attachments w)\<rparr>"
    by (rule Upload_Inr)
  from ok(2) obtain tid where "tenant_IDFrom ctx = Some tid" by blast
  then have "GetAttachment env' ctx (up_DisputeID inp) (at_ID a) w' = (Inr (a\<lparr>at_Content := up_Content inp\<rparr>), w')"
    by (simp add: GetAttachment_def WithTx_def Tx_GetAttachment_def w' update_conv' a)
  with ok(1) a show ?thesis
    by (auto simp: check_upload_def Let_def AllowedAttachmentTypes_def MaxAttachmentBytes_def split: if_splits)
qed

theorem upload_round_trip_witness:
  "\<exists>w'. GetAttachment sample_env (sample_caller ''ann'') ''d1'' ''d2'' w' = (Inr (sample_file ''d2'' None\<lparr>at_UploadedAt := 1000\<rparr>), w')"
proof -
  let ?inp = "\<lparr>up_DisputeID = ''d1'', up_Filename = ''receipt.pdf'', up_ContentType = ''application/pdf'', up_Content = ''%P'', up_Actor = ''ann''\<rparr>"
  have "\<exists>w'. Upload sample_env (sample_caller ''ann'') ?inp sample_bank =
      (Inr (sample_file ''d2'' None\<lparr>at_UploadedAt := 1000, at_Content := []\<rparr>), w')"
    by (simp add: run_mail_code run_values sample_defs sample_file_def check_upload_def MaxAttachmentBytes_def AllowedAttachmentTypes_def)
  then obtain w' where "Upload sample_env (sample_caller ''ann'') ?inp sample_bank =
      (Inr (sample_file ''d2'' None\<lparr>at_UploadedAt := 1000, at_Content := []\<rparr>), w')" by (elim exE)
  from upload_round_trip [OF this, of sample_env] show ?thesis by (auto simp: sample_file_def)
qed





end
