(* ===== verification/Guarantees.thy ===== *)
theory Guarantees
  imports Delivery
begin

text \<open>
  The properties of the service and of the system as a whole, each with a request on the sample bank where its
  hypotheses hold.
\<close>

lemma case_run_rules: "case_run sf regime disputed es d ps \<Longrightarrow> \<exists>r. RulesFor regime = Inr r"
  by (induction rule: case_run.induct) (auto simp: New_Dispute_def bindR_eq_Inr)

text \<open>The sample bank with one dispute that has come further: its steps after the opening, and its postings with their events.\<close>

fun sample_log :: "int \<Rightarrow> state \<Rightarrow> (event \<times> state) list \<Rightarrow> EventRecord list" where
  "sample_log n s [] = []"
| "sample_log n s ((e, s') # steps) = sample_event n e s s' # sample_log (n + 1) s' steps"

fun state_after :: "state \<Rightarrow> (event \<times> state) list \<Rightarrow> state" where
  "state_after s [] = s"
| "state_after s ((e, s') # steps) = state_after s' steps"

definition sample_entry :: "int \<times> Posting \<Rightarrow> LedgerEntry" where
  "sample_entry = (\<lambda>(sq, p). \<lparr>le_Seq = sq, le_Posting = p, le_Reference = reference_of ''d1'' sq (pst_Kind p), le_PostedAt = 0,
     le_Core = (if moves_customer p then Some \<lparr>cr_RRN = ''1'', cr_ResponseCode = ''00'', cr_ResponseText = [], cr_Approved = True,
       cr_Duplicate = False, cr_AuthCode = [], cr_ProcessedAt = 0, cr_Latency = 0\<rparr> else None)\<rparr>)"

definition case_bank :: "regime \<Rightarrow> (event \<times> state) list \<Rightarrow> (int \<times> Posting) list \<Rightarrow> Core World" where
  "case_bank regime steps ps = empty_bank\<lparr>
     Disputes := [(''d1'', (sample_dispute ''d1'' ''bank'')\<lparr>dr_Regime := regime,
       dr_State := state_after StateInitiated steps, dr_Version := 1 + int (length steps)\<rparr>)],
     Events := (\<lambda>k. if k = ''d1'' then sample_log 1 (StateOther []) ((EventOpened, StateInitiated) # steps) else []),
     Ledger := (\<lambda>k. if k = ''d1'' then map sample_entry ps else [])\<rparr>"

lemma sample_log_numbered: "map ev_Seq (sample_log n s steps) = [n..n + int (length steps) - 1]"
  by (induction n s steps rule: sample_log.induct) (simp_all add: sample_event_def upto_rec1)

lemma sample_log_chained: "chained s (sample_log n s steps) (state_after s steps)"
  by (induction n s steps rule: sample_log.induct) (simp_all add: sample_event_def)

lemma sample_log_events: "map ev_Event (sample_log n s steps) = map fst steps"
  by (induction n s steps rule: sample_log.induct) (simp_all add: sample_event_def)

lemma case_bank_ok:
  assumes "case_run sf regime 100 (map fst steps) \<lparr>d_Regime = regime, d_State = state_after StateInitiated steps,
      d_Appeals = 0\<rparr> (map snd ps)"
    and "\<forall>e \<in> set (map fst steps). e \<in> set AllEvents" and "distinct (map (\<lambda>(sq, p). reference_of ''d1'' sq (pst_Kind p)) ps)"
  shows "store_ok sf (case_bank regime steps ps)"
proof -
  let ?log = "sample_log 1 (StateOther []) ((EventOpened, StateInitiated) # steps)"
  have "lifecycle_events ?log = map fst steps"
    using assms(2) by (simp add: lifecycle_events_def sample_log_events sample_event_def EventOpened_def AllEvents_def)
  moreover have "chained (StateOther []) ?log (state_after StateInitiated steps)"
    using sample_log_chained [of "StateOther []" 1 "(EventOpened, StateInitiated) # steps"] by simp
  moreover have "map ev_Seq ?log = [1..1 + int (length steps)]"
    using sample_log_numbered [of 1 "StateOther []" "(EventOpened, StateInitiated) # steps"] by simp
  moreover have "map le_Posting (map sample_entry ps) = map snd ps" "map le_Reference (map sample_entry ps) = map (\<lambda>(sq, p). reference_of ''d1'' sq (pst_Kind p)) ps"
    "list_all receipt_ok (map sample_entry ps)"
    by (auto simp: sample_entry_def receipt_ok_def list_all_iff)
  ultimately show ?thesis
    using assms(1,3) unfolding store_ok_def case_ok_def case_bank_def empty_bank_def
    by (simp del: sample_log.simps map_map add: Lifecycle_of_def postingsOf_def sample_dispute_def)
qed

text \<open>The sample dispute refunded with a liability of thirty, and closed.\<close>

definition closed_bank :: "Core World" where
  "closed_bank = case_bank RegimeEUPSD2Card
     [(EventOpenInvestigation, StateInvestigating), (EventIssueRefund, StateFastRefundIssued), (EventClose, StateClosed)]
     (zip [3, 4] sample_ledger)"

lemma closed_bank_ok: "store_ok sf closed_bank"
  unfolding closed_bank_def
  by (rule case_bank_ok) (use sample_case_run [of sf] in \<open>simp_all add: sample_ledger_def AllEvents_def reference_of_def\<close>)

section \<open>Integrity of the case files\<close>

text \<open>
  C1: in every state the system can reach, whatever requests, deliveries, sweeps and outside changes came before, each
  dispute's file is sound: its log is numbered without gaps up to its version and chains state to state, replaying the
  log's events through the lifecycle gives the recorded state and exactly the postings of its ledger, no ledger
  reference occurs twice, every posting on the customer's account carries the core's approval and no other does, and
  a closed dispute has no clock running; what belongs to no dispute is empty, no dispute is listed twice, the numbers of
  the notices are distinct, and each file has one row and belongs to no notice yet to be written.
\<close>

theorem case_integrity:
  assumes "reachable sf send (w, m)"
  shows "store_ok sf w \<and> outbox_ok w \<and> files_ok w \<and> distinct (map fst (Disputes w))"
  using reachable_ok [OF assms] reachable_files [OF assms] reachable_index [OF assms] by simp

theorem case_integrity_witness:
  "\<exists>w :: Core World. store_ok sample_fixed w \<and> map (\<lambda>(k, r). (k, dr_State r)) (Disputes w) = [(''d2'', StateInitiated)]"
proof -
  obtain v w where run: "CreateDispute sample_env (sample_caller ''ann'') sample_open empty_bank = (Inr v, w)"
    and w: "map (\<lambda>(k, r). (k, dr_State r)) (Disputes w) = [(''d2'', StateInitiated)]"
    using sample_opening by (elim exE conjE)
  have "request sample_fixed (sample_caller ''ann'') empty_bank w" by (rule request.create [OF sample_sf run])
  from case_integrity [OF reachable_request [OF empty_bank_reachable this]] w show ?thesis by (intro exI conjI) simp_all
qed

text \<open>
  C2: the money of a closed dispute is settled: nothing is left in suspense; what the customer was credited, net of
  what was taken back, is what was recovered plus what was written off; it is not negative, and at most the disputed
  amount for each cycle; every posting on the customer's account was approved by the core, and no clock is running.
\<close>

theorem closed_case_settled:
  assumes "store_ok sf w" and "map_of (Disputes w) k = Some r" and "dr_State r = StateClosed"
  shows "SuspenseBalance (postingsOf (Ledger w k)) = 0 \<and>
    - balance AccountCustomer (postingsOf (Ledger w k)) =
        balance AccountRecovery (postingsOf (Ledger w k)) + balance AccountLoss (postingsOf (Ledger w k)) \<and>
    0 \<le> - balance AccountCustomer (postingsOf (Ledger w k)) \<and>
    - balance AccountCustomer (postingsOf (Ledger w k)) \<le> (of_int (dr_Appeals r) + 1) * max 0 (dr_DisputedAmount r) \<and>
    (\<forall>e \<in> set (Ledger w k). moves_customer (le_Posting e) \<longrightarrow> (\<exists>rc. le_Core e = Some rc \<and> cr_Approved rc)) \<and>
    (\<forall>d \<in> set (Deadlines w k). \<not> dl_Open d)"
proof -
  let ?ps = "postingsOf (Ledger w k)"
  have ok: "case_ok sf w k r" by (rule store_okD [OF assms(1,2)])
  then have run: "case_run sf (dr_Regime r) (dr_DisputedAmount r) (lifecycle_events (Events w k)) (Lifecycle_of r) ?ps"
    and receipts: "list_all receipt_ok (Ledger w k)" and clocks: "\<forall>d \<in> set (Deadlines w k). \<not> dl_Open d"
    using assms(3) by (simp_all add: case_ok_def)
  obtain rl where rl: "RulesFor (dr_Regime r) = Inr rl" using case_run_rules [OF run] by blast
  have "books_ok rl (dr_DisputedAmount r) StateClosed (dr_Appeals r) (SuspenseBalance ?ps) (- balance AccountCustomer ?ps)"
    using case_run_books [OF run rl] assms(3) by (simp add: Lifecycle_of_def)
  then have books: "SuspenseBalance ?ps = 0" "0 \<le> - balance AccountCustomer ?ps"
      "- balance AccountCustomer ?ps \<le> (of_int (dr_Appeals r) + 1) * max 0 (dr_DisputedAmount r)"
    by (auto simp: books_ok_def unrefunded_def)
  have "- balance AccountCustomer ?ps = balance AccountRecovery ?ps + balance AccountLoss ?ps"
    using double_entry [of ?ps] books(1) by (simp add: SuspenseBalance_eq)
  moreover have "\<forall>e \<in> set (Ledger w k). moves_customer (le_Posting e) \<longrightarrow> (\<exists>rc. le_Core e = Some rc \<and> cr_Approved rc)"
    using receipts by (auto simp: list_all_iff receipt_ok_def split: option.splits)
  ultimately show ?thesis using books clocks by blast
qed

theorem closed_case_settled_witness:
  "SuspenseBalance (postingsOf (Ledger closed_bank ''d1'')) = 0 \<and> - balance AccountCustomer (postingsOf (Ledger closed_bank ''d1'')) = 70"
proof -
  obtain r where "map_of (Disputes closed_bank) ''d1'' = Some r" "dr_State r = StateClosed"
    by (simp add: closed_bank_def case_bank_def)
  from closed_case_settled [OF closed_bank_ok this] show ?thesis
    by (simp add: closed_bank_def case_bank_def sample_entry_def postingsOf_def sample_ledger_def balance_def)
qed

section \<open>Refinement\<close>

lemma Reassign_abs:
  assumes "Reassign env ctx did team w = (r, w')" and ok: "store_ok sf w"
  shows "abs_case w' k = abs_case w k"
proof (cases r)
  case (Inl e)
  have "snapshot w' = snapshot w" by (rule WithTx_Inl [OF assms(1) [unfolded Inl Reassign_def]])
  then show ?thesis by (simp add: same_case_abs same_case_snapshot)
next
  case (Inr u)
  with assms(1) obtain t where "reassign env ctx did team t w = (Inr (), w')"
    unfolding Reassign_def by (auto simp: WithTx_Inr)
  then show ?thesis using ok
    by (cases rule: reassign_Inr) (auto simp: abs_case_def update_conv' Lifecycle_of_def)
qed

text \<open>
  C3: the service implements the lifecycle and the ledger of the domain. Seen as where a dispute stands and what has been
  posted for it, any request, successful or not, does to each dispute one of three things: nothing; or it opens it,
  at the start of its regime's lifecycle with an empty ledger; or it takes one step of the domain, one event that
  \<open>Apply\<close> accepts, with exactly the postings \<open>Postings\<close> gives for the state entered, computed on the suspense
  balance of the ledger so far.
\<close>

theorem service_refines_domain:
  assumes "request sf ctx w w'" and ok: "store_ok sf w"
  shows "abs_case w' k = abs_case w k \<or>
    (\<exists>d disputed. abs_case w k = None \<and> New_Dispute (d_Regime d) = Inr d \<and> abs_case w' k = Some (d, disputed, [])) \<or>
    (\<exists>a b. abs_case w k = Some a \<and> abs_case w' k = Some b \<and> book_step sf a b)"
  using assms(1) serves_any
proof (cases rule: cases.request_cases)
  case (create env inp r)
  from create(2) [unfolded CreateDispute_def] show ?thesis
  proof (cases rule: idempotent_outcome)
    case kept
    then show ?thesis by (simp add: same_case_abs)
  next
    case (did t v w1)
    from create_dispute_store [OF did(2) ok] obtain j rec where new: "map_of (Disputes w) j = None" "only j w w1"
      "map_of (Disputes w1) j = Some rec" "New_Dispute (dr_Regime rec) = Inr (Lifecycle_of rec)" "Ledger w1 j = []" by blast
    have same: "abs_case w' k = abs_case w1 k" using did(3) by (simp add: same_case_abs)
    show ?thesis
    proof (cases "k = j")
      case True
      with new same show ?thesis by (auto simp: abs_case_def postingsOf_def Lifecycle_of_def)
    next
      case False
      with new(2) same show ?thesis by (simp add: same_case_abs only_same_case)
    qed
  qed
next
  case (apply_to env inp r)
  from apply_to(2) [unfolded ApplyEvent_def] show ?thesis
  proof (cases rule: idempotent_outcome)
    case kept
    then show ?thesis by (simp add: same_case_abs)
  next
    case (did t v w1)
    have same: "abs_case w' k = abs_case w1 k" using did(3) by (simp add: same_case_abs)
    note * = apply_event_store [OF did(2) ok [folded apply_to(1)]]
    show ?thesis
    proof (cases "k = ae_DisputeID inp")
      case True
      with * same apply_to(1) show ?thesis by metis
    next
      case False
      moreover have "only (ae_DisputeID inp) w w1" using * by blast
      ultimately show ?thesis using same by (simp add: same_case_abs only_same_case)
    qed
  qed
next
  case (reassign env did team r)
  then show ?thesis using Reassign_abs [OF reassign(2) ok] by simp
next
  case other
  then show ?thesis by (simp add: same_cases_def abs_case_def)
qed

theorem service_refines_domain_witness:
  "\<exists>w b. request sample_fixed (sample_caller ''ann'') sample_bank w \<and> abs_case w ''d1'' = Some b \<and>
     book_step sample_fixed (Lifecycle_of (sample_dispute ''d1'' ''bank''), 100, []) b"
proof -
  obtain v w where run: "ApplyEvent sample_env (sample_caller ''ann'') (sample_apply EventOpenInvestigation None []) sample_bank = (Inr v, w)"
    and w: "map (\<lambda>(k, r). (k, dr_State r)) (Disputes w) = [(''d1'', StateInvestigating), (''d9'', StateInitiated)]"
    using sample_investigation [of "[]"] by (elim exE conjE)
  have req: "request sample_fixed (sample_caller ''ann'') sample_bank w" by (rule request.apply_to [OF sample_sf run])
  have before: "abs_case sample_bank ''d1'' = Some (Lifecycle_of (sample_dispute ''d1'' ''bank''), 100, [])"
    by (simp add: abs_case_def sample_bank_def empty_bank_def postingsOf_def sample_dispute_def)
  have "abs_case w ''d1'' \<noteq> abs_case sample_bank ''d1''"
    unfolding before using w by (auto simp: abs_case_def Lifecycle_of_def sample_dispute_def)
  with service_refines_domain [OF req sample_bank_ok, of "''d1''"] before req show ?thesis by auto
qed

section \<open>What is never lost, and never shared\<close>

text \<open>
  C16: the records of the bank only grow. Along any run of the system no event of a log, entry of a ledger or risk
  assessment is removed, changed or reordered; a clock keeps its start, its due time and its basis, and once met or
  voided stays so; a notice keeps its text, addressee and number, and once sent stays sent. A calendar or a rule that
  changes later moves no deadline that was already communicated.
\<close>

theorem history_append_only:
  assumes "(system_step sf send)\<^sup>*\<^sup>* a b"
  shows "history_kept (fst a) (fst b)"
  using assms
proof (induction rule: rtranclp_induct)
  case base
  show ?case by (rule history_frame.frame_refl)
next
  case (step b c)
  from step.IH step_history [OF step.hyps(2)] show ?case by (rule history_frame.frame_trans)
qed

theorem history_append_only_witness:
  "\<exists>w. map ev_Event (Events w ''d1'') = [EventOpened, EventOpenInvestigation] \<and> history_kept sample_bank w"
proof -
  obtain v w where run: "ApplyEvent sample_env (sample_caller ''ann'') (sample_apply EventOpenInvestigation None []) sample_bank = (Inr v, w)"
    and w: "map ev_Event (Events w ''d1'') = [EventOpened, EventOpenInvestigation]"
    using sample_investigation [of "[]"] by (elim exE conjE)
  have "(system_step sample_fixed accepting)\<^sup>*\<^sup>* (sample_bank, []) (w, [])"
    by (rule r_into_rtranclp, rule system_step.requested, rule request.apply_to [OF sample_sf run])
  from history_append_only [OF this] w show ?thesis by (intro exI conjI) simp_all
qed



text \<open>
  All or nothing. A request that fails leaves the nine maps of the case files (disputes, logs, stored responses,
  clocks, ledgers, questionnaires, notices, risk, attachments) exactly as they were, whatever it had written before
  it failed.
\<close>

theorem failed_request_undone:
  assumes "CreateDispute env ctx opening w = (Inl e, w') \<or> ApplyEvent env ctx event w = (Inl e, w') \<or>
    Reassign env ctx did team w = (Inl e, w') \<or> ComposeEmail env ctx email w = (Inl e, w') \<or> Resend env ctx again w = (Inl e, w')"
  shows "snapshot w' = snapshot w"
  using assms
proof (elim disjE)
  assume "ComposeEmail env ctx email w = (Inl e, w')"
  then show ?thesis unfolding ComposeEmail_def by (cases "TemplateFor (ce_Template email)") (auto dest: WithTx_Inl)
qed (unfold CreateDispute_def ApplyEvent_def Reassign_def Resend_def idempotent_def Let_def, (erule WithTx_Inl)+)

theorem failed_request_undone_witness:
  "\<exists>e w. ApplyEvent sample_env (sample_caller ''ann'') (sample_apply EventClose None []) sample_bank = (Inl e, w) \<and>
     snapshot w = snapshot sample_bank"
proof -
  have "\<exists>e w. ApplyEvent sample_env (sample_caller ''ann'') (sample_apply EventClose None []) sample_bank = (Inl e, w)"
    by (simp add: run_code run_values decode_authorized sample_defs)
  then obtain e w where run: "ApplyEvent sample_env (sample_caller ''ann'') (sample_apply EventClose None []) sample_bank = (Inl e, w)"
    by blast
  from failed_request_undone [OF disjI2 [OF disjI1 [OF run]]] run show ?thesis by blast
qed

section \<open>Repeated requests\<close>

lemma idempotent_stored:
  assumes "idempotent env ctx scope idem fn w = (Inr res, w1)" and "id_Key idem \<noteq> []"
  obtains tid r where "tenant_IDFrom ctx = Some tid"
    "map_of (Idempotent w1) (idem_key tid (store_scope ctx scope) (id_Key idem)) = Some r"
    "sr_RequestHash r = sv_sha256 env (id_RequestBody idem)" "sr_Body r = rs_View res"
  using assms(1)
proof (cases rule: idempotent_Inr)
  case (replayed r tid)
  with that show thesis by simp
next
  case (ran tid t v s1)
  with that assms(2) show thesis by (simp add: update_conv')
qed

lemma idempotent_again:
  assumes "tenant_IDFrom ctx = Some tid" and "id_Key idem \<noteq> []"
    and "map_of (Idempotent w) (idem_key tid (store_scope ctx scope) (id_Key idem)) = Some r"
  shows "idempotent env ctx scope idem fn w =
    (if sr_RequestHash r = sv_sha256 env (id_RequestBody idem) then (Inr \<lparr>rs_View = sr_Body r, rs_Replayed = True\<rparr>, w)
     else (Inl (Classified ErrIdempotencyReuse), w))"
  using assms
  by (simp add: idempotent_def Let_def WithTx_def tx_apps tx_optional_def Tx_GetIdempotent_def found_def restore_def snapshot_def)



section \<open>Who may do what\<close>

text \<open>What a fresh, successful \<open>ApplyEvent\<close> went through.\<close>

lemma ApplyEvent_fresh:
  assumes "ApplyEvent env ctx inp w = (Inr \<lparr>rs_View = v, rs_Replayed = False\<rparr>, w')"
  obtains t rec f dec nxt where "tenant_IDFrom ctx = Some (mt_Tenant t)"
    "decide_event env ctx inp t w = (Inr (rec, f, dec, nxt), w)"
  using assms unfolding ApplyEvent_def
proof (cases rule: idempotent_Inr)
  case (ran tid t v' w1)
  obtain rec f dec nxt payload s1 where "decide_event env ctx inp t w = (Inr (rec, f, dec, nxt), w)"
    by (rule apply_event_Inr [OF ran(4)])
  moreover have "tenant_IDFrom ctx = Some (mt_Tenant t)" using ran(1,2) by simp
  ultimately show thesis by (rule that [rotated])
qed simp

lemma authorize_Inr:
  assumes "authorize env ctx t action d s = (Inr dec, s')"
  obtains p a where "principal_From ctx = Some p" "sv_authz env (ctx_tenant ctx) p a action d = Inr dec" "dec_Allowed dec"
  using assms by (auto simp: authorize_def tx_apps Tx_Access_def split: option.splits sum.splits if_splits)

lemma dispute_facts_Inr:
  "dispute_facts t rec s = (Inr f, s') \<Longrightarrow> df_ID f = dr_ID rec \<and> df_InvestigationOpenedBy f = opener_from [] (Events s (dr_ID rec))"
  by (auto simp: dispute_facts_def tx_bind_Inr_iff ListEvents_Inr)

lemma opener_from_last:
  "ev_Event e = EventOpenInvestigation \<Longrightarrow> \<forall>x \<in> set later. ev_Event x \<noteq> EventOpenInvestigation \<Longrightarrow>
     opener_from o' (earlier @ e # later) = (if ev_ActorID e = [] then UnrecordedInvestigator else ev_ActorID e)"
proof (induction earlier arbitrary: o')
  case Nil
  have "\<forall>x \<in> set later. ev_Event x \<noteq> EventOpenInvestigation \<Longrightarrow> opener_from a later = a" for a
    by (induction later) simp_all
  with Nil show ?case by simp
qed simp

context authorizer
begin

lemma credited_by_another:
  assumes env: "sv_authz env = decide" and run: "ApplyEvent env ctx inp w = (Inr \<lparr>rs_View = v, rs_Replayed = False\<rparr>, w')"
    and ok: "store_ok sf w" and ev: "ae_Event inp = EventIssueFinalCredit" and p: "principal_From ctx = Some p" "pr_Kind p = Analyst"
    and k: "ae_DisputeID inp \<noteq> uuid_Nil"
  shows "opener_from [] (Events w (ae_DisputeID inp)) \<noteq> pr_ID p"
proof
  assume opener: "opener_from [] (Events w (ae_DisputeID inp)) = pr_ID p"
  obtain t rec f dec nxt where d: "decide_event env ctx inp t w = (Inr (rec, f, dec, nxt), w)" by (rule ApplyEvent_fresh [OF run])
  note * = decide_event_Inr [OF d]
  have "dr_ID rec = ae_DisputeID inp" by (rule store_ok_id [OF ok *(2)])
  with dispute_facts_Inr [OF *(5)] opener k have f: "df_ID f \<noteq> uuid_Nil" "df_InvestigationOpenedBy f = pr_ID p" by simp_all
  from *(6) obtain a where "decide (ctx_tenant ctx) p a ''ISSUE_FINAL_CREDIT'' (Some f) = Inr dec" "dec_Allowed dec"
    by (rule authorize_Inr) (use p env ev in \<open>auto simp: EventAction_def\<close>)
  with sod_law [OF p(2) f] show False by blast
qed

end

text \<open>A Reg E dispute whose chargeback was won, investigated by bob; ann may issue the final credit.\<close>

definition won_steps :: "(event \<times> state) list" where
  "won_steps = [(EventOpenInvestigation, StateInvestigating), (EventIssueRefund, StateProvisionalCreditIssued),
     (EventFileChargeback, StateChargebackFiled), (EventAcknowledgeChargeback, StateChargebackAcknowledged),
     (EventWinChargeback, StateChargebackWon)]"

definition won_ledger :: "Posting list" where
  "won_ledger = [\<lparr>pst_Kind = PostingProvisionalCredit, pst_Debit = AccountSuspense, pst_Credit = AccountCustomer, pst_Amount = 100,
       pst_Currency = ''EUR''\<rparr>,
     \<lparr>pst_Kind = PostingRecovery, pst_Debit = AccountRecovery, pst_Credit = AccountSuspense, pst_Amount = 100, pst_Currency = ''EUR''\<rparr>]"

definition won_bank :: "Core World" where
  "won_bank = (case_bank RegimeUSRegE won_steps (zip [3, 6] won_ledger))\<lparr>AccessOf := [''bank'' \<mapsto> sample_teams\<lparr>ma_Grants :=
     [\<lparr>g_Team = ''cards'', g_Role = RoleJunior, g_Action = ''ISSUE_FINAL_CREDIT'', g_AmountLimit = None\<rparr>]\<rparr>]\<rparr>"

lemma won_case_run:
  "case_run sf RegimeUSRegE 100 (map fst won_steps) \<lparr>d_Regime = RegimeUSRegE, d_State = StateChargebackWon, d_Appeals = 0\<rparr> won_ledger"
proof -
  let ?d0 = "\<lparr>d_Regime = RegimeUSRegE, d_State = StateInitiated, d_Appeals = 0\<rparr>"
  obtain r where r: "RulesFor RegimeUSRegE = Inr r" by (simp add: RulesFor_def)
  have "case_run sf RegimeUSRegE 100 [] ?d0 []" by (rule case_run.opened) (simp add: New_Dispute_def RulesFor_def)
  from run_case_sound [OF this r, of "''EUR''" "map (\<lambda>(e, _). (e, 0, SettleNone)) won_steps"] show ?thesis using r
    by (auto simp: RulesFor_def won_steps_def Apply_def input_ok_def Postings_def post_one_def settle_suspense_def HasRefundStep_def
        refundState_def SuspenseBalance_eq balance_def won_ledger_def)
qed

lemma won_bank_ok: "store_ok sf won_bank"
proof -
  have "store_ok sf (case_bank RegimeUSRegE won_steps (zip [3, 6] won_ledger))"
    by (rule case_bank_ok)
       (use won_case_run [of sf] in \<open>simp_all add: won_ledger_def won_steps_def AllEvents_def reference_of_def\<close>)
  with store_ok_same [of won_bank "case_bank RegimeUSRegE won_steps (zip [3, 6] won_ledger)" sf] show ?thesis
    by (simp add: won_bank_def)
qed

definition engine_env :: "Core Env" where
  "engine_env = sample_env\<lparr>sv_authz := Engine id\<rparr>"

lemma won_decision:
  assumes "f = \<lparr>df_ID = ''d1'', df_Team = ''cards'', df_Amount = 100, df_Currency = ''EUR'', df_Rail = RailCard,
      df_State = StateChargebackWon, df_InvestigationOpenedBy = ''bob''\<rparr>"
    and "p = \<lparr>pr_Kind = Analyst, pr_ID = ''ann'', pr_Display = ''ann'', pr_TenantAdmin = False\<rparr>"
    and "a = \<lparr>ac_Version = 1, ac_DefaultTeam = ''cards'', ac_Teams = [''cards''],
      ac_Grants = [\<lparr>g_Team = ''cards'', g_Role = RoleJunior, g_Action = ''ISSUE_FINAL_CREDIT'', g_AmountLimit = None\<rparr>],
      ac_Routing = [], ac_Members = [\<lparr>mb_Team = ''cards'', mb_Role = RoleSenior\<rparr>]\<rparr>"
  shows "\<exists>pols. Engine id ''bank'' p a ''ISSUE_FINAL_CREDIT'' (Some f) = Inr \<lparr>dec_Allowed = True, dec_Policies = pols\<rparr>"
proof -
  have "wf_access a" "df_ID f \<noteq> uuid_Nil" "in_cedar_range id f" "analyst_may id p a ''ISSUE_FINAL_CREDIT'' f"
    unfolding assms by code_simp+
  with cedar_ref.dispute_decision [of a f id "''bank''" p "''ISSUE_FINAL_CREDIT''"] show ?thesis
    by (simp add: Engine_def assms(2))
qed

lemma won_final_credit:
  "\<exists>v w'. ApplyEvent engine_env (sample_caller ''ann'') (sample_apply EventIssueFinalCredit None []) won_bank =
     (Inr \<lparr>rs_View = v, rs_Replayed = False\<rparr>, w')"
proof -
  obtain pols where "Engine id ''bank'' \<lparr>pr_Kind = Analyst, pr_ID = ''ann'', pr_Display = ''ann'', pr_TenantAdmin = False\<rparr>
      \<lparr>ac_Version = 1, ac_DefaultTeam = ''cards'', ac_Teams = [''cards''],
        ac_Grants = [\<lparr>g_Team = ''cards'', g_Role = RoleJunior, g_Action = ''ISSUE_FINAL_CREDIT'', g_AmountLimit = None\<rparr>],
        ac_Routing = [], ac_Members = [\<lparr>mb_Team = ''cards'', mb_Role = RoleSenior\<rparr>]\<rparr> ''ISSUE_FINAL_CREDIT''
      (Some \<lparr>df_ID = ''d1'', df_Team = ''cards'', df_Amount = 100, df_Currency = ''EUR'', df_Rail = RailCard,
        df_State = StateChargebackWon, df_InvestigationOpenedBy = ''bob''\<rparr>) = Inr \<lparr>dec_Allowed = True, dec_Policies = pols\<rparr>"
    using won_decision [OF refl refl refl] by blast
  then show ?thesis
    by (simp add: run_code run_values decode_authorized sample_defs engine_env_def won_bank_def case_bank_def won_steps_def
        won_ledger_def sample_entry_def HasProvisionalCredit_def)
qed

text \<open>
  C4: separation of duties, end to end. An analyst whose request to issue a final credit succeeds is not the one who
  opened the investigation: in the dispute's log the last \<open>OPEN_INVESTIGATION\<close> names another actor. No grants, teams or
  routing a tenant may configure change this.
\<close>

theorem final_credit_by_another:
  assumes "sv_authz env = Engine round4" and "ApplyEvent env ctx inp w = (Inr \<lparr>rs_View = v, rs_Replayed = False\<rparr>, w')"
    and "store_ok sf w" and "ae_Event inp = EventIssueFinalCredit" and "principal_From ctx = Some p" and "pr_Kind p = Analyst"
    and "ae_DisputeID inp \<noteq> uuid_Nil"
    and "Events w (ae_DisputeID inp) = earlier @ e # later" and "ev_Event e = EventOpenInvestigation"
    and "\<forall>x \<in> set later. ev_Event x \<noteq> EventOpenInvestigation" and "ev_ActorID e \<noteq> []"
  shows "ev_ActorID e \<noteq> pr_ID p"
  using engine.credited_by_another [OF assms(1-7)] opener_from_last [OF assms(9,10), of "[]" earlier] assms(8,11) by simp

theorem final_credit_by_another_witness:
  "\<exists>v w'. ApplyEvent engine_env (sample_caller ''ann'') (sample_apply EventIssueFinalCredit None []) won_bank =
     (Inr \<lparr>rs_View = v, rs_Replayed = False\<rparr>, w') \<and>
     ev_ActorID (sample_event 2 EventOpenInvestigation StateInitiated StateInvestigating) \<noteq> ''ann''"
proof -
  obtain v w' where run: "ApplyEvent engine_env (sample_caller ''ann'') (sample_apply EventIssueFinalCredit None []) won_bank =
     (Inr \<lparr>rs_View = v, rs_Replayed = False\<rparr>, w')" using won_final_credit by blast
  have "ev_ActorID (sample_event 2 EventOpenInvestigation StateInitiated StateInvestigating) \<noteq> ''ann''"
    using final_credit_by_another [OF _ run won_bank_ok, of id "the (principal_From (sample_caller ''ann''))"
        "[sample_event 1 EventOpened (StateOther []) StateInitiated]"
        "sample_event 2 EventOpenInvestigation StateInitiated StateInvestigating" "sample_log 3 StateInvestigating (tl won_steps)"]
    by (simp add: engine_env_def sample_apply_def sample_caller_def principal_From_def uuid_Nil_def won_bank_def case_bank_def
        won_steps_def sample_event_def)
  with run show ?thesis by blast
qed

text \<open>A dispute under investigation that was assessed HIGH.\<close>

definition held_bank :: "Core World" where
  "held_bank = (case_bank RegimeEUPSD2Card [(EventOpenInvestigation, StateInvestigating)] [])\<lparr>RiskLog := (\<lambda>_.
     [\<lparr>rk_Seq = 1, rk_Assessment = \<lparr>as_Score = 90, as_Tier = RiskHigh, as_Signals = []\<rparr>, rk_AssessedAt = 0\<rparr>])\<rparr>"

lemma held_bank_ok: "store_ok sf held_bank"
proof -
  let ?d0 = "\<lparr>d_Regime = RegimeEUPSD2Card, d_State = StateInitiated, d_Appeals = 0\<rparr>"
  obtain r where r: "RulesFor RegimeEUPSD2Card = Inr r" by (simp add: RulesFor_def)
  have "case_run sf RegimeEUPSD2Card 100 [] ?d0 []" by (rule case_run.opened) (simp add: New_Dispute_def RulesFor_def)
  from run_case_sound [OF this r, of "''EUR''" "[(EventOpenInvestigation, 0, SettleNone)]"]
  have "store_ok sf (case_bank RegimeEUPSD2Card [(EventOpenInvestigation, StateInvestigating)] [])"
    by (intro case_bank_ok) (auto simp: r RulesFor_def Apply_def input_ok_def Postings_def AllEvents_def)
  with store_ok_same [of held_bank "case_bank RegimeEUPSD2Card [(EventOpenInvestigation, StateInvestigating)] []" sf] show ?thesis
    by (simp add: held_bank_def)
qed

text \<open>The justification a request carries, without the blanks around it.\<close>

definition justification :: "json_num \<Rightarrow> json option \<Rightarrow> string" where
  "justification num payload =
     (case Option.bind payload (decode_facts num) of Some f \<Rightarrow> trim_space (ef_RiskOverride f) | None \<Rightarrow> [])"

lemma holdCheck_Inr:
  assumes "holdCheck env t rec payload s = (Inr (), s')" and "RiskLog s (dr_ID rec) \<noteq> []"
    and "as_Tier (rk_Assessment (last (RiskLog s (dr_ID rec)))) = RiskHigh"
  shows "justification (sv_num env) payload \<noteq> []"
proof -
  from assms(1) obtain history s1 where list: "Tx_ListRisk t (dr_ID rec) s = (Inr history, s1)"
    and rest: "(if history = [] then tx_return ()
       else case (case payload of None \<Rightarrow> Some no_facts | Some j \<Rightarrow> decode_facts (sv_num env) j) of
         None \<Rightarrow> tx_fail (malformed_payload (case payload of Some j \<Rightarrow> sv_json_error env j | None \<Rightarrow> []))
       | Some f \<Rightarrow> tx_lift (CreditAllowed (Some (rk_Assessment (last history))) (trim_space (ef_RiskOverride f)))) s1 = (Inr (), s')"
    unfolding holdCheck_def by (elim tx_bind_InrE)
  have history: "history = RiskLog s (dr_ID rec)" using ListRisk_Inr [OF list] by simp
  obtain f where f: "(case payload of None \<Rightarrow> Some no_facts | Some j \<Rightarrow> decode_facts (sv_num env) j) = Some f"
    and "trim_space (ef_RiskOverride f) \<noteq> []"
    using rest assms(2,3) by (auto simp: history CreditAllowed_def split: option.splits if_splits)
  moreover have "trim_space (ef_RiskOverride no_facts) = []" by (simp add: no_facts_def trim_space_def)
  ultimately show ?thesis by (auto simp: justification_def split: option.splits)
qed

text \<open>
  C19: the fraud hold. While the latest assessment of a dispute is HIGH, no refund is issued on it unless the request
  carries a justification that is not blank: such a request, by whoever is allowed to issue refunds, fails and changes
  nothing of the case files (or is answered from a stored response, without running).
\<close>

theorem risk_hold:
  assumes "ae_Event inp = EventIssueRefund" and "store_ok sf w" and "RiskLog w (ae_DisputeID inp) \<noteq> []"
    and "as_Tier (rk_Assessment (last (RiskLog w (ae_DisputeID inp)))) = RiskHigh" and "justification (sv_num env) (ae_Payload inp) = []"
  shows "case ApplyEvent env ctx inp w of (Inl e, w') \<Rightarrow> snapshot w' = snapshot w | (Inr res, w') \<Rightarrow> rs_Replayed res \<and> w' = w"
proof -
  obtain r w' where run: "ApplyEvent env ctx inp w = (r, w')" by (cases "ApplyEvent env ctx inp w")
  show ?thesis
  proof (cases r)
    case (Inl e)
    from WithTx_Inl [OF run [unfolded Inl ApplyEvent_def idempotent_def Let_def]] show ?thesis by (simp add: run Inl)
  next
    case (Inr res)
    from run [unfolded Inr ApplyEvent_def] show ?thesis
    proof (cases rule: idempotent_Inr)
      case replayed
      then show ?thesis by (simp add: run Inr)
    next
      case (ran tid t v w1)
      obtain rec f dec nxt payload s1 where "decide_event env ctx inp t w = (Inr (rec, f, dec, nxt), w)"
        by (rule apply_event_Inr [OF ran(4)])
      note * = decide_event_Inr [OF this]
      have "dr_ID rec = ae_DisputeID inp" by (rule store_ok_id [OF assms(2) *(2)])
      with holdCheck_Inr [OF *(7) [OF assms(1)]] assms(3-5) show ?thesis by simp
    qed
  qed
qed

theorem risk_hold_witness:
  "case ApplyEvent sample_env (sample_caller ''ann'') (sample_apply EventIssueRefund None []) held_bank of
     (Inl e, w') \<Rightarrow> snapshot w' = snapshot held_bank | (Inr res, w') \<Rightarrow> rs_Replayed res \<and> w' = held_bank"
  by (rule risk_hold [OF _ held_bank_ok])
     (simp_all add: sample_apply_def held_bank_def justification_def)

lemma view_Inr:
  assumes "view env ctx t rec s = (Inr v, s')"
  obtains f where "dispute_facts t rec s = (Inr f, s)" "permitted env ctx t (Allowed (Lifecycle_of rec)) f s = (Inr (vw_AllowedEvents v), s)"
proof -
  from assms obtain es s1 f s2 al s3 where "Tx_ListEvents (dr_ID rec) s = (Inr es, s1)" and f: "dispute_facts t rec s1 = (Inr f, s2)"
    and al: "permitted env ctx t (Allowed (Lifecycle_of rec)) f s2 = (Inr al, s3)" and v: "vw_AllowedEvents v = al"
    unfolding view_def viewWith_def by (auto elim!: tx_bind_InrE)
  then have "s1 = s" by (simp add: ListEvents_Inr)
  moreover have "s2 = s1" by (rule staysD [OF still.stays_dispute_facts f])
  moreover have "s3 = s2" by (rule staysD [OF still.stays_permitted al])
  ultimately show thesis using that f al v by simp
qed

lemma permitted_authorized:
  assumes "permitted env ctx t es f s = (Inr al, s')"
  shows "e \<in> set al \<longleftrightarrow> e \<in> set es \<and> isOk (fst (authorize env ctx t (EventAction e) (Some f) s))"
  using assms
  by (auto simp: permitted_def authorize_def tx_apps Tx_Access_def split: option.splits sum.splits if_splits)



end
