(* ===== verification/Api.thy ===== *)
theory Api
  imports Handlers Guarantees
begin

text \<open>
  What the API promises as a whole, from the bytes of a request to the case files: the requests it makes of the service
  are steps of the system, so that whatever holds of every reachable state holds behind it; what it refuses it leaves
  undone, and says so in one form; its cursors lead through every page; and keys are the business of administrators.
\<close>

section \<open>Operations as requests of the system\<close>

text \<open>The world is only ever changed by requests of the caller's context.\<close>

definition requested :: "string_fixed \<Rightarrow> Ctx \<Rightarrow> 'c Server \<Rightarrow> 'c Server \<Rightarrow> bool" where
  "requested sf ctx s s' \<longleftrightarrow> (request sf ctx)\<^sup>*\<^sup>* (srv_world s) (srv_world s')"

interpretation requests: tx_frame "requested sf ctx"
  by unfold_locales (auto simp: requested_def)

lemma requested_step: "(\<And>w r w'. m w = (r, w') \<Longrightarrow> request sf ctx w w') \<Longrightarrow> stays (requested sf ctx) (on_world m)"
  by (auto simp: stays_def requested_def on_world_def split: prod.splits)

lemma requested_still: "stays (\<lambda>s s'. s' = s) m \<Longrightarrow> stays (requested sf ctx) (on_world m)"
  by (auto simp: stays_def requested_def on_world_def split: prod.splits) (metis rtranclp.rtrancl_refl snd_conv)

lemma requested_sessions: "stays (requested sf ctx) (on_sessions m)"
  by (auto simp: stays_def requested_def on_sessions_def split: prod.splits)

lemma requested_gate:
  "(\<And>s. Gate.more (snd (m s)) = Gate.more s) \<Longrightarrow> stays (requested sf ctx) m"
proof (unfold stays_def requested_def, intro allI)
  fix s
  assume more: "\<And>s. Gate.more (snd (m s)) = Gate.more s"
  have "srv_world (snd (m s)) = srv_world s" using more [of s] by (cases s; cases "snd (m s)") simp
  then show "(request sf ctx)\<^sup>*\<^sup>* (srv_world s) (srv_world (snd (m s)))" by simp
qed

text \<open>Each use case, as the handlers call it.\<close>

lemmas use_cases = request.create [OF refl] request.apply_to [OF refl] request.reassign [OF refl] request.compose request.resend
  request.upload request.put_template request.delete_template request.put_logo request.put_avatar request.get_dispute
  request.list_disputes request.get_notice request.get_attachment request.list_templates request.list_settings

lemma reads_still:
  "stays (\<lambda>w w'. w' = w) (Authorize env ctx action)" "stays (\<lambda>w w'. w' = w) (Tenant env ctx)"
  "stays (\<lambda>w w'. w' = w) (TenantLogo env ctx)" "stays (\<lambda>w w'. w' = w) (AnalystAvatar env ctx subject)"
  "stays (\<lambda>w w'. w' = w) (GetDispute env ctx did)" "stays (\<lambda>w w'. w' = w) (ListDisputes env ctx q)"
  by (rule reading.stays_requests_that_read [OF serves_any])+

lemma suggestions_still: "stays (\<lambda>w w'. w' = w) (SuggestQuestionnaireAnswers env d ctx did txt)"
  by (simp add: stays_def SuggestQuestionnaireAnswers_still)

lemma on_world_requests:
  fixes api :: "'c Api" and ctx :: ReqCtx
  defines "env \<equiv> hd_svc api" and "c \<equiv> Ctx.truncate ctx" and "R \<equiv> requested (sv_StringFixed (hd_svc api)) (Ctx.truncate ctx)"
  shows "stays R (on_world (CreateDispute env c inp))" "stays R (on_world (ApplyEvent env c ev))" "stays R (on_world (Reassign env c did team))"
    "stays R (on_world (ComposeEmail env c em))" "stays R (on_world (Resend env c ri))" "stays R (on_world (Upload env c up))"
    "stays R (on_world (PutTemplateSetting env c kind ov actor))" "stays R (on_world (DeleteTemplateSetting env c kind))"
    "stays R (on_world (PutTenantLogo env c img))" "stays R (on_world (PutAnalystAvatar env c subject img))"
    "stays R (on_world (GetDispute env c did))" "stays R (on_world (ListDisputes env c q))" "stays R (on_world (GetNotice env c did nid))"
    "stays R (on_world (GetAttachment env c did aid))" "stays R (on_world (ListEmailTemplates env c did))"
    "stays R (on_world (ListTemplateSettings env c))" "stays R (on_world (Authorize env c action))" "stays R (on_world (Tenant env c))"
    "stays R (on_world (TenantLogo env c))" "stays R (on_world (AnalystAvatar env c subject))"
    "stays R (on_world (SuggestQuestionnaireAnswers env d c did txt))"
  unfolding assms
  by (rule requested_still [OF reads_still(1)] requested_still [OF reads_still(2)] requested_still [OF reads_still(3)]
      requested_still [OF reads_still(4)] requested_still [OF suggestions_still] | rule requested_step, erule use_cases)+

lemma Issue_more: "Gate.more (snd (Issue h now random i tid label x s)) = Gate.more s"
  by (simp add: Issue_def InsertTenantKey_def Let_def)

lemma Revoke_more: "Gate.more (snd (Revoke now tid i s)) = Gate.more s"
  by (simp add: Revoke_def RevokeTenantKeyForTenant_def split: sum.split)

lemma handlers_request:
  fixes api :: "'c Api" and ctx :: ReqCtx
  defines "R \<equiv> requested (sv_StringFixed (hd_svc api)) (Ctx.truncate ctx)"
  shows "stays R (problem api ctx path err did)" "stays R (refused api ctx path did sts err)" "stays R (missing api ctx path did err)"
    "stays R (tenantAdmin api ctx)"
proof -
  note frame = requests.stays_ops on_world_requests frame_intros
  show problem: "stays R (problem api ctx path err did)" for path err did
    unfolding assms problem_def Let_def by (intro frame)
  then show "stays R (refused api ctx path did sts err)" "stays R (missing api ctx path did err)"
    unfolding assms refused_def missing_def by (intro frame; assumption?)+
  show "stays R (tenantAdmin api ctx)" unfolding assms tenantAdmin_def by (intro frame)
qed

lemmas operation_defs = h_GetHealthz_def h_GetReadyz_def h_ListDisputes_def h_GetDispute_def h_GetAttachment_def h_GetNotice_def
  h_ListEmailTemplates_def h_GetTenant_def h_GetTenantLogo_def h_GetMyAvatar_def h_PutMyAvatar_def h_SuggestQuestionnaireAnswers_def
  h_SuggestSearchFilters_def h_SuggestDisputeReason_def h_CreateDispute_def h_ApplyDisputeEvent_def h_ComposeEmail_def
  h_UploadAttachment_def h_ResendNotice_def h_ReassignDispute_def h_ListTenantTemplates_def h_PutTenantTemplate_def
  h_DeleteTenantTemplate_def h_PutTenantLogo_def h_ListTenantKeys_def h_CreateTenantKey_def h_RevokeTenantKey_def h_PutSession_def
  h_GetSession_def h_DeleteSession_def h_DeleteSessions_def h_ListTenants_def

lemma run_call_requested: "stays (requested (sv_StringFixed (hd_svc api)) (Ctx.truncate ctx)) (run_call api ctx c)"
  by (cases c; simp only: run_call.simps operation_defs analyst_only_def Let_def;
      intro requests.stays_ops on_world_requests handlers_request requested_sessions frame_intros
        requested_gate [OF Issue_more] requested_gate [OF Revoke_more])

text \<open>What is public or internal does not touch the world.\<close>

interpretation apart: tx_frame "\<lambda>s s' :: 'c Server. srv_world s' = srv_world s"
  by unfold_locales simp_all

lemma apart_sessions: "stays (\<lambda>s s'. srv_world s' = srv_world s) (on_sessions m)"
  by (auto simp: stays_def on_sessions_def split: prod.splits)

lemma run_call_world:
  assumes "operationClass (operation_of c) \<in> {opPublic, opInternal}"
  shows "stays (\<lambda>s s'. srv_world s' = srv_world s) (run_call api ctx c)"
  using assms
  by (cases c; simp only: run_call.simps operation_defs operation_of.simps operationClass.simps Let_def;
      (simp; fail)?; intro apart.stays_ops apart_sessions frame_intros)

lemma requests_reachable:
  assumes "(request sf ctx)\<^sup>*\<^sup>* w w'" and "reachable sf send (w, m)" and "serves (\<lambda>x. x = tid) ctx"
  shows "reachable sf send (w', m) \<and> others_kept tid w w'"
  using assms(1)
proof (induction rule: rtranclp_induct)
  case base
  show ?case using assms(2) by (simp add: others_frame.frame_refl)
next
  case (step x y)
  then have x: "reachable sf send (x, m)" "others_kept tid w x" by simp_all
  have "others_kept tid x y" using request_others [OF step.hyps(2) _ assms(3)] reachable_ok [OF x(1)] by simp
  with x show ?case using reachable_request [OF x(1) step.hyps(2)] others_frame.frame_trans by blast
qed

text \<open>The world behind a request that the server let through to one operation.\<close>

lemma serve_world:
  assumes "serve api bound op ctx rq s = (resp, s')" and "\<And>c. bound op rq = Inr c \<Longrightarrow> operation_of c = op"
  obtains "srv_world s' = srv_world s" | "operationClass op \<in> {opTenantWide, opDecided}"
      "(request (sv_StringFixed (hd_svc api)) (Ctx.truncate ctx))\<^sup>*\<^sup>* (srv_world s) (srv_world s')"
proof (cases "bound op rq")
  case (Inl cause)
  with assms(1) that(1) show thesis by (simp add: serve_def)
next
  case (Inr c)
  obtain r s1 where run: "run_call api ctx c s = (r, s1)" by (cases "run_call api ctx c s")
  then have "s' = s1" using assms(1) Inr by (auto simp: serve_def split: sum.splits)
  moreover have "requested (sv_StringFixed (hd_svc api)) (Ctx.truncate ctx) s s1" by (rule staysD [OF run_call_requested run])
  moreover have "srv_world s1 = srv_world s" if "operationClass op \<in> {opPublic, opInternal}"
    using staysD [OF run_call_world run] that assms(2) [OF Inr] by simp
  moreover have "operationClass op \<in> {opPublic, opInternal} \<or> operationClass op \<in> {opTenantWide, opDecided}"
    by (cases "operationClass op") simp_all
  ultimately show thesis using that by (auto simp: requested_def)
qed

lemma more_world: "Gate.more s1 = Gate.more s \<Longrightarrow> srv_world s1 = srv_world (s :: 'c Server)"
  by (cases s; cases s1) simp

lemma authentic_tenant: "authentic cfg now s rq ctx \<Longrightarrow> \<exists>tid. cx_Tenant ctx = Some tid \<and> tenant_enabled s tid"
  by (auto simp: authentic_def key_admits_def token_admits_def tenant_enabled_def list_ex_iff)

section \<open>Following the pages\<close>

text \<open>The workbench's loop over the API: the cursor of a page is given back as the string it is.\<close>

fun browse :: "nat \<Rightarrow> 'c Api \<Rightarrow> ReqCtx \<Rightarrow> ListParams \<Rightarrow> 'c Server \<Rightarrow> ApiSummary list option" where
  "browse 0 api ctx ps s = None"
| "browse (Suc fuel) api ctx ps s =
     (case h_ListDisputes api ctx ps s of
        (Inr resp, s') \<Rightarrow>
          (case rs_Body resp of
             Content (PageOf page) \<Rightarrow>
               (case pa_NextCursor page of
                  None \<Rightarrow> Some (pa_Items page)
                | Some c \<Rightarrow> map_option (append (pa_Items page)) (browse fuel api ctx (ps\<lparr>lp_Cursor := Some c\<rparr>) s'))
           | _ \<Rightarrow> None)
      | (Inl e, s') \<Rightarrow> None)"

definition list_query :: "ListParams \<Rightarrow> Cursor option \<Rightarrow> ListQuery" where
  "list_query ps after = \<lparr>lq_State = lp_State ps, lq_Reason = lp_Reason ps, lq_After = after,
     lq_Limit = (case lp_Limit ps of Some n \<Rightarrow> n | None \<Rightarrow> 25),
     lq_Overdue = (case lp_Overdue ps of Some b \<Rightarrow> b | None \<Rightarrow> False), lq_Now = zero_time\<rparr>"

lemma list_query_simps [simp]:
  "list_query (ps\<lparr>lp_Cursor := x\<rparr>) a = list_query ps a" "(list_query ps b)\<lparr>lq_After := a\<rparr> = list_query ps a"
  by (simp_all add: list_query_def)

lemma cursor_round_trip:
  assumes "four_digit_year (cu_OpenedAt c)" and "p (cu_ID c) = Some (cu_ID c)"
  shows "decodeCursor p (encodeCursor c) = Some c" and "encodeCursor c \<noteq> []"
proof -
  have "x \<noteq> CHR ''|''" if "x \<in> set (Format_RFC3339Nano (cu_OpenedAt c))" for x
    using Format_no_bar [OF assms(1)] that by auto
  then have "takeWhile (\<lambda>x. x \<noteq> CHR ''|'') (Format_RFC3339Nano (cu_OpenedAt c) @ ''|'' @ cu_ID c) = Format_RFC3339Nano (cu_OpenedAt c)"
    "dropWhile (\<lambda>x. x \<noteq> CHR ''|'') (Format_RFC3339Nano (cu_OpenedAt c) @ ''|'' @ cu_ID c) = ''|'' @ cu_ID c"
    by (simp_all add: takeWhile_append2 dropWhile_append2)
  then show "decodeCursor p (encodeCursor c) = Some c"
    by (simp add: decodeCursor_def encodeCursor_def RFC3339Nano_round_trip [OF assms(1)] assms(2))
  show "encodeCursor c \<noteq> []"
  proof
    assume "encodeCursor c = []"
    then have "b64_decode (encodeCursor c) = b64_decode (b64_encode [])" by (simp add: b64_encode_def)
    then show False by (simp add: encodeCursor_def)
  qed
qed

lemma h_ListDisputes_page:
  assumes "list_cursor api ps = Inr after" and "ListDisputes (hd_svc api) (Ctx.truncate ctx) (list_query ps after) (srv_world s) = (Inr page, srv_world s)"
  shows "h_ListDisputes api ctx ps s = (Inr (json_reply 200 (PageOf \<lparr>pa_Items = map (api_summary (sv_StringFixed (hd_svc api))) (pg_Items page),
    pa_NextCursor = map_option encodeCursor (pg_Next page)\<rparr>)), s)"
  using assms by (simp add: h_ListDisputes_def on_world_def list_query_def tx_bind_def tx_return_def tx_lift_def)

text \<open>A cursor the service hands out is one of a dispute in the store.\<close>

lemma next_cursor:
  assumes "tenant_IDFrom ctx = Some tid"
    and index: "map dr_ID (map snd (Disputes w)) = map fst (Disputes w)" "distinct (map fst (Disputes w))"
  obtains page where "ListDisputes env ctx q w = (Inr page, w)"
    "\<And>c. pg_Next page = Some c \<Longrightarrow> \<exists>r. map_of (Disputes w) (dr_ID r) = Some r \<and> c = cursor_of r"
proof
  let ?rs = "listed \<lparr>mt_Tenant = tid, mt_Principal = principal_From ctx, mt_Wall = sv_wall env\<rparr> (q\<lparr>lq_Now := sv_now env\<rparr>) w"
  show "ListDisputes env ctx q w = (Inr \<lparr>pg_Items = map (row_of (sv_now env) w) (take (page_limit q) ?rs),
      pg_Next = (if page_limit q < length ?rs then Some (cursor_of (?rs ! (page_limit q - 1))) else None)\<rparr>, w)"
    by (rule ListDisputes_page [OF assms])
  fix c
  assume "pg_Next \<lparr>pg_Items = map (row_of (sv_now env) w) (take (page_limit q) ?rs),
      pg_Next = (if page_limit q < length ?rs then Some (cursor_of (?rs ! (page_limit q - 1))) else None)\<rparr> = Some c"
  then have "?rs ! (page_limit q - 1) \<in> set ?rs" and c: "c = cursor_of (?rs ! (page_limit q - 1))"
    by (auto split: if_splits intro: nth_mem)
  with listed_rows(1) [OF index] show "\<exists>r. map_of (Disputes w) (dr_ID r) = Some r \<and> c = cursor_of r" by blast
qed

text \<open>Over the API the loop sees what it sees over the use case.\<close>

lemma browse_follow:
  fixes api :: "'c Api"
  assumes "tenant_IDFrom (Ctx.truncate ctx) = Some tid"
    and index: "map dr_ID (map snd (Disputes (srv_world s))) = map fst (Disputes (srv_world s))" "distinct (map fst (Disputes (srv_world s)))"
    and written: "\<And>r. map_of (Disputes (srv_world s)) (dr_ID r) = Some r \<Longrightarrow>
      four_digit_year (dr_OpenedAt r) \<and> hd_ParseUUID api (dr_ID r) = Some (dr_ID r)"
  shows "list_cursor api ps = Inr after \<Longrightarrow>
    browse fuel api ctx ps s = map_option (map (api_summary (sv_StringFixed (hd_svc api))))
      (follow fuel (hd_svc api) (Ctx.truncate ctx) (list_query ps after) (srv_world s))"
proof (induction fuel arbitrary: ps after)
  case (Suc fuel)
  obtain page where page: "ListDisputes (hd_svc api) (Ctx.truncate ctx) (list_query ps after) (srv_world s) = (Inr page, srv_world s)"
    and cursor: "\<And>c. pg_Next page = Some c \<Longrightarrow> \<exists>r. map_of (Disputes (srv_world s)) (dr_ID r) = Some r \<and> c = cursor_of r"
    by (rule next_cursor [OF assms(1) index, of "hd_svc api" "list_query ps after"]) blast
  show ?case
  proof (cases "pg_Next page")
    case None
    then show ?thesis by (simp add: h_ListDisputes_page [OF Suc.prems page] page json_reply_def)
  next
    case (Some c)
    from cursor [OF Some] obtain r where "map_of (Disputes (srv_world s)) (dr_ID r) = Some r" "c = cursor_of r" by blast
    then have "decodeCursor (hd_ParseUUID api) (encodeCursor c) = Some c" "encodeCursor c \<noteq> []"
      using written [of r] cursor_round_trip [of c "hd_ParseUUID api"] by (simp_all add: cursor_of_def)
    then have "list_cursor api (ps\<lparr>lp_Cursor := Some (encodeCursor c)\<rparr>) = Inr (Some c)" by (simp add: list_cursor_def)
    from Suc.IH [OF this] show ?thesis
      by (simp add: h_ListDisputes_page [OF Suc.prems page] page json_reply_def Some option.map_comp comp_def)
  qed
qed simp

section \<open>What is refused\<close>

text \<open>Nothing of the tables or the case files is left of a request that was refused.\<close>

definition undone :: "'c Server \<Rightarrow> 'c Server \<Rightarrow> bool" where
  "undone s s' \<longleftrightarrow> (\<exists>w. s' = s\<lparr>srv_world := w\<rparr> \<and> snapshot w = snapshot (srv_world s))"

text \<open>The problem an answer is, whether the operation documents it or the server writes it.\<close>

definition problem_of :: "reply \<Rightarrow> Problem option" where
  "problem_of resp =
     (if rs_Header resp ''Content-Type'' \<noteq> Some ''application/problem+json'' then None
      else case rs_Body resp of ProblemBody p \<Rightarrow> Some p | Content (Refusal p) \<Rightarrow> Some (Problem.truncate p) | _ \<Rightarrow> None)"

definition reference :: "string \<Rightarrow> string" where
  "reference rid = ''Something went wrong on our side. Reference: '' @ rid"

text \<open>It has the status of the answer and the id of the request, and says nothing of an internal error but a reference.\<close>

definition plain_refusal :: "string \<Rightarrow> reply \<Rightarrow> bool" where
  "plain_refusal rid resp \<longleftrightarrow> (\<exists>err. case problem_of resp of None \<Rightarrow> False | Some p \<Rightarrow>
     rs_Status resp = statusByKind (KindOf err) \<and> pb_Status p = rs_Status resp \<and> pb_Code p = CodeOf err \<and> pb_RequestID p = rid \<and>
     (rs_Status resp = 500 \<longrightarrow> pb_Detail p = reference rid))"

text \<open>Steps whose failure leaves nothing behind, and handlers whose refusals do not.\<close>

definition atomic :: "('c Server, error, 'a) tx \<Rightarrow> bool" where
  "atomic m \<longleftrightarrow> (\<forall>s e s'. m s = (Inl e, s') \<longrightarrow> undone s s')"

definition handles :: "ReqCtx \<Rightarrow> ('c Server, error, reply) tx \<Rightarrow> bool" where
  "handles ctx m \<longleftrightarrow> atomic m \<and>
     (\<forall>s resp s'. m s = (Inr resp, s') \<longrightarrow> rs_Status resp < 400 \<or> undone s s' \<and> plain_refusal (hx_RequestID ctx) resp)"

interpretation undoing: tx_frame undone
proof
  show "undone s s" for s :: "'c Server" by (auto simp: undone_def intro: exI [of _ "srv_world s"])
  show "undone s u" if "undone s t" "undone t u" for s t u :: "'c Server" using that by (auto simp: undone_def)
qed

lemma undone_world: "stays (\<lambda>w w'. w' = w) m \<Longrightarrow> stays undone (on_world m)"
  by (auto simp: stays_def undone_def on_world_def split: prod.splits) (metis snd_conv)

lemma atomic_world: "(\<And>w e w'. m w = (Inl e, w') \<Longrightarrow> snapshot w' = snapshot w) \<Longrightarrow> atomic (on_world m)"
  by (auto simp: atomic_def undone_def on_world_def split: prod.splits)

lemma atomic_still: "stays undone m \<Longrightarrow> atomic m"
  by (auto simp: atomic_def dest: staysD)

lemma atomic_tx: "atomic (on_world (WithTx wall ctx fn))"
  by (rule atomic_world) (erule WithTx_Inl)

lemma use_cases_atomic:
  "atomic (on_world (CreateDispute env ctx inp))" "atomic (on_world (ApplyEvent env ctx ev))" "atomic (on_world (Reassign env ctx did team))"
  "atomic (on_world (ComposeEmail env ctx em))" "atomic (on_world (Resend env ctx ri))" "atomic (on_world (Upload env ctx up))"
  "atomic (on_world (PutTemplateSetting env ctx kind ov actor))" "atomic (on_world (DeleteTemplateSetting env ctx kind))"
  "atomic (on_world (PutTenantLogo env ctx img))" "atomic (on_world (PutAnalystAvatar env ctx subject img))"
  "atomic (on_world (GetDispute env ctx did))" "atomic (on_world (ListDisputes env ctx q))" "atomic (on_world (GetNotice env ctx did nid))"
  "atomic (on_world (GetAttachment env ctx did aid))" "atomic (on_world (ListEmailTemplates env ctx did))"
  "atomic (on_world (ListTemplateSettings env ctx))" "atomic (on_world (Tenant env ctx))" "atomic (on_world (TenantLogo env ctx))"
  "atomic (on_world (AnalystAvatar env ctx subject))"
  "atomic (on_world (SuggestQuestionnaireAnswers env d ctx did txt))"
proof -
  show "atomic (on_world (ComposeEmail env ctx em))"
    by (rule atomic_world, unfold ComposeEmail_def, cases "TemplateFor (ce_Template em)") (auto dest: WithTx_Inl)
  show "atomic (on_world (Upload env ctx up))"
    by (rule atomic_world, unfold Upload_def, cases "check_upload up"; cases "sv_NewV7 env")
       (auto simp: Let_def tx_then_def tx_bind_def split: prod.splits sum.splits dest: WithTx_Inl)
  show "atomic (on_world (PutTemplateSetting env ctx kind ov actor))"
    by (rule atomic_world) (auto simp: PutTemplateSetting_def tx_then_def tx_bind_def split: option.splits prod.splits sum.splits dest: WithTx_Inl)
  show "atomic (on_world (DeleteTemplateSetting env ctx kind))"
    by (rule atomic_world) (auto simp: DeleteTemplateSetting_def split: option.splits dest: WithTx_Inl)
  show "atomic (on_world (PutTenantLogo env ctx img))" "atomic (on_world (PutAnalystAvatar env ctx subject img))"
    by (rule atomic_world, cases "checkImage img", auto simp: PutTenantLogo_def PutAnalystAvatar_def dest: WithTx_Inl)+
  show "atomic (on_world (SuggestQuestionnaireAnswers env d ctx did txt))"
    by (intro atomic_still undone_world suggestions_still)
  show "atomic (on_world (GetDispute env ctx did))" "atomic (on_world (ListDisputes env ctx q))" "atomic (on_world (Tenant env ctx))"
    "atomic (on_world (TenantLogo env ctx))" "atomic (on_world (AnalystAvatar env ctx subject))"
    "atomic (on_world (GetNotice env ctx did nid))" "atomic (on_world (GetAttachment env ctx did aid))"
    "atomic (on_world (ListEmailTemplates env ctx did))" "atomic (on_world (ListTemplateSettings env ctx))"
    by (rule atomic_still, rule undone_world, rule reading.stays_requests_that_read [OF serves_any])+
qed (unfold CreateDispute_def ApplyEvent_def Reassign_def Resend_def idempotent_def Let_def, (rule atomic_tx)+)

lemma tables_atomic:
  "atomic (Issue h now random i tid label x :: ('c Server, error, KeyRecord \<times> string) tx)"
  "atomic (Revoke now tid i :: ('c Server, error, unit) tx)" "atomic (on_sessions (Put now known sid b) :: ('c Server, error, unit) tx)"
  "atomic (on_sessions (\<lambda>db. (Get now sid db, db)) :: ('c Server, error, Blob) tx)"
  "atomic (on_sessions (Delete sid) :: ('c Server, error, unit) tx)" "atomic (on_sessions (DeleteMatching sel) :: ('c Server, error, int) tx)"
proof -
  show "atomic (Issue h now random i tid label x :: ('c Server, error, KeyRecord \<times> string) tx)"
    by (auto simp: atomic_def Issue_def InsertTenantKey_def getForTenant_def Let_def find_snoc undoing.frame_refl split: if_splits option.splits)
  show "atomic (Revoke now tid i :: ('c Server, error, unit) tx)"
    by (auto simp: atomic_def Revoke_def undoing.frame_refl split: sum.splits)
qed (auto simp: atomic_def on_sessions_def Put_def Delete_def DeleteMatching_def DeleteWebSessions_def undoing.frame_refl
      split: prod.splits if_splits option.splits)

definition accepts :: "('c Server, error, reply) tx \<Rightarrow> bool" where
  "accepts m \<longleftrightarrow> (\<exists>resp. m = tx_return resp \<and> rs_Status resp < 400)"

lemma accepts_return:
  "rs_Status resp < 400 \<Longrightarrow> accepts (tx_return resp)" "(\<And>a b. accepts (f a b)) \<Longrightarrow> accepts (case x of (a, b) \<Rightarrow> f a b)"
  by (auto simp: accepts_def split: prod.split)

lemma handles_end: "handles ctx (tx_fail e)" "rs_Status resp < 400 \<Longrightarrow> handles ctx (tx_return resp)"
  by (simp_all add: handles_def atomic_def undoing.frame_refl)

lemma handles_accepted: "accepts m \<Longrightarrow> handles ctx m"
  by (auto simp: accepts_def handles_end)

lemma handles_after:
  assumes "stays undone m" and "\<And>x. handles ctx (f x)"
  shows "handles ctx (tx_bind m f)"
proof -
  have "undone s u" if "m s = (r, t)" "undone t u" for s t u r
    using staysD [OF assms(1) that(1)] that(2) by (rule undoing.frame_trans)
  then show ?thesis using staysD [OF assms(1)] assms(2)
    by (auto simp: handles_def atomic_def tx_bind_def split: prod.splits sum.splits) blast+
qed

lemma handles_step: "atomic m \<Longrightarrow> (\<And>x. accepts (f x)) \<Longrightarrow> handles ctx (tx_bind m f)"
  by (auto simp: handles_def atomic_def accepts_def tx_bind_def split: prod.splits sum.splits)
     (metis Inl_Inr_False Inr_inject prod.inject tx_return_app)+

lemma handles_try:
  assumes "atomic m" and "\<And>x. accepts (f x)" and "\<And>e. handles ctx (g e)"
  shows "handles ctx (tx_try m f g)"
proof -
  have bad: "undone s u" if "m s = (Inl e, t)" "undone t u" for s t u e
    using assms(1) that by (auto simp: atomic_def intro: undoing.frame_trans)
  have good: "\<exists>resp. f x t = (Inr resp, t) \<and> rs_Status resp < 400" for x t using assms(2) [of x] by (auto simp: accepts_def)
  show ?thesis
    using assms(3) bad good
    by (auto simp: handles_def atomic_def tx_try_def split: prod.splits sum.splits) (metis Inl_Inr_False Inr_inject prod.inject)+
qed

lemma Problem_from_sel:
  "pb_Status (ProblemFrom rid path err) = statusByKind (KindOf err)" "pb_Code (ProblemFrom rid path err) = CodeOf err"
  "pb_RequestID (ProblemFrom rid path err) = rid" "KindOf err = Internal \<Longrightarrow> pb_Detail (ProblemFrom rid path err) = reference rid"
  by (simp_all add: ProblemFrom_def reference_def Let_def split: kind.split)

lemma status_internal: "statusByKind k = 500 \<longleftrightarrow> k = Internal"
  by (cases k) simp_all

lemma fail_plain: "plain_refusal (hx_RequestID ctx) (fail ctx rq err)"
  by (auto simp: plain_refusal_def problem_of_def fail_def WriteProblem_def Problem_from_sel status_internal intro!: exI [of _ err])

lemma refusal_plain:
  assumes "Problem.truncate p = ProblemFrom rid path err"
  shows "plain_refusal rid (refusal (statusByKind (KindOf err)) p)"
proof -
  have "problem_of (refusal (statusByKind (KindOf err)) p) = Some (ProblemFrom rid path err)"
    by (simp add: problem_of_def refusal_def assms)
  then show ?thesis
    by (auto simp: plain_refusal_def Problem_from_sel status_internal refusal_def intro!: exI [of _ err])
qed

lemma problem_undone: "stays undone (problem api ctx path err did)"
  unfolding problem_def Let_def by (intro undoing.stays_ops frame_intros undone_world reads_still)

lemma problem_answer:
  assumes "problem api ctx path err did s = (Inr p, s')"
  shows "Problem.truncate p = ProblemFrom (hx_RequestID ctx) path err"
proof -
  let ?p = "Problem.extend (ProblemFrom (hx_RequestID ctx) path err) \<lparr>pb_AllowedEvents = None\<rparr>"
  from assms have "p = ?p \<or> (\<exists>x. p = ?p\<lparr>pb_AllowedEvents := x\<rparr>)"
    by (auto simp: problem_def Let_def tx_try_Inr_iff split: if_splits)
  then show ?thesis by (auto simp: Problem.truncate_def Problem.extend_def)
qed

lemma problem_total: "problem api ctx path err did s = (Inl e, s') \<Longrightarrow> False"
  by (auto simp: problem_def Let_def tx_try_def split: if_splits prod.splits sum.splits)

lemma problem_status: "Problem.truncate p = q \<Longrightarrow> pb_Status p = pb_Status q"
  by (auto simp: Problem.truncate_def)

lemma handles_problem:
  assumes "\<And>p. Problem.truncate p = ProblemFrom (hx_RequestID ctx) path err \<Longrightarrow>
      f p = tx_fail err \<or> f p = tx_return (refusal (statusByKind (KindOf err)) p)"
  shows "handles ctx (tx_bind (problem api ctx path err did) f)"
proof -
  have "undone s s' \<and> (case r of Inl e \<Rightarrow> True | Inr resp \<Rightarrow> plain_refusal (hx_RequestID ctx) resp)"
    if "tx_bind (problem api ctx path err did) f s = (r, s')" for s r s'
  proof -
    obtain x t where run: "problem api ctx path err did s = (x, t)" by (cases "problem api ctx path err did s")
    then obtain p where x: "x = Inr p" using problem_total by (cases x) blast+
    note shape = problem_answer [OF run [unfolded x]]
    from that have "f p t = (r, s')" by (simp add: tx_bind_def run x)
    with assms [OF shape] refusal_plain [OF shape] staysD [OF problem_undone run] show ?thesis by auto
  qed
  then show ?thesis unfolding handles_def atomic_def by fastforce
qed

lemma handles_refused: "handles ctx (refused api ctx path did sts err)"
  unfolding refused_def by (rule handles_problem) (auto dest!: problem_status simp: Problem_from_sel)

lemma handles_missing: "handles ctx (missing api ctx path did err)"
proof (cases "errors_Is err ErrNotFound")
  case True
  then have "KindOf err = NotFound" by (auto simp: errors_Is_def KindOf_def Error_Is_def ErrNotFound_def New_def split: option.splits)
  with True show ?thesis unfolding missing_def by simp (rule handles_problem, simp)
qed (simp add: missing_def handles_end)

lemma tenantAdmin_undone: "stays undone (tenantAdmin api ctx)"
  unfolding tenantAdmin_def by (intro undoing.stays_ops frame_intros undone_world reads_still)

lemmas handles_reads = handles_after [OF undoing.stays_read(3)] handles_after [OF undoing.stays_read(4)]
  handles_after [OF undoing.stays_read(5)] handles_after [OF tenantAdmin_undone]

lemma handles_cases:
  "(c \<Longrightarrow> handles ctx a) \<Longrightarrow> (\<not> c \<Longrightarrow> handles ctx b) \<Longrightarrow> handles ctx (if c then a else b)"
  "handles ctx n \<Longrightarrow> (\<And>y. handles ctx (f y)) \<Longrightarrow> handles ctx (case x of None \<Rightarrow> n | Some y \<Rightarrow> f y)"
  "(\<And>a b. handles ctx (g a b)) \<Longrightarrow> handles ctx (case z of (a, b) \<Rightarrow> g a b)"
  by (simp_all split: option.split prod.split)

lemma run_call_handles: "operation_of c \<noteq> GetReadyz \<Longrightarrow> handles ctx (run_call api ctx c)"
  by (cases c; simp only: run_call.simps operation_defs operation_of.simps analyst_only_def tx_then_def Let_def simp_thms;
      (intro handles_cases handles_reads handles_end handles_try handles_refused handles_missing handles_step accepts_return
        use_cases_atomic tables_atomic)?;
      simp add: json_reply_def no_content_def dispute_reply_def imageResponse_def fileResponse_def)

section \<open>Keys and their administrators\<close>

text \<open>The keys an answer tells of.\<close>

definition keys_told :: "reply \<Rightarrow> uuid list" where
  "keys_told resp = (case rs_Body resp of Content (KeysOf ks) \<Rightarrow> map kc_ID ks | Content (IssuedOf k _) \<Rightarrow> [kc_ID k] | _ \<Rightarrow> [])"

definition answers :: "('b \<Rightarrow> bool) \<Rightarrow> ('s, 'e, 'b) tx \<Rightarrow> bool" where
  "answers P m \<longleftrightarrow> (\<forall>s x s'. m s = (Inr x, s') \<longrightarrow> P x)"

lemma answersD: "answers P m \<Longrightarrow> m s = (Inr x, s') \<Longrightarrow> P x"
  by (auto simp: answers_def)

lemma answers_ops:
  "answers P (tx_fail e)" "P x \<Longrightarrow> answers P (tx_return x)" "(\<And>y. answers P (f y)) \<Longrightarrow> answers P (tx_bind m f)"
  "(\<And>y. answers P (f y)) \<Longrightarrow> (\<And>e. answers P (g e)) \<Longrightarrow> answers P (tx_try m f g)"
  "(c \<Longrightarrow> answers P a) \<Longrightarrow> (\<not> c \<Longrightarrow> answers P b) \<Longrightarrow> answers P (if c then a else b)"
  "answers P n \<Longrightarrow> (\<And>y. answers P (f y)) \<Longrightarrow> answers P (case o' of None \<Rightarrow> n | Some y \<Rightarrow> f y)"
  "(\<And>a b. answers P (h a b)) \<Longrightarrow> answers P (case z of (a, b) \<Rightarrow> h a b)"
  by (auto simp: answers_def tx_bind_Inr_iff tx_try_Inr_iff split: option.splits prod.splits) (meson+)?

interpretation same_keys: tx_frame "\<lambda>s s' :: 'c Server. db_keys s' = db_keys s"
  by unfold_locales simp_all

lemma same_keys_parts:
  "stays (\<lambda>s s'. db_keys s' = db_keys s) (on_world m)" "stays (\<lambda>s s'. db_keys s' = db_keys s) (on_sessions n)"
  by (auto simp: stays_def on_world_def on_sessions_def split: prod.splits)

lemma same_keys_problem:
  "stays (\<lambda>s s'. db_keys s' = db_keys s) (problem api ctx path err did)" "stays (\<lambda>s s'. db_keys s' = db_keys s) (refused api ctx path did sts err)"
  "stays (\<lambda>s s'. db_keys s' = db_keys s) (missing api ctx path did err)" "stays (\<lambda>s s'. db_keys s' = db_keys s) (tenantAdmin api ctx)"
  unfolding refused_def missing_def problem_def tenantAdmin_def Let_def
  by (intro same_keys.stays_ops same_keys_parts frame_intros)+

lemma refusal_keyless:
  "answers (\<lambda>resp. keys_told resp = []) (refused api ctx path did sts err)" "answers (\<lambda>resp. keys_told resp = []) (missing api ctx path did err)"
  unfolding refused_def missing_def by (intro answers_ops; simp add: keys_told_def refusal_def)+

text \<open>An operation that is not about keys changes none and tells of none.\<close>

lemma other_operations:
  assumes "operation_of c \<notin> {ListTenantKeys, CreateTenantKey, RevokeTenantKey}" and "run_call api ctx c s = (r, s')"
  shows "db_keys s' = db_keys s" and "r = Inr resp \<Longrightarrow> keys_told resp = []"
proof -
  have "stays (\<lambda>s s'. db_keys s' = db_keys s) (run_call api ctx c)"
    using assms(1)
    by (cases c; simp only: run_call.simps operation_defs operation_of.simps analyst_only_def Let_def;
        (simp; fail)?; intro same_keys.stays_ops same_keys_parts same_keys_problem frame_intros)
  from staysD [OF this assms(2)] show "db_keys s' = db_keys s" .
  have "answers (\<lambda>resp. keys_told resp = []) (run_call api ctx c)"
    using assms(1)
    by (cases c; simp only: run_call.simps operation_defs operation_of.simps analyst_only_def tx_then_def Let_def;
        (simp; fail)?; intro answers_ops refusal_keyless;
        simp add: keys_told_def json_reply_def no_content_def dispute_reply_def imageResponse_def fileResponse_def)
  with assms(2) show "r = Inr resp \<Longrightarrow> keys_told resp = []" by (auto dest: answersD)
qed

text \<open>The three operations on keys, behind \<open>tenantAdmin\<close>: each stays within the tenant it was given.\<close>

definition own_keys :: "uuid \<Rightarrow> ('c Server, error, reply) tx \<Rightarrow> bool" where
  "own_keys tid m \<longleftrightarrow> (\<forall>t r s'. m t = (r, s') \<longrightarrow>
     filter (\<lambda>k. kr_TenantID k \<noteq> tid) (db_keys s') = filter (\<lambda>k. kr_TenantID k \<noteq> tid) (db_keys t) \<and>
     (\<forall>resp. r = Inr resp \<longrightarrow> set (keys_told resp) \<subseteq> kr_ID ` {k \<in> set (db_keys s'). kr_TenantID k = tid}))"

lemma own_list: "own_keys tid (tx_bind (tx_read (ListForTenant tid)) (\<lambda>recs. tx_return (json_reply 200 (KeysOf (map (\<lambda>r. keyView r now) recs)))))"
  by (auto simp: own_keys_def ListForTenant_def ListTenantKeysByTenant_def KeyRecord_of_def keyView_def keys_told_def json_reply_def
      KeyRecord.extend_def tx_bind_def)

lemma own_issue:
  "own_keys tid (tx_bind (Issue h now random i tid label x) (\<lambda>(rec, secret). tx_return (json_reply 201 (IssuedOf (keyView rec now) secret))))"
proof (unfold own_keys_def, intro allI impI)
  fix t :: "'c Server" and r s'
  assume run: "tx_bind (Issue h now random i tid label x) (\<lambda>(rec, secret). tx_return (json_reply 201 (IssuedOf (keyView rec now) secret))) t = (r, s')"
  obtain y u where issue: "Issue h now random i tid label x t = (y, u)" by (cases "Issue h now random i tid label x t")
  show "filter (\<lambda>k. kr_TenantID k \<noteq> tid) (db_keys s') = filter (\<lambda>k. kr_TenantID k \<noteq> tid) (db_keys t) \<and>
     (\<forall>resp. r = Inr resp \<longrightarrow> set (keys_told resp) \<subseteq> kr_ID ` {k \<in> set (db_keys s'). kr_TenantID k = tid})"
  proof (cases y)
    case (Inl e)
    moreover have "undone t u" using tables_atomic(1) issue Inl unfolding atomic_def by blast
    ultimately show ?thesis using run issue by (auto simp: tx_bind_def undone_def)
  next
    case (Inr z)
    obtain rec secret where z: "z = (rec, secret)" by (cases z)
    note row = Issue_Inr [OF issue [unfolded Inr z]]
    show ?thesis using run issue
      by (auto simp: tx_bind_def Inr z row keys_told_def json_reply_def keyView_def KeyRecord.extend_def image_def
          conj_disj_distribR ex_disj_distrib)
  qed
qed

lemma own_revoke: "own_keys tid (tx_bind (Revoke now tid i) (\<lambda>_. tx_return no_content))"
proof -
  have "filter (\<lambda>k. kr_TenantID k \<noteq> tid) (map (\<lambda>k. if kr_ID k = i \<and> kr_TenantID k = tid \<and> kr_RevokedAt k = None
      then k\<lparr>kr_RevokedAt := Some now\<rparr> else k) ks) = filter (\<lambda>k. kr_TenantID k \<noteq> tid) ks" for ks :: "KeyRow list"
    by (induction ks) auto
  then show ?thesis
    by (auto simp: own_keys_def Revoke_def RevokeTenantKeyForTenant_def tx_bind_def keys_told_def no_content_def split: sum.splits)
qed

lemma key_operations:
  fixes api :: "'c Api"
  assumes "operation_of c \<in> {ListTenantKeys, CreateTenantKey, RevokeTenantKey}"
  shows "\<exists>f. run_call api ctx c = tx_bind (tenantAdmin api ctx) f \<and> (\<forall>tid. own_keys tid (f tid))"
proof -
  have behind: "\<exists>g. tx_bind m f = tx_bind m g \<and> (\<forall>tid. own_keys tid (g tid))" if "\<And>tid. own_keys tid (f tid)"
    for m and f :: "uuid \<Rightarrow> ('c Server, error, reply) tx"
    using that by blast
  have fail: "own_keys tid (tx_fail e)" for tid e by (simp add: own_keys_def)
  have cases: "own_keys tid (if b then m else n)" if "own_keys tid m" "own_keys tid n" for tid b and m n :: "('c Server, error, reply) tx"
    using that by simp
  show ?thesis using assms
    by (cases c; simp add: h_ListTenantKeys_def h_CreateTenantKey_def h_RevokeTenantKey_def tx_then_def)
       (intro behind cases fail own_list own_issue own_revoke)+
qed

text \<open>Whoever gets past \<open>tenantAdmin\<close>, under any authorizer that keeps its contract.\<close>

context administrator
begin

lemma past_tenantAdmin:
  assumes "sv_authz (hd_svc api) = decide" and "tenantAdmin api ctx s = (Inr tid, t)"
  shows "(\<exists>p. principal_From (Ctx.truncate ctx) = Some p \<and> pr_Kind p = Analyst \<and> pr_TenantAdmin p) \<and>
    tenant_IDFrom (Ctx.truncate ctx) = Some tid \<and> db_keys t = db_keys s"
proof -
  from assms(2) obtain u where "on_world (Authorize (hd_svc api) (Ctx.truncate ctx) ActionManageKeys) s = (Inr (), u)"
    and tid: "tenant_IDFrom (Ctx.truncate ctx) = Some tid"
    by (auto simp: tenantAdmin_def tx_then_Inr_iff split: if_splits option.splits)
  then obtain w where "Authorize (hd_svc api) (Ctx.truncate ctx) ActionManageKeys (srv_world s) = (Inr (), w)"
    by (auto simp: on_world_def split: prod.splits)
  then obtain tx dec where "authorize (hd_svc api) (Ctx.truncate ctx) tx ActionManageKeys None (srv_world s) = (Inr dec, w)"
    by (auto simp: Authorize_def WithTx_Inr tx_bind_Inr_iff)
  then obtain p a where "principal_From (Ctx.truncate ctx) = Some p"
      "decide (ctx_tenant (Ctx.truncate ctx)) p a ActionManageKeys None = Inr dec" "dec_Allowed dec"
    by (rule authorize_Inr) (simp add: assms(1))
  with admin_law [of _ p a ActionManageKeys dec] tid staysD [OF same_keys_problem(4) assms(2)] show ?thesis
    by (auto simp: administers_def)
qed

lemma keys_administered_by:
  assumes "sv_authz (hd_svc api) = decide" and run: "run_call api ctx c s = (r, s')"
  shows "db_keys s' = db_keys s \<and> (\<forall>resp. r = Inr resp \<longrightarrow> keys_told resp = []) \<or>
    (\<exists>p tid. principal_From (Ctx.truncate ctx) = Some p \<and> pr_Kind p = Analyst \<and> pr_TenantAdmin p \<and>
       tenant_IDFrom (Ctx.truncate ctx) = Some tid \<and>
       filter (\<lambda>k. kr_TenantID k \<noteq> tid) (db_keys s') = filter (\<lambda>k. kr_TenantID k \<noteq> tid) (db_keys s) \<and>
       (\<forall>resp. r = Inr resp \<longrightarrow> set (keys_told resp) \<subseteq> kr_ID ` {k \<in> set (db_keys s'). kr_TenantID k = tid}))"
proof (cases "operation_of c \<in> {ListTenantKeys, CreateTenantKey, RevokeTenantKey}")
  case False
  then show ?thesis using other_operations [OF _ run] by blast
next
  case True
  then obtain f where split: "run_call api ctx c = tx_bind (tenantAdmin api ctx) f"
    and own: "\<And>tid. own_keys tid (f tid)"
    using key_operations [of c api ctx] by blast
  obtain x t where admin: "tenantAdmin api ctx s = (x, t)" by (cases "tenantAdmin api ctx s")
  show ?thesis
  proof (cases x)
    case (Inl e)
    with run admin staysD [OF same_keys_problem(4) admin] show ?thesis by (auto simp: split)
  next
    case (Inr tid)
    with run admin have "f tid t = (r, s')" by (simp add: split)
    with own [of tid] past_tenantAdmin [OF assms(1) admin [unfolded Inr]] show ?thesis
      by (auto simp: own_keys_def)
  qed
qed

end

section \<open>A server to try it on\<close>

definition sample_api :: "Core Api" where
  "sample_api = \<lparr>hd_svc = sample_env, hd_now = 5, hd_ready = True, hd_sessions = True, hd_tenants = True, hd_keys = True,
     hd_decisions = None, hd_HashKey = id, hd_random = replicate 32 (CHR ''r''), hd_keyID = ''k2'', hd_ParseUUID = Some,
     hd_MarshalCreate = (\<lambda>_. ''body''), hd_MarshalEvent = (\<lambda>_. ''body'')\<rparr>"

definition sample_srv :: "Core World \<Rightarrow> Core Server" where
  "sample_srv w = Gate.extend sample_gate \<lparr>db_sessions = [], srv_world = w\<rparr>"

definition seen_by :: "string \<Rightarrow> ReqCtx" where
  "seen_by who = Ctx.extend (sample_caller who) \<lparr>hx_RequestID = ''r1'', hx_AuthErr = None, hx_Analyst = None, hx_Service = False\<rparr>"

definition open_ones :: ListParams where
  "open_ones = \<lparr>lp_Limit = Some 1, lp_State = Some StateInitiated, lp_Reason = None, lp_Overdue = None, lp_Cursor = None\<rparr>"

definition get_d1 :: "operation \<Rightarrow> Request \<Rightarrow> string + call" where
  "get_d1 op rq = (if op = GetDispute_op then Inr (CallGetDispute ''d1'') else Inl ''no such operation'')"

lemma missing_d1:
  "rs_Status (fst (serve sample_api get_d1 GetDispute_op (seen_by ''ann'') (key_request ''tk_abc'') (sample_srv empty_bank))) = 404"
proof -
  have ctx: "Ctx.truncate (seen_by ''ann'') = sample_caller ''ann''" by (simp add: seen_by_def Ctx.truncate_def Ctx.extend_def)
  have "tenant_IDFrom (sample_caller ''ann'') = Some ''bank''" "Disputes empty_bank = []"
    by (simp_all add: tenant_IDFrom_def sample_caller_def uuid_Nil_def empty_bank_def)
  then have "\<exists>w. GetDispute sample_env (sample_caller ''ann'') ''d1'' empty_bank = (Inl not_found, w)"
    by (simp add: GetDispute_def WithTx_def Tx_GetDispute_def get_dispute_def tx_bind_def Let_def)
  then show ?thesis
    by (auto simp: serve_def get_d1_def h_GetDispute_def sample_api_def ctx on_world_def sample_srv_def Gate.extend_def tx_try_def
      missing_def errors_Is_def not_found_def Error_Is_def problem_def refusal_def)
qed

section \<open>Properties\<close>



text \<open>
  C10: over the API, paging loses nothing and repeats nothing. A client that asks for a page and then for the next one with
  the cursor string it was given, on a store that does not change meanwhile, comes to the end after at most as many pages
  as there are disputes and one, and has then seen every dispute its parameters ask for (of its tenant, in the caller's
  teams, with the state, reason and lateness asked for) exactly once, newest first and by descending id within an
  instant, each with the open clock that runs out first and its latest assessment: every cursor the API writes it reads
  back as the place it stood for, to the nanosecond. The years have four digits, and \<open>uuid.Parse\<close> gives back the
  identifiers of the disputes.
\<close>

theorem browse_complete:
  fixes api :: "'c Api"
  assumes "reachable sf send (srv_world s, m)" and "tenant_IDFrom (Ctx.truncate ctx) = Some tid"
    and "\<And>r. map_of (Disputes (srv_world s)) (dr_ID r) = Some r \<Longrightarrow>
      four_digit_year (dr_OpenedAt r) \<and> hd_ParseUUID api (dr_ID r) = Some (dr_ID r)"
  shows "\<exists>rows. browse (Suc (length (Disputes (srv_world s)))) api ctx (ps\<lparr>lp_Cursor := None\<rparr>) s =
      Some (map (api_summary (sv_StringFixed (hd_svc api))) rows) \<and>
    sorted_wrt (\<lambda>a b. (sm_OpenedAt b, sm_ID b) < (sm_OpenedAt a, sm_ID a)) rows \<and>
    set rows = row_of (sv_now (hd_svc api)) (srv_world s) ` {r. map_of (Disputes (srv_world s)) (dr_ID r) = Some r \<and>
      list_matches \<lparr>mt_Tenant = tid, mt_Principal = principal_From (Ctx.truncate ctx), mt_Wall = sv_wall (hd_svc api)\<rparr> (srv_world s)
        ((list_query ps None)\<lparr>lq_Now := sv_now (hd_svc api)\<rparr>) r}"
proof -
  note index = reachable_keys [OF assms(1)] reachable_index [OF assms(1), simplified]
  have "list_cursor api (ps\<lparr>lp_Cursor := None\<rparr>) = Inr None" by (simp add: list_cursor_def)
  note seen = browse_follow [OF assms(2) index assms(3) this, of "Suc (length (Disputes (srv_world s)))"]
  from pages_complete [OF assms(1,2), of "hd_svc api" "list_query ps None"] show ?thesis
    by (auto simp: seen simp del: follow.simps browse.simps)
qed

theorem browse_complete_witness:
  "\<exists>s rows. browse 2 sample_api (seen_by ''ann'') open_ones s = Some (map (api_summary sample_fixed) rows) \<and> sm_ID ` set rows = {''d2''}"
proof -
  obtain v w where run: "CreateDispute sample_env (sample_caller ''ann'') sample_open empty_bank = (Inr v, w)"
    and w: "Disputes w = [(''d2'', (sample_dispute ''d2'' ''bank'')\<lparr>dr_OpenedAt := 1000, dr_UpdatedAt := 1000\<rparr>)]"
      "AccessOf w = AccessOf empty_bank"
    using sample_opening_record by (elim exE conjE)
  let ?s = "sample_srv w" and ?r = "(sample_dispute ''d2'' ''bank'')\<lparr>dr_OpenedAt := 1000, dr_UpdatedAt := 1000\<rparr>"
  let ?t = "\<lparr>mt_Tenant = ''bank'', mt_Principal = principal_From (sample_caller ''ann''), mt_Wall = sv_wall sample_env\<rparr>"
  have world: "srv_world ?s = w" by (simp add: sample_srv_def Gate.extend_def)
  have api: "hd_svc sample_api = sample_env" "hd_ParseUUID sample_api = Some" by (simp_all add: sample_api_def)
  have ctx: "Ctx.truncate (seen_by ''ann'') = sample_caller ''ann''" by (simp add: seen_by_def Ctx.truncate_def Ctx.extend_def)
  have "request sample_fixed (sample_caller ''ann'') empty_bank w" by (rule request.create [OF sample_sf run])
  note here = reachable_request [OF empty_bank_reachable this]
  have only_one: "{r. map_of (Disputes w) (dr_ID r) = Some r \<and>
      list_matches ?t w ((list_query open_ones None)\<lparr>lq_Now := sv_now sample_env\<rparr>) r} = {?r}"
    by (auto simp: w sample_defs open_ones_def list_query_def list_matches_def visible_rec_def access_of_def principal_From_def
        split: if_splits option.splits)
  have "tenant_IDFrom (Ctx.truncate (seen_by ''ann'')) = Some ''bank''" by (simp add: ctx tenant_IDFrom_def sample_caller_def uuid_Nil_def)
  moreover have "four_digit_year 1000" by code_simp
  then have "four_digit_year (dr_OpenedAt r) \<and> hd_ParseUUID sample_api (dr_ID r) = Some (dr_ID r)"
    if "map_of (Disputes w) (dr_ID r) = Some r" for r
    using that by (auto simp: api w split: if_splits)
  ultimately obtain rows where
    "browse (Suc (length (Disputes w))) sample_api (seen_by ''ann'') (open_ones\<lparr>lp_Cursor := None\<rparr>) ?s = Some (map (api_summary sample_fixed) rows)"
    "set rows = row_of (sv_now sample_env) w ` {?r}"
    using browse_complete [of sample_fixed _ ?s _ "seen_by ''ann''" "''bank''" sample_api open_ones, unfolded world api ctx only_one, OF here]
    by (auto simp: ctx simp del: browse.simps)
  then show ?thesis
    by (intro exI [of _ ?s] exI [of _ rows])
       (simp del: browse.simps add: w row_of_def summary_def sample_dispute_def numeral_2_eq_2 open_ones_def)
qed



text \<open>
  C9: keys are the business of administrators. Whatever an operation of the API is asked and by whom, it changes no key
  and tells of none, unless the caller is an analyst with the tenant-admin claim; and then it changes and tells of keys
  of the caller's own tenant only. No team, role or grant a tenant may configure, and no tenant key, gives this.
\<close>

theorem keys_administered:
  fixes api :: "'c Api"
  assumes "sv_authz (hd_svc api) = Engine round4" and "run_call api ctx c s = (r, s')"
  shows "db_keys s' = db_keys s \<and> (\<forall>resp. r = Inr resp \<longrightarrow> keys_told resp = []) \<or>
    (\<exists>p tid. principal_From (Ctx.truncate ctx) = Some p \<and> pr_Kind p = Analyst \<and> pr_TenantAdmin p \<and>
       tenant_IDFrom (Ctx.truncate ctx) = Some tid \<and>
       filter (\<lambda>k. kr_TenantID k \<noteq> tid) (db_keys s') = filter (\<lambda>k. kr_TenantID k \<noteq> tid) (db_keys s) \<and>
       (\<forall>resp. r = Inr resp \<longrightarrow> set (keys_told resp) \<subseteq> kr_ID ` {k \<in> set (db_keys s'). kr_TenantID k = tid}))"
  using assms by (rule admin_engine.keys_administered_by)

theorem keys_administered_witness:
  "\<exists>r s'. run_call (sample_api\<lparr>hd_svc := engine_env\<rparr>) (seen_by ''ann'') (CallRevokeTenantKey ''k1'') (sample_srv empty_bank) = (r, s') \<and>
     db_keys s' = db_keys (sample_srv empty_bank)"
proof -
  obtain r s' where run: "run_call (sample_api\<lparr>hd_svc := engine_env\<rparr>) (seen_by ''ann'') (CallRevokeTenantKey ''k1'') (sample_srv empty_bank) = (r, s')"
    by fastforce
  have "sv_authz (hd_svc (sample_api\<lparr>hd_svc := engine_env\<rparr>)) = Engine id" by (simp add: engine_env_def)
  from keys_administered [OF this run] have "db_keys s' = db_keys (sample_srv empty_bank)"
    by (auto simp: seen_by_def sample_caller_def Ctx.extend_def Ctx.truncate_def principal_From_def)
  with run show ?thesis by blast
qed

end
