(* ===== verification/Postgres.thy ===== *)
theory Postgres
  imports Store "HOL-Library.Multiset"
begin

text \<open>
  \<^verbatim>\<open>backend/internal/dispute/infrastructure/postgres/store.go\<close>: the store of the disputes on PostgreSQL, for disputes, their
  log, the stored responses, the clocks and the ledger, over the queries of \<^verbatim>\<open>sqlcgen\<close> and the tables, constraints and
  row-level policies of \<^verbatim>\<open>src/backend/migrations\<close>; and that the in-memory store stands for it.

  A table is the list of its rows. A query is a function of the session and the tables, which returns a driver error
  or a value and the tables after it. Times are kept to the microsecond, as the driver writes a \<open>timestamptz\<close>, amounts to
  four places, and documents as \<open>jsonb\<close> keeps them. The identity column of a table is the place of the row in its list,
  and of a membership only the columns the policies read are held. Foreign keys to tables that are not held (tenants,
  teams, transactions, accounts) are taken as satisfied, and texts as valid, without the zero character PostgreSQL
  refuses; a lost connection is not modelled.
\<close>

section \<open>Values in the database\<close>

definition pg_time :: "time \<Rightarrow> time" where
  "pg_time t = t div 1000 * 1000"

definition int32Of :: "int \<Rightarrow> int" where
  "int32Of n = (if n < 0 then 0 else if 2147483647 < n then 2147483647 else n)"

text \<open>\<open>numeric(19, 4)\<close>: half away from zero.\<close>

definition pg_numeric :: "decimal \<Rightarrow> decimal" where
  "pg_numeric x = (if x < 0 then - of_int \<lfloor>- x * 10000 + 1 / 2\<rfloor> / 10000 else of_int \<lfloor>x * 10000 + 1 / 2\<rfloor> / 10000)"

definition numeric_fits :: "decimal \<Rightarrow> bool" where
  "numeric_fits x \<longleftrightarrow> \<bar>pg_numeric x\<bar> < 10 ^ 15"

text \<open>\<open>char(3)\<close>: padded with blanks, and refused when more than blanks would be cut.\<close>

definition char3_fits :: "string \<Rightarrow> bool" where
  "char3_fits s = list_all (\<lambda>c. c = CHR '' '') (drop 3 s)"

definition char3 :: "string \<Rightarrow> string" where
  "char3 s = take 3 s @ replicate (3 - length s) CHR '' ''"

text \<open>
  \<open>jsonb\<close>: a number as \<open>numeric\<close> prints it, without exponent and without a negative zero; of repeated keys the last,
  and the keys in the order of their length, then of their bytes.
\<close>

definition number_exponent :: "string \<Rightarrow> int" where
  "number_exponent s =
     (case s of
        _ # c # ds \<Rightarrow> if c = CHR ''-'' then - int (digits_val ds) else if c = CHR ''+'' then int (digits_val ds) else int (digits_val (c # ds))
      | _ \<Rightarrow> 0)"

definition jsonb_number :: "string \<Rightarrow> string" where
  "jsonb_number s =
     (let neg = starts_with ''-'' s;
          u = (if neg then tl s else s);
          whole = takeWhile is_digit u;
          rest = dropWhile is_digit u;
          frac = (if starts_with ''.'' rest then takeWhile is_digit (tl rest) else []);
          e = number_exponent (if starts_with ''.'' rest then dropWhile is_digit (tl rest) else rest);
          places = nat (int (length frac) - e);
          n = digits_val (whole @ frac) * 10 ^ nat (e - int (length frac));
          low = show_nat (n mod 10 ^ places)
      in (if neg \<and> n \<noteq> 0 then ''-'' else []) @ show_nat (n div 10 ^ places) @
         (if places = 0 then [] else ''.'' @ replicate (places - length low) CHR ''0'' @ low))"

fun jsonb :: "json \<Rightarrow> json" where
  "jsonb (JNum s) = JNum (jsonb_number s)"
| "jsonb (JArr xs) = JArr (map jsonb xs)"
| "jsonb (JObj fs) = JObj (sort_key (\<lambda>(k, v). (length k, k)) (AList.clearjunk (rev (map (\<lambda>(k, v). (k, jsonb v)) fs))))"
| "jsonb v = v"

text \<open>A response is kept as the document of its view, in which the payloads are the only free documents.\<close>

definition jsonb_view :: "DisputeView \<Rightarrow> DisputeView" where
  "jsonb_view v = v\<lparr>vw_Events := map (\<lambda>e. e\<lparr>evv_Payload := jsonb (evv_Payload e)\<rparr>) (vw_Events v)\<rparr>"

text \<open>Driver errors, and what the store makes of them.\<close>

datatype pgx_error = NoRows | PgError string | NetError | DriverError string

definition mapErr :: "pgx_error \<Rightarrow> error" where
  "mapErr err =
     (case err of
        NoRows \<Rightarrow> Classified ErrNotFound
      | PgError c \<Rightarrow>
          if c = ''23505'' then Wrap (Classified ErrConflict)
          else if c = ''40001'' \<or> c = ''40P01'' then Wrap (Classified ErrConflict)
          else if starts_with ''08'' c \<or> starts_with ''53'' c \<or> starts_with ''57'' c then Wrap (Classified ErrUnavailable)
          else Opaque c
      | NetError \<Rightarrow> Wrap (Classified ErrUnavailable)
      | DriverError m \<Rightarrow> Opaque m)"

section \<open>Tables\<close>

record TeamMember =
  mr_tenant_id :: uuid
  mr_team :: string
  mr_subject :: string

record EventRow =
  er_tenant_id :: uuid
  er_dispute_id :: uuid
  er_seq :: int
  er_event :: event
  er_from_state :: state
  er_to_state :: state
  er_actor :: string
  er_payload :: json
  er_idempotency_key :: "string option"
  er_trace_id :: "string option"
  er_occurred_at :: time
  er_actor_id :: "string option"

record IdempotencyRow =
  ir_tenant_id :: uuid
  ir_scope :: string
  ir_key :: string
  ir_request_hash :: string
  ir_status_code :: int
  ir_response :: DisputeView
  ir_created_at :: time

record DeadlineRow =
  wr_tenant_id :: uuid
  wr_dispute_id :: uuid
  wr_kind :: deadline_kind
  wr_cycle :: int
  wr_started_at :: time
  wr_due_at :: time
  wr_met_at :: "time option"
  wr_voided_at :: "time option"
  wr_basis :: string

record LedgerRow =
  lr_tenant_id :: uuid
  lr_dispute_id :: uuid
  lr_seq :: int
  lr_kind :: posting_kind
  lr_debit :: account
  lr_credit :: account
  lr_amount :: decimal
  lr_currency :: string
  lr_reference :: string
  lr_posted_at :: time
  lr_core_rrn :: "string option"
  lr_core_response_code :: "string option"
  lr_core_latency_ms :: "int option"

record Tables =
  tb_members :: "TeamMember list"
  tb_disputes :: "DisputeRecord list"
  tb_events :: "EventRow list"
  tb_idempotency :: "IdempotencyRow list"
  tb_deadlines :: "DeadlineRow list"
  tb_ledger :: "LedgerRow list"

text \<open>The settings \<open>WithTx\<close> binds to the transaction, and its \<open>now()\<close>.\<close>

record PgSession =
  ps_tenant_id :: uuid
  ps_subject :: string
  ps_principal_kind :: string
  ps_now :: time

fun kind_str :: "principal_kind \<Rightarrow> string" where
  "kind_str Analyst = ''analyst''"
| "kind_str Key = ''key''"

definition session_for :: "uuid \<Rightarrow> Principal option \<Rightarrow> time \<Rightarrow> PgSession" where
  "session_for tid p now = \<lparr>ps_tenant_id = tid, ps_subject = (case p of Some q \<Rightarrow> pr_ID q | None \<Rightarrow> []),
     ps_principal_kind = (case p of Some q \<Rightarrow> kind_str (pr_Kind q) | None \<Rightarrow> []), ps_now = pg_time now\<rparr>"

type_synonym 'a query = "Tables \<Rightarrow> (pgx_error + 'a) \<times> Tables"
type_synonym 'a pg_tx = "(Tables, error, 'a) tx"

text \<open>What the row-level policies let a session see; an empty setting is null, which equals nothing.\<close>

definition in_team :: "PgSession \<Rightarrow> Tables \<Rightarrow> uuid \<Rightarrow> string \<Rightarrow> bool" where
  "in_team ss db tid team \<longleftrightarrow> ps_principal_kind ss = ''key'' \<or>
     (ps_subject ss \<noteq> [] \<and>
      list_ex (\<lambda>m. mr_tenant_id m = tid \<and> mr_team m = team \<and> mr_subject m = ps_subject ss) (tb_members db))"

definition row_visible :: "PgSession \<Rightarrow> Tables \<Rightarrow> DisputeRecord \<Rightarrow> bool" where
  "row_visible ss db r \<longleftrightarrow> dr_TenantID r = ps_tenant_id ss \<and> in_team ss db (dr_TenantID r) (dr_Team r)"

definition dispute_visible :: "PgSession \<Rightarrow> Tables \<Rightarrow> uuid \<Rightarrow> bool" where
  "dispute_visible ss db did \<longleftrightarrow> list_ex (\<lambda>r. dr_ID r = did \<and> row_visible ss db r) (tb_disputes db)"

definition child_visible :: "PgSession \<Rightarrow> Tables \<Rightarrow> uuid \<Rightarrow> uuid \<Rightarrow> bool" where
  "child_visible ss db tid did \<longleftrightarrow> tid = ps_tenant_id ss \<and> dispute_visible ss db did"

definition insufficient_privilege :: pgx_error where "insufficient_privilege = PgError ''42501''"
definition unique_violation :: pgx_error where "unique_violation = PgError ''23505''"
definition check_violation :: pgx_error where "check_violation = PgError ''23514''"
definition numeric_out_of_range :: pgx_error where "numeric_out_of_range = PgError ''22003''"
definition string_too_long :: pgx_error where "string_too_long = PgError ''22001''"

text \<open>A row may be read at most once by a query that returns one.\<close>

definition one_row :: "'a list \<Rightarrow> pgx_error + 'a" where
  "one_row rows = (case rows of [] \<Rightarrow> Inl NoRows | r # _ \<Rightarrow> Inr r)"

section \<open>Queries on disputes and their log\<close>

definition sql_InsertDispute :: "PgSession \<Rightarrow> DisputeRecord \<Rightarrow> unit query" where
  "sql_InsertDispute ss d db =
     (if \<not> numeric_fits (dr_DisputedAmount d) then (Inl numeric_out_of_range, db)
      else if \<not> char3_fits (dr_Currency d) then (Inl string_too_long, db)
      else let row = d\<lparr>dr_TenantID := ps_tenant_id ss, dr_DisputedAmount := pg_numeric (dr_DisputedAmount d), dr_Currency := char3 (dr_Currency d),
             dr_OpenedAt := pg_time (dr_OpenedAt d), dr_UpdatedAt := pg_time (dr_OpenedAt d)\<rparr> in
        if \<not> row_visible ss db row then (Inl insufficient_privilege, db)
        else if dr_Regime row \<notin> set AllRegimes \<or> dr_Reason row \<notin> set AllReasons \<or> dr_Appeals row < 0 \<or> dr_Version row < 0 \<or>
          dr_DisputedAmount row \<le> 0 then (Inl check_violation, db)
        else if list_ex (\<lambda>r. dr_ID r = dr_ID row) (tb_disputes db) then (Inl unique_violation, db)
        else (Inr (), db\<lparr>tb_disputes := tb_disputes db @ [row]\<rparr>))"

definition sql_GetDispute :: "PgSession \<Rightarrow> uuid \<Rightarrow> DisputeRecord query" where
  "sql_GetDispute ss did db = (one_row (filter (\<lambda>r. dr_ID r = did \<and> row_visible ss db r) (tb_disputes db)), db)"

definition sql_UpdateDisputeState :: "PgSession \<Rightarrow> uuid \<Rightarrow> state \<Rightarrow> int \<Rightarrow> time \<Rightarrow> int \<Rightarrow> int query" where
  "sql_UpdateDisputeState ss did state appeals stamp version db =
     (let hit = (\<lambda>r. dr_ID r = did \<and> dr_Version r = version \<and> row_visible ss db r);
          rows = filter hit (tb_disputes db)
      in if rows \<noteq> [] \<and> (appeals < 0 \<or> version + 1 < 0) then (Inl check_violation, db)
         else (Inr (int (length rows)), db\<lparr>tb_disputes := map (\<lambda>r. if hit r then
           r\<lparr>dr_State := state, dr_Appeals := appeals, dr_Version := dr_Version r + 1, dr_UpdatedAt := pg_time stamp\<rparr> else r) (tb_disputes db)\<rparr>))"

text \<open>Through \<open>reassign_dispute\<close>, which runs as the owner and repeats what the policies say of the old row.\<close>

definition sql_UpdateDisputeTeam :: "PgSession \<Rightarrow> uuid \<Rightarrow> int \<Rightarrow> string \<Rightarrow> time \<Rightarrow> int query" where
  "sql_UpdateDisputeTeam ss did expected team stamp db =
     (let hit = (\<lambda>r. dr_ID r = did \<and> dr_Version r = expected \<and> row_visible ss db r);
          rows = filter hit (tb_disputes db)
      in (Inr (int (length rows)), db\<lparr>tb_disputes := map (\<lambda>r. if hit r then
           r\<lparr>dr_Team := team, dr_Version := dr_Version r + 1, dr_UpdatedAt := pg_time stamp\<rparr> else r) (tb_disputes db)\<rparr>))"

definition sql_InsertDisputeEvent :: "PgSession \<Rightarrow> EventRow \<Rightarrow> unit query" where
  "sql_InsertDisputeEvent ss row db =
     (let row = row\<lparr>er_tenant_id := ps_tenant_id ss, er_payload := jsonb (er_payload row), er_occurred_at := pg_time (er_occurred_at row)\<rparr> in
      if \<not> child_visible ss db (er_tenant_id row) (er_dispute_id row) then (Inl insufficient_privilege, db)
      else if er_seq row \<le> 0 then (Inl check_violation, db)
      else if list_ex (\<lambda>r. er_dispute_id r = er_dispute_id row \<and> er_seq r = er_seq row) (tb_events db) then (Inl unique_violation, db)
      else (Inr (), db\<lparr>tb_events := tb_events db @ [row]\<rparr>))"

definition sql_ListDisputeEvents :: "PgSession \<Rightarrow> uuid \<Rightarrow> EventRow list query" where
  "sql_ListDisputeEvents ss did db =
     (Inr (sort_key er_seq (filter (\<lambda>r. er_dispute_id r = did \<and> child_visible ss db (er_tenant_id r) did) (tb_events db))), db)"

section \<open>Queries on stored responses\<close>

definition sql_GetIdempotencyKey :: "PgSession \<Rightarrow> string \<Rightarrow> string \<Rightarrow> IdempotencyRow query" where
  "sql_GetIdempotencyKey ss scope key db =
     (one_row (filter (\<lambda>r. ir_scope r = scope \<and> ir_key r = key \<and> ir_tenant_id r = ps_tenant_id ss) (tb_idempotency db)), db)"

definition sql_InsertIdempotencyKey :: "PgSession \<Rightarrow> IdempotencyRow \<Rightarrow> unit query" where
  "sql_InsertIdempotencyKey ss row db =
     (let row = row\<lparr>ir_tenant_id := ps_tenant_id ss, ir_response := jsonb_view (ir_response row), ir_created_at := ps_now ss\<rparr> in
      if list_ex (\<lambda>r. ir_tenant_id r = ir_tenant_id row \<and> ir_scope r = ir_scope row \<and> ir_key r = ir_key row) (tb_idempotency db)
      then (Inl unique_violation, db)
      else (Inr (), db\<lparr>tb_idempotency := tb_idempotency db @ [row]\<rparr>))"

section \<open>Queries on clocks\<close>

definition sql_InsertDeadline :: "PgSession \<Rightarrow> DeadlineRow \<Rightarrow> unit query" where
  "sql_InsertDeadline ss row db =
     (let row = row\<lparr>wr_tenant_id := ps_tenant_id ss, wr_started_at := pg_time (wr_started_at row), wr_due_at := pg_time (wr_due_at row),
            wr_met_at := None, wr_voided_at := None\<rparr> in
      if \<not> child_visible ss db (wr_tenant_id row) (wr_dispute_id row) then (Inl insufficient_privilege, db)
      else if wr_cycle row < 0 then (Inl check_violation, db)
      else if list_ex (\<lambda>r. wr_dispute_id r = wr_dispute_id row \<and> wr_kind r = wr_kind row \<and> wr_cycle r = wr_cycle row) (tb_deadlines db)
      then (Inl unique_violation, db)
      else (Inr (), db\<lparr>tb_deadlines := tb_deadlines db @ [row]\<rparr>))"

definition sql_ListDeadlines :: "PgSession \<Rightarrow> uuid \<Rightarrow> DeadlineRow list query" where
  "sql_ListDeadlines ss did db =
     (Inr (sort_key (\<lambda>r. (wr_cycle r, wr_started_at r, deadline_kind_str (wr_kind r)))
        (filter (\<lambda>r. wr_dispute_id r = did \<and> child_visible ss db (wr_tenant_id r) did) (tb_deadlines db))), db)"

definition sql_SettleDeadline :: "PgSession \<Rightarrow> bool \<Rightarrow> time \<Rightarrow> uuid \<Rightarrow> deadline_kind \<Rightarrow> int \<Rightarrow> int query" where
  "sql_SettleDeadline ss met stamp did kind cycle db =
     (let hit = (\<lambda>r. wr_dispute_id r = did \<and> wr_kind r = kind \<and> wr_cycle r = cycle \<and> wr_met_at r = None \<and> wr_voided_at r = None \<and>
            child_visible ss db (wr_tenant_id r) did)
      in (Inr (int (length (filter hit (tb_deadlines db)))), db\<lparr>tb_deadlines := map (\<lambda>r. if hit r then
           r\<lparr>wr_met_at := (if met then Some (pg_time stamp) else wr_met_at r),
             wr_voided_at := (if met then wr_voided_at r else Some (pg_time stamp))\<rparr> else r) (tb_deadlines db)\<rparr>))"

section \<open>Queries on the ledger\<close>

definition sql_InsertLedgerEntry :: "PgSession \<Rightarrow> LedgerRow \<Rightarrow> unit query" where
  "sql_InsertLedgerEntry ss row db =
     (if \<not> numeric_fits (lr_amount row) then (Inl numeric_out_of_range, db)
      else if \<not> char3_fits (lr_currency row) then (Inl string_too_long, db)
      else let row = row\<lparr>lr_tenant_id := ps_tenant_id ss, lr_amount := pg_numeric (lr_amount row), lr_currency := char3 (lr_currency row),
             lr_posted_at := pg_time (lr_posted_at row)\<rparr> in
      if \<not> child_visible ss db (lr_tenant_id row) (lr_dispute_id row) then (Inl insufficient_privilege, db)
      else if lr_seq row \<le> 0 \<or> lr_amount row \<le> 0 \<or> lr_debit row = lr_credit row then (Inl check_violation, db)
      else if list_ex (\<lambda>r. lr_dispute_id r = lr_dispute_id row \<and> lr_seq r = lr_seq row \<and> lr_kind r = lr_kind row) (tb_ledger db) \<or>
        list_ex (\<lambda>r. lr_tenant_id r = lr_tenant_id row \<and> lr_reference r = lr_reference row) (tb_ledger db)
      then (Inl unique_violation, db)
      else (Inr (), db\<lparr>tb_ledger := tb_ledger db @ [row]\<rparr>))"

definition sql_ListLedgerEntries :: "PgSession \<Rightarrow> uuid \<Rightarrow> LedgerRow list query" where
  "sql_ListLedgerEntries ss did db =
     (Inr (filter (\<lambda>r. lr_dispute_id r = did \<and> child_visible ss db (lr_tenant_id r) did) (tb_ledger db)), db)"

section \<open>Queries on an account's history\<close>

definition sql_CountAccountDisputesSince :: "PgSession \<Rightarrow> uuid \<Rightarrow> time \<Rightarrow> uuid \<Rightarrow> int query" where
  "sql_CountAccountDisputesSince ss account since exclude db =
     (Inr (int (length (filter (\<lambda>r. dr_AccountID r = account \<and> pg_time since \<le> dr_OpenedAt r \<and> dr_ID r \<noteq> exclude \<and> row_visible ss db r)
        (tb_disputes db)))), db)"

definition sql_CountAccountLostChargebacks :: "PgSession \<Rightarrow> uuid \<Rightarrow> uuid \<Rightarrow> int query" where
  "sql_CountAccountLostChargebacks ss account exclude db =
     (Inr (int (length (remdups (map dr_ID (filter (\<lambda>r. dr_AccountID r = account \<and> dr_ID r \<noteq> exclude \<and> row_visible ss db r \<and>
        list_ex (\<lambda>e. er_dispute_id e = dr_ID r \<and> er_to_state e = StateChargebackLost \<and> child_visible ss db (er_tenant_id e) (dr_ID r)) (tb_events db))
        (tb_disputes db)))))), db)"

section \<open>The store's transactions\<close>

definition run_query :: "'a query \<Rightarrow> 'a pg_tx" where
  "run_query q db = (case q db of (Inl err, db') \<Rightarrow> (Inl (mapErr err), db') | (Inr x, db') \<Rightarrow> (Inr x, db'))"

text \<open>\<open>pgx.BeginFunc\<close>: an error takes the tables back.\<close>

definition pg_WithTx :: "time \<Rightarrow> Ctx \<Rightarrow> (PgSession \<Rightarrow> 'a pg_tx) \<Rightarrow> 'a pg_tx" where
  "pg_WithTx wall ctx fn db =
     (case tenant_IDFrom ctx of
        None \<Rightarrow> (Inl (Classified ErrMissing), db)
      | Some tid \<Rightarrow>
          (case fn (session_for tid (principal_From ctx) wall) db of
             (Inl e, db') \<Rightarrow> (Inl e, db)
           | (Inr x, db') \<Rightarrow> (Inr x, db')))"

definition nonEmpty :: "string \<Rightarrow> string option" where
  "nonEmpty s = (if s = [] then None else Some s)"

definition derefString :: "string option \<Rightarrow> string" where
  "derefString p = (case p of None \<Rightarrow> [] | Some s \<Rightarrow> s)"

definition pg_InsertDispute :: "PgSession \<Rightarrow> DisputeRecord \<Rightarrow> unit pg_tx" where
  "pg_InsertDispute ss d = run_query (sql_InsertDispute ss (d\<lparr>dr_Appeals := int32Of (dr_Appeals d)\<rparr>))"

definition pg_GetDispute :: "PgSession \<Rightarrow> uuid \<Rightarrow> DisputeRecord pg_tx" where
  "pg_GetDispute ss did = run_query (sql_GetDispute ss did)"

definition pg_UpdateDisputeState :: "PgSession \<Rightarrow> uuid \<Rightarrow> int \<Rightarrow> state \<Rightarrow> int \<Rightarrow> time \<Rightarrow> unit pg_tx" where
  "pg_UpdateDisputeState ss did expected state appeals stamp =
     tx_bind (run_query (sql_UpdateDisputeState ss did state (int32Of appeals) stamp expected))
       (\<lambda>n. if n = 0 then tx_fail (Classified ErrConflict) else tx_return ())"

definition pg_UpdateDisputeTeam :: "PgSession \<Rightarrow> uuid \<Rightarrow> int \<Rightarrow> string \<Rightarrow> time \<Rightarrow> unit pg_tx" where
  "pg_UpdateDisputeTeam ss did expected team stamp =
     tx_bind (run_query (sql_UpdateDisputeTeam ss did expected team stamp))
       (\<lambda>n. if n = 0 then tx_fail (Classified ErrConflict) else tx_return ())"

definition event_row :: "uuid \<Rightarrow> EventRecord \<Rightarrow> EventRow" where
  "event_row did e = \<lparr>er_tenant_id = [], er_dispute_id = did, er_seq = int32Of (ev_Seq e), er_event = ev_Event e, er_from_state = ev_FromState e,
     er_to_state = ev_ToState e, er_actor = ev_Actor e, er_payload = ev_Payload e, er_idempotency_key = ev_IdempotencyKey e,
     er_trace_id = ev_TraceID e, er_occurred_at = ev_OccurredAt e, er_actor_id = nonEmpty (ev_ActorID e)\<rparr>"

definition event_rec :: "EventRow \<Rightarrow> EventRecord" where
  "event_rec r = \<lparr>ev_Seq = er_seq r, ev_Event = er_event r, ev_FromState = er_from_state r, ev_ToState = er_to_state r, ev_Actor = er_actor r,
     ev_ActorID = derefString (er_actor_id r), ev_Payload = er_payload r, ev_IdempotencyKey = er_idempotency_key r,
     ev_TraceID = er_trace_id r, ev_OccurredAt = er_occurred_at r\<rparr>"

definition pg_AppendEvent :: "PgSession \<Rightarrow> uuid \<Rightarrow> EventRecord \<Rightarrow> unit pg_tx" where
  "pg_AppendEvent ss did e = run_query (sql_InsertDisputeEvent ss (event_row did e))"

definition pg_ListEvents :: "PgSession \<Rightarrow> uuid \<Rightarrow> EventRecord list pg_tx" where
  "pg_ListEvents ss did = tx_bind (run_query (sql_ListDisputeEvents ss did)) (\<lambda>rows. tx_return (map event_rec rows))"

definition pg_AccountHistory :: "PgSession \<Rightarrow> uuid \<Rightarrow> uuid \<Rightarrow> time \<Rightarrow> (int \<times> int) pg_tx" where
  "pg_AccountHistory ss account exclude since =
     tx_bind (run_query (sql_CountAccountDisputesSince ss account since exclude)) (\<lambda>disputes.
     tx_bind (run_query (sql_CountAccountLostChargebacks ss account exclude)) (\<lambda>lost. tx_return (disputes, lost)))"

definition stored_of :: "IdempotencyRow \<Rightarrow> StoredResponse" where
  "stored_of r = \<lparr>sr_RequestHash = ir_request_hash r, sr_StatusCode = ir_status_code r, sr_Body = ir_response r, sr_CreatedAt = ir_created_at r\<rparr>"

definition pg_GetIdempotent :: "PgSession \<Rightarrow> string \<Rightarrow> string \<Rightarrow> StoredResponse pg_tx" where
  "pg_GetIdempotent ss scope key = tx_bind (run_query (sql_GetIdempotencyKey ss scope key)) (\<lambda>r. tx_return (stored_of r))"

definition pg_PutIdempotent :: "PgSession \<Rightarrow> string \<Rightarrow> string \<Rightarrow> StoredResponse \<Rightarrow> unit pg_tx" where
  "pg_PutIdempotent ss scope key r = run_query (sql_InsertIdempotencyKey ss
     \<lparr>ir_tenant_id = [], ir_scope = scope, ir_key = key, ir_request_hash = sr_RequestHash r, ir_status_code = int32Of (sr_StatusCode r),
      ir_response = sr_Body r, ir_created_at = 0\<rparr>)"

definition deadline_row :: "uuid \<Rightarrow> Deadline \<Rightarrow> DeadlineRow" where
  "deadline_row did d = \<lparr>wr_tenant_id = [], wr_dispute_id = did, wr_kind = dl_Kind d, wr_cycle = int32Of (dl_Cycle d),
     wr_started_at = dl_StartedAt d, wr_due_at = dl_DueAt d, wr_met_at = None, wr_voided_at = None, wr_basis = dl_Basis d\<rparr>"

definition deadlineOf :: "DeadlineRow \<Rightarrow> Deadline" where
  "deadlineOf r = \<lparr>dl_Kind = wr_kind r, dl_Cycle = wr_cycle r, dl_StartedAt = wr_started_at r, dl_DueAt = wr_due_at r,
     dl_MetAt = wr_met_at r, dl_VoidedAt = wr_voided_at r, dl_Basis = wr_basis r\<rparr>"

definition pg_InsertDeadlines :: "PgSession \<Rightarrow> uuid \<Rightarrow> Deadline list \<Rightarrow> unit pg_tx" where
  "pg_InsertDeadlines ss did ds = tx_foreach (\<lambda>d. run_query (sql_InsertDeadline ss (deadline_row did d))) ds"

definition pg_ListDeadlines :: "PgSession \<Rightarrow> uuid \<Rightarrow> Deadline list pg_tx" where
  "pg_ListDeadlines ss did = tx_bind (run_query (sql_ListDeadlines ss did)) (\<lambda>rows. tx_return (map deadlineOf rows))"

definition pg_SettleDeadline :: "PgSession \<Rightarrow> uuid \<Rightarrow> deadline_kind \<Rightarrow> int \<Rightarrow> bool \<Rightarrow> time \<Rightarrow> unit pg_tx" where
  "pg_SettleDeadline ss did kind cycle met stamp =
     tx_bind (run_query (sql_SettleDeadline ss met stamp did kind (int32Of cycle))) (\<lambda>_. tx_return ())"

definition ledger_row :: "uuid \<Rightarrow> LedgerEntry \<Rightarrow> LedgerRow" where
  "ledger_row did e = \<lparr>lr_tenant_id = [], lr_dispute_id = did, lr_seq = int32Of (le_Seq e), lr_kind = pst_Kind (le_Posting e),
     lr_debit = pst_Debit (le_Posting e), lr_credit = pst_Credit (le_Posting e), lr_amount = pst_Amount (le_Posting e),
     lr_currency = pst_Currency (le_Posting e), lr_reference = le_Reference e, lr_posted_at = le_PostedAt e,
     lr_core_rrn = map_option cr_RRN (le_Core e), lr_core_response_code = map_option cr_ResponseCode (le_Core e),
     lr_core_latency_ms = map_option (\<lambda>c. int32Of (cr_Latency c div 1000000)) (le_Core e)\<rparr>"

definition entry_of :: "LedgerRow \<Rightarrow> LedgerEntry" where
  "entry_of r = \<lparr>le_Seq = lr_seq r,
     le_Posting = \<lparr>pst_Kind = lr_kind r, pst_Debit = lr_debit r, pst_Credit = lr_credit r, pst_Amount = lr_amount r, pst_Currency = lr_currency r\<rparr>,
     le_Reference = lr_reference r, le_PostedAt = lr_posted_at r,
     le_Core = map_option (\<lambda>code. \<lparr>cr_RRN = derefString (lr_core_rrn r), cr_ResponseCode = code, cr_ResponseText = [], cr_Approved = True,
       cr_Duplicate = False, cr_AuthCode = [], cr_ProcessedAt = lr_posted_at r,
       cr_Latency = (case lr_core_latency_ms r of Some ms \<Rightarrow> ms * 1000000 | None \<Rightarrow> 0)\<rparr>) (lr_core_response_code r)\<rparr>"

definition pg_AppendLedger :: "PgSession \<Rightarrow> uuid \<Rightarrow> LedgerEntry list \<Rightarrow> unit pg_tx" where
  "pg_AppendLedger ss did es = tx_foreach (\<lambda>e. run_query (sql_InsertLedgerEntry ss (ledger_row did e))) es"

definition pg_ListLedger :: "PgSession \<Rightarrow> uuid \<Rightarrow> LedgerEntry list pg_tx" where
  "pg_ListLedger ss did = tx_bind (run_query (sql_ListLedgerEntries ss did)) (\<lambda>rows. tx_return (map entry_of rows))"

section \<open>What the database keeps of a value\<close>

definition pg_dispute :: "DisputeRecord \<Rightarrow> DisputeRecord" where
  "pg_dispute d = d\<lparr>dr_Appeals := int32Of (dr_Appeals d), dr_DisputedAmount := pg_numeric (dr_DisputedAmount d),
     dr_Currency := char3 (dr_Currency d), dr_OpenedAt := pg_time (dr_OpenedAt d), dr_UpdatedAt := pg_time (dr_UpdatedAt d)\<rparr>"

definition pg_event :: "EventRecord \<Rightarrow> EventRecord" where
  "pg_event e = e\<lparr>ev_Payload := jsonb (ev_Payload e), ev_OccurredAt := pg_time (ev_OccurredAt e)\<rparr>"

definition pg_stored :: "StoredResponse \<Rightarrow> StoredResponse" where
  "pg_stored r = r\<lparr>sr_StatusCode := int32Of (sr_StatusCode r), sr_Body := jsonb_view (sr_Body r), sr_CreatedAt := pg_time (sr_CreatedAt r)\<rparr>"

definition pg_deadline :: "Deadline \<Rightarrow> Deadline" where
  "pg_deadline d = d\<lparr>dl_StartedAt := pg_time (dl_StartedAt d), dl_DueAt := pg_time (dl_DueAt d),
     dl_MetAt := map_option pg_time (dl_MetAt d), dl_VoidedAt := map_option pg_time (dl_VoidedAt d)\<rparr>"

text \<open>Of a core's receipt, the reference, the code and the milliseconds.\<close>

definition pg_receipt :: "time \<Rightarrow> CoreReceipt \<Rightarrow> CoreReceipt" where
  "pg_receipt posted c = \<lparr>cr_RRN = cr_RRN c, cr_ResponseCode = cr_ResponseCode c, cr_ResponseText = [], cr_Approved = True,
     cr_Duplicate = False, cr_AuthCode = [], cr_ProcessedAt = pg_time posted, cr_Latency = int32Of (cr_Latency c div 1000000) * 1000000\<rparr>"

definition pg_entry :: "LedgerEntry \<Rightarrow> LedgerEntry" where
  "pg_entry e = e\<lparr>le_Posting := (le_Posting e)\<lparr>pst_Amount := pg_numeric (pst_Amount (le_Posting e)), pst_Currency := char3 (pst_Currency (le_Posting e))\<rparr>,
     le_PostedAt := pg_time (le_PostedAt e),
     le_Core := map_option (pg_receipt (le_PostedAt e)) (le_Core e)\<rparr>"

section \<open>When the in-memory store stands for the tables\<close>

definition counter :: "int \<Rightarrow> bool" where
  "counter n \<longleftrightarrow> 0 \<le> n \<and> n \<le> 2147483647"

definition same_disputes :: "'x MemStore_scheme \<Rightarrow> Tables \<Rightarrow> bool" where
  "same_disputes m db \<longleftrightarrow> tb_disputes db = map (\<lambda>(k, d). pg_dispute d) (Disputes m) \<and> distinct (map fst (Disputes m)) \<and>
     (\<forall>(k, d) \<in> set (Disputes m). dr_ID d = k \<and> 0 \<le> dr_Version d)"

definition same_events :: "'x MemStore_scheme \<Rightarrow> Tables \<Rightarrow> bool" where
  "same_events m db \<longleftrightarrow> (\<forall>k. map event_rec (filter (\<lambda>r. er_dispute_id r = k) (tb_events db)) = map pg_event (Events m k) \<and>
     sorted_wrt (<) (map ev_Seq (Events m k)))"

definition same_stored :: "'x MemStore_scheme \<Rightarrow> Tables \<Rightarrow> bool" where
  "same_stored m db \<longleftrightarrow> map (\<lambda>r. (idem_key (ir_tenant_id r) (ir_scope r) (ir_key r), stored_of r)) (tb_idempotency db) =
       map (\<lambda>(k, r). (k, pg_stored r)) (Idempotent m) \<and> distinct (map fst (Idempotent m)) \<and>
     (\<forall>r \<in> set (tb_idempotency db). char_of (0 :: nat) \<notin> set (ir_tenant_id r) \<and> char_of (0 :: nat) \<notin> set (ir_scope r))"

definition same_clocks :: "'x MemStore_scheme \<Rightarrow> Tables \<Rightarrow> bool" where
  "same_clocks m db \<longleftrightarrow> (\<forall>k. map deadlineOf (filter (\<lambda>r. wr_dispute_id r = k) (tb_deadlines db)) = map pg_deadline (Deadlines m k))"

definition same_ledger :: "'x MemStore_scheme \<Rightarrow> Tables \<Rightarrow> bool" where
  "same_ledger m db \<longleftrightarrow> (\<forall>k. map entry_of (filter (\<lambda>r. lr_dispute_id r = k) (tb_ledger db)) = map pg_entry (Ledger m k))"

text \<open>What belongs to a dispute belongs to its tenant, and the team tables say the same.\<close>

definition tenant_of :: "'x MemStore_scheme \<Rightarrow> uuid \<Rightarrow> uuid option" where
  "tenant_of m did = map_option dr_TenantID (map_of (Disputes m) did)"

definition same_owners :: "'x MemStore_scheme \<Rightarrow> Tables \<Rightarrow> bool" where
  "same_owners m db \<longleftrightarrow> (\<forall>r \<in> set (tb_events db). tenant_of m (er_dispute_id r) = Some (er_tenant_id r)) \<and>
     (\<forall>r \<in> set (tb_deadlines db). tenant_of m (wr_dispute_id r) = Some (wr_tenant_id r)) \<and>
     (\<forall>r \<in> set (tb_ledger db). tenant_of m (lr_dispute_id r) = Some (lr_tenant_id r))"

definition same_teams :: "'x MemStore_scheme \<Rightarrow> Tables \<Rightarrow> bool" where
  "same_teams m db \<longleftrightarrow> (\<forall>t d. in_team (session_for (mt_Tenant t) (mt_Principal t) (mt_Wall t)) db (mt_Tenant t) (dr_Team d) = visible_rec t m d)"

definition stands_for :: "'x MemStore_scheme \<Rightarrow> Tables \<Rightarrow> bool" where
  "stands_for m db \<longleftrightarrow> same_disputes m db \<and> same_events m db \<and> same_stored m db \<and> same_clocks m db \<and> same_ledger m db \<and>
     same_owners m db \<and> same_teams m db"

section \<open>Operations of a transaction\<close>

datatype store_op = OpInsertDispute DisputeRecord | OpGetDispute uuid | OpUpdateDisputeState uuid int state int time
  | OpUpdateDisputeTeam uuid int string time | OpAppendEvent uuid EventRecord | OpListEvents uuid
  | OpGetIdempotent string string | OpPutIdempotent string string StoredResponse | OpInsertDeadlines uuid "Deadline list"
  | OpListDeadlines uuid | OpSettleDeadline uuid deadline_kind int bool time | OpAppendLedger uuid "LedgerEntry list" | OpListLedger uuid

datatype store_answer = Done | OneDispute DisputeRecord | SomeEvents "EventRecord list" | OneResponse StoredResponse
  | SomeClocks "Deadline list" | SomeEntries "LedgerEntry list"

definition tx_map :: "('a \<Rightarrow> 'b) \<Rightarrow> ('s, 'e, 'a) tx \<Rightarrow> ('s, 'e, 'b) tx" where
  "tx_map f m = tx_bind m (\<lambda>x. tx_return (f x))"

fun pg_run :: "PgSession \<Rightarrow> store_op \<Rightarrow> store_answer pg_tx" where
  "pg_run ss (OpInsertDispute d) = tx_map (\<lambda>_. Done) (pg_InsertDispute ss d)"
| "pg_run ss (OpGetDispute did) = tx_map OneDispute (pg_GetDispute ss did)"
| "pg_run ss (OpUpdateDisputeState did v st ap stamp) = tx_map (\<lambda>_. Done) (pg_UpdateDisputeState ss did v st ap stamp)"
| "pg_run ss (OpUpdateDisputeTeam did v team stamp) = tx_map (\<lambda>_. Done) (pg_UpdateDisputeTeam ss did v team stamp)"
| "pg_run ss (OpAppendEvent did e) = tx_map (\<lambda>_. Done) (pg_AppendEvent ss did e)"
| "pg_run ss (OpListEvents did) = tx_map SomeEvents (pg_ListEvents ss did)"
| "pg_run ss (OpGetIdempotent sc k) = tx_map OneResponse (pg_GetIdempotent ss sc k)"
| "pg_run ss (OpPutIdempotent sc k r) = tx_map (\<lambda>_. Done) (pg_PutIdempotent ss sc k r)"
| "pg_run ss (OpInsertDeadlines did ds) = tx_map (\<lambda>_. Done) (pg_InsertDeadlines ss did ds)"
| "pg_run ss (OpListDeadlines did) = tx_map SomeClocks (pg_ListDeadlines ss did)"
| "pg_run ss (OpSettleDeadline did kind cycle met stamp) = tx_map (\<lambda>_. Done) (pg_SettleDeadline ss did kind cycle met stamp)"
| "pg_run ss (OpAppendLedger did es) = tx_map (\<lambda>_. Done) (pg_AppendLedger ss did es)"
| "pg_run ss (OpListLedger did) = tx_map SomeEntries (pg_ListLedger ss did)"

fun mem_run :: "MemTx \<Rightarrow> store_op \<Rightarrow> ('x, store_answer) store_tx" where
  "mem_run t (OpInsertDispute d) = tx_map (\<lambda>_. Done) (Tx_InsertDispute t d)"
| "mem_run t (OpGetDispute did) = tx_map OneDispute (Tx_GetDispute t did)"
| "mem_run t (OpUpdateDisputeState did v st ap stamp) = tx_map (\<lambda>_. Done) (Tx_UpdateDisputeState t did v st ap stamp)"
| "mem_run t (OpUpdateDisputeTeam did v team stamp) = tx_map (\<lambda>_. Done) (Tx_UpdateDisputeTeam t did v team stamp)"
| "mem_run t (OpAppendEvent did e) = tx_map (\<lambda>_. Done) (Tx_AppendEvent did e)"
| "mem_run t (OpListEvents did) = tx_map SomeEvents (Tx_ListEvents did)"
| "mem_run t (OpGetIdempotent sc k) = tx_map OneResponse (Tx_GetIdempotent t sc k)"
| "mem_run t (OpPutIdempotent sc k r) = tx_map (\<lambda>_. Done) (Tx_PutIdempotent t sc k r)"
| "mem_run t (OpInsertDeadlines did ds) = tx_map (\<lambda>_. Done) (Tx_InsertDeadlines t did ds)"
| "mem_run t (OpListDeadlines did) = tx_map SomeClocks (Tx_ListDeadlines t did)"
| "mem_run t (OpSettleDeadline did kind cycle met stamp) = tx_map (\<lambda>_. Done) (Tx_SettleDeadline t did kind cycle met stamp)"
| "mem_run t (OpAppendLedger did es) = tx_map (\<lambda>_. Done) (Tx_AppendLedger t did es)"
| "mem_run t (OpListLedger did) = tx_map SomeEntries (Tx_ListLedger t did)"

text \<open>Answers agree when the database's is what it keeps of the other's; its clocks come in an order of their own.\<close>

fun same_answer :: "store_answer \<Rightarrow> store_answer \<Rightarrow> bool" where
  "same_answer (OneDispute a) (OneDispute b) \<longleftrightarrow> a = pg_dispute b"
| "same_answer (SomeEvents a) (SomeEvents b) \<longleftrightarrow> a = map pg_event b"
| "same_answer (OneResponse a) (OneResponse b) \<longleftrightarrow> a = pg_stored b"
| "same_answer (SomeClocks a) (SomeClocks b) \<longleftrightarrow> mset a = mset (map pg_deadline b)"
| "same_answer (SomeEntries a) (SomeEntries b) \<longleftrightarrow> a = map pg_entry b"
| "same_answer Done Done \<longleftrightarrow> True"
| "same_answer _ _ \<longleftrightarrow> False"

definition agree :: "store_answer result \<Rightarrow> store_answer result \<Rightarrow> bool" where
  "agree a b = (case (a, b) of (Inr x, Inr y) \<Rightarrow> same_answer x y | (Inl e, Inl f) \<Rightarrow> KindOf e = KindOf f \<and> CodeOf e = CodeOf f | _ \<Rightarrow> False)"

text \<open>
  What the use cases keep to, and the in-memory store does not check: an operation on what belongs to a dispute comes
  after the dispute was read, a new row has a key of its own, events are numbered upwards, and values fit their columns.
\<close>

definition readable :: "MemTx \<Rightarrow> 'x MemStore_scheme \<Rightarrow> uuid \<Rightarrow> bool" where
  "readable t m did = isOk (get_dispute t did m)"

definition text_ok :: "string \<Rightarrow> bool" where
  "text_ok s \<longleftrightarrow> char_of (0 :: nat) \<notin> set s"

definition clock_key :: "Deadline \<Rightarrow> deadline_kind \<times> int" where
  "clock_key d = (dl_Kind d, dl_Cycle d)"

definition entry_key :: "LedgerEntry \<Rightarrow> int \<times> posting_kind" where
  "entry_key e = (le_Seq e, pst_Kind (le_Posting e))"

definition entry_fits :: "LedgerEntry \<Rightarrow> bool" where
  "entry_fits e \<longleftrightarrow> counter (le_Seq e) \<and> 0 < le_Seq e \<and> numeric_fits (pst_Amount (le_Posting e)) \<and> 0 < pg_numeric (pst_Amount (le_Posting e)) \<and>
     pst_Debit (le_Posting e) \<noteq> pst_Credit (le_Posting e) \<and> char3_fits (pst_Currency (le_Posting e))"

text \<open>The references of a tenant, over all its disputes.\<close>

definition references :: "uuid \<Rightarrow> 'x MemStore_scheme \<Rightarrow> string set" where
  "references tid m = {ref. \<exists>did x. tenant_of m did = Some tid \<and> x \<in> set (Ledger m did) \<and> le_Reference x = ref}"

fun admissible :: "MemTx \<Rightarrow> 'x MemStore_scheme \<Rightarrow> store_op \<Rightarrow> bool" where
  "admissible t m (OpInsertDispute d) \<longleftrightarrow> dr_ID d \<notin> fst ` set (Disputes m) \<and> visible_rec t m d \<and> dr_UpdatedAt d = dr_OpenedAt d \<and>
     0 \<le> dr_Version d \<and> numeric_fits (dr_DisputedAmount d) \<and> 0 < pg_numeric (dr_DisputedAmount d) \<and> char3_fits (dr_Currency d) \<and>
     dr_Regime d \<in> set AllRegimes \<and> dr_Reason d \<in> set AllReasons \<and>
     Events m (dr_ID d) = [] \<and> Deadlines m (dr_ID d) = [] \<and> Ledger m (dr_ID d) = []"
| "admissible t m (OpGetDispute did) \<longleftrightarrow> True"
| "admissible t m (OpUpdateDisputeState did v st ap stamp) \<longleftrightarrow> readable t m did"
| "admissible t m (OpUpdateDisputeTeam did v team stamp) \<longleftrightarrow> readable t m did"
| "admissible t m (OpAppendEvent did e) \<longleftrightarrow> readable t m did \<and> counter (ev_Seq e) \<and> 0 < ev_Seq e \<and>
     (\<forall>x \<in> set (Events m did). ev_Seq x \<le> ev_Seq e)"
| "admissible t m (OpListEvents did) \<longleftrightarrow> readable t m did"
| "admissible t m (OpGetIdempotent sc k) \<longleftrightarrow> text_ok (mt_Tenant t) \<and> text_ok sc"
| "admissible t m (OpPutIdempotent sc k r) \<longleftrightarrow> text_ok (mt_Tenant t) \<and> text_ok sc \<and> sr_CreatedAt r = zero_time \<and>
     idem_key (mt_Tenant t) sc k \<notin> fst ` set (Idempotent m)"
| "admissible t m (OpInsertDeadlines did ds) \<longleftrightarrow> readable t m did \<and> distinct (map clock_key (Deadlines m did @ ds)) \<and>
     (\<forall>d \<in> set ds. counter (dl_Cycle d) \<and> dl_MetAt d = None \<and> dl_VoidedAt d = None)"
| "admissible t m (OpListDeadlines did) \<longleftrightarrow> readable t m did"
| "admissible t m (OpSettleDeadline did kind cycle met stamp) \<longleftrightarrow> readable t m did \<and> counter cycle"
| "admissible t m (OpAppendLedger did es) \<longleftrightarrow> readable t m did \<and> distinct (map entry_key (Ledger m did @ es)) \<and>
     distinct (map le_Reference es) \<and> (\<forall>e \<in> set es. entry_fits e \<and> le_Reference e \<notin> references (mt_Tenant t) m)"
| "admissible t m (OpListLedger did) \<longleftrightarrow> readable t m did"

section \<open>Lemmas\<close>

definition sess :: "MemTx \<Rightarrow> PgSession" where
  "sess t = session_for (mt_Tenant t) (mt_Principal t) (mt_Wall t)"

definition simulates :: "MemTx \<Rightarrow> store_op \<Rightarrow> 'x MemStore_scheme \<Rightarrow> Tables \<Rightarrow> bool" where
  "simulates t op m db \<longleftrightarrow> agree (fst (pg_run (sess t) op db)) (fst (mem_run t op m)) \<and>
     stands_for (snd (mem_run t op m)) (snd (pg_run (sess t) op db))"

lemma simulatesI:
  "pg_run (sess t) op db = (r, db') \<Longrightarrow> mem_run t op m = (r', m') \<Longrightarrow> agree r r' \<Longrightarrow> stands_for m' db' \<Longrightarrow> simulates t op m db"
  by (simp add: simulates_def)

lemma int32Of_counter [simp]: "counter n \<Longrightarrow> int32Of n = n"
  by (simp add: counter_def int32Of_def)

lemma sess_tenant [simp]: "ps_tenant_id (sess t) = mt_Tenant t" "ps_now (sess t) = pg_time (mt_Wall t)"
  by (simp_all add: sess_def session_for_def)

lemma pg_dispute_sel [simp]:
  "dr_ID (pg_dispute d) = dr_ID d" "dr_TenantID (pg_dispute d) = dr_TenantID d" "dr_Team (pg_dispute d) = dr_Team d"
  "dr_Version (pg_dispute d) = dr_Version d"
  by (simp_all add: pg_dispute_def)

lemma deref_nonEmpty [simp]: "derefString (nonEmpty s) = s"
  by (simp add: derefString_def nonEmpty_def)

lemma run_query_app:
  "q db = (Inl err, db') \<Longrightarrow> run_query q db = (Inl (mapErr err), db')" "q db = (Inr x, db') \<Longrightarrow> run_query q db = (Inr x, db')"
  by (simp_all add: run_query_def)

lemma tx_map_app: "m s = (Inr x, s') \<Longrightarrow> tx_map f m s = (Inr (f x), s')" "m s = (Inl e, s') \<Longrightarrow> tx_map f m s = (Inl e, s')"
  by (simp_all add: tx_map_def tx_bind_def)

text \<open>Rows by their key.\<close>

lemma rows_by_id:
  assumes "distinct (map fst ds)" and "\<forall>(k, d) \<in> set ds. dr_ID d = k \<and> 0 \<le> dr_Version d"
  shows "filter (\<lambda>r. dr_ID r = did \<and> P r) (map (\<lambda>(k, d). pg_dispute d) ds) =
    (case map_of ds did of Some d \<Rightarrow> if P (pg_dispute d) then [pg_dispute d] else [] | None \<Rightarrow> [])"
  using assms
proof (induction ds)
  case (Cons x ds)
  obtain k d where x: "x = (k, d)" by (cases x)
  with Cons.prems have "dr_ID d = k" "map_of ds k = None" by (auto simp: map_of_eq_None_iff)
  with Cons x show ?case by (cases "k = did") auto
qed simp

lemma row_visible_pg:
  assumes "same_teams m db"
  shows "row_visible (sess t) db (pg_dispute d) \<longleftrightarrow> dr_TenantID d = mt_Tenant t \<and> visible_rec t m d"
  using assms by (auto simp: row_visible_def same_teams_def sess_def [symmetric])

lemma visible_rows:
  assumes "stands_for m db"
  shows "filter (\<lambda>r. dr_ID r = did \<and> row_visible (sess t) db r) (tb_disputes db) =
    (case get_dispute t did m of Inr d \<Rightarrow> [pg_dispute d] | Inl _ \<Rightarrow> [])"
  using assms rows_by_id [of "Disputes m" did "row_visible (sess t) db"]
  by (auto simp: stands_for_def same_disputes_def get_dispute_def row_visible_pg split: option.splits)

lemma dispute_visible_iff:
  assumes "stands_for m db"
  shows "dispute_visible (sess t) db did \<longleftrightarrow> readable t m did"
proof -
  have "dispute_visible (sess t) db did \<longleftrightarrow> filter (\<lambda>r. dr_ID r = did \<and> row_visible (sess t) db r) (tb_disputes db) \<noteq> []"
    by (auto simp: dispute_visible_def list_ex_iff filter_empty_conv)
  then show ?thesis by (simp add: visible_rows [OF assms] readable_def isOk_def split: sum.split)
qed

lemma readableD: "readable t m did \<Longrightarrow> \<exists>d. map_of (Disputes m) did = Some d \<and> dr_TenantID d = mt_Tenant t \<and> visible_rec t m d"
  by (auto simp: readable_def isOk_def get_dispute_def split: option.splits if_splits)

lemma readable_tenant: "readable t m did \<Longrightarrow> tenant_of m did = Some (mt_Tenant t)"
  by (auto simp: tenant_of_def dest: readableD)

lemma children_visible:
  assumes "stands_for m db" and "readable t m did"
  shows "child_visible (sess t) db (mt_Tenant t) did"
    and "filter (\<lambda>r. er_dispute_id r = did \<and> child_visible (sess t) db (er_tenant_id r) did) (tb_events db) = filter (\<lambda>r. er_dispute_id r = did) (tb_events db)"
    and "filter (\<lambda>r. wr_dispute_id r = did \<and> child_visible (sess t) db (wr_tenant_id r) did) (tb_deadlines db) = filter (\<lambda>r. wr_dispute_id r = did) (tb_deadlines db)"
    and "filter (\<lambda>r. lr_dispute_id r = did \<and> child_visible (sess t) db (lr_tenant_id r) did) (tb_ledger db) = filter (\<lambda>r. lr_dispute_id r = did) (tb_ledger db)"
proof -
  have vis: "child_visible (sess t) db tid did \<longleftrightarrow> tid = mt_Tenant t" for tid
    using assms(2) by (simp add: child_visible_def dispute_visible_iff [OF assms(1)])
  then show "child_visible (sess t) db (mt_Tenant t) did" by simp
  have owners: "same_owners m db" using assms(1) by (simp add: stands_for_def)
  note tenant = readable_tenant [OF assms(2)]
  show "filter (\<lambda>r. er_dispute_id r = did \<and> child_visible (sess t) db (er_tenant_id r) did) (tb_events db) = filter (\<lambda>r. er_dispute_id r = did) (tb_events db)"
    "filter (\<lambda>r. wr_dispute_id r = did \<and> child_visible (sess t) db (wr_tenant_id r) did) (tb_deadlines db) = filter (\<lambda>r. wr_dispute_id r = did) (tb_deadlines db)"
    "filter (\<lambda>r. lr_dispute_id r = did \<and> child_visible (sess t) db (lr_tenant_id r) did) (tb_ledger db) = filter (\<lambda>r. lr_dispute_id r = did) (tb_ledger db)"
    unfolding vis using owners tenant by (auto simp: same_owners_def intro!: filter_cong)
qed

text \<open>Reads.\<close>

lemma simulates_reads:
  assumes "stands_for m db" and "admissible t m op"
    and "op \<in> range OpGetDispute \<union> range OpListEvents \<union> range OpListDeadlines \<union> range OpListLedger"
  shows "simulates t op m db"
  using assms(3)
proof (elim UnE imageE)
  fix did assume op: "op = OpGetDispute did"
  show ?thesis
    by (cases "get_dispute t did m")
       (auto simp: op simulates_def tx_map_def tx_bind_def pg_GetDispute_def run_query_def sql_GetDispute_def visible_rows [OF assms(1)] one_row_def
         Tx_GetDispute_def agree_def mapErr_def get_dispute_def not_found_def assms(1) split: option.splits if_splits)
next
  fix did assume op: "op = OpListEvents did"
  with assms(2) have r: "readable t m did" by simp
  from assms(1) have ev: "map event_rec (filter (\<lambda>r. er_dispute_id r = did) (tb_events db)) = map pg_event (Events m did)"
    and sorted: "sorted_wrt (<) (map ev_Seq (Events m did))" by (auto simp: stands_for_def same_events_def)
  have "map er_seq (filter (\<lambda>r. er_dispute_id r = did) (tb_events db)) = map ev_Seq (map event_rec (filter (\<lambda>r. er_dispute_id r = did) (tb_events db)))"
    by (simp add: event_rec_def)
  also have "\<dots> = map ev_Seq (Events m did)" by (simp add: ev pg_event_def)
  finally have "sorted (map er_seq (filter (\<lambda>r. er_dispute_id r = did) (tb_events db)))"
    using sorted by (simp add: strict_sorted_imp_sorted)
  then have "sort_key er_seq (filter (\<lambda>r. er_dispute_id r = did) (tb_events db)) = filter (\<lambda>r. er_dispute_id r = did) (tb_events db)"
    by (rule sort_key_id_if_sorted)
  then show ?thesis
    by (simp add: op simulates_def tx_map_def tx_bind_def pg_ListEvents_def run_query_def sql_ListDisputeEvents_def children_visible [OF assms(1) r]
        Tx_ListEvents_def agree_def ev assms(1))
next
  fix did assume op: "op = OpListDeadlines did"
  with assms(2) have r: "readable t m did" by simp
  then obtain d where d: "get_dispute t did m = Inr d" by (auto simp: readable_def isOk_def split: sum.splits)
  from assms(1) have clocks: "map deadlineOf (filter (\<lambda>r. wr_dispute_id r = did) (tb_deadlines db)) = map pg_deadline (Deadlines m did)"
    by (simp add: stands_for_def same_clocks_def)
  from arg_cong [OF clocks, of mset] show ?thesis
    by (simp add: op simulates_def tx_map_def tx_bind_def pg_ListDeadlines_def run_query_def sql_ListDeadlines_def children_visible [OF assms(1) r]
        Tx_ListDeadlines_def Tx_GetDispute_def d agree_def assms(1))
next
  fix did assume op: "op = OpListLedger did"
  with assms(2) have r: "readable t m did" by simp
  then obtain d where d: "get_dispute t did m = Inr d" by (auto simp: readable_def isOk_def split: sum.splits)
  from assms(1) have "map entry_of (filter (\<lambda>r. lr_dispute_id r = did) (tb_ledger db)) = map pg_entry (Ledger m did)"
    by (simp add: stands_for_def same_ledger_def)
  then show ?thesis
    by (simp add: op simulates_def tx_map_def tx_bind_def pg_ListLedger_def run_query_def sql_ListLedgerEntries_def children_visible [OF assms(1) r]
        Tx_ListLedger_def Tx_GetDispute_def d agree_def assms(1))
qed

lemma agree_simps [simp]:
  "agree (Inr a) (Inr b) = same_answer a b" "agree (Inl e) (Inl f) \<longleftrightarrow> KindOf e = KindOf f \<and> CodeOf e = CodeOf f"
  by (simp_all add: agree_def)

text \<open>What an operation does not touch.\<close>

lemma same_teams_cong:
  "AccessOf m' = AccessOf m \<Longrightarrow> tb_members db' = tb_members db \<Longrightarrow> same_teams m' db' = same_teams m db"
  by (simp add: same_teams_def in_team_def visible_rec_def access_of_def)

lemma same_owners_cong:
  assumes "\<And>did tid. tenant_of m did = Some tid \<Longrightarrow> tenant_of m' did = Some tid" and "same_owners m db"
    and "tb_events db' = tb_events db" "tb_deadlines db' = tb_deadlines db" "tb_ledger db' = tb_ledger db"
  shows "same_owners m' db'"
  using assms by (simp add: same_owners_def)

text \<open>A change of the disputes alone.\<close>

lemma stands_for_disputes:
  assumes "stands_for m db" and "same_disputes (m\<lparr>Disputes := ds\<rparr>) (db\<lparr>tb_disputes := rows\<rparr>)"
    and "\<And>did tid. tenant_of m did = Some tid \<Longrightarrow> tenant_of (m\<lparr>Disputes := ds\<rparr>) did = Some tid"
  shows "stands_for (m\<lparr>Disputes := ds\<rparr>) (db\<lparr>tb_disputes := rows\<rparr>)"
proof -
  from assms(1) have old: "same_events m db" "same_stored m db" "same_clocks m db" "same_ledger m db" "same_owners m db" "same_teams m db"
    by (simp_all add: stands_for_def)
  have "same_owners (m\<lparr>Disputes := ds\<rparr>) (db\<lparr>tb_disputes := rows\<rparr>)" by (rule same_owners_cong [OF assms(3) old(5)]) simp_all
  moreover have "same_teams (m\<lparr>Disputes := ds\<rparr>) (db\<lparr>tb_disputes := rows\<rparr>)" using old(6) same_teams_cong [of "m\<lparr>Disputes := ds\<rparr>" m] by simp
  ultimately show ?thesis
    using old(1-4) assms(2) by (simp add: stands_for_def same_events_def same_stored_def same_clocks_def same_ledger_def)
qed

lemma visible_rec_team: "dr_Team d' = dr_Team d \<Longrightarrow> visible_rec t m d' = visible_rec t m d"
  by (simp add: visible_rec_def)

lemma update_fresh: "k \<notin> fst ` set xs \<Longrightarrow> AList.update k v xs = xs @ [(k, v)]"
  by (induction xs) auto

lemma simulates_InsertDispute:
  assumes "stands_for m db" and adm: "admissible t m (OpInsertDispute d)"
  shows "simulates t (OpInsertDispute d) m db"
proof -
  let ?d = "d\<lparr>dr_TenantID := mt_Tenant t\<rparr>"
  from adm have fresh: "dr_ID d \<notin> fst ` set (Disputes m)" and vis: "visible_rec t m d" and same: "dr_UpdatedAt d = dr_OpenedAt d"
    and "0 \<le> dr_Version d" "numeric_fits (dr_DisputedAmount d)" "0 < pg_numeric (dr_DisputedAmount d)" by simp_all
  have teams: "same_teams m db" and dis: "same_disputes m db" using assms(1) by (simp_all add: stands_for_def)
  have rv: "row_visible (sess t) db (pg_dispute ?d)" 
    using vis visible_rec_team [of ?d d t m] by (simp add: row_visible_pg [OF teams])
  have row: "d\<lparr>dr_Appeals := int32Of (dr_Appeals d), dr_TenantID := mt_Tenant t, dr_DisputedAmount := pg_numeric (dr_DisputedAmount d),
      dr_Currency := char3 (dr_Currency d), dr_OpenedAt := pg_time (dr_OpenedAt d), dr_UpdatedAt := pg_time (dr_OpenedAt d)\<rparr> = pg_dispute ?d"
    by (simp add: pg_dispute_def same)
  have "dr_ID r \<noteq> dr_ID d" if "r \<in> set (tb_disputes db)" for r
  proof -
    from that dis obtain k e where e: "(k, e) \<in> set (Disputes m)" "r = pg_dispute e" by (auto simp: same_disputes_def)
    then have "dr_ID r = k" using dis by (auto simp: same_disputes_def)
    moreover have "k \<in> fst ` set (Disputes m)" using e(1) by (metis fst_conv image_eqI)
    ultimately show ?thesis using fresh by metis
  qed
  then have new: "\<not> list_ex (\<lambda>r. dr_ID r = dr_ID d) (tb_disputes db)" by (auto simp: list_ex_iff)
  have pg: "pg_run (sess t) (OpInsertDispute d) db = (Inr Done, db\<lparr>tb_disputes := tb_disputes db @ [pg_dispute ?d]\<rparr>)"
  proof -
    have "sql_InsertDispute (sess t) (d\<lparr>dr_Appeals := int32Of (dr_Appeals d)\<rparr>) db = (Inr (), db\<lparr>tb_disputes := tb_disputes db @ [pg_dispute ?d]\<rparr>)"
      using adm rv new unfolding sql_InsertDispute_def by (simp add: row Let_def) (simp add: pg_dispute_def int32Of_def)
    then show ?thesis by (simp add: tx_map_def tx_bind_def pg_InsertDispute_def run_query_def)
  qed
  have mem: "mem_run t (OpInsertDispute d) m = (Inr Done, m\<lparr>Disputes := Disputes m @ [(dr_ID d, ?d)]\<rparr>)"
    by (simp add: tx_map_def tx_bind_def Tx_InsertDispute_def update_fresh [OF fresh])
  have "stands_for (m\<lparr>Disputes := Disputes m @ [(dr_ID d, ?d)]\<rparr>) (db\<lparr>tb_disputes := tb_disputes db @ [pg_dispute ?d]\<rparr>)"
  proof (rule stands_for_disputes [OF assms(1)])
    show "same_disputes (m\<lparr>Disputes := Disputes m @ [(dr_ID d, ?d)]\<rparr>) (db\<lparr>tb_disputes := tb_disputes db @ [pg_dispute ?d]\<rparr>)"
      using dis fresh adm by (auto simp: same_disputes_def)
    show "tenant_of (m\<lparr>Disputes := Disputes m @ [(dr_ID d, ?d)]\<rparr>) did = Some tid" if "tenant_of m did = Some tid" for did tid
      using that by (auto simp: tenant_of_def map_add_def)
  qed
  then show ?thesis by (intro simulatesI [OF pg mem]) simp_all
qed

lemma rows_updated:
  assumes "distinct (map fst ds)" and "\<forall>(k, d) \<in> set ds. dr_ID d = k \<and> 0 \<le> dr_Version d" and "map_of ds did = Some r"
    and "pg_dispute r' = f (pg_dispute r)" and "hit (pg_dispute r)" and "\<And>x. hit x \<Longrightarrow> dr_ID x = did"
  shows "map (\<lambda>x. if hit x then f x else x) (map (\<lambda>(k, d). pg_dispute d) ds) = map (\<lambda>(k, d). pg_dispute d) (AList.update did r' ds)"
  using assms(1-3)
proof (induction ds)
  case (Cons x ds)
  obtain k d where x: "x = (k, d)" by (cases x)
  show ?case
  proof (cases "k = did")
    case True
    then have "d = r" using Cons.prems x by simp
    moreover have "\<not> hit (pg_dispute e)" if "(j, e) \<in> set ds" for j e
    proof -
      from that Cons.prems x True have "dr_ID e \<noteq> did" by force
      then show ?thesis using assms(6) [of "pg_dispute e"] by auto
    qed
    then have "map (\<lambda>x. if hit x then f x else x) (map (\<lambda>(k, d). pg_dispute d) ds) = map (\<lambda>(k, d). pg_dispute d) ds"
      by (auto simp: map_eq_conv)
    ultimately show ?thesis using x True assms(4,5) by simp
  next
    case False
    then have "dr_ID d \<noteq> did" using Cons.prems x by simp
    then have "\<not> hit (pg_dispute d)" using assms(6) [of "pg_dispute d"] by auto
    then show ?thesis using Cons x False by simp
  qed
qed simp

text \<open>A dispute that is readable and at the expected version changes in both stores; otherwise neither does.\<close>

lemma stands_for_update:
  assumes "stands_for m db" and r: "map_of (Disputes m) did = Some r" and "pg_dispute r' = f (pg_dispute r)" and "hit (pg_dispute r)"
    and "\<And>x. hit x \<Longrightarrow> dr_ID x = did" and "dr_ID r' = dr_ID r" "dr_TenantID r' = dr_TenantID r" "0 \<le> dr_Version r'"
  shows "stands_for (m\<lparr>Disputes := AList.update did r' (Disputes m)\<rparr>) (db\<lparr>tb_disputes := map (\<lambda>x. if hit x then f x else x) (tb_disputes db)\<rparr>)"
proof (rule stands_for_disputes [OF assms(1)])
  have dis: "same_disputes m db" using assms(1) by (simp add: stands_for_def)
  then have ds: "distinct (map fst (Disputes m))" "\<forall>(k, d) \<in> set (Disputes m). dr_ID d = k \<and> 0 \<le> dr_Version d"
    "tb_disputes db = map (\<lambda>(k, d). pg_dispute d) (Disputes m)" by (simp_all add: same_disputes_def)
  have did: "dr_ID r = did" using ds(2) map_of_SomeD [OF r] by auto
  have "\<forall>(k, d) \<in> set (AList.update did r' (Disputes m)). dr_ID d = k \<and> 0 \<le> dr_Version d"
  proof
    fix x assume "x \<in> set (AList.update did r' (Disputes m))"
    moreover obtain k d where x: "x = (k, d)" by (cases x)
    ultimately have "(k, d) \<in> set (Disputes m) \<or> (k = did \<and> d = r')"
      by (metis (no_types, lifting) ds(1) distinct_update map_of_SomeD map_of_eq_Some_iff update_Some_unfold)
    then show "case x of (k, d) \<Rightarrow> dr_ID d = k \<and> 0 \<le> dr_Version d" using ds(2) assms(6,8) did x by auto
  qed
  then show "same_disputes (m\<lparr>Disputes := AList.update did r' (Disputes m)\<rparr>) (db\<lparr>tb_disputes := map (\<lambda>x. if hit x then f x else x) (tb_disputes db)\<rparr>)"
    using rows_updated [OF ds(1,2) r, of r' f hit] assms(3,4,5) ds by (simp add: same_disputes_def distinct_update)
  show "tenant_of (m\<lparr>Disputes := AList.update did r' (Disputes m)\<rparr>) x = Some tid" if "tenant_of m x = Some tid" for x tid
    using that r assms(7) by (auto simp: tenant_of_def update_conv')
qed

lemma get_dispute_known: "readable t m did \<Longrightarrow> \<exists>r. map_of (Disputes m) did = Some r \<and> get_dispute t did m = Inr r \<and> dr_TenantID r = mt_Tenant t \<and> visible_rec t m r"
  by (auto simp: readable_def isOk_def get_dispute_def split: option.splits if_splits)

lemma version_rows:
  assumes "stands_for m db" and "map_of (Disputes m) did = Some r" "dr_TenantID r = mt_Tenant t" "visible_rec t m r"
  shows "filter (\<lambda>x. dr_ID x = did \<and> dr_Version x = v \<and> row_visible (sess t) db x) (tb_disputes db) = (if dr_Version r = v then [pg_dispute r] else [])"
  using assms rows_by_id [of "Disputes m" did "\<lambda>x. dr_Version x = v \<and> row_visible (sess t) db x"]
  by (auto simp: stands_for_def same_disputes_def row_visible_pg)

lemma known_row:
  assumes "stands_for m db" and "map_of (Disputes m) did = Some r"
  shows "dr_ID r = did" "0 \<le> dr_Version r"
  using assms map_of_SomeD [OF assms(2)] by (auto simp: stands_for_def same_disputes_def)

lemma no_rows_kept:
  assumes "filter hit rows = []"
  shows "map (\<lambda>x. if hit x then f x else x) rows = rows"
  using assms by (auto simp: filter_empty_conv intro!: map_idI)

text \<open>The row an update is about, found by its id and version among those the session sees.\<close>

lemma versioned:
  fixes did v t and db :: Tables
  defines "hit \<equiv> \<lambda>x. dr_ID x = did \<and> dr_Version x = v \<and> row_visible (sess t) db x"
  assumes "stands_for m db" and r: "map_of (Disputes m) did = Some r" "dr_TenantID r = mt_Tenant t" "visible_rec t m r"
  shows "0 \<le> dr_Version r" and "filter hit (tb_disputes db) = (if dr_Version r = v then [pg_dispute r] else [])"
    and "dr_Version r \<noteq> v \<Longrightarrow> db\<lparr>tb_disputes := map (\<lambda>x. if hit x then f x else x) (tb_disputes db)\<rparr> = db"
    and "dr_Version r = v \<Longrightarrow> pg_dispute r' = f (pg_dispute r) \<Longrightarrow> dr_ID r' = dr_ID r \<Longrightarrow> dr_TenantID r' = dr_TenantID r \<Longrightarrow> 0 \<le> dr_Version r' \<Longrightarrow>
      stands_for (m\<lparr>Disputes := AList.update did r' (Disputes m)\<rparr>) (db\<lparr>tb_disputes := map (\<lambda>x. if hit x then f x else x) (tb_disputes db)\<rparr>)"
proof -
  note known = known_row [OF assms(2) r(1)]
  show "0 \<le> dr_Version r" by (rule known)
  show rows: "filter hit (tb_disputes db) = (if dr_Version r = v then [pg_dispute r] else [])"
    unfolding hit_def by (rule version_rows [OF assms(2) r])
  show "db\<lparr>tb_disputes := map (\<lambda>x. if hit x then f x else x) (tb_disputes db)\<rparr> = db" if "dr_Version r \<noteq> v"
    using no_rows_kept [of hit "tb_disputes db" f] rows that by simp
  have vis: "row_visible (sess t) db (pg_dispute r)" using r(2,3) row_visible_pg [of m db t r] assms(2) by (simp add: stands_for_def)
  show "stands_for (m\<lparr>Disputes := AList.update did r' (Disputes m)\<rparr>) (db\<lparr>tb_disputes := map (\<lambda>x. if hit x then f x else x) (tb_disputes db)\<rparr>)"
    if "dr_Version r = v" "pg_dispute r' = f (pg_dispute r)" "dr_ID r' = dr_ID r" "dr_TenantID r' = dr_TenantID r" "0 \<le> dr_Version r'"
    by (rule stands_for_update [where hit = hit and f = f and r' = r' and r = r])
       (use that assms(2) r(1) known vis in \<open>simp_all add: hit_def\<close>)
qed

lemma simulates_UpdateDisputeState:
  assumes "stands_for m db" and "readable t m did"
  shows "simulates t (OpUpdateDisputeState did v st ap stamp) m db"
proof -
  let ?hit = "\<lambda>x. dr_ID x = did \<and> dr_Version x = v \<and> row_visible (sess t) db x"
  obtain r where r: "map_of (Disputes m) did = Some r" "dr_TenantID r = mt_Tenant t" "visible_rec t m r"
    using get_dispute_known [OF assms(2)] by blast
  note known = versioned(1) [OF assms(1) r] and rows = versioned(2) [OF assms(1) r, of v] and kept = versioned(3) [OF assms(1) r, of v]
    and sim = versioned(4) [OF assms(1) r, of v]
  show ?thesis
  proof (cases "dr_Version r = v")
    case True
    let ?f = "\<lambda>x. x\<lparr>dr_State := st, dr_Appeals := int32Of ap, dr_Version := dr_Version x + 1, dr_UpdatedAt := pg_time stamp\<rparr>"
    let ?r = "r\<lparr>dr_State := st, dr_Appeals := ap, dr_Version := v + 1, dr_UpdatedAt := stamp\<rparr>"
    have "\<not> int32Of ap < 0" "\<not> v + 1 < 0" using known True by (simp_all add: int32Of_def)
    then have "sql_UpdateDisputeState (sess t) did st (int32Of ap) stamp v db = (Inr 1, db\<lparr>tb_disputes := map (\<lambda>x. if ?hit x then ?f x else x) (tb_disputes db)\<rparr>)"
      unfolding sql_UpdateDisputeState_def Let_def rows using True by simp
    then have pg: "pg_run (sess t) (OpUpdateDisputeState did v st ap stamp) db = (Inr Done, db\<lparr>tb_disputes := map (\<lambda>x. if ?hit x then ?f x else x) (tb_disputes db)\<rparr>)"
      by (simp add: tx_map_def tx_bind_def pg_UpdateDisputeState_def run_query_def)
    have mem: "mem_run t (OpUpdateDisputeState did v st ap stamp) m = (Inr Done, m\<lparr>Disputes := AList.update did ?r (Disputes m)\<rparr>)"
      using r True by (simp add: tx_map_def tx_bind_def Tx_UpdateDisputeState_def)
    show ?thesis
      by (rule simulatesI [OF pg mem]) (use True known in \<open>simp_all add: sim pg_dispute_def\<close>)
  next
    case False
    have "sql_UpdateDisputeState (sess t) did st (int32Of ap) stamp v db = (Inr 0, db)"
      unfolding sql_UpdateDisputeState_def Let_def rows kept [OF False] using False by simp
    then have pg: "pg_run (sess t) (OpUpdateDisputeState did v st ap stamp) db = (Inl (Classified ErrConflict), db)"
      by (simp add: tx_map_def tx_bind_def pg_UpdateDisputeState_def run_query_def)
    have mem: "mem_run t (OpUpdateDisputeState did v st ap stamp) m = (Inl conflict, m)"
      using r False by (simp add: tx_map_def tx_bind_def Tx_UpdateDisputeState_def)
    show ?thesis by (rule simulatesI [OF pg mem]) (simp_all add: conflict_def assms(1))
  qed
qed

lemma simulates_UpdateDisputeTeam:
  assumes "stands_for m db" and "readable t m did"
  shows "simulates t (OpUpdateDisputeTeam did v team stamp) m db"
proof -
  let ?hit = "\<lambda>x. dr_ID x = did \<and> dr_Version x = v \<and> row_visible (sess t) db x"
  obtain r where r: "map_of (Disputes m) did = Some r" "dr_TenantID r = mt_Tenant t" "visible_rec t m r"
    using get_dispute_known [OF assms(2)] by blast
  note known = versioned(1) [OF assms(1) r] and rows = versioned(2) [OF assms(1) r, of v] and kept = versioned(3) [OF assms(1) r, of v]
    and sim = versioned(4) [OF assms(1) r, of v]
  show ?thesis
  proof (cases "dr_Version r = v")
    case True
    let ?f = "\<lambda>x. x\<lparr>dr_Team := team, dr_Version := dr_Version x + 1, dr_UpdatedAt := pg_time stamp\<rparr>"
    let ?r = "r\<lparr>dr_Team := team, dr_Version := v + 1, dr_UpdatedAt := stamp\<rparr>"
    have "sql_UpdateDisputeTeam (sess t) did v team stamp db = (Inr 1, db\<lparr>tb_disputes := map (\<lambda>x. if ?hit x then ?f x else x) (tb_disputes db)\<rparr>)"
      unfolding sql_UpdateDisputeTeam_def Let_def rows using True by simp
    then have pg: "pg_run (sess t) (OpUpdateDisputeTeam did v team stamp) db = (Inr Done, db\<lparr>tb_disputes := map (\<lambda>x. if ?hit x then ?f x else x) (tb_disputes db)\<rparr>)"
      by (simp add: tx_map_def tx_bind_def pg_UpdateDisputeTeam_def run_query_def)
    have mem: "mem_run t (OpUpdateDisputeTeam did v team stamp) m = (Inr Done, m\<lparr>Disputes := AList.update did ?r (Disputes m)\<rparr>)"
      using r True by (simp add: tx_map_def tx_bind_def Tx_UpdateDisputeTeam_def)
    show ?thesis
      by (rule simulatesI [OF pg mem]) (use True known in \<open>simp_all add: sim pg_dispute_def\<close>)
  next
    case False
    have "sql_UpdateDisputeTeam (sess t) did v team stamp db = (Inr 0, db)"
      unfolding sql_UpdateDisputeTeam_def Let_def rows kept [OF False] using False by simp
    then have pg: "pg_run (sess t) (OpUpdateDisputeTeam did v team stamp) db = (Inl (Classified ErrConflict), db)"
      by (simp add: tx_map_def tx_bind_def pg_UpdateDisputeTeam_def run_query_def)
    have mem: "mem_run t (OpUpdateDisputeTeam did v team stamp) m = (Inl conflict, m)"
      using r False by (simp add: tx_map_def tx_bind_def Tx_UpdateDisputeTeam_def)
    show ?thesis by (rule simulatesI [OF pg mem]) (simp_all add: conflict_def assms(1))
  qed
qed

text \<open>Changes of one table of what belongs to the disputes.\<close>

lemma same_kept:
  "same_disputes (m\<lparr>Events := x\<rparr>) (db\<lparr>tb_events := y\<rparr>) = same_disputes m db" "same_stored (m\<lparr>Events := x\<rparr>) (db\<lparr>tb_events := y\<rparr>) = same_stored m db"
  "same_clocks (m\<lparr>Events := x\<rparr>) (db\<lparr>tb_events := y\<rparr>) = same_clocks m db" "same_ledger (m\<lparr>Events := x\<rparr>) (db\<lparr>tb_events := y\<rparr>) = same_ledger m db"
  "same_disputes (m\<lparr>Deadlines := z\<rparr>) (db\<lparr>tb_deadlines := u\<rparr>) = same_disputes m db" "same_stored (m\<lparr>Deadlines := z\<rparr>) (db\<lparr>tb_deadlines := u\<rparr>) = same_stored m db"
  "same_events (m\<lparr>Deadlines := z\<rparr>) (db\<lparr>tb_deadlines := u\<rparr>) = same_events m db" "same_ledger (m\<lparr>Deadlines := z\<rparr>) (db\<lparr>tb_deadlines := u\<rparr>) = same_ledger m db"
  "same_disputes (m\<lparr>Ledger := v\<rparr>) (db\<lparr>tb_ledger := w\<rparr>) = same_disputes m db" "same_stored (m\<lparr>Ledger := v\<rparr>) (db\<lparr>tb_ledger := w\<rparr>) = same_stored m db"
  "same_events (m\<lparr>Ledger := v\<rparr>) (db\<lparr>tb_ledger := w\<rparr>) = same_events m db" "same_clocks (m\<lparr>Ledger := v\<rparr>) (db\<lparr>tb_ledger := w\<rparr>) = same_clocks m db"
  "same_disputes (m\<lparr>Idempotent := i\<rparr>) (db\<lparr>tb_idempotency := j\<rparr>) = same_disputes m db" "same_events (m\<lparr>Idempotent := i\<rparr>) (db\<lparr>tb_idempotency := j\<rparr>) = same_events m db"
  "same_clocks (m\<lparr>Idempotent := i\<rparr>) (db\<lparr>tb_idempotency := j\<rparr>) = same_clocks m db" "same_ledger (m\<lparr>Idempotent := i\<rparr>) (db\<lparr>tb_idempotency := j\<rparr>) = same_ledger m db"
  by (simp_all add: same_disputes_def same_stored_def same_events_def same_clocks_def same_ledger_def)

lemma teams_kept:
  "same_teams (m\<lparr>Events := x\<rparr>) (db\<lparr>tb_events := y\<rparr>) = same_teams m db" "same_teams (m\<lparr>Deadlines := z\<rparr>) (db\<lparr>tb_deadlines := u\<rparr>) = same_teams m db"
  "same_teams (m\<lparr>Ledger := v\<rparr>) (db\<lparr>tb_ledger := w\<rparr>) = same_teams m db" "same_teams (m\<lparr>Idempotent := i\<rparr>) (db\<lparr>tb_idempotency := j\<rparr>) = same_teams m db"
  by (rule same_teams_cong; simp)+

lemma tenant_kept [simp]:
  "tenant_of (m\<lparr>Events := x\<rparr>) did = tenant_of m did" "tenant_of (m\<lparr>Deadlines := z\<rparr>) did = tenant_of m did"
  "tenant_of (m\<lparr>Ledger := v\<rparr>) did = tenant_of m did" "tenant_of (m\<lparr>Idempotent := i\<rparr>) did = tenant_of m did"
  by (simp_all add: tenant_of_def)

lemma stands_for_child:
  assumes "stands_for m db"
  shows "same_events (m\<lparr>Events := x\<rparr>) (db\<lparr>tb_events := y\<rparr>) \<Longrightarrow> \<forall>r \<in> set y. tenant_of m (er_dispute_id r) = Some (er_tenant_id r) \<Longrightarrow>
      stands_for (m\<lparr>Events := x\<rparr>) (db\<lparr>tb_events := y\<rparr>)"
    and "same_clocks (m\<lparr>Deadlines := z\<rparr>) (db\<lparr>tb_deadlines := u\<rparr>) \<Longrightarrow> \<forall>r \<in> set u. tenant_of m (wr_dispute_id r) = Some (wr_tenant_id r) \<Longrightarrow>
      stands_for (m\<lparr>Deadlines := z\<rparr>) (db\<lparr>tb_deadlines := u\<rparr>)"
    and "same_ledger (m\<lparr>Ledger := v\<rparr>) (db\<lparr>tb_ledger := w\<rparr>) \<Longrightarrow> \<forall>r \<in> set w. tenant_of m (lr_dispute_id r) = Some (lr_tenant_id r) \<Longrightarrow>
      stands_for (m\<lparr>Ledger := v\<rparr>) (db\<lparr>tb_ledger := w\<rparr>)"
    and "same_stored (m\<lparr>Idempotent := i\<rparr>) (db\<lparr>tb_idempotency := j\<rparr>) \<Longrightarrow> stands_for (m\<lparr>Idempotent := i\<rparr>) (db\<lparr>tb_idempotency := j\<rparr>)"
  using assms by (simp_all add: stands_for_def same_kept teams_kept same_owners_def)

lemma pg_errors: "KindOf (mapErr unique_violation) = KindOf conflict" "CodeOf (mapErr unique_violation) = CodeOf conflict"
  by (simp_all add: mapErr_def unique_violation_def conflict_def KindOf_def CodeOf_def Wrap_def)

lemma simulates_AppendEvent:
  assumes "stands_for m db" and adm: "admissible t m (OpAppendEvent did e)"
  shows "simulates t (OpAppendEvent did e) m db"
proof -
  from adm have r: "readable t m did" and seq: "counter (ev_Seq e)" "0 < ev_Seq e" "\<forall>x \<in> set (Events m did). ev_Seq x \<le> ev_Seq e" by simp_all
  let ?row = "(event_row did e)\<lparr>er_tenant_id := mt_Tenant t, er_payload := jsonb (ev_Payload e), er_occurred_at := pg_time (ev_OccurredAt e)\<rparr>"
  from assms(1) have ev: "map event_rec (filter (\<lambda>r. er_dispute_id r = k) (tb_events db)) = map pg_event (Events m k)"
    and sorted: "sorted_wrt (<) (map ev_Seq (Events m k))" for k by (auto simp: stands_for_def same_events_def)
  from arg_cong [OF ev [of did], of "\<lambda>xs. ev_Seq ` set xs"]
  have seqs: "er_seq ` {r \<in> set (tb_events db). er_dispute_id r = did} = ev_Seq ` set (Events m did)"
    by (simp add: image_image event_rec_def pg_event_def)
  have taken: "list_ex (\<lambda>r. er_dispute_id r = did \<and> er_seq r = ev_Seq e) (tb_events db) \<longleftrightarrow> (\<exists>x \<in> set (Events m did). ev_Seq x = ev_Seq e)"
  proof -
    have "list_ex (\<lambda>r. er_dispute_id r = did \<and> er_seq r = ev_Seq e) (tb_events db) \<longleftrightarrow> ev_Seq e \<in> er_seq ` {r \<in> set (tb_events db). er_dispute_id r = did}"
      by (auto simp: list_ex_iff intro: rev_image_eqI)
    also have "\<dots> \<longleftrightarrow> (\<exists>x \<in> set (Events m did). ev_Seq x = ev_Seq e)" unfolding seqs by (auto intro: rev_image_eqI)
    finally show ?thesis .
  qed
  have run: "sql_InsertDisputeEvent (sess t) (event_row did e) db =
      (if \<exists>x \<in> set (Events m did). ev_Seq x = ev_Seq e then (Inl unique_violation, db) else (Inr (), db\<lparr>tb_events := tb_events db @ [?row]\<rparr>))"
    using seq children_visible(1) [OF assms(1) r] taken by (simp add: sql_InsertDisputeEvent_def Let_def event_row_def)
  show ?thesis
  proof (cases "\<exists>x \<in> set (Events m did). ev_Seq x = ev_Seq e")
    case True
    have pg: "pg_run (sess t) (OpAppendEvent did e) db = (Inl (mapErr unique_violation), db)"
      using True by (simp add: tx_map_def tx_bind_def pg_AppendEvent_def run_query_def run)
    have mem: "mem_run t (OpAppendEvent did e) m = (Inl conflict, m)" using True by (simp add: tx_map_def tx_bind_def Tx_AppendEvent_def)
    show ?thesis by (rule simulatesI [OF pg mem]) (simp_all add: pg_errors assms(1))
  next
    case False
    have pg: "pg_run (sess t) (OpAppendEvent did e) db = (Inr Done, db\<lparr>tb_events := tb_events db @ [?row]\<rparr>)"
      using False by (simp add: tx_map_def tx_bind_def pg_AppendEvent_def run_query_def run)
    have mem: "mem_run t (OpAppendEvent did e) m = (Inr Done, m\<lparr>Events := (Events m)(did := Events m did @ [e])\<rparr>)"
      using False by (simp add: tx_map_def tx_bind_def Tx_AppendEvent_def)
    have "\<forall>x \<in> set (Events m did). ev_Seq x < ev_Seq e" using seq(3) False by (meson less_le)
    moreover have "event_rec ?row = pg_event e" using seq(1) by (simp add: event_rec_def event_row_def pg_event_def)
    ultimately have "same_events (m\<lparr>Events := (Events m)(did := Events m did @ [e])\<rparr>) (db\<lparr>tb_events := tb_events db @ [?row]\<rparr>)"
      using ev sorted by (simp add: same_events_def sorted_wrt_append) (simp add: event_row_def)
    moreover have "\<forall>r \<in> set (tb_events db @ [?row]). tenant_of m (er_dispute_id r) = Some (er_tenant_id r)"
      using assms(1) readable_tenant [OF r] by (auto simp: stands_for_def same_owners_def event_row_def)
    ultimately show ?thesis by (intro simulatesI [OF pg mem] stands_for_child(1) [OF assms(1)]) simp_all
  qed
qed

text \<open>Stored responses. The composite key of the in-memory store is one text.\<close>

lemma idem_key_eq:
  assumes "text_ok a" "text_ok a'" "text_ok b" "text_ok b'"
  shows "idem_key a b c = idem_key a' b' c' \<longleftrightarrow> a = a' \<and> b = b' \<and> c = c'"
proof -
  have split: "xs @ NUL @ ys = xs' @ NUL @ ys' \<longleftrightarrow> xs = xs' \<and> ys = ys'" if "text_ok xs" "text_ok xs'" for xs ys xs' ys'
    using that by (auto simp: text_ok_def NUL_def append_eq_append_conv2 Cons_eq_append_conv append_eq_Cons_conv)
  show ?thesis unfolding idem_key_def using split [OF assms(1,2)] split [OF assms(3,4)] by auto
qed

lemma stored_row:
  assumes "stands_for m db" and "text_ok (mt_Tenant t)" "text_ok sc"
  shows "filter (\<lambda>r. ir_scope r = sc \<and> ir_key r = k \<and> ir_tenant_id r = mt_Tenant t) (tb_idempotency db) = [] \<and> map_of (Idempotent m) (idem_key (mt_Tenant t) sc k) = None \<or>
    (\<exists>r rest s. filter (\<lambda>r. ir_scope r = sc \<and> ir_key r = k \<and> ir_tenant_id r = mt_Tenant t) (tb_idempotency db) = r # rest \<and>
       map_of (Idempotent m) (idem_key (mt_Tenant t) sc k) = Some s \<and> stored_of r = pg_stored s)"
proof -
  have gen: "map (\<lambda>r. (idem_key (ir_tenant_id r) (ir_scope r) (ir_key r), stored_of r)) rows = map (\<lambda>(k, r). (k, pg_stored r)) xs \<Longrightarrow>
    \<forall>r \<in> set rows. text_ok (ir_tenant_id r) \<and> text_ok (ir_scope r) \<Longrightarrow>
    filter (\<lambda>r. ir_scope r = sc \<and> ir_key r = k \<and> ir_tenant_id r = mt_Tenant t) rows = [] \<and> map_of xs (idem_key (mt_Tenant t) sc k) = None \<or>
    (\<exists>r rest s. filter (\<lambda>r. ir_scope r = sc \<and> ir_key r = k \<and> ir_tenant_id r = mt_Tenant t) rows = r # rest \<and>
       map_of xs (idem_key (mt_Tenant t) sc k) = Some s \<and> stored_of r = pg_stored s)" for rows xs
  proof (induction rows arbitrary: xs)
    case (Cons r rows)
    then obtain x xs' where xs: "xs = x # xs'" by (cases xs) auto
    obtain k' s where x: "x = (k', s)" by (cases x)
    from Cons.prems xs x have k': "k' = idem_key (ir_tenant_id r) (ir_scope r) (ir_key r)" and s: "stored_of r = pg_stored s"
      and rest: "map (\<lambda>r. (idem_key (ir_tenant_id r) (ir_scope r) (ir_key r), stored_of r)) rows = map (\<lambda>(k, r). (k, pg_stored r)) xs'" by simp_all
    have "k' = idem_key (mt_Tenant t) sc k \<longleftrightarrow> ir_scope r = sc \<and> ir_key r = k \<and> ir_tenant_id r = mt_Tenant t"
      using Cons.prems(2) assms(2,3) by (auto simp: k' idem_key_eq)
    then show ?case using Cons.IH [OF rest] Cons.prems(2) s by (auto simp: xs x)
  qed simp
  show ?thesis by (rule gen) (use assms(1) in \<open>auto simp: stands_for_def same_stored_def text_ok_def\<close>)
qed

lemma simulates_GetIdempotent:
  assumes "stands_for m db" and "text_ok (mt_Tenant t)" "text_ok sc"
  shows "simulates t (OpGetIdempotent sc k) m db"
  using stored_row [OF assms, of k]
  by (auto simp: simulates_def tx_map_def tx_bind_def pg_GetIdempotent_def run_query_def sql_GetIdempotencyKey_def one_row_def mapErr_def
      Tx_GetIdempotent_def found_def not_found_def assms(1))

lemma simulates_PutIdempotent:
  assumes "stands_for m db" and adm: "admissible t m (OpPutIdempotent sc k r)"
  shows "simulates t (OpPutIdempotent sc k r) m db"
proof -
  from adm have ok: "text_ok (mt_Tenant t)" "text_ok sc" and zero: "sr_CreatedAt r = zero_time"
    and fresh: "idem_key (mt_Tenant t) sc k \<notin> fst ` set (Idempotent m)" by simp_all
  let ?row = "\<lparr>ir_tenant_id = mt_Tenant t, ir_scope = sc, ir_key = k, ir_request_hash = sr_RequestHash r, ir_status_code = int32Of (sr_StatusCode r),
      ir_response = jsonb_view (sr_Body r), ir_created_at = pg_time (mt_Wall t)\<rparr>"
  let ?s = "r\<lparr>sr_CreatedAt := mt_Wall t\<rparr>"
  from fresh have "map_of (Idempotent m) (idem_key (mt_Tenant t) sc k) = None" by (simp add: map_of_eq_None_iff)
  with stored_row [OF assms(1) ok, of k]
  have "filter (\<lambda>r. ir_scope r = sc \<and> ir_key r = k \<and> ir_tenant_id r = mt_Tenant t) (tb_idempotency db) = []" by auto
  then have "\<not> list_ex (\<lambda>r. ir_tenant_id r = mt_Tenant t \<and> ir_scope r = sc \<and> ir_key r = k) (tb_idempotency db)"
    by (auto simp: list_ex_iff filter_empty_conv)
  then have pg: "pg_run (sess t) (OpPutIdempotent sc k r) db = (Inr Done, db\<lparr>tb_idempotency := tb_idempotency db @ [?row]\<rparr>)"
    by (simp add: tx_map_def tx_bind_def pg_PutIdempotent_def run_query_def sql_InsertIdempotencyKey_def Let_def)
  have mem: "mem_run t (OpPutIdempotent sc k r) m = (Inr Done, m\<lparr>Idempotent := Idempotent m @ [(idem_key (mt_Tenant t) sc k, ?s)]\<rparr>)"
    by (simp add: tx_map_def tx_bind_def Tx_PutIdempotent_def zero update_fresh [OF fresh])
  have "stored_of ?row = pg_stored ?s" by (simp add: stored_of_def pg_stored_def)
  then have "same_stored (m\<lparr>Idempotent := Idempotent m @ [(idem_key (mt_Tenant t) sc k, ?s)]\<rparr>) (db\<lparr>tb_idempotency := tb_idempotency db @ [?row]\<rparr>)"
    using assms(1) fresh ok by (simp add: stands_for_def same_stored_def text_ok_def)
  then show ?thesis by (intro simulatesI [OF pg mem] stands_for_child(4) [OF assms(1)]) simp_all
qed

lemma readable_kept [simp]:
  "readable t (m\<lparr>Deadlines := z\<rparr>) did = readable t m did" "readable t (m\<lparr>Ledger := v\<rparr>) did = readable t m did"
proof -
  have "visible_rec t (m\<lparr>Deadlines := z\<rparr>) = visible_rec t m" "visible_rec t (m\<lparr>Ledger := v\<rparr>) = visible_rec t m"
    by (simp_all add: fun_eq_iff visible_rec_def access_of_def)
  then show "readable t (m\<lparr>Deadlines := z\<rparr>) did = readable t m did" "readable t (m\<lparr>Ledger := v\<rparr>) did = readable t m did"
    by (simp_all add: readable_def get_dispute_def split: option.split)
qed

text \<open>Clocks.\<close>

lemma clocks_of:
  assumes "stands_for m db"
  shows "map deadlineOf (filter (\<lambda>r. wr_dispute_id r = k) (tb_deadlines db)) = map pg_deadline (Deadlines m k)"
  using assms by (simp add: stands_for_def same_clocks_def)

lemma settle_pg:
  "settle_one kind cycle met (pg_time stamp) (pg_deadline d) = pg_deadline (settle_one kind cycle met stamp d)"
  by (simp add: settle_one_def pg_deadline_def dl_Open_def)

lemma simulates_SettleDeadline:
  assumes "stands_for m db" and "readable t m did" and "counter cycle"
  shows "simulates t (OpSettleDeadline did kind cycle met stamp) m db"
proof -
  let ?hit = "\<lambda>r. wr_dispute_id r = did \<and> wr_kind r = kind \<and> wr_cycle r = cycle \<and> wr_met_at r = None \<and> wr_voided_at r = None \<and>
      child_visible (sess t) db (wr_tenant_id r) did"
  let ?g = "\<lambda>r. if ?hit r then r\<lparr>wr_met_at := (if met then Some (pg_time stamp) else wr_met_at r),
      wr_voided_at := (if met then wr_voided_at r else Some (pg_time stamp))\<rparr> else r"
  let ?ds = "(Deadlines m)(did := map (settle_one kind cycle met stamp) (Deadlines m did))"
  have pg: "pg_run (sess t) (OpSettleDeadline did kind cycle met stamp) db = (Inr Done, db\<lparr>tb_deadlines := map ?g (tb_deadlines db)\<rparr>)"
    using assms(3) by (simp add: tx_map_def tx_bind_def pg_SettleDeadline_def run_query_def sql_SettleDeadline_def Let_def)
  obtain d where "get_dispute t did m = Inr d" using get_dispute_known [OF assms(2)] by blast
  then have mem: "mem_run t (OpSettleDeadline did kind cycle met stamp) m = (Inr Done, m\<lparr>Deadlines := ?ds\<rparr>)"
    by (simp add: tx_map_def tx_bind_def Tx_SettleDeadline_def Tx_GetDispute_def)
  have id: "wr_dispute_id (?g r) = wr_dispute_id r" "wr_tenant_id (?g r) = wr_tenant_id r" for r by simp_all
  have owners: "\<forall>r \<in> set (tb_deadlines db). tenant_of m (wr_dispute_id r) = Some (wr_tenant_id r)"
    using assms(1) by (simp add: stands_for_def same_owners_def)
  have "map deadlineOf (filter (\<lambda>r. wr_dispute_id r = k) (map ?g (tb_deadlines db))) = map pg_deadline (?ds k)" for k
  proof -
    have moved: "filter (\<lambda>r. wr_dispute_id r = k) (map ?g (tb_deadlines db)) = map ?g (filter (\<lambda>r. wr_dispute_id r = k) (tb_deadlines db))"
      unfolding filter_map comp_def id ..
    have each: "deadlineOf (?g r) = (if k = did then settle_one kind cycle met (pg_time stamp) (deadlineOf r) else deadlineOf r)"
      if "r \<in> set (filter (\<lambda>r. wr_dispute_id r = k) (tb_deadlines db))" for r
    proof -
      have "child_visible (sess t) db (wr_tenant_id r) did" if "k = did"
        using children_visible(1) [OF assms(1,2)] owners readable_tenant [OF assms(2)] that \<open>r \<in> _\<close> by auto
      then show ?thesis using that by (auto simp: deadlineOf_def settle_one_def dl_Open_def)
    qed
    have "map deadlineOf (map ?g (filter (\<lambda>r. wr_dispute_id r = k) (tb_deadlines db))) =
        map (\<lambda>r. if k = did then settle_one kind cycle met (pg_time stamp) (deadlineOf r) else deadlineOf r) (filter (\<lambda>r. wr_dispute_id r = k) (tb_deadlines db))"
      unfolding map_map comp_def by (rule map_cong [OF refl each])
    also have "\<dots> = map (\<lambda>d. if k = did then settle_one kind cycle met (pg_time stamp) d else d) (map pg_deadline (Deadlines m k))"
      unfolding clocks_of [OF assms(1), symmetric] by simp
    also have "\<dots> = map pg_deadline (?ds k)" by (simp add: settle_pg)
    finally show ?thesis unfolding moved .
  qed
  then have "same_clocks (m\<lparr>Deadlines := ?ds\<rparr>) (db\<lparr>tb_deadlines := map ?g (tb_deadlines db)\<rparr>)" by (simp add: same_clocks_def)
  moreover have "\<forall>r \<in> set (map ?g (tb_deadlines db)). tenant_of m (wr_dispute_id r) = Some (wr_tenant_id r)" using owners by auto
  ultimately show ?thesis by (intro simulatesI [OF pg mem] stands_for_child(2) [OF assms(1)]) simp_all
qed

lemma insert_clock:
  assumes "stands_for m db" and "readable t m did" and "clock_key d \<notin> clock_key ` set (Deadlines m did)"
    and "counter (dl_Cycle d)" "dl_MetAt d = None" "dl_VoidedAt d = None"
  shows "\<exists>row. sql_InsertDeadline (sess t) (deadline_row did d) db = (Inr (), db\<lparr>tb_deadlines := tb_deadlines db @ [row]\<rparr>) \<and>
    stands_for (m\<lparr>Deadlines := (Deadlines m)(did := Deadlines m did @ [d])\<rparr>) (db\<lparr>tb_deadlines := tb_deadlines db @ [row]\<rparr>)"
proof -
  let ?row = "(deadline_row did d)\<lparr>wr_tenant_id := mt_Tenant t, wr_started_at := pg_time (dl_StartedAt d), wr_due_at := pg_time (dl_DueAt d),
      wr_met_at := None, wr_voided_at := None\<rparr>"
  from arg_cong [OF clocks_of [OF assms(1), of did], of "\<lambda>xs. clock_key ` set xs"]
  have keys: "(\<lambda>r. (wr_kind r, wr_cycle r)) ` {r \<in> set (tb_deadlines db). wr_dispute_id r = did} = clock_key ` set (Deadlines m did)"
    by (simp add: image_image deadlineOf_def pg_deadline_def clock_key_def)
  have "\<not> (wr_dispute_id r = did \<and> wr_kind r = dl_Kind d \<and> wr_cycle r = dl_Cycle d)" if "r \<in> set (tb_deadlines db)" for r
  proof
    assume "wr_dispute_id r = did \<and> wr_kind r = dl_Kind d \<and> wr_cycle r = dl_Cycle d"
    with that have "clock_key d \<in> (\<lambda>r. (wr_kind r, wr_cycle r)) ` {r \<in> set (tb_deadlines db). wr_dispute_id r = did}"
      by (auto simp: clock_key_def intro: rev_image_eqI)
    with assms(3) show False unfolding keys by contradiction
  qed
  then have new: "\<not> list_ex (\<lambda>r. wr_dispute_id r = did \<and> wr_kind r = dl_Kind d \<and> wr_cycle r = dl_Cycle d) (tb_deadlines db)"
    by (auto simp: list_ex_iff)
  have run: "sql_InsertDeadline (sess t) (deadline_row did d) db = (Inr (), db\<lparr>tb_deadlines := tb_deadlines db @ [?row]\<rparr>)"
    using new children_visible(1) [OF assms(1,2)] assms(4) by (simp add: sql_InsertDeadline_def Let_def deadline_row_def counter_def int32Of_def)
  have "deadlineOf ?row = pg_deadline d" using assms(4-6) by (simp add: deadlineOf_def deadline_row_def pg_deadline_def)
  then have "same_clocks (m\<lparr>Deadlines := (Deadlines m)(did := Deadlines m did @ [d])\<rparr>) (db\<lparr>tb_deadlines := tb_deadlines db @ [?row]\<rparr>)"
    using clocks_of [OF assms(1)] by (simp add: same_clocks_def) (simp add: deadline_row_def)
  moreover have "\<forall>r \<in> set (tb_deadlines db @ [?row]). tenant_of m (wr_dispute_id r) = Some (wr_tenant_id r)"
    using assms(1) readable_tenant [OF assms(2)] by (auto simp: stands_for_def same_owners_def deadline_row_def)
  ultimately show ?thesis using run stands_for_child(2) [OF assms(1)] by blast
qed

lemma insert_clocks:
  assumes "stands_for m db" and "readable t m did" and "distinct (map clock_key (Deadlines m did @ ds))"
    and "\<forall>d \<in> set ds. counter (dl_Cycle d) \<and> dl_MetAt d = None \<and> dl_VoidedAt d = None"
  shows "\<exists>db'. pg_InsertDeadlines (sess t) did ds db = (Inr (), db') \<and> stands_for (m\<lparr>Deadlines := (Deadlines m)(did := Deadlines m did @ ds)\<rparr>) db'"
  using assms
proof (induction ds arbitrary: m db)
  case Nil
  then show ?case by (simp add: pg_InsertDeadlines_def)
next
  case (Cons d ds)
  let ?m = "m\<lparr>Deadlines := (Deadlines m)(did := Deadlines m did @ [d])\<rparr>"
  obtain row where row: "sql_InsertDeadline (sess t) (deadline_row did d) db = (Inr (), db\<lparr>tb_deadlines := tb_deadlines db @ [row]\<rparr>)"
    and sim: "stands_for ?m (db\<lparr>tb_deadlines := tb_deadlines db @ [row]\<rparr>)"
    using insert_clock [OF Cons.prems(1,2), of d] Cons.prems(3,4) by auto
  have "\<exists>db'. pg_InsertDeadlines (sess t) did ds (db\<lparr>tb_deadlines := tb_deadlines db @ [row]\<rparr>) = (Inr (), db') \<and>
      stands_for (?m\<lparr>Deadlines := (Deadlines ?m)(did := Deadlines ?m did @ ds)\<rparr>) db'"
    by (rule Cons.IH [OF sim]) (use Cons.prems in auto)
  moreover have "?m\<lparr>Deadlines := (Deadlines ?m)(did := Deadlines ?m did @ ds)\<rparr> = m\<lparr>Deadlines := (Deadlines m)(did := Deadlines m did @ d # ds)\<rparr>"
    by simp
  moreover have "pg_InsertDeadlines (sess t) did (d # ds) db = pg_InsertDeadlines (sess t) did ds (db\<lparr>tb_deadlines := tb_deadlines db @ [row]\<rparr>)"
    using row by (simp add: pg_InsertDeadlines_def tx_then_def tx_bind_def run_query_def)
  ultimately show ?case by (simp only:)
qed

lemma simulates_InsertDeadlines:
  assumes "stands_for m db" and adm: "admissible t m (OpInsertDeadlines did ds)"
  shows "simulates t (OpInsertDeadlines did ds) m db"
proof -
  from adm have r: "readable t m did" by simp
  obtain db' where run: "pg_InsertDeadlines (sess t) did ds db = (Inr (), db')"
    and sim: "stands_for (m\<lparr>Deadlines := (Deadlines m)(did := Deadlines m did @ ds)\<rparr>) db'"
    using insert_clocks [OF assms(1) r, of ds] adm by auto
  have pg: "pg_run (sess t) (OpInsertDeadlines did ds) db = (Inr Done, db')" using run by (simp add: tx_map_def tx_bind_def)
  obtain d where "get_dispute t did m = Inr d" using get_dispute_known [OF r] by blast
  then have mem: "mem_run t (OpInsertDeadlines did ds) m = (Inr Done, m\<lparr>Deadlines := (Deadlines m)(did := Deadlines m did @ ds)\<rparr>)"
    by (simp add: tx_map_def tx_bind_def Tx_InsertDeadlines_def Tx_GetDispute_def)
  show ?thesis by (rule simulatesI [OF pg mem]) (simp_all add: sim)
qed

text \<open>The ledger.\<close>

lemma entries_of:
  assumes "stands_for m db"
  shows "map entry_of (filter (\<lambda>r. lr_dispute_id r = k) (tb_ledger db)) = map pg_entry (Ledger m k)"
  using assms by (simp add: stands_for_def same_ledger_def)

lemma ledger_keys:
  assumes "stands_for m db"
  shows "(\<lambda>r. (lr_seq r, lr_kind r)) ` {r \<in> set (tb_ledger db). lr_dispute_id r = did} = entry_key ` set (Ledger m did)"
    and "lr_reference ` {r \<in> set (tb_ledger db). lr_tenant_id r = tid} \<subseteq> references tid m"
proof -
  from arg_cong [OF entries_of [OF assms, of did], of "\<lambda>xs. entry_key ` set xs"]
  show "(\<lambda>r. (lr_seq r, lr_kind r)) ` {r \<in> set (tb_ledger db). lr_dispute_id r = did} = entry_key ` set (Ledger m did)"
    by (simp add: image_image entry_of_def pg_entry_def entry_key_def)
  have "lr_reference r \<in> references tid m" if r: "r \<in> set (tb_ledger db)" "lr_tenant_id r = tid" for r
  proof -
    from arg_cong [OF entries_of [OF assms, of "lr_dispute_id r"], of "\<lambda>xs. le_Reference ` set xs"]
    have "lr_reference ` {x \<in> set (tb_ledger db). lr_dispute_id x = lr_dispute_id r} = le_Reference ` set (Ledger m (lr_dispute_id r))"
      by (simp add: image_image entry_of_def pg_entry_def)
    with r(1) have "lr_reference r \<in> le_Reference ` set (Ledger m (lr_dispute_id r))" by blast
    moreover have "tenant_of m (lr_dispute_id r) = Some tid" using assms r by (auto simp: stands_for_def same_owners_def)
    ultimately show ?thesis by (force simp: references_def)
  qed
  then show "lr_reference ` {r \<in> set (tb_ledger db). lr_tenant_id r = tid} \<subseteq> references tid m" by blast
qed

lemma insert_entry:
  assumes "stands_for m db" and "readable t m did" and "entry_key e \<notin> entry_key ` set (Ledger m did)"
    and "entry_fits e" and "le_Reference e \<notin> references (mt_Tenant t) m"
  shows "\<exists>row. sql_InsertLedgerEntry (sess t) (ledger_row did e) db = (Inr (), db\<lparr>tb_ledger := tb_ledger db @ [row]\<rparr>) \<and>
    stands_for (m\<lparr>Ledger := (Ledger m)(did := Ledger m did @ [e])\<rparr>) (db\<lparr>tb_ledger := tb_ledger db @ [row]\<rparr>)"
proof -
  let ?row = "(ledger_row did e)\<lparr>lr_tenant_id := mt_Tenant t, lr_amount := pg_numeric (pst_Amount (le_Posting e)),
    lr_currency := char3 (pst_Currency (le_Posting e)), lr_posted_at := pg_time (le_PostedAt e)\<rparr>"
  note keys = ledger_keys [OF assms(1)]
  have "\<not> (lr_dispute_id r = did \<and> lr_seq r = le_Seq e \<and> lr_kind r = pst_Kind (le_Posting e))" if "r \<in> set (tb_ledger db)" for r
  proof
    assume "lr_dispute_id r = did \<and> lr_seq r = le_Seq e \<and> lr_kind r = pst_Kind (le_Posting e)"
    with that have "entry_key e \<in> (\<lambda>r. (lr_seq r, lr_kind r)) ` {r \<in> set (tb_ledger db). lr_dispute_id r = did}"
      by (auto simp: entry_key_def intro: rev_image_eqI)
    with assms(3) show False unfolding keys by contradiction
  qed
  then have new: "\<not> list_ex (\<lambda>r. lr_dispute_id r = did \<and> lr_seq r = le_Seq e \<and> lr_kind r = pst_Kind (le_Posting e)) (tb_ledger db)"
    by (auto simp: list_ex_iff)
  have "lr_tenant_id r \<noteq> mt_Tenant t \<or> lr_reference r \<noteq> le_Reference e" if "r \<in> set (tb_ledger db)" for r
  proof (rule ccontr)
    assume "\<not> (lr_tenant_id r \<noteq> mt_Tenant t \<or> lr_reference r \<noteq> le_Reference e)"
    with that have "le_Reference e \<in> lr_reference ` {r \<in> set (tb_ledger db). lr_tenant_id r = mt_Tenant t}" by (auto intro: rev_image_eqI)
    with keys(2) assms(5) show False by (meson subsetD)
  qed
  then have ref: "\<not> list_ex (\<lambda>r. lr_tenant_id r = mt_Tenant t \<and> lr_reference r = le_Reference e) (tb_ledger db)"
    by (auto simp: list_ex_iff)
  have run: "sql_InsertLedgerEntry (sess t) (ledger_row did e) db = (Inr (), db\<lparr>tb_ledger := tb_ledger db @ [?row]\<rparr>)"
    using new ref children_visible(1) [OF assms(1,2)] assms(4) by (simp add: sql_InsertLedgerEntry_def Let_def ledger_row_def entry_fits_def)
  have "entry_of ?row = pg_entry e"
    using assms(4) by (cases "le_Core e") (simp_all add: entry_of_def ledger_row_def pg_entry_def pg_receipt_def entry_fits_def derefString_def)
  then have "same_ledger (m\<lparr>Ledger := (Ledger m)(did := Ledger m did @ [e])\<rparr>) (db\<lparr>tb_ledger := tb_ledger db @ [?row]\<rparr>)"
    using entries_of [OF assms(1)] by (simp add: same_ledger_def) (simp add: ledger_row_def)
  moreover have "\<forall>r \<in> set (tb_ledger db @ [?row]). tenant_of m (lr_dispute_id r) = Some (lr_tenant_id r)"
    using assms(1) readable_tenant [OF assms(2)] by (auto simp: stands_for_def same_owners_def ledger_row_def)
  ultimately show ?thesis using run stands_for_child(3) [OF assms(1)] by blast
qed

lemma references_append:
  "tenant_of m did = Some tid \<Longrightarrow> references tid (m\<lparr>Ledger := (Ledger m)(did := Ledger m did @ [e])\<rparr>) = insert (le_Reference e) (references tid m)"
proof (rule set_eqI)
  fix ref
  assume tid: "tenant_of m did = Some tid"
  have "(\<exists>d x. tenant_of m d = Some tid \<and> x \<in> set (if d = did then Ledger m did @ [e] else Ledger m d) \<and> le_Reference x = ref) \<longleftrightarrow>
      ref = le_Reference e \<or> (\<exists>d x. tenant_of m d = Some tid \<and> x \<in> set (Ledger m d) \<and> le_Reference x = ref)"
    using tid by (auto split: if_splits)
  then show "ref \<in> references tid (m\<lparr>Ledger := (Ledger m)(did := Ledger m did @ [e])\<rparr>) \<longleftrightarrow> ref \<in> insert (le_Reference e) (references tid m)"
    by (simp add: references_def)
qed

lemma insert_entries:
  assumes "stands_for m db" and "readable t m did" and "distinct (map entry_key (Ledger m did @ es))"
    and "distinct (map le_Reference es)" and "\<forall>e \<in> set es. entry_fits e \<and> le_Reference e \<notin> references (mt_Tenant t) m"
  shows "\<exists>db'. pg_AppendLedger (sess t) did es db = (Inr (), db') \<and> stands_for (m\<lparr>Ledger := (Ledger m)(did := Ledger m did @ es)\<rparr>) db'"
    and "tx_foreach (append_entry did) es m = (Inr (), m\<lparr>Ledger := (Ledger m)(did := Ledger m did @ es)\<rparr>)"
proof -
  have "(\<exists>db'. pg_AppendLedger (sess t) did es db = (Inr (), db') \<and> stands_for (m\<lparr>Ledger := (Ledger m)(did := Ledger m did @ es)\<rparr>) db') \<and>
      tx_foreach (append_entry did) es m = (Inr (), m\<lparr>Ledger := (Ledger m)(did := Ledger m did @ es)\<rparr>)"
    using assms
  proof (induction es arbitrary: m db)
    case Nil
    then show ?case by (simp add: pg_AppendLedger_def)
  next
    case (Cons e es)
    let ?m = "m\<lparr>Ledger := (Ledger m)(did := Ledger m did @ [e])\<rparr>"
    note tenant = readable_tenant [OF Cons.prems(2)]
    obtain row where row: "sql_InsertLedgerEntry (sess t) (ledger_row did e) db = (Inr (), db\<lparr>tb_ledger := tb_ledger db @ [row]\<rparr>)"
      and sim: "stands_for ?m (db\<lparr>tb_ledger := tb_ledger db @ [row]\<rparr>)"
      using insert_entry [OF Cons.prems(1,2), of e] Cons.prems(3-5) by auto
    have "le_Reference x \<noteq> le_Reference e" if "x \<in> set (Ledger m did)" for x
    proof
      assume "le_Reference x = le_Reference e"
      then have "le_Reference e \<in> references (mt_Tenant t) m" using tenant that unfolding references_def by blast
      then show False using Cons.prems(5) by simp
    qed
    then have mem: "append_entry did e m = (Inr (), ?m)" by (auto simp: append_entry_def)
    have whole: "?m\<lparr>Ledger := (Ledger ?m)(did := Ledger ?m did @ es)\<rparr> = m\<lparr>Ledger := (Ledger m)(did := Ledger m did @ e # es)\<rparr>" by simp
    have "(\<exists>db'. pg_AppendLedger (sess t) did es (db\<lparr>tb_ledger := tb_ledger db @ [row]\<rparr>) = (Inr (), db') \<and>
        stands_for (?m\<lparr>Ledger := (Ledger ?m)(did := Ledger ?m did @ es)\<rparr>) db') \<and>
        tx_foreach (append_entry did) es ?m = (Inr (), ?m\<lparr>Ledger := (Ledger ?m)(did := Ledger ?m did @ es)\<rparr>)"
    proof (rule Cons.IH [OF sim])
      have "le_Reference x \<noteq> le_Reference e" if "x \<in> set es" for x using Cons.prems(4) imageI [OF that, of le_Reference] by auto
      then show "\<forall>x \<in> set es. entry_fits x \<and> le_Reference x \<notin> references (mt_Tenant t) ?m"
        using Cons.prems(5) unfolding references_append [OF tenant] by simp
    qed (use Cons.prems in auto)
    moreover have "pg_AppendLedger (sess t) did (e # es) db = pg_AppendLedger (sess t) did es (db\<lparr>tb_ledger := tb_ledger db @ [row]\<rparr>)"
      using row by (simp add: pg_AppendLedger_def tx_then_def tx_bind_def run_query_def)
    moreover have "tx_foreach (append_entry did) (e # es) m = tx_foreach (append_entry did) es ?m"
      using mem by (simp add: tx_then_def tx_bind_def)
    ultimately show ?case by (simp only: whole)
  qed
  then show "\<exists>db'. pg_AppendLedger (sess t) did es db = (Inr (), db') \<and> stands_for (m\<lparr>Ledger := (Ledger m)(did := Ledger m did @ es)\<rparr>) db'"
    "tx_foreach (append_entry did) es m = (Inr (), m\<lparr>Ledger := (Ledger m)(did := Ledger m did @ es)\<rparr>)" by simp_all
qed

lemma simulates_AppendLedger:
  assumes "stands_for m db" and adm: "admissible t m (OpAppendLedger did es)"
  shows "simulates t (OpAppendLedger did es) m db"
proof -
  from adm have r: "readable t m did" by simp
  obtain db' where run: "pg_AppendLedger (sess t) did es db = (Inr (), db')"
    and sim: "stands_for (m\<lparr>Ledger := (Ledger m)(did := Ledger m did @ es)\<rparr>) db'"
    using insert_entries(1) [OF assms(1) r, of es] adm by auto
  have pg: "pg_run (sess t) (OpAppendLedger did es) db = (Inr Done, db')" using run by (simp add: tx_map_def tx_bind_def)
  obtain d where "get_dispute t did m = Inr d" using get_dispute_known [OF r] by blast
  then have mem: "mem_run t (OpAppendLedger did es) m = (Inr Done, m\<lparr>Ledger := (Ledger m)(did := Ledger m did @ es)\<rparr>)"
    using insert_entries(2) [OF assms(1) r, of es] adm by (simp add: tx_map_def tx_bind_def Tx_AppendLedger_def Tx_GetDispute_def)
  show ?thesis by (rule simulatesI [OF pg mem]) (simp_all add: sim)
qed

lemma simulates_admissible:
  assumes "stands_for m db" and "admissible t m op"
  shows "simulates t op m db"
proof (cases op)
  case (OpUpdateDisputeState did v st ap stamp)
  with assms show ?thesis using simulates_UpdateDisputeState [OF assms(1), of t did v st ap stamp] by simp
next
  case (OpUpdateDisputeTeam did v team stamp)
  with assms show ?thesis using simulates_UpdateDisputeTeam [OF assms(1), of t did v team stamp] by simp
next
  case (OpGetIdempotent sc k)
  with assms show ?thesis using simulates_GetIdempotent [OF assms(1), of t sc k] by simp
next
  case (OpSettleDeadline did kind cycle met stamp)
  with assms show ?thesis using simulates_SettleDeadline [OF assms(1), of t did cycle kind met stamp] by simp
next
  case (OpInsertDispute d)
  with assms show ?thesis using simulates_InsertDispute [OF assms(1), of t d] by metis
next
  case (OpAppendEvent did e)
  with assms show ?thesis using simulates_AppendEvent [OF assms(1), of t did e] by metis
next
  case (OpPutIdempotent sc k r)
  with assms show ?thesis using simulates_PutIdempotent [OF assms(1), of t sc k r] by metis
next
  case (OpInsertDeadlines did ds)
  with assms show ?thesis using simulates_InsertDeadlines [OF assms(1), of t did ds] by metis
next
  case (OpAppendLedger did es)
  with assms show ?thesis using simulates_AppendLedger [OF assms(1), of t did es] by metis
qed (rule simulates_reads [OF assms]; simp)+

section \<open>Transactions\<close>

fun pg_runs :: "PgSession \<Rightarrow> store_op list \<Rightarrow> store_answer list pg_tx" where
  "pg_runs ss [] = tx_return []"
| "pg_runs ss (op # ops) = tx_bind (pg_run ss op) (\<lambda>a. tx_bind (pg_runs ss ops) (\<lambda>as. tx_return (a # as)))"

fun mem_runs :: "MemTx \<Rightarrow> store_op list \<Rightarrow> ('x, store_answer list) store_tx" where
  "mem_runs t [] = tx_return []"
| "mem_runs t (op # ops) = tx_bind (mem_run t op) (\<lambda>a. tx_bind (mem_runs t ops) (\<lambda>as. tx_return (a # as)))"

text \<open>Each operation keeps to what the use cases keep to, where it runs.\<close>

fun all_admissible :: "MemTx \<Rightarrow> store_op list \<Rightarrow> 'x MemStore_scheme \<Rightarrow> bool" where
  "all_admissible t [] m = True"
| "all_admissible t (op # ops) m = (admissible t m op \<and> (case mem_run t op m of (Inl e, m') \<Rightarrow> True | (Inr a, m') \<Rightarrow> all_admissible t ops m'))"

definition agree_all :: "store_answer list result \<Rightarrow> store_answer list result \<Rightarrow> bool" where
  "agree_all a b = (case (a, b) of (Inr x, Inr y) \<Rightarrow> list_all2 same_answer x y | (Inl e, Inl f) \<Rightarrow> KindOf e = KindOf f \<and> CodeOf e = CodeOf f | _ \<Rightarrow> False)"

interpretation teams_frame: store_frame "\<lambda>s s' :: 'x MemStore_scheme. AccessOf s' = AccessOf s"
  by unfold_locales simp_all

lemma mem_run_access: "stays (\<lambda>s s'. AccessOf s' = AccessOf s) (mem_run t op)"
proof -
  have entry: "stays (\<lambda>s s'. AccessOf s' = AccessOf s) (append_entry did e)" for did e by (simp add: stays_def append_entry_def)
  show ?thesis
    by (cases op; simp only: mem_run.simps tx_map_def Tx_InsertDispute_def Tx_UpdateDisputeState_def Tx_UpdateDisputeTeam_def Tx_AppendEvent_def
          Tx_PutIdempotent_def Tx_InsertDeadlines_def Tx_SettleDeadline_def Tx_AppendLedger_def;
        intro teams_frame.stays_ops teams_frame.stays_tx_reads stays_modify entry; simp add: stays_def split: option.split)
qed

lemma mem_runs_access: "stays (\<lambda>s s'. AccessOf s' = AccessOf s) (mem_runs t ops)"
  by (induction ops) (simp_all only: mem_runs.simps, (intro teams_frame.stays_ops mem_run_access; assumption)+)

lemma runs_agree:
  assumes "stands_for m db" and "all_admissible t ops m"
  shows "agree_all (fst (pg_runs (sess t) ops db)) (fst (mem_runs t ops m)) \<and>
    (isOk (fst (mem_runs t ops m)) \<longrightarrow> stands_for (snd (mem_runs t ops m)) (snd (pg_runs (sess t) ops db)))"
  using assms
proof (induction ops arbitrary: m db)
  case Nil
  then show ?case by (simp add: agree_all_def)
next
  case (Cons op ops)
  obtain a db1 where pg: "pg_run (sess t) op db = (a, db1)" by (cases "pg_run (sess t) op db")
  obtain b m1 where mem: "mem_run t op m = (b, m1)" by (cases "mem_run t op m")
  have "simulates t op m db" using Cons.prems by (simp add: simulates_admissible)
  then have one: "agree a b" "stands_for m1 db1" by (simp_all add: simulates_def pg mem)
  show ?case
  proof (cases b)
    case (Inl f)
    with one(1) obtain e where "a = Inl e" "KindOf e = KindOf f" "CodeOf e = CodeOf f" by (cases a) (auto simp: agree_def)
    then show ?thesis by (simp add: tx_bind_def pg mem Inl agree_all_def)
  next
    case (Inr y)
    with one(1) obtain x where x: "a = Inr x" "same_answer x y" by (cases a) (auto simp: agree_def)
    have "all_admissible t ops m1" using Cons.prems(2) by (simp add: mem Inr)
    from Cons.IH [OF one(2) this] x show ?thesis
      by (cases "pg_runs (sess t) ops db1"; cases "mem_runs t ops m1"; cases "fst (pg_runs (sess t) ops db1)"; cases "fst (mem_runs t ops m1)")
         (simp_all add: tx_bind_def pg mem Inr agree_all_def)
  qed
qed

lemma stands_for_restored:
  assumes "stands_for m db" and "AccessOf m' = AccessOf m"
  shows "stands_for (restore (snapshot m) m') db"
proof -
  have "same_teams (restore (snapshot m) m') db"
    using assms same_teams_cong [of "restore (snapshot m) m'" m db db] by (simp add: stands_for_def restore_def)
  moreover have "tenant_of (restore (snapshot m) m') = tenant_of m" by (simp add: fun_eq_iff tenant_of_def restore_def snapshot_def)
  ultimately show ?thesis
    using assms(1) by (simp add: stands_for_def same_disputes_def same_events_def same_stored_def same_clocks_def same_ledger_def same_owners_def
        restore_def snapshot_def)
qed

section \<open>Properties\<close>


section \<open>The history of an account\<close>

definition other_disputes :: "MemTx \<Rightarrow> uuid \<Rightarrow> uuid \<Rightarrow> 'x MemStore_scheme \<Rightarrow> (uuid \<times> DisputeRecord) list" where
  "other_disputes t account exclude m =
     filter (\<lambda>(did, d). dr_TenantID d = mt_Tenant t \<and> dr_AccountID d = account \<and> did \<noteq> exclude \<and> visible_rec t m d) (Disputes m)"

lemma visible_disputes:
  assumes "stands_for m db"
  shows "filter (\<lambda>r. P r \<and> row_visible (sess t) db r) (tb_disputes db) =
    map (\<lambda>(k, d). pg_dispute d) (filter (\<lambda>(k, d). P (pg_dispute d) \<and> dr_TenantID d = mt_Tenant t \<and> visible_rec t m d) (Disputes m))"
proof -
  have "same_teams m db" and rows: "tb_disputes db = map (\<lambda>(k, d). pg_dispute d) (Disputes m)"
    using assms by (simp_all add: stands_for_def same_disputes_def)
  then show ?thesis
    unfolding rows filter_map by (auto simp: row_visible_pg intro!: arg_cong [where f = "map _"] filter_cong)
qed

lemma event_of_dispute:
  assumes "stands_for m db"
  shows "(\<exists>e \<in> set (tb_events db). er_dispute_id e = k \<and> er_to_state e = st) \<longleftrightarrow> (\<exists>e \<in> set (Events m k). ev_ToState e = st)"
proof -
  from assms have "map event_rec (filter (\<lambda>r. er_dispute_id r = k) (tb_events db)) = map pg_event (Events m k)"
    by (simp add: stands_for_def same_events_def)
  from arg_cong [OF this, of "\<lambda>xs. ev_ToState ` set xs"]
  have "er_to_state ` {r \<in> set (tb_events db). er_dispute_id r = k} = ev_ToState ` set (Events m k)"
    by (simp add: image_image event_rec_def pg_event_def)
  then have "st \<in> er_to_state ` {r \<in> set (tb_events db). er_dispute_id r = k} \<longleftrightarrow> st \<in> ev_ToState ` set (Events m k)" by simp
  then show ?thesis by (auto simp: image_iff)
qed

lemma lost_visible:
  assumes "stands_for m db" and "(k, d) \<in> set (Disputes m)" and "dr_TenantID d = mt_Tenant t" and "visible_rec t m d"
  shows "list_ex (\<lambda>e. er_dispute_id e = k \<and> er_to_state e = st \<and> child_visible (sess t) db (er_tenant_id e) k) (tb_events db) \<longleftrightarrow>
    (\<exists>e \<in> set (Events m k). ev_ToState e = st)"
proof -
  have known: "map_of (Disputes m) k = Some d" using assms(1,2) by (simp add: stands_for_def same_disputes_def)
  have r: "readable t m k" using assms(3,4) by (simp add: readable_def isOk_def get_dispute_def known)
  have "child_visible (sess t) db (er_tenant_id e) k" if "e \<in> set (tb_events db)" "er_dispute_id e = k" for e
  proof -
    have "tenant_of m k = Some (er_tenant_id e)" using assms(1) that by (auto simp: stands_for_def same_owners_def)
    then show ?thesis using r known assms(3) by (simp add: child_visible_def tenant_of_def dispute_visible_iff [OF assms(1)])
  qed
  then show ?thesis unfolding event_of_dispute [OF assms(1), symmetric] by (auto simp: list_ex_iff)
qed

text \<open>
  C33: what the risk score knows of an account depends on who asks. On PostgreSQL the two counts run under the policies
  of the caller's teams: they count the account's other disputes, since the given date and lost at the network, that
  the caller may read, and no others, where the in-memory store counts all of the tenant's.
\<close>

theorem history_of_the_caller:
  assumes "stands_for m db"
  shows "pg_AccountHistory (sess t) account exclude since db =
    (Inr (int (length (filter (\<lambda>(k, d). pg_time since \<le> pg_time (dr_OpenedAt d)) (other_disputes t account exclude m))),
          int (length (filter (\<lambda>(k, d). \<exists>e \<in> set (Events m k). ev_ToState e = StateChargebackLost) (other_disputes t account exclude m)))), db)"
proof -
  let ?row = "\<lambda>(k, d). pg_dispute d"
  have ids: "dr_ID d = k" if "(k, d) \<in> set (Disputes m)" for k d using assms that by (auto simp: stands_for_def same_disputes_def)
  have fsts: "distinct (map fst (Disputes m))" using assms by (simp add: stands_for_def same_disputes_def)
  have since_count: "filter (\<lambda>r. dr_AccountID r = account \<and> pg_time since \<le> dr_OpenedAt r \<and> dr_ID r \<noteq> exclude \<and> row_visible (sess t) db r) (tb_disputes db) =
      map ?row (filter (\<lambda>(k, d). pg_time since \<le> pg_time (dr_OpenedAt d)) (other_disputes t account exclude m))"
    using visible_disputes [OF assms, of "\<lambda>r. dr_AccountID r = account \<and> pg_time since \<le> dr_OpenedAt r \<and> dr_ID r \<noteq> exclude" t]
    by (auto simp: other_disputes_def filter_filter pg_dispute_def ids intro!: arg_cong [where f = "map _"] filter_cong)
  let ?lost = "\<lambda>r. list_ex (\<lambda>e. er_dispute_id e = dr_ID r \<and> er_to_state e = StateChargebackLost \<and> child_visible (sess t) db (er_tenant_id e) (dr_ID r)) (tb_events db)"
  let ?mine = "filter (\<lambda>(k, d). \<exists>e \<in> set (Events m k). ev_ToState e = StateChargebackLost) (other_disputes t account exclude m)"
  have lost_rows: "filter (\<lambda>r. dr_AccountID r = account \<and> dr_ID r \<noteq> exclude \<and> row_visible (sess t) db r \<and> ?lost r) (tb_disputes db) = map ?row ?mine"
    using visible_disputes [OF assms, of "\<lambda>r. dr_AccountID r = account \<and> dr_ID r \<noteq> exclude \<and> ?lost r" t]
    by (auto simp: other_disputes_def filter_filter pg_dispute_def ids lost_visible [OF assms] conj_ac
        intro!: arg_cong [where f = "map _"] filter_cong)
  have "map dr_ID (map ?row ?mine) = map fst ?mine"
    using ids by (auto simp: other_disputes_def)
  moreover have "distinct (map fst ?mine)" unfolding other_disputes_def by (intro distinct_map_filter fsts)
  ultimately have "remdups (map dr_ID (map ?row ?mine)) = map fst ?mine" by (simp only: distinct_remdups_id)
  then show ?thesis
    by (simp add: pg_AccountHistory_def tx_bind_def run_query_def sql_CountAccountDisputesSince_def sql_CountAccountLostChargebacks_def
        since_count lost_rows del: map_map)
qed

section \<open>A sample\<close>

definition pg_sample_dispute :: "uuid \<Rightarrow> string \<Rightarrow> DisputeRecord" where
  "pg_sample_dispute did team = \<lparr>dr_ID = did, dr_TenantID = ''bank'', dr_Team = team, dr_Regime = RegimeEUPSD2Card,
     dr_State = StateInitiated, dr_Appeals = 0, dr_Version = 1, dr_TransactionID = ''txn'', dr_AccountID = ''acc'',
     dr_DisputedAmount = 100, dr_Currency = ''EUR'', dr_OpenedAt = 0, dr_UpdatedAt = 0, dr_Reason = ReasonUnauthorised\<rparr>"

definition pg_sample_teams :: "uuid \<Rightarrow> MemAccess" where
  "pg_sample_teams tid = \<lparr>ma_Version = 1, ma_Teams = [''cards'', ''fraud''], ma_Default = ''cards'', ma_Grants = [], ma_Routing = [],
     ma_Members = (\<lambda>who. if tid = ''bank'' \<and> who = ''ann'' then [\<lparr>mb_Team = ''cards'', mb_Role = RoleSenior\<rparr>] else [])\<rparr>"

text \<open>Two disputes of one account, in two teams, of which Ann is in the first.\<close>

definition pg_sample_store :: MemStore where
  "pg_sample_store = NewMemStore\<lparr>Disputes := [(''d1'', pg_sample_dispute ''d1'' ''cards''), (''d2'', pg_sample_dispute ''d2'' ''fraud'')],
     AccessOf := (\<lambda>tid. Some (pg_sample_teams tid))\<rparr>"

definition pg_sample_tables :: Tables where
  "pg_sample_tables = \<lparr>tb_members = [\<lparr>mr_tenant_id = ''bank'', mr_team = ''cards'', mr_subject = ''ann''\<rparr>],
     tb_disputes = map pg_dispute [pg_sample_dispute ''d1'' ''cards'', pg_sample_dispute ''d2'' ''fraud''],
     tb_events = [], tb_idempotency = [], tb_deadlines = [], tb_ledger = []\<rparr>"

definition pg_sample_ctx :: Ctx where
  "pg_sample_ctx = \<lparr>cx_Tenant = Some ''bank'', cx_Principal = Some \<lparr>pr_Kind = Analyst, pr_ID = ''ann'', pr_Display = ''Ann'',
     pr_TenantAdmin = False\<rparr>, cx_TraceID = None, cx_TraceContext = []\<rparr>"

definition pg_sample_tx :: MemTx where
  "pg_sample_tx = \<lparr>mt_Tenant = ''bank'', mt_Principal = principal_From pg_sample_ctx, mt_Wall = 7000\<rparr>"

definition pg_sample_event :: EventRecord where
  "pg_sample_event = \<lparr>ev_Seq = 1, ev_Event = EventOpenInvestigation, ev_FromState = StateInitiated, ev_ToState = StateInvestigating,
     ev_Actor = ''Ann'', ev_ActorID = ''ann'', ev_Payload = JNull, ev_IdempotencyKey = None, ev_TraceID = None, ev_OccurredAt = 7001\<rparr>"

definition pg_sample_ops :: "store_op list" where
  "pg_sample_ops = [OpGetDispute ''d1'', OpAppendEvent ''d1'' pg_sample_event, OpUpdateDisputeState ''d1'' 1 StateInvestigating 0 7001,
     OpListEvents ''d1'']"

lemma sample_sel:
  "Disputes pg_sample_store = [(''d1'', pg_sample_dispute ''d1'' ''cards''), (''d2'', pg_sample_dispute ''d2'' ''fraud'')]"
  "Events pg_sample_store = (\<lambda>_. [])" "Ledger pg_sample_store = (\<lambda>_. [])" "Deadlines pg_sample_store = (\<lambda>_. [])"
  "Idempotent pg_sample_store = []" "AccessOf pg_sample_store = (\<lambda>tid. Some (pg_sample_teams tid))" "mt_Tenant pg_sample_tx = ''bank''"
  by (simp_all add: pg_sample_store_def NewMemStore_def pg_sample_tx_def)

lemma sample_teams_same: "same_teams pg_sample_store pg_sample_tables"
  unfolding same_teams_def
proof (intro allI)
  fix t :: MemTx and d :: DisputeRecord
  show "in_team (session_for (mt_Tenant t) (mt_Principal t) (mt_Wall t)) pg_sample_tables (mt_Tenant t) (dr_Team d) = visible_rec t pg_sample_store d"
  proof (cases "mt_Principal t")
    case None
    then show ?thesis by (simp add: in_team_def session_for_def visible_rec_def access_of_def sample_sel)
  next
    case (Some p)
    then show ?thesis
      by (cases "pr_Kind p") (auto simp: in_team_def session_for_def visible_rec_def access_of_def sample_sel pg_sample_tables_def pg_sample_teams_def)
  qed
qed

lemma sample_stands: "stands_for pg_sample_store pg_sample_tables"
  by (simp add: stands_for_def sample_teams_same same_disputes_def same_events_def same_stored_def same_clocks_def same_ledger_def same_owners_def
      sample_sel) (simp add: pg_sample_tables_def pg_sample_dispute_def)

lemma sample_reads:
  "AccessOf m = AccessOf pg_sample_store \<Longrightarrow> visible_rec pg_sample_tx m d \<longleftrightarrow> dr_Team d = ''cards''"
  by (auto simp: visible_rec_def access_of_def pg_sample_tx_def pg_sample_ctx_def principal_From_def sample_sel pg_sample_teams_def)

lemma sample_admissible:
  "all_admissible pg_sample_tx pg_sample_ops pg_sample_store"
  "fst (mem_runs pg_sample_tx pg_sample_ops pg_sample_store) =
     Inr [OneDispute (pg_sample_dispute ''d1'' ''cards''), Done, Done, SomeEvents [pg_sample_event]]"
  by (simp_all add: pg_sample_ops_def tx_map_def tx_bind_def Tx_GetDispute_def Tx_AppendEvent_def Tx_UpdateDisputeState_def Tx_ListEvents_def
      get_dispute_def sample_reads readable_def isOk_def counter_def sample_sel pg_sample_dispute_def pg_sample_event_def)


text \<open>Ann's score of the account knows one of its two disputes.\<close>

theorem history_of_the_caller_witness:
  "fst (pg_AccountHistory (sess pg_sample_tx) ''acc'' ''d0'' 0 pg_sample_tables) = Inr (1, 0) \<and>
   fst (Tx_AccountHistory pg_sample_tx ''acc'' ''d0'' 0 pg_sample_store) = Inr (2, 0)"
  using history_of_the_caller [OF sample_stands, of pg_sample_tx "''acc''" "''d0''" 0]
  by (simp add: other_disputes_def sample_sel sample_reads Tx_AccountHistory_def pg_sample_dispute_def)

end
